(* ===== verification/Prelude.thy ===== *)
theory Prelude
  imports Main
    "HOL-Library.Char_ord"
    "HOL-Library.List_Lexorder"
    "HOL-Library.Multiset"
    "HOL-Library.Sublist"
begin

text \<open>
  Shared vocabulary of the development: results of fallible code, the parts of Rust's standard
  library the sources use (\<open>Ord\<close> and \<open>slice::sort\<close>, \<open>BTreeMap\<close>, string operations) and the
  generic lemmas the component theories draw on.

  A Rust \<open>str\<close> is modelled by its UTF-8 encoding: a \<^typ>\<open>string\<close> whose characters are the bytes.
  \<open>as_bytes\<close> is therefore the identity, and \<open>str::cmp\<close>, which compares bytes, is the lexicographic
  order on \<^typ>\<open>string\<close>. Operations that look at Unicode scalar values (\<open>char::is_whitespace\<close>)
  are defined on the encodings of those values.
\<close>

named_theorems rust_simps \<open>unfolding rules for the modelled standard library\<close>
named_theorems res_simps \<open>rules for results of fallible operations\<close>

type_synonym bytes = string

section \<open>Results\<close>

text \<open>\<open>Result<T, E>\<close> is \<open>'e + 'a\<close> with the error on the left; \<open>?\<close> is \<open>and_then\<close>.\<close>

definition and_then :: "'e + 'a \<Rightarrow> ('a \<Rightarrow> 'e + 'b) \<Rightarrow> 'e + 'b" where
  "and_then r f = (case r of Inl e \<Rightarrow> Inl e | Inr x \<Rightarrow> f x)"

definition ok_or :: "'e \<Rightarrow> 'a option \<Rightarrow> 'e + 'a" where
  "ok_or e x = (case x of None \<Rightarrow> Inl e | Some v \<Rightarrow> Inr v)"

definition map_err :: "('e \<Rightarrow> 'f) \<Rightarrow> 'e + 'a \<Rightarrow> 'f + 'a" where
  "map_err f r = (case r of Inl e \<Rightarrow> Inl (f e) | Inr x \<Rightarrow> Inr x)"

definition unwrap_or :: "'a \<Rightarrow> 'a option \<Rightarrow> 'a" where
  "unwrap_or d x = (case x of None \<Rightarrow> d | Some v \<Rightarrow> v)"

definition is_ok :: "'e + 'a \<Rightarrow> bool" where
  "is_ok r = (case r of Inl _ \<Rightarrow> False | Inr _ \<Rightarrow> True)"

lemma and_then_Inr_iff [res_simps]:
  "and_then r f = Inr y \<longleftrightarrow> (\<exists>x. r = Inr x \<and> f x = Inr y)"
  by (cases r) (auto simp: and_then_def)

lemma and_then_Inl_iff:
  "and_then r f = Inl e \<longleftrightarrow> r = Inl e \<or> (\<exists>x. r = Inr x \<and> f x = Inl e)"
  by (cases r) (auto simp: and_then_def)

lemma and_then_simps [simp]:
  "and_then (Inl e) f = Inl e"
  "and_then (Inr x) f = f x"
  by (simp_all add: and_then_def)

lemma ok_or_Inr_iff [res_simps]: "ok_or e x = Inr v \<longleftrightarrow> x = Some v"
  by (cases x) (auto simp: ok_or_def)

lemma ok_or_simps [simp]:
  "ok_or e None = Inl e"
  "ok_or e (Some v) = Inr v"
  by (simp_all add: ok_or_def)

lemma map_err_Inr_iff [res_simps]: "map_err f r = Inr v \<longleftrightarrow> r = Inr v"
  by (cases r) (auto simp: map_err_def)

lemma map_err_simps [simp]:
  "map_err f (Inl e) = Inl (f e)"
  "map_err f (Inr x) = Inr x"
  by (simp_all add: map_err_def)

lemma unwrap_or_simps [simp]:
  "unwrap_or d None = d"
  "unwrap_or d (Some v) = v"
  by (simp_all add: unwrap_or_def)

lemma is_ok_simps [simp]: "\<not> is_ok (Inl e)" "is_ok (Inr x)"
  by (simp_all add: is_ok_def)

text \<open>
  A function that may panic (an index or slice out of range, an \<open>unwrap\<close> of \<open>None\<close>): either it
  panics or it returns a value. \<open>out_bind\<close> runs one such computation after another.
\<close>

datatype 'a outcome = Panics | Returns 'a

definition out_bind :: "'a outcome \<Rightarrow> ('a \<Rightarrow> 'b outcome) \<Rightarrow> 'b outcome" where
  "out_bind x f = (case x of Panics \<Rightarrow> Panics | Returns v \<Rightarrow> f v)"

definition out_then :: "('e + 'a) outcome \<Rightarrow> ('a \<Rightarrow> ('e + 'b) outcome) \<Rightarrow> ('e + 'b) outcome" where
  "out_then x f = out_bind x (\<lambda>r. case r of Inl e \<Rightarrow> Returns (Inl e) | Inr v \<Rightarrow> f v)"

text \<open>
  The body of a function that may fail, panic, or leave early with \<open>return Ok(r)\<close>: \<open>flow_bind\<close> goes on
  only from \<open>Continue\<close>. \<open>run_flow\<close> gives the outcome of the function whose last expression is \<open>Ok(v)\<close>.
\<close>

datatype ('e, 'r, 'a) flow = Fail 'e | Leave 'r | Continue 'a | Panic

definition flow_bind :: "('e, 'r, 'a) flow \<Rightarrow> ('a \<Rightarrow> ('e, 'r, 'b) flow) \<Rightarrow> ('e, 'r, 'b) flow" where
  "flow_bind x f = (case x of Fail e \<Rightarrow> Fail e | Leave r \<Rightarrow> Leave r | Continue v \<Rightarrow> f v | Panic \<Rightarrow> Panic)"

definition flow_of_result :: "'e + 'a \<Rightarrow> ('e, 'r, 'a) flow" where
  "flow_of_result r = (case r of Inl e \<Rightarrow> Fail e | Inr v \<Rightarrow> Continue v)"

definition flow_of_outcome :: "('e + 'a) outcome \<Rightarrow> ('e, 'r, 'a) flow" where
  "flow_of_outcome x = (case x of Panics \<Rightarrow> Panic | Returns r \<Rightarrow> flow_of_result r)"

definition run_flow :: "('e, 'r, 'r) flow \<Rightarrow> ('e + 'r) outcome" where
  "run_flow x = (case x of Fail e \<Rightarrow> Returns (Inl e) | Leave r \<Rightarrow> Returns (Inr r)
                 | Continue r \<Rightarrow> Returns (Inr r) | Panic \<Rightarrow> Panics)"

lemma flow_bind_simps [simp]:
  "flow_bind (Fail e) f = Fail e"
  "flow_bind (Leave r) f = Leave r"
  "flow_bind (Continue v) f = f v"
  "flow_bind Panic f = Panic"
  by (simp_all add: flow_bind_def)

lemma flow_bind_Continue_iff [res_simps]:
  "flow_bind x f = Continue y \<longleftrightarrow> (\<exists>v. x = Continue v \<and> f v = Continue y)"
  by (cases x) simp_all

lemma flow_bind_Leave_iff [res_simps]:
  "flow_bind x f = Leave r \<longleftrightarrow> x = Leave r \<or> (\<exists>v. x = Continue v \<and> f v = Leave r)"
  by (cases x) simp_all

lemma flow_of_result_iff [res_simps]:
  "flow_of_result r = Continue v \<longleftrightarrow> r = Inr v"
  "flow_of_result r = Leave l \<longleftrightarrow> False"
  by (cases r; simp add: flow_of_result_def)+

lemma flow_of_outcome_iff [res_simps]:
  "flow_of_outcome x = Continue v \<longleftrightarrow> x = Returns (Inr v)"
  "flow_of_outcome x = Leave l \<longleftrightarrow> False"
  by (cases x; simp add: flow_of_outcome_def res_simps)+

lemma run_flow_Inr_iff [res_simps]:
  "run_flow x = Returns (Inr r) \<longleftrightarrow> x = Leave r \<or> x = Continue r"
  by (cases x) (auto simp: run_flow_def)

text \<open>The first element for which a function that may panic gives a value.\<close>

fun out_find_map :: "('a \<Rightarrow> 'b option outcome) \<Rightarrow> 'a list \<Rightarrow> 'b option outcome" where
  "out_find_map f [] = Returns None"
| "out_find_map f (x # xs) =
     out_bind (f x) (\<lambda>r. case r of Some y \<Rightarrow> Returns (Some y) | None \<Rightarrow> out_find_map f xs)"

text \<open>Filtering, and a loop with an accumulator, where the function called may panic or fail.\<close>

fun out_filter :: "('a \<Rightarrow> bool outcome) \<Rightarrow> 'a list \<Rightarrow> 'a list outcome" where
  "out_filter p [] = Returns []"
| "out_filter p (x # xs) =
     out_bind (p x) (\<lambda>b. out_bind (out_filter p xs) (\<lambda>ys. Returns (if b then x # ys else ys)))"

fun out_try_fold :: "('b \<Rightarrow> 'a \<Rightarrow> ('e + 'b) outcome) \<Rightarrow> 'b \<Rightarrow> 'a list \<Rightarrow> ('e + 'b) outcome" where
  "out_try_fold f b [] = Returns (Inr b)"
| "out_try_fold f b (x # xs) = out_then (f b x) (\<lambda>b'. out_try_fold f b' xs)"

lemma out_bind_simps [simp]:
  "out_bind Panics f = Panics"
  "out_bind (Returns v) f = f v"
  by (simp_all add: out_bind_def)

lemma out_then_simps [simp]:
  "out_then Panics f = Panics"
  "out_then (Returns (Inl e)) f = Returns (Inl e)"
  "out_then (Returns (Inr v)) f = f v"
  by (simp_all add: out_then_def)

lemma out_bind_Returns_iff [res_simps]:
  "out_bind x f = Returns y \<longleftrightarrow> (\<exists>v. x = Returns v \<and> f v = Returns y)"
  by (cases x) simp_all

lemma out_then_Inr_iff [res_simps]:
  "out_then x f = Returns (Inr y) \<longleftrightarrow> (\<exists>v. x = Returns (Inr v) \<and> f v = Returns (Inr y))"
proof (cases x)
  case (Returns r)
  then show ?thesis by (cases r) simp_all
qed simp

text \<open>A \<open>for\<close> loop over a list whose body may return early with an error.\<close>

fun try_fold :: "('s \<Rightarrow> 'a \<Rightarrow> 'e + 's) \<Rightarrow> 's \<Rightarrow> 'a list \<Rightarrow> 'e + 's" where
  "try_fold f s [] = Inr s"
| "try_fold f s (x # xs) = and_then (f s x) (\<lambda>s'. try_fold f s' xs)"

lemma try_fold_append:
  "try_fold f s (xs @ ys) = and_then (try_fold f s xs) (\<lambda>s'. try_fold f s' ys)"
proof (induction xs arbitrary: s)
  case (Cons x xs)
  then show ?case by (cases "f s x") simp_all
qed simp

lemma try_fold_invariant:
  assumes "try_fold f s xs = Inr s'" and "I s"
    and "\<And>s x s'. I s \<Longrightarrow> x \<in> set xs \<Longrightarrow> f s x = Inr s' \<Longrightarrow> I s'"
  shows "I s'"
  using assms
proof (induction xs arbitrary: s)
  case (Cons x xs)
  from Cons.prems(1) obtain s1 where s1: "f s x = Inr s1" "try_fold f s1 xs = Inr s'"
    by (auto simp: res_simps)
  have "I s1" by (rule Cons.prems(3) [OF Cons.prems(2) _ s1(1)]) simp
  with s1(2) show ?case by (rule Cons.IH) (use Cons.prems(3) in \<open>meson list.set_intros(2)\<close>)
qed simp

text \<open>A loop that returns the first value its body yields (\<open>Iterator::find_map\<close>).\<close>

fun find_map :: "('a \<Rightarrow> 'b option) \<Rightarrow> 'a list \<Rightarrow> 'b option" where
  "find_map f [] = None"
| "find_map f (x # xs) = (case f x of Some y \<Rightarrow> Some y | None \<Rightarrow> find_map f xs)"

lemma find_map_SomeD: "find_map f xs = Some y \<Longrightarrow> \<exists>x \<in> set xs. f x = Some y"
  by (induction xs) (auto split: option.splits)

lemma find_map_None: "find_map f xs = None \<longleftrightarrow> (\<forall>x \<in> set xs. f x = None)"
  by (induction xs) (auto split: option.splits)

text \<open>Concatenate the outputs of a loop whose body may run out of loop budget (\<open>None\<close>).\<close>

fun concat_opt :: "'a list option list \<Rightarrow> 'a list option" where
  "concat_opt [] = Some []"
| "concat_opt (x # xs) =
     (case x of None \<Rightarrow> None | Some a \<Rightarrow>
       (case concat_opt xs of None \<Rightarrow> None | Some b \<Rightarrow> Some (a @ b)))"

lemma concat_opt_Some_iff:
  "(\<exists>y. concat_opt xs = Some y) \<longleftrightarrow> None \<notin> set xs"
  by (induction xs) (auto split: option.splits)

lemma concat_opt_map_total: "(\<And>x. x \<in> set xs \<Longrightarrow> f x \<noteq> None) \<Longrightarrow> concat_opt (map f xs) \<noteq> None"
  by (induction xs) (auto split: option.splits)

lemma concat_opt_map_Some [simp]: "concat_opt (map (\<lambda>x. Some (f x)) xs) = Some (concat (map f xs))"
  by (induction xs) simp_all

lemma concat_opt_Nil: "\<forall>x \<in> set xs. x = Some [] \<Longrightarrow> concat_opt xs = Some []"
  by (induction xs) simp_all

section \<open>Ordering and sorting\<close>

text \<open>\<open>std::cmp::Ordering\<close>, \<open>Ord::cmp\<close> on strings and \<open>Ordering::then\<close>.\<close>

datatype ordering = Less | Equal | Greater

definition str_cmp :: "string \<Rightarrow> string \<Rightarrow> ordering" where
  "str_cmp a b = (if a < b then Less else if a = b then Equal else Greater)"

definition then_cmp :: "ordering \<Rightarrow> ordering \<Rightarrow> ordering" where
  "then_cmp a b = (case a of Equal \<Rightarrow> b | _ \<Rightarrow> a)"

primrec ord_flip :: "ordering \<Rightarrow> ordering" where
  "ord_flip Less = Greater"
| "ord_flip Equal = Equal"
| "ord_flip Greater = Less"

text \<open>\<open>slice::sort\<close> is a stable comparison sort; this is the stable insertion sort.\<close>

fun insert_by :: "('a \<Rightarrow> 'a \<Rightarrow> ordering) \<Rightarrow> 'a \<Rightarrow> 'a list \<Rightarrow> 'a list" where
  "insert_by c x [] = [x]"
| "insert_by c x (y # ys) = (if c x y = Greater then y # insert_by c x ys else x # y # ys)"

definition sort_by :: "('a \<Rightarrow> 'a \<Rightarrow> ordering) \<Rightarrow> 'a list \<Rightarrow> 'a list" where
  "sort_by c xs = foldr (insert_by c) xs []"

lemma mset_insert_by [simp]: "mset (insert_by c x xs) = add_mset x (mset xs)"
  by (induction xs) auto

lemma mset_sort_by [simp]: "mset (sort_by c xs) = mset xs"
  by (induction xs) (simp_all add: sort_by_def)

lemma set_sort_by [simp]: "set (sort_by c xs) = set xs"
  by (metis mset_sort_by set_mset_mset)

lemma length_sort_by [simp]: "length (sort_by c xs) = length xs"
  by (metis mset_sort_by size_mset)

text \<open>The contract of Rust's \<open>Ord\<close> that the sorts rely on.\<close>

locale total_cmp =
  fixes cmp :: "'a \<Rightarrow> 'a \<Rightarrow> ordering"
  assumes cmp_flip: "cmp y x = ord_flip (cmp x y)"
    and cmp_trans: "cmp x y \<noteq> Greater \<Longrightarrow> cmp y z \<noteq> Greater \<Longrightarrow> cmp x z \<noteq> Greater"
begin

lemma cmp_refl: "cmp x x = Equal"
  using cmp_flip [of x x] by (cases "cmp x x") simp_all

lemma cmp_total: "cmp x y = Greater \<Longrightarrow> cmp y x \<noteq> Greater"
  by (simp add: cmp_flip [of y x])

lemma sorted_insert_by:
  "sorted_wrt (\<lambda>a b. cmp a b \<noteq> Greater) xs \<Longrightarrow>
   sorted_wrt (\<lambda>a b. cmp a b \<noteq> Greater) (insert_by cmp x xs)"
proof (induction xs)
  case (Cons y ys)
  have set_ins: "set (insert_by cmp x ys) = insert x (set ys)"
    by (metis mset_insert_by set_mset_add_mset_insert set_mset_mset)
  show ?case
  proof (cases "cmp x y = Greater")
    case True
    with Cons set_ins cmp_total show ?thesis by auto
  next
    case False
    with Cons.prems cmp_trans show ?thesis by auto
  qed
qed simp

lemma sorted_sort_by: "sorted_wrt (\<lambda>a b. cmp a b \<noteq> Greater) (sort_by cmp xs)"
  by (induction xs) (simp_all add: sort_by_def sorted_insert_by)

lemma sorted_unique:
  assumes "mset xs = mset ys"
    and "sorted_wrt (\<lambda>a b. cmp a b \<noteq> Greater) xs"
    and "sorted_wrt (\<lambda>a b. cmp a b \<noteq> Greater) ys"
    and "\<And>x y. x \<in> set xs \<Longrightarrow> y \<in> set xs \<Longrightarrow> cmp x y = Equal \<Longrightarrow> x = y"
  shows "xs = ys"
  using assms
proof (induction xs arbitrary: ys)
  case (Cons x xs)
  from Cons.prems(1) obtain y ys' where ys: "ys = y # ys'"
    by (cases ys) auto
  from Cons.prems(1) have sets: "set (x # xs) = set ys"
    by (metis set_mset_mset)
  have "x = y"
  proof (rule ccontr)
    assume ne: "x \<noteq> y"
    with sets ys have "x \<in> set ys'" "y \<in> set xs" by auto
    with Cons.prems(2,3) ys have "cmp x y \<noteq> Greater" "cmp y x \<noteq> Greater" by auto
    then have "cmp x y = Equal" using cmp_flip [of y x] by (cases "cmp x y") simp_all
    with Cons.prems(4) sets ys ne show False by auto
  qed
  moreover from Cons.prems ys \<open>x = y\<close> have "xs = ys'"
    by (intro Cons.IH) auto
  ultimately show ?case by (simp add: ys)
qed simp

text \<open>
  A sort forgets the input order: permuted inputs sort to the same list as soon as comparing
  equal implies being equal among the elements.
\<close>

lemma sort_by_permuted:
  assumes "mset xs = mset ys"
    and "\<And>x y. x \<in> set xs \<Longrightarrow> y \<in> set xs \<Longrightarrow> cmp x y = Equal \<Longrightarrow> x = y"
  shows "sort_by cmp xs = sort_by cmp ys"
  by (rule sorted_unique) (use assms in \<open>auto simp: sorted_sort_by\<close>)

end

lemma str_cmp_simps [simp]:
  "str_cmp a b = Less \<longleftrightarrow> a < b"
  "str_cmp a b = Equal \<longleftrightarrow> a = b"
  "str_cmp a b = Greater \<longleftrightarrow> b < a"
  by (auto simp: str_cmp_def)

interpretation str_ord: total_cmp str_cmp
proof
  show "str_cmp y x = ord_flip (str_cmp x y)" for x y
    by (auto simp: str_cmp_def)
  show "str_cmp x y \<noteq> Greater \<Longrightarrow> str_cmp y z \<noteq> Greater \<Longrightarrow> str_cmp x z \<noteq> Greater" for x y z
    by (auto simp: not_less)
qed

section \<open>Ordered maps\<close>

text \<open>
  \<open>BTreeMap<K, V>\<close> as the list of its entries in key order, which is the order the code iterates
  them in.
\<close>

type_synonym ('k, 'v) btree_map = "('k \<times> 'v) list"
type_synonym ns_map = "(string, string) btree_map"

fun bt_insert :: "'k::linorder \<Rightarrow> 'v \<Rightarrow> ('k, 'v) btree_map \<Rightarrow> ('k, 'v) btree_map" where
  "bt_insert k v [] = [(k, v)]"
| "bt_insert k v (e # m) =
     (if fst e < k then e # bt_insert k v m
      else if fst e = k then (k, v) # m
      else (k, v) # e # m)"

definition bt_remove :: "'k::linorder \<Rightarrow> ('k, 'v) btree_map \<Rightarrow> ('k, 'v) btree_map" where
  "bt_remove k m = filter (\<lambda>e. fst e \<noteq> k) m"

definition bt_get :: "('k, 'v) btree_map \<Rightarrow> 'k::linorder \<Rightarrow> 'v option" where
  "bt_get m k = map_of m k"

definition bt_contains :: "('k, 'v) btree_map \<Rightarrow> 'k::linorder \<Rightarrow> bool" where
  "bt_contains m k = (bt_get m k \<noteq> None)"

definition bt_wf :: "('k::linorder, 'v) btree_map \<Rightarrow> bool" where
  "bt_wf m = sorted_wrt (<) (map fst m)"

text \<open>What the C14N code relies on of an ordered map.\<close>

locale ordered_map =
  fixes emp :: "'m"
    and ins :: "'k::linorder \<Rightarrow> 'v \<Rightarrow> 'm \<Rightarrow> 'm"
    and del :: "'k \<Rightarrow> 'm \<Rightarrow> 'm"
    and get :: "'m \<Rightarrow> 'k \<Rightarrow> 'v option"
    and entries :: "'m \<Rightarrow> ('k \<times> 'v) list"
    and ok :: "'m \<Rightarrow> bool"
  assumes get_emp: "get emp k = None"
    and get_ins: "ok m \<Longrightarrow> get (ins k v m) k' = (if k' = k then Some v else get m k')"
    and get_del: "ok m \<Longrightarrow> get (del k m) k' = (if k' = k then None else get m k')"
    and ok_emp: "ok emp"
    and ok_ins: "ok m \<Longrightarrow> ok (ins k v m)"
    and ok_del: "ok m \<Longrightarrow> ok (del k m)"
    and entries_sorted: "ok m \<Longrightarrow> sorted_wrt (<) (map fst (entries m))"
    and entries_get: "ok m \<Longrightarrow> (k, v) \<in> set (entries m) \<longleftrightarrow> get m k = Some v"
begin

lemma entries_distinct: "ok m \<Longrightarrow> distinct (map fst (entries m))"
  using entries_sorted strict_sorted_iff by blast

lemma ok_fold_ins: "ok m \<Longrightarrow> ok (fold (\<lambda>e. ins (fst e) (snd e)) es m)"
  by (induction es arbitrary: m) (auto simp: ok_ins)

lemma get_fold_ins:
  "ok m \<Longrightarrow> get (fold (\<lambda>e. ins (fst e) (snd e)) es m) k =
     (case map_of (rev es) k of None \<Rightarrow> get m k | Some v \<Rightarrow> Some v)"
proof (induction es arbitrary: m)
  case (Cons e es)
  then show ?case
    by (cases e) (auto simp: get_ins ok_ins map_add_def split: option.splits)
qed simp

text \<open>Two maps with the same lookups have the same entries in the same order.\<close>

lemma entries_cong:
  assumes "ok m" "ok m'" and "\<And>k. get m k = get m' k"
  shows "entries m = entries m'"
proof (rule map_sorted_distinct_set_unique [where f = fst])
  show eq: "set (entries m) = set (entries m')"
    using assms entries_get by (auto simp: set_eq_iff)
  show "inj_on fst (set (entries m) \<union> set (entries m'))"
    unfolding eq using entries_distinct [OF assms(2)] by (simp add: distinct_map)
  show "sorted (map fst (entries m))" "distinct (map fst (entries m))"
    "sorted (map fst (entries m'))" "distinct (map fst (entries m'))"
    using entries_sorted [OF assms(1)] entries_sorted [OF assms(2)]
    by (simp_all add: strict_sorted_iff)
qed

end

lemma bt_wf_Cons: "bt_wf (e # m) \<longleftrightarrow> bt_wf m \<and> (\<forall>x \<in> set m. fst e < fst x)"
  by (auto simp: bt_wf_def)

lemma bt_get_ins: "bt_wf m \<Longrightarrow> bt_get (bt_insert k v m) k' = (if k' = k then Some v else bt_get m k')"
  by (induction m) (auto simp: bt_get_def bt_wf_Cons)

lemma set_bt_insert: "set (bt_insert k v m) \<subseteq> insert (k, v) (set m)"
  by (induction m) auto

lemma bt_wf_ins: "bt_wf m \<Longrightarrow> bt_wf (bt_insert k v m)"
proof (induction m)
  case (Cons e m)
  have "\<forall>x \<in> set (bt_insert k v m). fst e < fst x" if "fst e < k"
    using set_bt_insert [of k v m] Cons.prems that by (auto simp: bt_wf_Cons)
  with Cons show ?case by (auto simp: bt_wf_Cons)
qed (simp add: bt_wf_def)

interpretation bt: ordered_map "[]" bt_insert bt_remove bt_get "\<lambda>m. m" bt_wf
proof
  show "bt_get [] k = None" for k :: 'a by (simp add: bt_get_def)
  show "bt_wf m \<Longrightarrow> bt_get (bt_insert k v m) k' = (if k' = k then Some v else bt_get m k')"
    for m :: "('a, 'b) btree_map" and k v k' by (rule bt_get_ins)
  show "bt_get (bt_remove k m) k' = (if k' = k then None else bt_get m k')"
    for m :: "('a, 'b) btree_map" and k k'
    by (induction m) (auto simp: bt_get_def bt_remove_def)
  show "bt_wf ([] :: ('a, 'b) btree_map)" by (simp add: bt_wf_def)
  show "bt_wf m \<Longrightarrow> bt_wf (bt_insert k v m)" for m :: "('a, 'b) btree_map" and k v
    by (rule bt_wf_ins)
  show "bt_wf m \<Longrightarrow> bt_wf (bt_remove k m)" for m :: "('a, 'b) btree_map" and k
    by (induction m) (auto simp: bt_remove_def bt_wf_Cons)
  show "bt_wf m \<Longrightarrow> sorted_wrt (<) (map fst m)" for m :: "('a, 'b) btree_map"
    by (simp add: bt_wf_def)
  show "bt_wf m \<Longrightarrow> (k, v) \<in> set m \<longleftrightarrow> bt_get m k = Some v" for m :: "('a, 'b) btree_map" and k v
    by (simp add: bt_get_def bt_wf_def strict_sorted_iff)
qed

end
