(* ===== verification/Rust_Str.thy ===== *)
theory Rust_Str
  imports Prelude
begin

text \<open>
  The \<open>str\<close> operations of Rust's standard library that the sources call, on UTF-8 encoded strings.
  Byte positions are those of the Rust code. \<open>char::is_whitespace\<close> is the Unicode property
  \<open>White_Space\<close>; on an encoded string it is the question whether the encoding of one of those
  characters starts (or ends) the string, which is unambiguous because UTF-8 is self-synchronising.
\<close>

section \<open>Prefixes, suffixes, searching\<close>

fun starts_with :: "string \<Rightarrow> string \<Rightarrow> bool" where
  "starts_with s [] = True"
| "starts_with [] (p # ps) = False"
| "starts_with (c # s) (p # ps) = (c = p \<and> starts_with s ps)"

definition ends_with :: "string \<Rightarrow> string \<Rightarrow> bool" where
  "ends_with s p = starts_with (rev s) (rev p)"

definition strip_prefix :: "string \<Rightarrow> string \<Rightarrow> string option" where
  "strip_prefix p s = (if starts_with s p then Some (drop (length p) s) else None)"

definition strip_suffix :: "string \<Rightarrow> string \<Rightarrow> string option" where
  "strip_suffix p s = (if ends_with s p then Some (take (length s - length p) s) else None)"

text \<open>\<open>str::find(pat)\<close>: the byte position of the first occurrence.\<close>

fun find_str :: "string \<Rightarrow> string \<Rightarrow> nat option" where
  "find_str p [] = (if p = [] then Some 0 else None)"
| "find_str p (c # s) =
     (if starts_with (c # s) p then Some 0 else map_option Suc (find_str p s))"

definition contains_str :: "string \<Rightarrow> string \<Rightarrow> bool" where
  "contains_str s p = (find_str p s \<noteq> None)"

text \<open>\<open>str::rfind(c)\<close> for a one-byte character.\<close>

fun rfind_char :: "char \<Rightarrow> string \<Rightarrow> nat option" where
  "rfind_char x [] = None"
| "rfind_char x (c # s) =
     (case rfind_char x s of Some i \<Rightarrow> Some (Suc i) | None \<Rightarrow> if c = x then Some 0 else None)"

definition split_once_char :: "char \<Rightarrow> string \<Rightarrow> (string \<times> string) option" where
  "split_once_char x s =
     (case find_str [x] s of None \<Rightarrow> None | Some i \<Rightarrow> Some (take i s, drop (Suc i) s))"

lemma starts_with_iff_prefix: "starts_with s p \<longleftrightarrow> prefix p s"
  by (induction s p rule: starts_with.induct) auto

lemma starts_with_append [simp]: "starts_with (p @ s) p"
  by (simp add: starts_with_iff_prefix)

lemma strip_prefix_Some_iff: "strip_prefix p s = Some r \<longleftrightarrow> s = p @ r"
  by (auto simp: strip_prefix_def starts_with_iff_prefix prefix_def)

lemma ends_with_iff_suffix: "ends_with s p \<longleftrightarrow> suffix p s"
  by (simp add: ends_with_def starts_with_iff_prefix suffix_to_prefix)

lemma strip_suffix_Some_iff: "strip_suffix p s = Some r \<longleftrightarrow> s = r @ p"
  by (auto simp: strip_suffix_def ends_with_iff_suffix suffix_def)

lemma find_str_Some:
  "find_str p s = Some i \<Longrightarrow> i \<le> length s \<and> starts_with (drop i s) p"
  by (induction p s arbitrary: i rule: find_str.induct) (auto split: if_splits)

lemma find_str_decomp:
  assumes "find_str p s = Some i"
  shows "s = take i s @ p @ drop (i + length p) s"
proof -
  from find_str_Some [OF assms] obtain r where "drop i s = p @ r"
    by (auto simp: starts_with_iff_prefix prefix_def)
  moreover from this have "drop (i + length p) s = r"
    by (metis add.commute append_eq_conv_conj drop_drop)
  ultimately show ?thesis by (metis append_take_drop_id)
qed

lemma find_str_char_notin: "find_str [x] s = Some i \<Longrightarrow> x \<notin> set (take i s)"
  by (induction s arbitrary: i) (auto split: if_splits)

lemma find_str_char_None: "find_str [x] s = None \<longleftrightarrow> x \<notin> set s"
  by (induction s) auto

lemma find_str_skip:
  "x \<notin> set s \<Longrightarrow> starts_with t (x # p) \<Longrightarrow> find_str (x # p) (s @ t) = Some (length s)"
  by (induction s) (cases t; auto)+

lemma rfind_char_append: "x \<notin> set t \<Longrightarrow> rfind_char x (s @ x # t) = Some (length s)"
proof -
  assume "x \<notin> set t"
  then have "rfind_char x t = None" by (induction t) auto
  then show ?thesis by (induction s) simp_all
qed

lemma rfind_char_Some:
  "rfind_char x s = Some i \<Longrightarrow> i < length s \<and> s ! i = x \<and> x \<notin> set (drop (Suc i) s)"
proof (induction s arbitrary: i)
  case (Cons c s)
  show ?case
  proof (cases "rfind_char x s")
    case None
    then have "x \<notin> set s"
      by (induction s) (auto split: option.splits if_splits)
    with Cons.prems None show ?thesis by (auto split: if_splits)
  next
    case (Some j)
    with Cons show ?thesis by auto
  qed
qed simp

section \<open>Whitespace\<close>

text \<open>The UTF-8 encodings of the characters with the property \<open>White_Space\<close>.\<close>

definition ws_encodings :: "string list" where
  "ws_encodings =
    [[CHR 0x09], [CHR 0x0A], [CHR 0x0B], [CHR 0x0C], [CHR 0x0D], [CHR 0x20],
     [CHR 0xC2, CHR 0x85], [CHR 0xC2, CHR 0xA0], [CHR 0xE1, CHR 0x9A, CHR 0x80],
     [CHR 0xE2, CHR 0x80, CHR 0x80], [CHR 0xE2, CHR 0x80, CHR 0x81],
     [CHR 0xE2, CHR 0x80, CHR 0x82], [CHR 0xE2, CHR 0x80, CHR 0x83],
     [CHR 0xE2, CHR 0x80, CHR 0x84], [CHR 0xE2, CHR 0x80, CHR 0x85],
     [CHR 0xE2, CHR 0x80, CHR 0x86], [CHR 0xE2, CHR 0x80, CHR 0x87],
     [CHR 0xE2, CHR 0x80, CHR 0x88], [CHR 0xE2, CHR 0x80, CHR 0x89],
     [CHR 0xE2, CHR 0x80, CHR 0x8A], [CHR 0xE2, CHR 0x80, CHR 0xA8],
     [CHR 0xE2, CHR 0x80, CHR 0xA9], [CHR 0xE2, CHR 0x80, CHR 0xAF],
     [CHR 0xE2, CHR 0x81, CHR 0x9F], [CHR 0xE3, CHR 0x80, CHR 0x80]]"

text \<open>Length of the whitespace character that starts the string, 0 when there is none.\<close>

definition ws_len :: "string list \<Rightarrow> string \<Rightarrow> nat" where
  "ws_len encs s = (case find (starts_with s) encs of None \<Rightarrow> 0 | Some w \<Rightarrow> length w)"

text \<open>\<open>str::trim_start\<close>: the counter says how many bytes of the current character to skip.\<close>

fun skip_ws :: "string list \<Rightarrow> nat \<Rightarrow> string \<Rightarrow> string" where
  "skip_ws encs k [] = []"
| "skip_ws encs (Suc k) (c # s) = skip_ws encs k s"
| "skip_ws encs 0 (c # s) =
     (case ws_len encs (c # s) of 0 \<Rightarrow> c # s | Suc n \<Rightarrow> skip_ws encs n s)"

definition trim_start :: "string \<Rightarrow> string" where
  "trim_start s = skip_ws ws_encodings 0 s"

definition trim_end :: "string \<Rightarrow> string" where
  "trim_end s = rev (skip_ws (map rev ws_encodings) 0 (rev s))"

definition trim :: "string \<Rightarrow> string" where
  "trim s = trim_end (trim_start s)"

text \<open>\<open>chars().filter(|c| !c.is_whitespace()).collect()\<close>\<close>

fun remove_ws_from :: "nat \<Rightarrow> string \<Rightarrow> string" where
  "remove_ws_from k [] = []"
| "remove_ws_from (Suc k) (c # s) = remove_ws_from k s"
| "remove_ws_from 0 (c # s) =
     (case ws_len ws_encodings (c # s) of
        0 \<Rightarrow> c # remove_ws_from 0 s
      | Suc n \<Rightarrow> remove_ws_from n s)"

definition remove_ws :: "string \<Rightarrow> string" where
  "remove_ws s = remove_ws_from 0 s"

text \<open>\<open>str::split_whitespace\<close>; \<open>w\<close> is the word read so far, reversed.\<close>

fun split_ws_from :: "nat \<Rightarrow> string \<Rightarrow> string \<Rightarrow> string list" where
  "split_ws_from k w [] = (if w = [] then [] else [rev w])"
| "split_ws_from (Suc k) w (c # s) = split_ws_from k w s"
| "split_ws_from 0 w (c # s) =
     (case ws_len ws_encodings (c # s) of
        0 \<Rightarrow> split_ws_from 0 (c # w) s
      | Suc n \<Rightarrow> (if w = [] then [] else [rev w]) @ split_ws_from n [] s)"

definition split_whitespace :: "string \<Rightarrow> string list" where
  "split_whitespace s = split_ws_from 0 [] s"

lemma split_whitespace_nonempty: "w \<in> set (split_whitespace s) \<Longrightarrow> w \<noteq> []"
proof -
  have "w \<in> set (split_ws_from k v s) \<Longrightarrow> w \<noteq> []" for k v
    by (induction k v s rule: split_ws_from.induct) (auto split: nat.splits if_splits)
  then show "w \<in> set (split_whitespace s) \<Longrightarrow> w \<noteq> []"
    by (simp add: split_whitespace_def)
qed

lemma set_skip_ws: "set (skip_ws encs k s) \<subseteq> set s"
  by (induction encs k s rule: skip_ws.induct) (auto split: nat.splits)

lemma set_trim: "set (trim s) \<subseteq> set s"
  using set_skip_ws [of ws_encodings 0 s]
    set_skip_ws [of "map rev ws_encodings" 0 "rev (trim_start s)"]
  by (auto simp: trim_def trim_start_def trim_end_def)

lemma length_skip_ws: "length (skip_ws encs k s) \<le> length s"
  by (induction encs k s rule: skip_ws.induct) (auto split: nat.splits)

lemma length_trim: "length (trim s) \<le> length s"
  using length_skip_ws [of ws_encodings 0 s]
    length_skip_ws [of "map rev ws_encodings" 0 "rev (trim_start s)"]
  by (simp add: trim_def trim_start_def trim_end_def)

lemma length_remove_ws: "length (remove_ws s) \<le> length s"
proof -
  have "length (remove_ws_from k s) \<le> length s" for k
    by (induction k s rule: remove_ws_from.induct) (auto split: nat.splits)
  then show ?thesis by (simp add: remove_ws_def)
qed

text \<open>Strings of printable ASCII characters contain no whitespace.\<close>

definition graphic :: "char \<Rightarrow> bool" where
  "graphic c \<longleftrightarrow> 33 \<le> (of_char c :: nat) \<and> (of_char c :: nat) \<le> 126"

lemma ws_not_graphic:
  "list_all (\<lambda>w. w \<noteq> [] \<and> \<not> graphic (hd w)) ws_encodings"
  "list_all (\<lambda>w. w \<noteq> [] \<and> \<not> graphic (hd w)) (map rev ws_encodings)"
  by (simp_all add: ws_encodings_def graphic_def)

lemma ws_len_graphic:
  assumes "list_all (\<lambda>w. w \<noteq> [] \<and> \<not> graphic (hd w)) encs" "graphic c"
  shows "ws_len encs (c # s) = 0"
proof -
  have "\<not> starts_with (c # s) w" if "w \<in> set encs" for w
    using assms that by (cases w) (auto simp: list_all_iff)
  then have "find (starts_with (c # s)) encs = None" by (auto simp: find_None_iff)
  then show ?thesis by (simp add: ws_len_def)
qed

lemma skip_ws_graphic:
  "list_all (\<lambda>w. w \<noteq> [] \<and> \<not> graphic (hd w)) encs \<Longrightarrow> list_all graphic s \<Longrightarrow> skip_ws encs 0 s = s"
  by (cases s) (simp_all add: ws_len_graphic)

lemma trim_graphic [simp]: "list_all graphic s \<Longrightarrow> trim s = s"
  unfolding trim_def trim_start_def trim_end_def
  by (simp add: skip_ws_graphic ws_not_graphic list_all_rev)

lemma remove_ws_graphic [simp]: "list_all graphic s \<Longrightarrow> remove_ws s = s"
  unfolding remove_ws_def by (induction s) (simp_all add: ws_len_graphic ws_not_graphic)

text \<open>\<open>str::trim_matches(c)\<close> for a one-byte character.\<close>

definition trim_matches_char :: "char \<Rightarrow> string \<Rightarrow> string" where
  "trim_matches_char x s = rev (dropWhile (\<lambda>c. c = x) (rev (dropWhile (\<lambda>c. c = x) s)))"

text \<open>\<open>str::trim_matches\<close> for a set of one-byte characters.\<close>

definition trim_matches_chars :: "char list \<Rightarrow> string \<Rightarrow> string" where
  "trim_matches_chars xs s = rev (dropWhile (\<lambda>c. c \<in> set xs) (rev (dropWhile (\<lambda>c. c \<in> set xs) s)))"

text \<open>\<open>Vec<&str>::join(sep)\<close>\<close>

fun join_str :: "string \<Rightarrow> string list \<Rightarrow> string" where
  "join_str sep [] = []"
| "join_str sep [x] = x"
| "join_str sep (x # y # xs) = x @ sep @ join_str sep (y # xs)"

text \<open>\<open>s.split_whitespace().collect::<Vec<_>>().join(" ")\<close>\<close>

definition normalize_ws :: "string \<Rightarrow> string" where
  "normalize_ws s = join_str '' '' (split_whitespace s)"

text \<open>\<open>str::split(c)\<close> for a one-byte character; \<open>w\<close> is the part read so far, reversed.\<close>

fun split_char_from :: "char \<Rightarrow> string \<Rightarrow> string \<Rightarrow> string list" where
  "split_char_from x w [] = [rev w]"
| "split_char_from x w (c # s) =
     (if c = x then rev w # split_char_from x [] s else split_char_from x (c # w) s)"

definition split_char :: "char \<Rightarrow> string \<Rightarrow> string list" where
  "split_char x s = split_char_from x [] s"

section \<open>Decimal numbers\<close>

text \<open>\<open>str::parse::<usize>()\<close>: an optional sign \<open>+\<close>, then decimal digits; an error on an empty
  string, on any other character, and when the value needs more than 64 bits.\<close>

definition digit_val :: "char \<Rightarrow> nat option" where
  "digit_val c = (if CHR ''0'' \<le> c \<and> c \<le> CHR ''9'' then Some (of_char c - 48) else None)"

fun parse_digits :: "nat \<Rightarrow> string \<Rightarrow> nat option" where
  "parse_digits n [] = Some n"
| "parse_digits n (c # s) =
     (case digit_val c of None \<Rightarrow> None
      | Some d \<Rightarrow> if n * 10 + d < 2 ^ 64 then parse_digits (n * 10 + d) s else None)"

definition parse_usize :: "string \<Rightarrow> nat option" where
  "parse_usize s =
     (case s of
        [] \<Rightarrow> None
      | c # s' \<Rightarrow>
          (let ds = (if c = CHR ''+'' then s' else s) in
           if ds = [] then None else parse_digits 0 ds))"

text \<open>For evaluation the comparison with the largest \<open>usize\<close> is made on binary integers.\<close>

lemma parse_digits_code [code]:
  "parse_digits n [] = Some n"
  "parse_digits n (c # s) =
     (case digit_val c of None \<Rightarrow> None
      | Some d \<Rightarrow> if int (n * 10 + d) < 18446744073709551616 then parse_digits (n * 10 + d) s else None)"
  by (auto split: option.splits)

lemma parse_digits_bound: "n < 2 ^ 64 \<Longrightarrow> parse_digits n s = Some m \<Longrightarrow> m < 2 ^ 64"
  by (induction n s rule: parse_digits.induct) (auto split: option.splits if_splits)

lemma parse_usize_bound: "parse_usize s = Some m \<Longrightarrow> m < 2 ^ 64"
  by (auto simp: parse_usize_def Let_def simp del: parse_digits.simps split: list.splits if_splits
      dest!: parse_digits_bound [rotated])

text \<open>The same for a type with values up to \<open>max\<close> (\<open>u8\<close>, \<open>u16\<close>).\<close>

fun parse_digits_max :: "nat \<Rightarrow> nat \<Rightarrow> string \<Rightarrow> nat option" where
  "parse_digits_max mx n [] = Some n"
| "parse_digits_max mx n (c # s) =
     (case digit_val c of None \<Rightarrow> None
      | Some d \<Rightarrow> if n * 10 + d \<le> mx then parse_digits_max mx (n * 10 + d) s else None)"

definition parse_uint :: "nat \<Rightarrow> string \<Rightarrow> nat option" where
  "parse_uint mx s =
     (case s of
        [] \<Rightarrow> None
      | c # s' \<Rightarrow>
          (let ds = (if c = CHR ''+'' then s' else s) in
           if ds = [] then None else parse_digits_max mx 0 ds))"

text \<open>Decimal printing of a number (\<open>{n}\<close> in a format string).\<close>

fun show_nat :: "nat \<Rightarrow> string" where
  "show_nat n = (if n < 10 then [char_of (48 + n)] else show_nat (n div 10) @ [char_of (48 + n mod 10)])"

declare show_nat.simps [simp del]

section \<open>Floating-point numbers\<close>

text \<open>
  \<open>s.parse::<f64>()\<close>, as far as the question whether the value is zero goes: an optional sign, then
  \<open>inf\<close>, \<open>infinity\<close> or \<open>nan\<close> in any case, or digits with at most one point and at least one digit, and
  an optional exponent. A number \<open>m * 10 ^ e\<close> is rounded to the nearest double, ties to even; it becomes
  zero when it is at most half of the smallest positive double \<open>2 ^ -1074\<close>.
\<close>

definition is_digit :: "char \<Rightarrow> bool" where
  "is_digit c = (CHR ''0'' \<le> c \<and> c \<le> CHR ''9'')"

definition ascii_lower :: "char \<Rightarrow> char" where
  "ascii_lower c = (if CHR ''A'' \<le> c \<and> c \<le> CHR ''Z'' then char_of (of_char c + 32 :: nat) else c)"

definition strip_sign :: "string \<Rightarrow> bool \<times> string" where
  "strip_sign s =
     (case s of
        [] \<Rightarrow> (False, [])
      | c # s' \<Rightarrow> if c = CHR ''-'' then (True, s') else if c = CHR ''+'' then (False, s') else (False, s))"

definition decimal :: "string \<Rightarrow> int" where
  "decimal s = foldl (\<lambda>n c. 10 * n + int (of_char c - 48)) 0 s"

definition rounds_to_zero :: "int \<Rightarrow> int \<Rightarrow> bool" where
  "rounds_to_zero m e \<longleftrightarrow> m = 0 \<or> (e < 0 \<and> m * 2 ^ 1075 \<le> 10 ^ nat (- e))"

definition parse_exponent :: "string \<Rightarrow> int option" where
  "parse_exponent s =
     (case s of
        [] \<Rightarrow> Some 0
      | c # s' \<Rightarrow>
          if c = CHR ''e'' \<or> c = CHR ''E'' then
            (let (neg, ds) = strip_sign s' in
             if ds = [] \<or> \<not> list_all is_digit ds then None else Some (if neg then - decimal ds else decimal ds))
          else None)"

definition parse_f64_nonzero :: "string \<Rightarrow> bool option" where
  "parse_f64_nonzero s =
     (let (_, u) = strip_sign s in
      if map ascii_lower u \<in> set [''inf'', ''infinity'', ''nan''] then Some True
      else
        let int_part = takeWhile is_digit u; rest = dropWhile is_digit u;
            (frac_part, rest') =
              (case rest of
                 c # r \<Rightarrow> if c = CHR ''.'' then (takeWhile is_digit r, dropWhile is_digit r) else ([], rest)
               | [] \<Rightarrow> ([], []))
        in if int_part = [] \<and> frac_part = [] then None
           else map_option
             (\<lambda>e. \<not> rounds_to_zero (decimal (int_part @ frac_part)) (e - int (length frac_part)))
             (parse_exponent rest'))"

section \<open>UTF-8 validity\<close>

text \<open>\<open>std::str::from_utf8\<close> succeeds exactly on well-formed UTF-8 (Unicode table 3-7).\<close>

definition cont_byte :: "char \<Rightarrow> bool" where
  "cont_byte c = (CHR 0x80 \<le> c \<and> c \<le> CHR 0xBF)"

fun valid_utf8 :: "bytes \<Rightarrow> bool" where
  "valid_utf8 [] = True"
| "valid_utf8 (a # s) =
     (if a \<le> CHR 0x7F then valid_utf8 s
      else case s of [] \<Rightarrow> False
      | b # s1 \<Rightarrow>
        if CHR 0xC2 \<le> a \<and> a \<le> CHR 0xDF then cont_byte b \<and> valid_utf8 s1
        else case s1 of [] \<Rightarrow> False
        | c # s2 \<Rightarrow>
          if a = CHR 0xE0 then CHR 0xA0 \<le> b \<and> b \<le> CHR 0xBF \<and> cont_byte c \<and> valid_utf8 s2
          else if a = CHR 0xED then CHR 0x80 \<le> b \<and> b \<le> CHR 0x9F \<and> cont_byte c \<and> valid_utf8 s2
          else if CHR 0xE1 \<le> a \<and> a \<le> CHR 0xEF then cont_byte b \<and> cont_byte c \<and> valid_utf8 s2
          else case s2 of [] \<Rightarrow> False
          | d # s3 \<Rightarrow>
            if a = CHR 0xF0 then CHR 0x90 \<le> b \<and> b \<le> CHR 0xBF \<and> cont_byte c \<and> cont_byte d \<and> valid_utf8 s3
            else if a = CHR 0xF4 then CHR 0x80 \<le> b \<and> b \<le> CHR 0x8F \<and> cont_byte c \<and> cont_byte d \<and> valid_utf8 s3
            else if CHR 0xF1 \<le> a \<and> a \<le> CHR 0xF3 then cont_byte b \<and> cont_byte c \<and> cont_byte d \<and> valid_utf8 s3
            else False)"

section \<open>String slices\<close>

text \<open>
  \<open>&s[a..b]\<close> on a \<open>str\<close> panics unless \<open>a \<le> b\<close> and both are at most the length and lie on the boundary of
  an encoded character.
\<close>

definition char_boundary :: "string \<Rightarrow> nat \<Rightarrow> bool" where
  "char_boundary s i \<longleftrightarrow> i = length s \<or> (i < length s \<and> \<not> cont_byte (s ! i))"

definition str_slice :: "nat \<Rightarrow> nat \<Rightarrow> string \<Rightarrow> string outcome" where
  "str_slice a b s =
     (if a \<le> b \<and> char_boundary s a \<and> char_boundary s b then Returns (take (b - a) (drop a s)) else Panics)"

text \<open>The same where both ends are known to lie on character boundaries inside the string.\<close>

definition ascii_slice :: "nat \<Rightarrow> nat \<Rightarrow> string \<Rightarrow> string outcome" where
  "ascii_slice a b s = (if a \<le> b then Returns (take (b - a) (drop a s)) else Panics)"

text \<open>\<open>s.replacen(pat, rep, 1)\<close>\<close>

definition replace_first :: "string \<Rightarrow> string \<Rightarrow> string \<Rightarrow> string" where
  "replace_first pat rep s =
     (case find_str pat s of
        None \<Rightarrow> s
      | Some i \<Rightarrow> take i s @ rep @ drop (i + length pat) s)"

end
