(* ===== verification/Core.thy ===== *)
theory Core
  imports Rust_Str
begin

text \<open>
  The crate \<open>bergshamra-core\<close>: the error type shared by all crates (\<open>error.rs\<close>), the algorithm
  URIs (\<open>algorithm.rs\<close>) and the namespace, element and attribute names (\<open>ns.rs\<close>). A constant
  \<open>algorithm::X\<close> is \<open>alg_X\<close>, \<open>ns::X\<close> is \<open>ns_X\<close>, \<open>ns::node::X\<close> is \<open>node_X\<close> and \<open>ns::attr::X\<close> is
  \<open>attr_X\<close>. The text inside an error is the message the code builds.
\<close>

named_theorems uri_defs \<open>definitions of the URI and name constants\<close>

datatype error =
    Error_XmlParse string
  | Error_XmlStructure string
  | Error_UnsupportedAlgorithm string
  | Error_Crypto string
  | Error_Key string
  | Error_SignatureInvalid string
  | Error_DigestMismatch string
  | Error_Canonicalization string
  | Error_Transform string
  | Error_Encryption string
  | Error_Decryption string
  | Error_Base64 string
  | Error_Io string
  | Error_KeyNotFound string
  | Error_MissingElement string
  | Error_MissingAttribute string
  | Error_InvalidUri string
  | Error_Certificate string
  | Error_Other string

type_synonym 'a result = "error + 'a"

section \<open>Algorithm URIs\<close>

definition alg_C14N :: string where [uri_defs]:
  "alg_C14N = ''http://www.w3.org/TR/2001/REC-xml-c14n-20010315''"

definition alg_C14N_WITH_COMMENTS :: string where [uri_defs]:
  "alg_C14N_WITH_COMMENTS = ''http://www.w3.org/TR/2001/REC-xml-c14n-20010315#WithComments''"

definition alg_C14N11 :: string where [uri_defs]:
  "alg_C14N11 = ''http://www.w3.org/2006/12/xml-c14n11''"

definition alg_C14N11_WITH_COMMENTS :: string where [uri_defs]:
  "alg_C14N11_WITH_COMMENTS = ''http://www.w3.org/2006/12/xml-c14n11#WithComments''"

definition alg_EXC_C14N :: string where [uri_defs]:
  "alg_EXC_C14N = ''http://www.w3.org/2001/10/xml-exc-c14n#''"

definition alg_EXC_C14N_WITH_COMMENTS :: string where [uri_defs]:
  "alg_EXC_C14N_WITH_COMMENTS = ''http://www.w3.org/2001/10/xml-exc-c14n#WithComments''"

definition alg_SHA1 :: string where [uri_defs]:
  "alg_SHA1 = ''http://www.w3.org/2000/09/xmldsig#sha1''"

definition alg_SHA224 :: string where [uri_defs]:
  "alg_SHA224 = ''http://www.w3.org/2001/04/xmldsig-more#sha224''"

definition alg_SHA256 :: string where [uri_defs]:
  "alg_SHA256 = ''http://www.w3.org/2001/04/xmlenc#sha256''"

definition alg_SHA384 :: string where [uri_defs]:
  "alg_SHA384 = ''http://www.w3.org/2001/04/xmldsig-more#sha384''"

definition alg_SHA512 :: string where [uri_defs]:
  "alg_SHA512 = ''http://www.w3.org/2001/04/xmlenc#sha512''"

definition alg_SHA3_224 :: string where [uri_defs]:
  "alg_SHA3_224 = ''http://www.w3.org/2007/05/xmldsig-more#sha3-224''"

definition alg_SHA3_256 :: string where [uri_defs]:
  "alg_SHA3_256 = ''http://www.w3.org/2007/05/xmldsig-more#sha3-256''"

definition alg_SHA3_384 :: string where [uri_defs]:
  "alg_SHA3_384 = ''http://www.w3.org/2007/05/xmldsig-more#sha3-384''"

definition alg_SHA3_512 :: string where [uri_defs]:
  "alg_SHA3_512 = ''http://www.w3.org/2007/05/xmldsig-more#sha3-512''"

definition alg_MD5 :: string where [uri_defs]:
  "alg_MD5 = ''http://www.w3.org/2001/04/xmldsig-more#md5''"

definition alg_RIPEMD160 :: string where [uri_defs]:
  "alg_RIPEMD160 = ''http://www.w3.org/2001/04/xmlenc#ripemd160''"

definition alg_RSA_SHA1 :: string where [uri_defs]:
  "alg_RSA_SHA1 = ''http://www.w3.org/2000/09/xmldsig#rsa-sha1''"

definition alg_RSA_SHA224 :: string where [uri_defs]:
  "alg_RSA_SHA224 = ''http://www.w3.org/2001/04/xmldsig-more#rsa-sha224''"

definition alg_RSA_SHA256 :: string where [uri_defs]:
  "alg_RSA_SHA256 = ''http://www.w3.org/2001/04/xmldsig-more#rsa-sha256''"

definition alg_RSA_SHA384 :: string where [uri_defs]:
  "alg_RSA_SHA384 = ''http://www.w3.org/2001/04/xmldsig-more#rsa-sha384''"

definition alg_RSA_SHA512 :: string where [uri_defs]:
  "alg_RSA_SHA512 = ''http://www.w3.org/2001/04/xmldsig-more#rsa-sha512''"

definition alg_RSA_MD5 :: string where [uri_defs]:
  "alg_RSA_MD5 = ''http://www.w3.org/2001/04/xmldsig-more#rsa-md5''"

definition alg_RSA_RIPEMD160 :: string where [uri_defs]:
  "alg_RSA_RIPEMD160 = ''http://www.w3.org/2001/04/xmldsig-more#rsa-ripemd160''"

definition alg_RSA_PSS_SHA1 :: string where [uri_defs]:
  "alg_RSA_PSS_SHA1 = ''http://www.w3.org/2007/05/xmldsig-more#sha1-rsa-MGF1''"

definition alg_RSA_PSS_SHA224 :: string where [uri_defs]:
  "alg_RSA_PSS_SHA224 = ''http://www.w3.org/2007/05/xmldsig-more#sha224-rsa-MGF1''"

definition alg_RSA_PSS_SHA256 :: string where [uri_defs]:
  "alg_RSA_PSS_SHA256 = ''http://www.w3.org/2007/05/xmldsig-more#sha256-rsa-MGF1''"

definition alg_RSA_PSS_SHA384 :: string where [uri_defs]:
  "alg_RSA_PSS_SHA384 = ''http://www.w3.org/2007/05/xmldsig-more#sha384-rsa-MGF1''"

definition alg_RSA_PSS_SHA512 :: string where [uri_defs]:
  "alg_RSA_PSS_SHA512 = ''http://www.w3.org/2007/05/xmldsig-more#sha512-rsa-MGF1''"

definition alg_RSA_PSS_SHA3_224 :: string where [uri_defs]:
  "alg_RSA_PSS_SHA3_224 = ''http://www.w3.org/2007/05/xmldsig-more#sha3-224-rsa-MGF1''"

definition alg_RSA_PSS_SHA3_256 :: string where [uri_defs]:
  "alg_RSA_PSS_SHA3_256 = ''http://www.w3.org/2007/05/xmldsig-more#sha3-256-rsa-MGF1''"

definition alg_RSA_PSS_SHA3_384 :: string where [uri_defs]:
  "alg_RSA_PSS_SHA3_384 = ''http://www.w3.org/2007/05/xmldsig-more#sha3-384-rsa-MGF1''"

definition alg_RSA_PSS_SHA3_512 :: string where [uri_defs]:
  "alg_RSA_PSS_SHA3_512 = ''http://www.w3.org/2007/05/xmldsig-more#sha3-512-rsa-MGF1''"

definition alg_DSA_SHA1 :: string where [uri_defs]:
  "alg_DSA_SHA1 = ''http://www.w3.org/2000/09/xmldsig#dsa-sha1''"

definition alg_DSA_SHA256 :: string where [uri_defs]:
  "alg_DSA_SHA256 = ''http://www.w3.org/2009/xmldsig11#dsa-sha256''"

definition alg_ECDSA_SHA1 :: string where [uri_defs]:
  "alg_ECDSA_SHA1 = ''http://www.w3.org/2001/04/xmldsig-more#ecdsa-sha1''"

definition alg_ECDSA_SHA224 :: string where [uri_defs]:
  "alg_ECDSA_SHA224 = ''http://www.w3.org/2001/04/xmldsig-more#ecdsa-sha224''"

definition alg_ECDSA_SHA256 :: string where [uri_defs]:
  "alg_ECDSA_SHA256 = ''http://www.w3.org/2001/04/xmldsig-more#ecdsa-sha256''"

definition alg_ECDSA_SHA384 :: string where [uri_defs]:
  "alg_ECDSA_SHA384 = ''http://www.w3.org/2001/04/xmldsig-more#ecdsa-sha384''"

definition alg_ECDSA_SHA512 :: string where [uri_defs]:
  "alg_ECDSA_SHA512 = ''http://www.w3.org/2001/04/xmldsig-more#ecdsa-sha512''"

definition alg_ECDSA_RIPEMD160 :: string where [uri_defs]:
  "alg_ECDSA_RIPEMD160 = ''http://www.w3.org/2007/05/xmldsig-more#ecdsa-ripemd160''"

definition alg_ECDSA_SHA3_224 :: string where [uri_defs]:
  "alg_ECDSA_SHA3_224 = ''http://www.w3.org/2021/04/xmldsig-more#ecdsa-sha3-224''"

definition alg_ECDSA_SHA3_256 :: string where [uri_defs]:
  "alg_ECDSA_SHA3_256 = ''http://www.w3.org/2021/04/xmldsig-more#ecdsa-sha3-256''"

definition alg_ECDSA_SHA3_384 :: string where [uri_defs]:
  "alg_ECDSA_SHA3_384 = ''http://www.w3.org/2021/04/xmldsig-more#ecdsa-sha3-384''"

definition alg_ECDSA_SHA3_512 :: string where [uri_defs]:
  "alg_ECDSA_SHA3_512 = ''http://www.w3.org/2021/04/xmldsig-more#ecdsa-sha3-512''"

definition alg_EDDSA_ED25519 :: string where [uri_defs]:
  "alg_EDDSA_ED25519 = ''http://www.w3.org/2021/04/xmldsig-more#eddsa-ed25519''"

definition alg_HMAC_SHA1 :: string where [uri_defs]:
  "alg_HMAC_SHA1 = ''http://www.w3.org/2000/09/xmldsig#hmac-sha1''"

definition alg_HMAC_SHA224 :: string where [uri_defs]:
  "alg_HMAC_SHA224 = ''http://www.w3.org/2001/04/xmldsig-more#hmac-sha224''"

definition alg_HMAC_SHA256 :: string where [uri_defs]:
  "alg_HMAC_SHA256 = ''http://www.w3.org/2001/04/xmldsig-more#hmac-sha256''"

definition alg_HMAC_SHA384 :: string where [uri_defs]:
  "alg_HMAC_SHA384 = ''http://www.w3.org/2001/04/xmldsig-more#hmac-sha384''"

definition alg_HMAC_SHA512 :: string where [uri_defs]:
  "alg_HMAC_SHA512 = ''http://www.w3.org/2001/04/xmldsig-more#hmac-sha512''"

definition alg_HMAC_MD5 :: string where [uri_defs]:
  "alg_HMAC_MD5 = ''http://www.w3.org/2001/04/xmldsig-more#hmac-md5''"

definition alg_HMAC_RIPEMD160 :: string where [uri_defs]:
  "alg_HMAC_RIPEMD160 = ''http://www.w3.org/2001/04/xmldsig-more#hmac-ripemd160''"

definition alg_ML_DSA_44 :: string where [uri_defs]:
  "alg_ML_DSA_44 = ''http://www.aleksey.com/xmlsec/2025/12/xmldsig-more#ml-dsa-44''"

definition alg_ML_DSA_65 :: string where [uri_defs]:
  "alg_ML_DSA_65 = ''http://www.aleksey.com/xmlsec/2025/12/xmldsig-more#ml-dsa-65''"

definition alg_ML_DSA_87 :: string where [uri_defs]:
  "alg_ML_DSA_87 = ''http://www.aleksey.com/xmlsec/2025/12/xmldsig-more#ml-dsa-87''"

definition alg_SLH_DSA_SHA2_128F :: string where [uri_defs]:
  "alg_SLH_DSA_SHA2_128F = ''http://www.aleksey.com/xmlsec/2025/12/xmldsig-more#slh-dsa-sha2-128f''"

definition alg_SLH_DSA_SHA2_128S :: string where [uri_defs]:
  "alg_SLH_DSA_SHA2_128S = ''http://www.aleksey.com/xmlsec/2025/12/xmldsig-more#slh-dsa-sha2-128s''"

definition alg_SLH_DSA_SHA2_192F :: string where [uri_defs]:
  "alg_SLH_DSA_SHA2_192F = ''http://www.aleksey.com/xmlsec/2025/12/xmldsig-more#slh-dsa-sha2-192f''"

definition alg_SLH_DSA_SHA2_192S :: string where [uri_defs]:
  "alg_SLH_DSA_SHA2_192S = ''http://www.aleksey.com/xmlsec/2025/12/xmldsig-more#slh-dsa-sha2-192s''"

definition alg_SLH_DSA_SHA2_256F :: string where [uri_defs]:
  "alg_SLH_DSA_SHA2_256F = ''http://www.aleksey.com/xmlsec/2025/12/xmldsig-more#slh-dsa-sha2-256f''"

definition alg_SLH_DSA_SHA2_256S :: string where [uri_defs]:
  "alg_SLH_DSA_SHA2_256S = ''http://www.aleksey.com/xmlsec/2025/12/xmldsig-more#slh-dsa-sha2-256s''"

definition alg_AES128_CBC :: string where [uri_defs]:
  "alg_AES128_CBC = ''http://www.w3.org/2001/04/xmlenc#aes128-cbc''"

definition alg_AES192_CBC :: string where [uri_defs]:
  "alg_AES192_CBC = ''http://www.w3.org/2001/04/xmlenc#aes192-cbc''"

definition alg_AES256_CBC :: string where [uri_defs]:
  "alg_AES256_CBC = ''http://www.w3.org/2001/04/xmlenc#aes256-cbc''"

definition alg_AES128_GCM :: string where [uri_defs]:
  "alg_AES128_GCM = ''http://www.w3.org/2009/xmlenc11#aes128-gcm''"

definition alg_AES192_GCM :: string where [uri_defs]:
  "alg_AES192_GCM = ''http://www.w3.org/2009/xmlenc11#aes192-gcm''"

definition alg_AES256_GCM :: string where [uri_defs]:
  "alg_AES256_GCM = ''http://www.w3.org/2009/xmlenc11#aes256-gcm''"

definition alg_TRIPLEDES_CBC :: string where [uri_defs]:
  "alg_TRIPLEDES_CBC = ''http://www.w3.org/2001/04/xmlenc#tripledes-cbc''"

definition alg_KW_AES128 :: string where [uri_defs]:
  "alg_KW_AES128 = ''http://www.w3.org/2001/04/xmlenc#kw-aes128''"

definition alg_KW_AES192 :: string where [uri_defs]:
  "alg_KW_AES192 = ''http://www.w3.org/2001/04/xmlenc#kw-aes192''"

definition alg_KW_AES256 :: string where [uri_defs]:
  "alg_KW_AES256 = ''http://www.w3.org/2001/04/xmlenc#kw-aes256''"

definition alg_KW_TRIPLEDES :: string where [uri_defs]:
  "alg_KW_TRIPLEDES = ''http://www.w3.org/2001/04/xmlenc#kw-tripledes''"

definition alg_RSA_PKCS1 :: string where [uri_defs]:
  "alg_RSA_PKCS1 = ''http://www.w3.org/2001/04/xmlenc#rsa-1_5''"

definition alg_RSA_OAEP :: string where [uri_defs]:
  "alg_RSA_OAEP = ''http://www.w3.org/2001/04/xmlenc#rsa-oaep-mgf1p''"

definition alg_RSA_OAEP_ENC11 :: string where [uri_defs]:
  "alg_RSA_OAEP_ENC11 = ''http://www.w3.org/2009/xmlenc11#rsa-oaep''"

definition alg_MGF1_SHA1 :: string where [uri_defs]:
  "alg_MGF1_SHA1 = ''http://www.w3.org/2009/xmlenc11#mgf1sha1''"

definition alg_MGF1_SHA224 :: string where [uri_defs]:
  "alg_MGF1_SHA224 = ''http://www.w3.org/2009/xmlenc11#mgf1sha224''"

definition alg_MGF1_SHA256 :: string where [uri_defs]:
  "alg_MGF1_SHA256 = ''http://www.w3.org/2009/xmlenc11#mgf1sha256''"

definition alg_MGF1_SHA384 :: string where [uri_defs]:
  "alg_MGF1_SHA384 = ''http://www.w3.org/2009/xmlenc11#mgf1sha384''"

definition alg_MGF1_SHA512 :: string where [uri_defs]:
  "alg_MGF1_SHA512 = ''http://www.w3.org/2009/xmlenc11#mgf1sha512''"

definition alg_DH_ES :: string where [uri_defs]:
  "alg_DH_ES = ''http://www.w3.org/2009/xmlenc11#dh-es''"

definition alg_ECDH_ES :: string where [uri_defs]:
  "alg_ECDH_ES = ''http://www.w3.org/2009/xmlenc11#ECDH-ES''"

definition alg_X25519 :: string where [uri_defs]:
  "alg_X25519 = ''http://www.w3.org/2021/04/xmldsig-more#x25519''"

definition alg_PBKDF2 :: string where [uri_defs]:
  "alg_PBKDF2 = ''http://www.w3.org/2009/xmlenc11#pbkdf2''"

definition alg_CONCAT_KDF :: string where [uri_defs]:
  "alg_CONCAT_KDF = ''http://www.w3.org/2009/xmlenc11#ConcatKDF''"

definition alg_HKDF :: string where [uri_defs]:
  "alg_HKDF = ''http://www.w3.org/2021/04/xmldsig-more#hkdf''"

definition alg_BASE64 :: string where [uri_defs]:
  "alg_BASE64 = ''http://www.w3.org/2000/09/xmldsig#base64''"

definition alg_ENVELOPED_SIGNATURE :: string where [uri_defs]:
  "alg_ENVELOPED_SIGNATURE = ''http://www.w3.org/2000/09/xmldsig#enveloped-signature''"

definition alg_XPATH :: string where [uri_defs]:
  "alg_XPATH = ''http://www.w3.org/TR/1999/REC-xpath-19991116''"

definition alg_XPATH2 :: string where [uri_defs]:
  "alg_XPATH2 = ''http://www.w3.org/2002/06/xmldsig-filter2''"

definition alg_XSLT :: string where [uri_defs]:
  "alg_XSLT = ''http://www.w3.org/TR/1999/REC-xslt-19991116''"

definition alg_XPOINTER :: string where [uri_defs]:
  "alg_XPOINTER = ''http://www.w3.org/2001/04/xmldsig-more/xptr''"

definition alg_RELATIONSHIP :: string where [uri_defs]:
  "alg_RELATIONSHIP = ''http://schemas.openxmlformats.org/package/2006/RelationshipTransform''"

definition alg_RSA_KEY_VALUE :: string where [uri_defs]:
  "alg_RSA_KEY_VALUE = ''http://www.w3.org/2000/09/xmldsig#RSAKeyValue''"

definition alg_DSA_KEY_VALUE :: string where [uri_defs]:
  "alg_DSA_KEY_VALUE = ''http://www.w3.org/2000/09/xmldsig#DSAKeyValue''"

definition alg_EC_KEY_VALUE :: string where [uri_defs]:
  "alg_EC_KEY_VALUE = ''http://www.w3.org/2009/xmldsig11#ECKeyValue''"

definition alg_DH_KEY_VALUE :: string where [uri_defs]:
  "alg_DH_KEY_VALUE = ''http://www.w3.org/2001/04/xmlenc#DHKeyValue''"

definition alg_DER_ENCODED_KEY_VALUE :: string where [uri_defs]:
  "alg_DER_ENCODED_KEY_VALUE = ''http://www.w3.org/2009/xmldsig11#DEREncodedKeyValue''"

definition alg_X509_DATA :: string where [uri_defs]:
  "alg_X509_DATA = ''http://www.w3.org/2000/09/xmldsig#X509Data''"

definition alg_RAW_X509_CERT :: string where [uri_defs]:
  "alg_RAW_X509_CERT = ''http://www.w3.org/2000/09/xmldsig#rawX509Certificate''"

definition alg_ENCRYPTED_KEY :: string where [uri_defs]:
  "alg_ENCRYPTED_KEY = ''http://www.w3.org/2001/04/xmlenc#EncryptedKey''"

definition alg_DERIVED_KEY :: string where [uri_defs]:
  "alg_DERIVED_KEY = ''http://www.w3.org/2009/xmlenc11#DerivedKey''"

section \<open>Namespaces, elements and attributes\<close>

definition ns_DSIG :: string where [uri_defs]:
  "ns_DSIG = ''http://www.w3.org/2000/09/xmldsig#''"

definition ns_DSIG11 :: string where [uri_defs]:
  "ns_DSIG11 = ''http://www.w3.org/2009/xmldsig11#''"

definition ns_ENC :: string where [uri_defs]:
  "ns_ENC = ''http://www.w3.org/2001/04/xmlenc#''"

definition ns_ENC11 :: string where [uri_defs]:
  "ns_ENC11 = ''http://www.w3.org/2009/xmlenc11#''"

definition ns_EXC_C14N :: string where [uri_defs]:
  "ns_EXC_C14N = ''http://www.w3.org/2001/10/xml-exc-c14n#''"

definition ns_XPATH :: string where [uri_defs]:
  "ns_XPATH = ''http://www.w3.org/TR/1999/REC-xpath-19991116''"

definition ns_XPATH2 :: string where [uri_defs]:
  "ns_XPATH2 = ''http://www.w3.org/2002/06/xmldsig-filter2''"

definition ns_XPOINTER :: string where [uri_defs]:
  "ns_XPOINTER = ''http://www.w3.org/2001/04/xmldsig-more/xptr''"

definition ns_XML :: string where [uri_defs]:
  "ns_XML = ''http://www.w3.org/XML/1998/namespace''"

definition ns_XMLNS :: string where [uri_defs]:
  "ns_XMLNS = ''http://www.w3.org/2000/xmlns/''"

definition ns_XMLSEC_PQ :: string where [uri_defs]:
  "ns_XMLSEC_PQ = ''http://www.aleksey.com/xmlsec/2025/12/xmldsig-more#''"

definition ns_DSIG_MORE :: string where [uri_defs]:
  "ns_DSIG_MORE = ''http://www.w3.org/2001/04/xmldsig-more#''"

definition ns_RELATIONSHIPS :: string where [uri_defs]:
  "ns_RELATIONSHIPS = ''http://schemas.openxmlformats.org/package/2006/relationships''"

definition ns_RELATIONSHIP_REFERENCE :: string where [uri_defs]:
  "ns_RELATIONSHIP_REFERENCE = ''http://schemas.openxmlformats.org/package/2006/digital-signature''"

definition node_SIGNATURE :: string where [uri_defs]:
  "node_SIGNATURE = ''Signature''"

definition node_SIGNED_INFO :: string where [uri_defs]:
  "node_SIGNED_INFO = ''SignedInfo''"

definition node_CANONICALIZATION_METHOD :: string where [uri_defs]:
  "node_CANONICALIZATION_METHOD = ''CanonicalizationMethod''"

definition node_SIGNATURE_METHOD :: string where [uri_defs]:
  "node_SIGNATURE_METHOD = ''SignatureMethod''"

definition node_SIGNATURE_VALUE :: string where [uri_defs]:
  "node_SIGNATURE_VALUE = ''SignatureValue''"

definition node_DIGEST_METHOD :: string where [uri_defs]:
  "node_DIGEST_METHOD = ''DigestMethod''"

definition node_DIGEST_VALUE :: string where [uri_defs]:
  "node_DIGEST_VALUE = ''DigestValue''"

definition node_REFERENCE :: string where [uri_defs]:
  "node_REFERENCE = ''Reference''"

definition node_TRANSFORMS :: string where [uri_defs]:
  "node_TRANSFORMS = ''Transforms''"

definition node_TRANSFORM :: string where [uri_defs]:
  "node_TRANSFORM = ''Transform''"

definition node_KEY_INFO :: string where [uri_defs]:
  "node_KEY_INFO = ''KeyInfo''"

definition node_KEY_NAME :: string where [uri_defs]:
  "node_KEY_NAME = ''KeyName''"

definition node_KEY_VALUE :: string where [uri_defs]:
  "node_KEY_VALUE = ''KeyValue''"

definition node_RETRIEVAL_METHOD :: string where [uri_defs]:
  "node_RETRIEVAL_METHOD = ''RetrievalMethod''"

definition node_KEY_INFO_REFERENCE :: string where [uri_defs]:
  "node_KEY_INFO_REFERENCE = ''KeyInfoReference''"

definition node_DER_ENCODED_KEY_VALUE :: string where [uri_defs]:
  "node_DER_ENCODED_KEY_VALUE = ''DEREncodedKeyValue''"

definition node_RSA_KEY_VALUE :: string where [uri_defs]:
  "node_RSA_KEY_VALUE = ''RSAKeyValue''"

definition node_RSA_MODULUS :: string where [uri_defs]:
  "node_RSA_MODULUS = ''Modulus''"

definition node_RSA_EXPONENT :: string where [uri_defs]:
  "node_RSA_EXPONENT = ''Exponent''"

definition node_RSA_PRIVATE_EXPONENT :: string where [uri_defs]:
  "node_RSA_PRIVATE_EXPONENT = ''PrivateExponent''"

definition node_RSA_OAEP_PARAMS :: string where [uri_defs]:
  "node_RSA_OAEP_PARAMS = ''OAEPparams''"

definition node_RSA_MGF :: string where [uri_defs]:
  "node_RSA_MGF = ''MGF''"

definition node_DSA_KEY_VALUE :: string where [uri_defs]:
  "node_DSA_KEY_VALUE = ''DSAKeyValue''"

definition node_DSA_P :: string where [uri_defs]:
  "node_DSA_P = ''P''"

definition node_DSA_Q :: string where [uri_defs]:
  "node_DSA_Q = ''Q''"

definition node_DSA_G :: string where [uri_defs]:
  "node_DSA_G = ''G''"

definition node_DSA_X :: string where [uri_defs]:
  "node_DSA_X = ''X''"

definition node_DSA_Y :: string where [uri_defs]:
  "node_DSA_Y = ''Y''"

definition node_EC_KEY_VALUE :: string where [uri_defs]:
  "node_EC_KEY_VALUE = ''ECKeyValue''"

definition node_NAMED_CURVE :: string where [uri_defs]:
  "node_NAMED_CURVE = ''NamedCurve''"

definition node_PUBLIC_KEY :: string where [uri_defs]:
  "node_PUBLIC_KEY = ''PublicKey''"

definition node_DH_KEY_VALUE :: string where [uri_defs]:
  "node_DH_KEY_VALUE = ''DHKeyValue''"

definition node_HMAC_KEY_VALUE :: string where [uri_defs]:
  "node_HMAC_KEY_VALUE = ''HMACKeyValue''"

definition node_HMAC_OUTPUT_LENGTH :: string where [uri_defs]:
  "node_HMAC_OUTPUT_LENGTH = ''HMACOutputLength''"

definition node_X509_DATA :: string where [uri_defs]:
  "node_X509_DATA = ''X509Data''"

definition node_X509_CERTIFICATE :: string where [uri_defs]:
  "node_X509_CERTIFICATE = ''X509Certificate''"

definition node_X509_ISSUER_SERIAL :: string where [uri_defs]:
  "node_X509_ISSUER_SERIAL = ''X509IssuerSerial''"

definition node_X509_SERIAL_NUMBER :: string where [uri_defs]:
  "node_X509_SERIAL_NUMBER = ''X509SerialNumber''"

definition node_ENCRYPTED_DATA :: string where [uri_defs]:
  "node_ENCRYPTED_DATA = ''EncryptedData''"

definition node_ENCRYPTION_METHOD :: string where [uri_defs]:
  "node_ENCRYPTION_METHOD = ''EncryptionMethod''"

definition node_CIPHER_DATA :: string where [uri_defs]:
  "node_CIPHER_DATA = ''CipherData''"

definition node_CIPHER_VALUE :: string where [uri_defs]:
  "node_CIPHER_VALUE = ''CipherValue''"

definition node_CIPHER_REFERENCE :: string where [uri_defs]:
  "node_CIPHER_REFERENCE = ''CipherReference''"

definition node_CARRIED_KEY_NAME :: string where [uri_defs]:
  "node_CARRIED_KEY_NAME = ''CarriedKeyName''"

definition node_ENCRYPTED_KEY :: string where [uri_defs]:
  "node_ENCRYPTED_KEY = ''EncryptedKey''"

definition node_DERIVED_KEY :: string where [uri_defs]:
  "node_DERIVED_KEY = ''DerivedKey''"

definition node_KEY_DERIVATION_METHOD :: string where [uri_defs]:
  "node_KEY_DERIVATION_METHOD = ''KeyDerivationMethod''"

definition node_MASTER_KEY_NAME :: string where [uri_defs]:
  "node_MASTER_KEY_NAME = ''MasterKeyName''"

definition node_AGREEMENT_METHOD :: string where [uri_defs]:
  "node_AGREEMENT_METHOD = ''AgreementMethod''"

definition node_ORIGINATOR_KEY_INFO :: string where [uri_defs]:
  "node_ORIGINATOR_KEY_INFO = ''OriginatorKeyInfo''"

definition node_RECIPIENT_KEY_INFO :: string where [uri_defs]:
  "node_RECIPIENT_KEY_INFO = ''RecipientKeyInfo''"

definition node_PBKDF2_PARAMS :: string where [uri_defs]:
  "node_PBKDF2_PARAMS = ''PBKDF2-params''"

definition node_PBKDF2_SALT :: string where [uri_defs]:
  "node_PBKDF2_SALT = ''Salt''"

definition node_PBKDF2_SALT_SPECIFIED :: string where [uri_defs]:
  "node_PBKDF2_SALT_SPECIFIED = ''Specified''"

definition node_PBKDF2_ITERATION_COUNT :: string where [uri_defs]:
  "node_PBKDF2_ITERATION_COUNT = ''IterationCount''"

definition node_PBKDF2_KEY_LENGTH :: string where [uri_defs]:
  "node_PBKDF2_KEY_LENGTH = ''KeyLength''"

definition node_PBKDF2_PRF :: string where [uri_defs]:
  "node_PBKDF2_PRF = ''PRF''"

definition node_CONCAT_KDF_PARAMS :: string where [uri_defs]:
  "node_CONCAT_KDF_PARAMS = ''ConcatKDFParams''"

definition node_HKDF_PARAMS :: string where [uri_defs]:
  "node_HKDF_PARAMS = ''HKDFParams''"

definition node_HKDF_PRF :: string where [uri_defs]:
  "node_HKDF_PRF = ''PRF''"

definition node_HKDF_SALT :: string where [uri_defs]:
  "node_HKDF_SALT = ''Salt''"

definition node_HKDF_SALT_SPECIFIED :: string where [uri_defs]:
  "node_HKDF_SALT_SPECIFIED = ''Specified''"

definition node_HKDF_INFO :: string where [uri_defs]:
  "node_HKDF_INFO = ''Info''"

definition node_HKDF_KEY_LENGTH :: string where [uri_defs]:
  "node_HKDF_KEY_LENGTH = ''KeyLength''"

definition node_INCLUSIVE_NAMESPACES :: string where [uri_defs]:
  "node_INCLUSIVE_NAMESPACES = ''InclusiveNamespaces''"

definition node_AES_KEY_VALUE :: string where [uri_defs]:
  "node_AES_KEY_VALUE = ''AESKeyValue''"

definition node_DES_KEY_VALUE :: string where [uri_defs]:
  "node_DES_KEY_VALUE = ''DESKeyValue''"

definition node_MLDSA_CONTEXT_STRING :: string where [uri_defs]:
  "node_MLDSA_CONTEXT_STRING = ''MLDSAContextString''"

definition node_SLHDSA_CONTEXT_STRING :: string where [uri_defs]:
  "node_SLHDSA_CONTEXT_STRING = ''SLHDSAContextString''"

definition attr_ID :: string where [uri_defs]:
  "attr_ID = ''Id''"

definition attr_URI :: string where [uri_defs]:
  "attr_URI = ''URI''"

definition attr_TYPE :: string where [uri_defs]:
  "attr_TYPE = ''Type''"

definition attr_MIME_TYPE :: string where [uri_defs]:
  "attr_MIME_TYPE = ''MimeType''"

definition attr_ENCODING :: string where [uri_defs]:
  "attr_ENCODING = ''Encoding''"

definition attr_ALGORITHM :: string where [uri_defs]:
  "attr_ALGORITHM = ''Algorithm''"

definition attr_FILTER :: string where [uri_defs]:
  "attr_FILTER = ''Filter''"

definition attr_RECIPIENT :: string where [uri_defs]:
  "attr_RECIPIENT = ''Recipient''"

definition attr_TARGET :: string where [uri_defs]:
  "attr_TARGET = ''Target''"

definition attr_PREFIX_LIST :: string where [uri_defs]:
  "attr_PREFIX_LIST = ''PrefixList''"

definition ns_ENC_TYPE_CONTENT :: string where [uri_defs]:
  "ns_ENC_TYPE_CONTENT = ''http://www.w3.org/2001/04/xmlenc#Content''"

definition ns_ENC_TYPE_ELEMENT :: string where [uri_defs]:
  "ns_ENC_TYPE_ELEMENT = ''http://www.w3.org/2001/04/xmlenc#Element''"

definition ns_XPATH2_FILTER_INTERSECT :: string where [uri_defs]:
  "ns_XPATH2_FILTER_INTERSECT = ''intersect''"

definition ns_XPATH2_FILTER_SUBTRACT :: string where [uri_defs]:
  "ns_XPATH2_FILTER_SUBTRACT = ''subtract''"

definition ns_XPATH2_FILTER_UNION :: string where [uri_defs]:
  "ns_XPATH2_FILTER_UNION = ''union''"

section \<open>The URI table\<close>

text \<open>Every algorithm URI of \<open>algorithm.rs\<close>, in the order of the file.\<close>

definition algorithm_uris :: "string list" where
  "algorithm_uris =
    [alg_C14N, alg_C14N_WITH_COMMENTS, alg_C14N11, alg_C14N11_WITH_COMMENTS,
     alg_EXC_C14N, alg_EXC_C14N_WITH_COMMENTS, alg_SHA1, alg_SHA224,
     alg_SHA256, alg_SHA384, alg_SHA512, alg_SHA3_224,
     alg_SHA3_256, alg_SHA3_384, alg_SHA3_512, alg_MD5,
     alg_RIPEMD160, alg_RSA_SHA1, alg_RSA_SHA224, alg_RSA_SHA256,
     alg_RSA_SHA384, alg_RSA_SHA512, alg_RSA_MD5, alg_RSA_RIPEMD160,
     alg_RSA_PSS_SHA1, alg_RSA_PSS_SHA224, alg_RSA_PSS_SHA256, alg_RSA_PSS_SHA384,
     alg_RSA_PSS_SHA512, alg_RSA_PSS_SHA3_224, alg_RSA_PSS_SHA3_256, alg_RSA_PSS_SHA3_384,
     alg_RSA_PSS_SHA3_512, alg_DSA_SHA1, alg_DSA_SHA256, alg_ECDSA_SHA1,
     alg_ECDSA_SHA224, alg_ECDSA_SHA256, alg_ECDSA_SHA384, alg_ECDSA_SHA512,
     alg_ECDSA_RIPEMD160, alg_ECDSA_SHA3_224, alg_ECDSA_SHA3_256, alg_ECDSA_SHA3_384,
     alg_ECDSA_SHA3_512, alg_EDDSA_ED25519, alg_HMAC_SHA1, alg_HMAC_SHA224,
     alg_HMAC_SHA256, alg_HMAC_SHA384, alg_HMAC_SHA512, alg_HMAC_MD5,
     alg_HMAC_RIPEMD160, alg_ML_DSA_44, alg_ML_DSA_65, alg_ML_DSA_87,
     alg_SLH_DSA_SHA2_128F, alg_SLH_DSA_SHA2_128S, alg_SLH_DSA_SHA2_192F, alg_SLH_DSA_SHA2_192S,
     alg_SLH_DSA_SHA2_256F, alg_SLH_DSA_SHA2_256S, alg_AES128_CBC, alg_AES192_CBC,
     alg_AES256_CBC, alg_AES128_GCM, alg_AES192_GCM, alg_AES256_GCM,
     alg_TRIPLEDES_CBC, alg_KW_AES128, alg_KW_AES192, alg_KW_AES256,
     alg_KW_TRIPLEDES, alg_RSA_PKCS1, alg_RSA_OAEP, alg_RSA_OAEP_ENC11,
     alg_MGF1_SHA1, alg_MGF1_SHA224, alg_MGF1_SHA256, alg_MGF1_SHA384,
     alg_MGF1_SHA512, alg_DH_ES, alg_ECDH_ES, alg_X25519,
     alg_PBKDF2, alg_CONCAT_KDF, alg_HKDF, alg_BASE64,
     alg_ENVELOPED_SIGNATURE, alg_XPATH, alg_XPATH2, alg_XSLT,
     alg_XPOINTER, alg_RELATIONSHIP, alg_RSA_KEY_VALUE, alg_DSA_KEY_VALUE,
     alg_EC_KEY_VALUE, alg_DH_KEY_VALUE, alg_DER_ENCODED_KEY_VALUE, alg_X509_DATA,
     alg_RAW_X509_CERT, alg_ENCRYPTED_KEY, alg_DERIVED_KEY]"

end
