(* ===== verification/Dom.thy ===== *)
theory Dom
  imports Core
begin

text \<open>
  The document interface of the XML parser \<open>uppsala\<close>, as the crates use it, and the crate
  \<open>bergshamra-xml\<close> without its node sets (\<open>document.rs\<close>, \<open>xpath.rs\<close>).

  The parser is third-party code. A parsed document is therefore a parameter: a record of the
  accessors the sources call (\<open>doc.root()\<close>, \<open>doc.node_kind(id)\<close>, \<open>doc.children(id)\<close>, ...). What the
  sources rely on, that these accessors describe a finite tree, is the predicate \<open>wf_doc\<close>; a
  theorem that needs it says so. \<open>doc_bound\<close> is a bound on the number of nodes; it only bounds the
  loops that follow parent and sibling links and the recursion into children, and the lemmas
  \<open>parent_chain_unfold\<close>, \<open>prev_chain_unfold\<close> and \<open>next_chain_unfold\<close> show that on a well-formed
  document the bound is never reached: the loops satisfy the equations of the source.
\<close>

section \<open>The parsed document\<close>

type_synonym node_id = nat

record qname =
  qn_local_name :: string
  qn_prefix :: "string option"
  qn_namespace_uri :: "string option"

record attribute =
  at_name :: qname
  at_value :: string

record element =
  el_name :: qname
  el_attributes :: "attribute list"
  el_namespace_declarations :: "(string \<times> string) list"

record proc_inst =
  pi_target :: string
  pi_data :: "string option"

datatype node_kind =
    Document
  | Element element
  | Text string
  | CData string
  | Comment string
  | ProcessingInstruction proc_inst

record document =
  doc_root :: node_id
  doc_kind :: "node_id \<Rightarrow> node_kind option"
  doc_children :: "node_id \<Rightarrow> node_id list"
  doc_parent :: "node_id \<Rightarrow> node_id option"
  doc_prev_sibling :: "node_id \<Rightarrow> node_id option"
  doc_next_sibling :: "node_id \<Rightarrow> node_id option"
  doc_descendants :: "node_id \<Rightarrow> node_id list"
  doc_document_element :: "node_id option"
  doc_get_attribute :: "element \<Rightarrow> string \<Rightarrow> string option"
  doc_text_deep :: "node_id \<Rightarrow> string"
  doc_bound :: nat

type_synonym id_map = "string \<Rightarrow> node_id option"

text \<open>\<open>doc.element(id)\<close>: the element data of an element node.\<close>

definition doc_element :: "document \<Rightarrow> node_id \<Rightarrow> element option" where
  "doc_element d n = (case doc_kind d n of Some (Element e) \<Rightarrow> Some e | _ \<Rightarrow> None)"

definition is_element :: "document \<Rightarrow> node_id \<Rightarrow> bool" where
  "is_element d n = (doc_element d n \<noteq> None)"

definition is_comment :: "document \<Rightarrow> node_id \<Rightarrow> bool" where
  "is_comment d n = (case doc_kind d n of Some (Comment _) \<Rightarrow> True | _ \<Rightarrow> False)"

section \<open>Loops along links\<close>

text \<open>
  The nodes visited by \<open>while let Some(n) = current { ...; current = f(n); }\<close>. The first argument
  bounds the number of iterations.
\<close>

fun follow :: "nat \<Rightarrow> ('n \<Rightarrow> 'n option) \<Rightarrow> 'n option \<Rightarrow> 'n list" where
  "follow 0 f c = []"
| "follow (Suc k) f None = []"
| "follow (Suc k) f (Some n) = n # follow k f (f n)"

definition ranked :: "('n \<Rightarrow> 'n option) \<Rightarrow> nat \<Rightarrow> bool" where
  "ranked f b = (\<exists>r. (\<forall>n m. f n = Some m \<longrightarrow> r m < r n) \<and> (\<forall>n. r n < b))"

lemma follow_None [simp]: "follow k f None = []"
  by (cases k) simp_all

lemma follow_enough:
  assumes "\<And>n m. f n = Some m \<Longrightarrow> r m < r n"
  shows "r n < k \<Longrightarrow> r n < l \<Longrightarrow> follow k f (Some n) = follow l f (Some n)"
proof (induction k arbitrary: l n)
  case (Suc k)
  then obtain l' where l: "l = Suc l'" by (cases l) auto
  show ?case
  proof (cases "f n")
    case (Some m)
    with assms have "r m < r n" by blast
    with Suc.prems l have "r m < k" "r m < l'" by simp_all
    then have "follow k f (Some m) = follow l' f (Some m)" by (rule Suc.IH)
    with Some show ?thesis by (simp add: l)
  qed (simp add: l)
qed simp

lemma follow_unfold:
  assumes "ranked f b"
  shows "follow b f (Some n) = n # follow b f (f n)"
proof -
  from assms obtain r where r: "\<And>n m. f n = Some m \<Longrightarrow> r m < r n" "\<And>n. r n < b"
    by (auto simp: ranked_def)
  from r(2) [of n] obtain b' where b: "b = Suc b'" by (cases b) auto
  show ?thesis
  proof (cases "f n")
    case (Some m)
    from r(1) [OF Some] r(2) [of n] b have "r m < b'" by linarith
    then have "follow b' f (Some m) = follow b f (Some m)"
      using r by (intro follow_enough [where r = r]) auto
    then show ?thesis by (simp add: b Some)
  qed (simp add: b)
qed

lemma follow_induct:
  assumes "ranked f b" and "\<And>n. (\<And>m. f n = Some m \<Longrightarrow> P m) \<Longrightarrow> P n"
  shows "P n"
proof -
  from assms(1) obtain r :: "'a \<Rightarrow> nat" where r: "\<And>n m. f n = Some m \<Longrightarrow> r m < r n"
    by (auto simp: ranked_def)
  show ?thesis
    by (induction "r n" arbitrary: n rule: less_induct) (use assms(2) r in blast)
qed

text \<open>Iterations from a node upwards, and over the siblings on either side.\<close>

definition parent_chain :: "document \<Rightarrow> node_id option \<Rightarrow> node_id list" where
  "parent_chain d c = follow (doc_bound d) (doc_parent d) c"

definition prev_chain :: "document \<Rightarrow> node_id option \<Rightarrow> node_id list" where
  "prev_chain d c = follow (doc_bound d) (doc_prev_sibling d) c"

definition next_chain :: "document \<Rightarrow> node_id option \<Rightarrow> node_id list" where
  "next_chain d c = follow (doc_bound d) (doc_next_sibling d) c"

section \<open>Well-formed documents\<close>

text \<open>
  What the sources rely on of a parsed document: following parents or siblings ends, a node is a
  child of its parent, exactly once, only the document node and elements have children, the root is
  a document node without parent, and the descendants of a node are the nodes below it.
\<close>

definition is_container :: "node_kind \<Rightarrow> bool" where
  "is_container k = (case k of Document \<Rightarrow> True | Element _ \<Rightarrow> True | _ \<Rightarrow> False)"

definition wf_doc :: "document \<Rightarrow> bool" where
  "wf_doc d \<longleftrightarrow>
     ranked (doc_parent d) (doc_bound d) \<and>
     ranked (doc_prev_sibling d) (doc_bound d) \<and>
     ranked (doc_next_sibling d) (doc_bound d) \<and>
     doc_parent d (doc_root d) = None \<and>
     doc_kind d (doc_root d) = Some Document \<and>
     (\<forall>p c. c \<in> set (doc_children d p) \<longleftrightarrow> doc_parent d c = Some p) \<and>
     (\<forall>p. distinct (doc_children d p)) \<and>
     (\<forall>p. doc_children d p \<noteq> [] \<longrightarrow> (\<exists>k. doc_kind d p = Some k \<and> is_container k)) \<and>
     (\<forall>n m. m \<noteq> n \<longrightarrow> m \<in> set (doc_descendants d n) \<longleftrightarrow> n \<in> set (parent_chain d (Some m)))"

lemma wf_docD:
  assumes "wf_doc d"
  shows "ranked (doc_parent d) (doc_bound d)"
    and "ranked (doc_prev_sibling d) (doc_bound d)"
    and "ranked (doc_next_sibling d) (doc_bound d)"
    and "doc_parent d (doc_root d) = None"
    and "doc_kind d (doc_root d) = Some Document"
    and "c \<in> set (doc_children d p) \<longleftrightarrow> doc_parent d c = Some p"
    and "distinct (doc_children d p)"
    and "m \<noteq> n \<Longrightarrow> m \<in> set (doc_descendants d n) \<longleftrightarrow> n \<in> set (parent_chain d (Some m))"
    and "doc_children d p \<noteq> [] \<Longrightarrow> \<exists>k. doc_kind d p = Some k \<and> is_container k"
  using assms unfolding wf_doc_def by blast+

lemma parent_chain_None [simp]: "parent_chain d None = []"
  by (simp add: parent_chain_def)

lemma parent_chain_unfold:
  "wf_doc d \<Longrightarrow> parent_chain d (Some n) = n # parent_chain d (doc_parent d n)"
  unfolding parent_chain_def by (rule follow_unfold) (rule wf_docD(1))

lemma prev_chain_unfold:
  "wf_doc d \<Longrightarrow> prev_chain d (Some n) = n # prev_chain d (doc_prev_sibling d n)"
  unfolding prev_chain_def by (rule follow_unfold) (rule wf_docD(2))

lemma next_chain_unfold:
  "wf_doc d \<Longrightarrow> next_chain d (Some n) = n # next_chain d (doc_next_sibling d n)"
  unfolding next_chain_def by (rule follow_unfold) (rule wf_docD(3))

lemma parent_induct:
  assumes "wf_doc d" and "\<And>n. (\<And>p. doc_parent d n = Some p \<Longrightarrow> P p) \<Longrightarrow> P n"
  shows "P n"
  using wf_docD(1) [OF assms(1)] assms(2) by (rule follow_induct)

text \<open>Ancestor-or-self as a relation, and its description by the loop.\<close>

inductive anc_self :: "document \<Rightarrow> node_id \<Rightarrow> node_id \<Rightarrow> bool" for d where
  anc_refl: "anc_self d n n"
| anc_step: "anc_self d a p \<Longrightarrow> doc_parent d n = Some p \<Longrightarrow> anc_self d a n"

inductive_cases anc_selfE: "anc_self d a n"

lemma anc_self_unfold:
  "anc_self d a n \<longleftrightarrow> a = n \<or> (\<exists>p. doc_parent d n = Some p \<and> anc_self d a p)"
  by (auto intro: anc_self.intros elim: anc_selfE)

lemma set_parent_chain: "wf_doc d \<Longrightarrow> a \<in> set (parent_chain d (Some n)) \<longleftrightarrow> anc_self d a n"
proof -
  assume wf: "wf_doc d"
  show ?thesis
  proof (induction n rule: parent_induct [OF wf])
    case (1 n)
    then show ?case
      by (subst anc_self_unfold, subst parent_chain_unfold [OF wf])
        (cases "doc_parent d n"; auto)
  qed
qed

lemma anc_self_trans: "anc_self d b c \<Longrightarrow> anc_self d a b \<Longrightarrow> anc_self d a c"
  by (induction rule: anc_self.induct) (auto intro: anc_self.intros)

lemma anc_self_child:
  "wf_doc d \<Longrightarrow> c \<in> set (doc_children d p) \<Longrightarrow> anc_self d a p \<Longrightarrow> anc_self d a c"
  by (auto simp: wf_docD(6) intro: anc_self.intros)

text \<open>The subtree of a node seen from above.\<close>

lemma anc_self_down:
  "wf_doc d \<Longrightarrow> anc_self d a n \<longleftrightarrow> n = a \<or> (\<exists>c \<in> set (doc_children d a). anc_self d c n)"
proof
  assume wf: "wf_doc d"
  show "anc_self d a n \<Longrightarrow> n = a \<or> (\<exists>c \<in> set (doc_children d a). anc_self d c n)"
  proof (induction rule: anc_self.induct)
    case (anc_step a p n)
    then show ?case using wf by (metis anc_self.intros wf_docD(6))
  qed simp
next
  assume wf: "wf_doc d" and "n = a \<or> (\<exists>c \<in> set (doc_children d a). anc_self d c n)"
  then show "anc_self d a n"
    using anc_self_child [OF wf] by (meson anc_refl anc_self_trans)
qed

text \<open>Two ancestors of one node lie on one path.\<close>

lemma anc_self_linear: "anc_self d a n \<Longrightarrow> anc_self d b n \<Longrightarrow> anc_self d a b \<or> anc_self d b a"
proof (induction arbitrary: b rule: anc_self.induct)
  case (anc_step a p n)
  from anc_step.prems have "b = n \<or> anc_self d b p"
    using anc_step.hyps(2) by (subst (asm) anc_self_unfold) auto
  then show ?case using anc_step.IH anc_step.hyps by (auto intro: anc_self.intros)
qed simp

lemma anc_self_antisym: "wf_doc d \<Longrightarrow> anc_self d a b \<Longrightarrow> anc_self d b a \<Longrightarrow> a = b"
proof -
  assume "wf_doc d" and ab: "anc_self d a b" "anc_self d b a"
  then obtain r :: "node_id \<Rightarrow> nat" where
    r: "\<And>n m. doc_parent d n = Some m \<Longrightarrow> r m < r n" by (auto simp: wf_doc_def ranked_def)
  have le: "anc_self d x y \<Longrightarrow> r x \<le> r y \<and> (x \<noteq> y \<longrightarrow> r x < r y)" for x y
    by (induction rule: anc_self.induct) (auto dest!: r)
  show ?thesis using le [OF ab(1)] le [OF ab(2)] by auto
qed

lemma no_self_child: "wf_doc d \<Longrightarrow> n \<notin> set (doc_children d n)"
proof
  assume wf: "wf_doc d" and "n \<in> set (doc_children d n)"
  then have "doc_parent d n = Some n" by (simp add: wf_docD(6))
  with wf_docD(1) [OF wf] show False by (auto simp: ranked_def)
qed

text \<open>The subtrees of two children of a node are disjoint.\<close>

lemma siblings_disjoint:
  assumes wf: "wf_doc d" and x: "x \<in> set (doc_children d n)" and c: "c \<in> set (doc_children d n)"
    and "anc_self d x y" "anc_self d c y"
  shows "x = c"
proof (rule ccontr)
  assume ne: "x \<noteq> c"
  have up: "a = b \<or> anc_self d a n" if "b \<in> set (doc_children d n)" "anc_self d a b" for a b
    using that(2) anc_self_unfold [of d a b] that(1) wf_docD(6) [OF wf, of b n] by simp
  have no: "\<not> anc_self d a n" if a: "a \<in> set (doc_children d n)" for a
  proof
    assume "anc_self d a n"
    moreover have "anc_self d n a" using a anc_self_child [OF wf] anc_refl by blast
    ultimately have "a = n" by (rule anc_self_antisym [OF wf])
    with a no_self_child [OF wf] show False by blast
  qed
  from assms(4,5) have "anc_self d x c \<or> anc_self d c x" by (rule anc_self_linear)
  with up [OF c] up [OF x] no [OF x] no [OF c] ne show False by blast
qed

lemma descendants_iff:
  "wf_doc d \<Longrightarrow> m \<in> insert n (set (doc_descendants d n)) \<longleftrightarrow> anc_self d n m"
  using wf_docD(8) [of d m n] by (cases "m = n") (auto simp: set_parent_chain intro: anc_refl)

text \<open>A recursion into the children is bounded: each level has a budget that suffices.\<close>

definition depth_budget :: "document \<Rightarrow> (node_id \<Rightarrow> nat) \<Rightarrow> bool" where
  "depth_budget d h \<longleftrightarrow>
     (\<forall>p c. c \<in> set (doc_children d p) \<longrightarrow> h c < h p) \<and> (\<forall>n. 0 < h n \<and> h n \<le> doc_bound d)"

lemma wf_doc_budget:
  assumes "wf_doc d"
  obtains h where "depth_budget d h"
proof -
  from wf_docD(1) [OF assms] obtain r where
    r: "\<And>n m. doc_parent d n = Some m \<Longrightarrow> r m < r n" "\<And>n. r n < doc_bound d"
    by (auto simp: ranked_def)
  have "depth_budget d (\<lambda>n. doc_bound d - r n)"
    unfolding depth_budget_def using r wf_docD(6) [OF assms]
    by (metis diff_less_mono2 diff_le_self zero_less_diff)
  then show thesis by (rule that)
qed

section \<open>\<open>xpath.rs\<close>\<close>

definition parse_same_document_ref :: "string \<Rightarrow> string option" where
  "parse_same_document_ref uri = strip_prefix ''#'' uri"

definition resolve_id :: "document \<Rightarrow> id_map \<Rightarrow> string \<Rightarrow> node_id result" where
  "resolve_id d id_map ident = ok_or (Error_InvalidUri (''ID not found: '' @ ident)) (id_map ident)"

definition parse_xpointer_id :: "string \<Rightarrow> string option" where
  "parse_xpointer_id expr =
     (case strip_prefix (''xpointer(id('' @ [CHR 0x27]) expr of
        Some inner \<Rightarrow> strip_suffix ([CHR 0x27] @ ''))'') inner
      | None \<Rightarrow>
         (case strip_prefix (''xpointer(id('' @ [CHR 0x22]) expr of
            Some inner \<Rightarrow> strip_suffix ([CHR 0x22] @ ''))'') inner
          | None \<Rightarrow> None))"

definition is_ancestor_or_self :: "document \<Rightarrow> node_id \<Rightarrow> node_id \<Rightarrow> bool" where
  "is_ancestor_or_self d ancestor_id node_id =
     list_ex (\<lambda>n. n = ancestor_id) (parent_chain d (Some node_id))"

definition is_sibling :: "document \<Rightarrow> node_id \<Rightarrow> node_id \<Rightarrow> bool" where
  "is_sibling d a b =
     (case (doc_parent d a, doc_parent d b) of (Some pa, Some pb) \<Rightarrow> pa = pb | _ \<Rightarrow> False)"

definition ancestor_or_self :: "document \<Rightarrow> node_id \<Rightarrow> node_id list" where
  "ancestor_or_self d node_id = node_id # parent_chain d (doc_parent d node_id)"

lemma is_ancestor_or_self_iff:
  "wf_doc d \<Longrightarrow> is_ancestor_or_self d a n \<longleftrightarrow> anc_self d a n"
  by (auto simp: is_ancestor_or_self_def list_ex_iff set_parent_chain)

lemma ancestor_or_self_eq: "wf_doc d \<Longrightarrow> ancestor_or_self d n = parent_chain d (Some n)"
  by (simp add: ancestor_or_self_def parent_chain_unfold)

lemma is_sibling_iff:
  "wf_doc d \<Longrightarrow> is_sibling d a b \<longleftrightarrow>
     (\<exists>p. a \<in> set (doc_children d p) \<and> b \<in> set (doc_children d p))"
  by (auto simp: is_sibling_def wf_docD(6) split: option.splits)

section \<open>\<open>document.rs\<close>\<close>

record xml_document =
  xd_text :: string
  xd_extra_id_attrs :: "string list"

text \<open>\<open>parse\<close> stands for \<open>uppsala::parse\<close>, which returns its error message on failure.\<close>

definition XmlDocument_parse :: "(string \<Rightarrow> string + document) \<Rightarrow> string \<Rightarrow> xml_document result" where
  "XmlDocument_parse parse text =
     and_then (map_err Error_XmlParse (parse text))
       (\<lambda>_. Inr \<lparr>xd_text = text, xd_extra_id_attrs = []\<rparr>)"

text \<open>The message of a UTF-8 error is the standard library's, the argument \<open>utf8_msg\<close>.\<close>

definition XmlDocument_parse_bytes ::
  "(string \<Rightarrow> string + document) \<Rightarrow> (bytes \<Rightarrow> string) \<Rightarrow> bytes \<Rightarrow> xml_document result" where
  "XmlDocument_parse_bytes parse utf8_msg data =
     (if valid_utf8 data then XmlDocument_parse parse data
      else Inl (Error_XmlParse (''invalid UTF-8: '' @ utf8_msg data)))"

definition XmlDocument_add_id_attr :: "xml_document \<Rightarrow> string \<Rightarrow> xml_document" where
  "XmlDocument_add_id_attr x name = x\<lparr>xd_extra_id_attrs := xd_extra_id_attrs x @ [name]\<rparr>"

definition XmlDocument_parse_doc ::
  "(string \<Rightarrow> string + document) \<Rightarrow> xml_document \<Rightarrow> document result" where
  "XmlDocument_parse_doc parse x = map_err Error_XmlParse (parse (xd_text x))"

definition insert_id_attrs :: "document \<Rightarrow> node_id \<Rightarrow> element \<Rightarrow> string list \<Rightarrow> id_map \<Rightarrow> id_map" where
  "insert_id_attrs d nid elem names m =
     fold (\<lambda>name m. case doc_get_attribute d elem name of
                      Some val \<Rightarrow> m(val \<mapsto> nid) | None \<Rightarrow> m) names m"

definition XmlDocument_build_id_map :: "xml_document \<Rightarrow> document \<Rightarrow> id_map" where
  "XmlDocument_build_id_map x d =
     fold (\<lambda>nid m. case doc_element d nid of
             None \<Rightarrow> m
           | Some elem \<Rightarrow>
               insert_id_attrs d nid elem (xd_extra_id_attrs x)
                 (insert_id_attrs d nid elem [''Id'', ''ID'', ''id''] m))
       (doc_descendants d (doc_root d)) Map.empty"

definition XmlDocument_find_by_id :: "document \<Rightarrow> id_map \<Rightarrow> string \<Rightarrow> node_id option" where
  "XmlDocument_find_by_id d id_map ident = id_map ident"

section \<open>Concrete documents\<close>

text \<open>
  The accessors can be met by an actual document: an arena of nodes in document order, each with
  its kind and the index of its parent. \<open>arena_wf\<close> shows that every such arena is a well-formed
  document, so the hypothesis \<open>wf_doc\<close> of the theorems is satisfiable, by a document of any shape.
\<close>

type_synonym arena = "(node_kind \<times> node_id option) list"

definition arena_parent :: "arena \<Rightarrow> node_id \<Rightarrow> node_id option" where
  "arena_parent ns i = (if i < length ns then snd (ns ! i) else None)"

definition arena_children :: "arena \<Rightarrow> node_id \<Rightarrow> node_id list" where
  "arena_children ns p = filter (\<lambda>i. arena_parent ns i = Some p) [0..<length ns]"

definition arena_siblings :: "arena \<Rightarrow> node_id \<Rightarrow> node_id list" where
  "arena_siblings ns i =
     (case arena_parent ns i of None \<Rightarrow> [] | Some p \<Rightarrow> arena_children ns p)"

definition last_opt :: "'a list \<Rightarrow> 'a option" where
  "last_opt xs = (if xs = [] then None else Some (last xs))"

definition head_opt :: "'a list \<Rightarrow> 'a option" where
  "head_opt xs = (case xs of [] \<Rightarrow> None | x # _ \<Rightarrow> Some x)"

definition qname_str :: "qname \<Rightarrow> string" where
  "qname_str q = (case qn_prefix q of None \<Rightarrow> qn_local_name q
                  | Some p \<Rightarrow> p @ '':'' @ qn_local_name q)"

definition arena_kind :: "arena \<Rightarrow> node_id \<Rightarrow> node_kind option" where
  "arena_kind ns i = (if i < length ns then Some (fst (ns ! i)) else None)"

definition arena_descendants :: "arena \<Rightarrow> node_id \<Rightarrow> node_id list" where
  "arena_descendants ns n =
     filter (\<lambda>m. m \<noteq> n \<and> n \<in> set (follow (Suc (length ns)) (arena_parent ns) (Some m)))
       [0..<length ns]"

definition arena_doc :: "arena \<Rightarrow> document" where
  "arena_doc ns =
     \<lparr>doc_root = 0,
      doc_kind = arena_kind ns,
      doc_children = arena_children ns,
      doc_parent = arena_parent ns,
      doc_prev_sibling = (\<lambda>i. last_opt (filter (\<lambda>j. j < i) (arena_siblings ns i))),
      doc_next_sibling = (\<lambda>i. head_opt (filter (\<lambda>j. i < j) (arena_siblings ns i))),
      doc_descendants = arena_descendants ns,
      doc_document_element =
        find (\<lambda>i. case arena_kind ns i of Some (Element _) \<Rightarrow> True | _ \<Rightarrow> False)
          (arena_children ns 0),
      doc_get_attribute =
        (\<lambda>e name. map_option at_value (find (\<lambda>a. qname_str (at_name a) = name) (el_attributes e))),
      doc_text_deep =
        (\<lambda>n. concat (map (\<lambda>m. case arena_kind ns m of
                                  Some (Text t) \<Rightarrow> t | Some (CData t) \<Rightarrow> t | _ \<Rightarrow> [])
                (arena_descendants ns n))),
      doc_bound = Suc (length ns)\<rparr>"

lemma arena_doc_sel [simp]:
  "doc_root (arena_doc ns) = 0"
  "doc_kind (arena_doc ns) = arena_kind ns"
  "doc_children (arena_doc ns) = arena_children ns"
  "doc_parent (arena_doc ns) = arena_parent ns"
  "doc_descendants (arena_doc ns) = arena_descendants ns"
  "doc_bound (arena_doc ns) = Suc (length ns)"
  by (simp_all add: arena_doc_def)

text \<open>The root comes first and is the only node without a parent; parents precede children.\<close>

definition arena_ok :: "arena \<Rightarrow> bool" where
  "arena_ok ns \<longleftrightarrow>
     ns \<noteq> [] \<and> hd ns = (Document, None) \<and>
     list_all (\<lambda>i. case snd (ns ! i) of None \<Rightarrow> False
        | Some p \<Rightarrow> p < i \<and> is_container (fst (ns ! p))) [1..<length ns]"

lemma arena_ok_parent:
  assumes "arena_ok ns" "arena_parent ns i = Some p"
  shows "p < i \<and> i < length ns \<and> is_container (fst (ns ! p))"
proof -
  from assms(2) have i: "i < length ns" "snd (ns ! i) = Some p"
    by (auto simp: arena_parent_def split: if_splits)
  from assms(1) have "snd (ns ! 0) = None" by (cases ns) (simp_all add: arena_ok_def)
  with i have "i \<in> set [1..<length ns]" by (cases i) auto
  with assms(1) have "case snd (ns ! i) of None \<Rightarrow> False
        | Some p \<Rightarrow> p < i \<and> is_container (fst (ns ! p))"
    unfolding arena_ok_def list_all_iff by blast
  with i show ?thesis by simp
qed

lemma ranked_by:
  "(\<And>n m. f n = Some m \<Longrightarrow> r m < r n) \<Longrightarrow> (\<And>n. r n < b) \<Longrightarrow> ranked f b"
  by (auto simp: ranked_def)

lemma arena_siblings_bound: "j \<in> set (arena_siblings ns i) \<Longrightarrow> j < length ns"
  by (auto simp: arena_siblings_def arena_children_def split: option.splits)

lemma last_opt_SomeD: "last_opt xs = Some x \<Longrightarrow> x \<in> set xs"
  by (auto simp: last_opt_def split: if_splits)

lemma head_opt_SomeD: "head_opt xs = Some x \<Longrightarrow> x \<in> set xs"
  by (auto simp: head_opt_def split: list.splits)

theorem arena_wf: "arena_ok ns \<Longrightarrow> wf_doc (arena_doc ns)"
proof -
  assume ok: "arena_ok ns"
  let ?d = "arena_doc ns" and ?L = "length ns"
  have par: "ranked (arena_parent ns) (Suc ?L)"
    by (rule ranked_by [where r = "\<lambda>n. min n ?L"])
      (auto dest!: arena_ok_parent [OF ok])
  have prv: "ranked (doc_prev_sibling ?d) (Suc ?L)"
    by (rule ranked_by [where r = "\<lambda>n. min n ?L"])
      (auto simp: arena_doc_def dest!: last_opt_SomeD arena_siblings_bound)
  have nxt: "ranked (doc_next_sibling ?d) (Suc ?L)"
    by (rule ranked_by [where r = "\<lambda>n. ?L - n"])
      (force simp: arena_doc_def dest!: head_opt_SomeD dest: arena_siblings_bound)+
  from ok have rt: "arena_parent ns 0 = None" "arena_kind ns 0 = Some Document"
    by (cases ns; simp add: arena_ok_def arena_parent_def arena_kind_def)+
  have ch: "c \<in> set (arena_children ns p) \<longleftrightarrow> arena_parent ns c = Some p" for p c
    using arena_ok_parent [OF ok] by (auto simp: arena_children_def)
  have con: "\<exists>k. arena_kind ns p = Some k \<and> is_container k" if "arena_children ns p \<noteq> []" for p
  proof -
    from that obtain c where "c \<in> set (arena_children ns p)" by (meson list.set_sel(1))
    with ch have "arena_parent ns c = Some p" by simp
    from arena_ok_parent [OF ok this] show ?thesis by (simp add: arena_kind_def)
  qed
  have dsc: "m \<in> set (arena_descendants ns n) \<longleftrightarrow> n \<in> set (parent_chain ?d (Some m))"
    if "m \<noteq> n" for n m
  proof -
    have "m < ?L" if "n \<in> set (follow (Suc ?L) (arena_parent ns) (Some m))"
      using that \<open>m \<noteq> n\<close> by (cases "m < ?L") (auto simp: arena_parent_def)
    then show ?thesis
      using \<open>m \<noteq> n\<close> unfolding arena_descendants_def parent_chain_def by auto
  qed
  show ?thesis
    unfolding wf_doc_def using par prv nxt rt ch con dsc by (simp add: arena_children_def)
qed

end
