(* ===== verification/Node_Set.thy ===== *)
theory Node_Set
  imports Dom
begin

text \<open>
  Node sets (\<open>bergshamra-xml/src/nodeset.rs\<close>): the nodes selected by a reference, with an optional
  map that says which namespace nodes are visible. \<open>HashSet\<close> is a set, \<open>HashMap\<close> a partial map.
\<close>

section \<open>The data\<close>

datatype node_set_type = Normal | Invert | Tree | TreeWithoutComments | TreeInvert

datatype node_set_op = Intersection | Subtraction | Union

type_synonym ns_visibility = "(node_id \<times> string) \<Rightarrow> bool option"

record node_set =
  nodes :: "node_id set"
  set_type :: node_set_type
  ns_visible :: "ns_visibility option"
  exclude_attrs :: bool

definition NodeSet_new :: node_set where
  "NodeSet_new = \<lparr>nodes = {}, set_type = Normal, ns_visible = None, exclude_attrs = False\<rparr>"

definition from_ids :: "node_id set \<Rightarrow> node_set_type \<Rightarrow> node_set" where
  "from_ids ids ty = \<lparr>nodes = ids, set_type = ty, ns_visible = None, exclude_attrs = False\<rparr>"

definition NodeSet_all :: "document \<Rightarrow> node_set" where
  "NodeSet_all d =
     \<lparr>nodes = insert (doc_root d) (set (doc_descendants d (doc_root d))),
      set_type = Normal, ns_visible = None, exclude_attrs = False\<rparr>"

definition all_without_comments :: "document \<Rightarrow> node_set" where
  "all_without_comments d =
     \<lparr>nodes = insert (doc_root d)
        (set (filter (\<lambda>n. \<not> is_comment d n) (doc_descendants d (doc_root d)))),
      set_type = Normal, ns_visible = None, exclude_attrs = False\<rparr>"

text \<open>
  \<open>collect_subtree\<close> adds a node and recurses into its children; the first argument bounds the
  depth of the recursion.
\<close>

fun collect_subtree_upto :: "nat \<Rightarrow> document \<Rightarrow> bool \<Rightarrow> node_id \<Rightarrow> node_id set \<Rightarrow> node_id set" where
  "collect_subtree_upto 0 d incl n s = s"
| "collect_subtree_upto (Suc k) d incl n s =
     (if \<not> incl \<and> is_comment d n then s
      else fold (collect_subtree_upto k d incl) (doc_children d n) (insert n s))"

definition collect_subtree :: "document \<Rightarrow> bool \<Rightarrow> node_id \<Rightarrow> node_id set \<Rightarrow> node_id set" where
  "collect_subtree d incl n s = collect_subtree_upto (doc_bound d) d incl n s"

definition tree_without_comments :: "node_id \<Rightarrow> document \<Rightarrow> node_set" where
  "tree_without_comments root_id d =
     \<lparr>nodes = collect_subtree d False root_id {}, set_type = Normal,
      ns_visible = None, exclude_attrs = False\<rparr>"

definition tree_with_comments :: "node_id \<Rightarrow> document \<Rightarrow> node_set" where
  "tree_with_comments root_id d =
     \<lparr>nodes = collect_subtree d True root_id {}, set_type = Normal,
      ns_visible = None, exclude_attrs = False\<rparr>"

definition contains_id :: "node_set \<Rightarrow> node_id \<Rightarrow> bool" where
  "contains_id ns n =
     (case set_type ns of
        Normal \<Rightarrow> n \<in> nodes ns
      | Invert \<Rightarrow> n \<notin> nodes ns
      | Tree \<Rightarrow> n \<in> nodes ns
      | TreeWithoutComments \<Rightarrow> n \<in> nodes ns
      | TreeInvert \<Rightarrow> n \<in> nodes ns)"

definition insert_id :: "node_set \<Rightarrow> node_id \<Rightarrow> node_set" where
  "insert_id ns n = ns\<lparr>nodes := insert n (nodes ns)\<rparr>"

definition remove_id :: "node_set \<Rightarrow> node_id \<Rightarrow> node_set" where
  "remove_id ns n = ns\<lparr>nodes := nodes ns - {n}\<rparr>"

section \<open>Visibility of namespace nodes\<close>

definition set_ns_visible :: "node_set \<Rightarrow> ns_visibility \<Rightarrow> node_set" where
  "set_ns_visible ns m = ns\<lparr>ns_visible := Some m\<rparr>"

definition is_ns_visible :: "node_set \<Rightarrow> node_id \<Rightarrow> string \<Rightarrow> bool" where
  "is_ns_visible ns element_id pre =
     (case ns_visible ns of None \<Rightarrow> True | Some m \<Rightarrow> unwrap_or False (m (element_id, pre)))"

definition has_ns_visible :: "node_set \<Rightarrow> bool" where
  "has_ns_visible ns = (ns_visible ns \<noteq> None)"

definition set_exclude_attrs :: "node_set \<Rightarrow> bool \<Rightarrow> node_set" where
  "set_exclude_attrs ns v = ns\<lparr>exclude_attrs := v\<rparr>"

definition merge_ns_visible_intersection ::
  "ns_visibility option \<Rightarrow> ns_visibility option \<Rightarrow> ns_visibility option" where
  "merge_ns_visible_intersection a b =
     (case (a, b) of
        (None, None) \<Rightarrow> None
      | (Some m, None) \<Rightarrow> Some m
      | (None, Some m) \<Rightarrow> Some m
      | (Some ma, Some mb) \<Rightarrow>
          Some (\<lambda>k. if ma k = Some True \<and> unwrap_or False (mb k) then Some True else None))"

definition merge_ns_visible_union ::
  "ns_visibility option \<Rightarrow> ns_visibility option \<Rightarrow> ns_visibility option" where
  "merge_ns_visible_union a b =
     (case (a, b) of
        (None, _) \<Rightarrow> None
      | (_, None) \<Rightarrow> None
      | (Some ma, Some mb) \<Rightarrow> Some (\<lambda>k. if mb k = Some True then Some True else ma k))"

definition merge_ns_visible_subtract ::
  "ns_visibility option \<Rightarrow> ns_visibility option \<Rightarrow> ns_visibility option" where
  "merge_ns_visible_subtract a b =
     (case (a, b) of
        (None, None) \<Rightarrow> None
      | (Some m, None) \<Rightarrow> Some m
      | (None, Some mb) \<Rightarrow> Some (\<lambda>k. if mb k = Some True then Some False else None)
      | (Some ma, Some mb) \<Rightarrow> Some (\<lambda>k. if mb k = Some True then Some False else ma k))"

section \<open>Set operations\<close>

definition ns_intersection :: "node_set \<Rightarrow> node_set \<Rightarrow> node_set" where
  "ns_intersection a b =
     \<lparr>nodes = nodes a \<inter> nodes b, set_type = Normal,
      ns_visible = merge_ns_visible_intersection (ns_visible a) (ns_visible b),
      exclude_attrs = (exclude_attrs a \<or> exclude_attrs b)\<rparr>"

definition ns_union :: "node_set \<Rightarrow> node_set \<Rightarrow> node_set" where
  "ns_union a b =
     \<lparr>nodes = nodes a \<union> nodes b, set_type = Normal,
      ns_visible = merge_ns_visible_union (ns_visible a) (ns_visible b),
      exclude_attrs = (exclude_attrs a \<and> exclude_attrs b)\<rparr>"

definition ns_subtract :: "node_set \<Rightarrow> node_set \<Rightarrow> node_set" where
  "ns_subtract a b =
     \<lparr>nodes = nodes a - nodes b, set_type = Normal,
      ns_visible = merge_ns_visible_subtract (ns_visible a) (ns_visible b),
      exclude_attrs = exclude_attrs a\<rparr>"

definition NodeSet_is_empty :: "node_set \<Rightarrow> bool" where
  "NodeSet_is_empty ns = (nodes ns = {})"

definition NodeSet_len :: "node_set \<Rightarrow> nat" where
  "NodeSet_len ns = card (nodes ns)"

lemmas node_set_ctor_defs =
  NodeSet_new_def from_ids_def NodeSet_all_def all_without_comments_def
  tree_without_comments_def tree_with_comments_def

section \<open>Collecting a subtree\<close>

text \<open>What a collected subtree should be: the node and what is below it, without the comments
  when they are left out.\<close>

definition sub_nodes :: "document \<Rightarrow> bool \<Rightarrow> node_id \<Rightarrow> node_id set" where
  "sub_nodes d incl n = {m. anc_self d n m \<and> (incl \<or> \<not> is_comment d m)}"

lemma comment_no_children: "wf_doc d \<Longrightarrow> is_comment d n \<Longrightarrow> doc_children d n = []"
  using wf_docD(9) [of d n]
  by (auto simp: is_comment_def is_container_def split: option.splits node_kind.splits)

lemma sub_nodes_unfold:
  assumes "wf_doc d"
  shows "sub_nodes d incl n =
    (if \<not> incl \<and> is_comment d n then {}
     else insert n (\<Union>c \<in> set (doc_children d n). sub_nodes d incl c))"
proof -
  have "m \<in> sub_nodes d incl n \<longleftrightarrow>
      (m = n \<or> (\<exists>c \<in> set (doc_children d n). anc_self d c m)) \<and> (incl \<or> \<not> is_comment d m)" for m
    by (simp add: sub_nodes_def anc_self_down [OF assms, of n])
  then show ?thesis
    using comment_no_children [OF assms, of n] by (auto simp: sub_nodes_def)
qed

lemma fold_collect:
  assumes "\<And>c s. c \<in> set cs \<Longrightarrow> f c s = s \<union> g c"
  shows "fold f cs s = s \<union> (\<Union>c \<in> set cs. g c)"
  using assms by (induction cs arbitrary: s) auto

lemma collect_subtree_upto_eq:
  assumes "wf_doc d" "depth_budget d h"
  shows "h n \<le> k \<Longrightarrow> collect_subtree_upto k d incl n s = s \<union> sub_nodes d incl n"
proof (induction k arbitrary: n s)
  case 0
  from assms(2) have "0 < h n" by (simp add: depth_budget_def)
  with 0 show ?case by simp
next
  case (Suc k)
  have "h c \<le> k" if "c \<in> set (doc_children d n)" for c
    using that assms(2) Suc.prems by (fastforce simp: depth_budget_def)
  then have "fold (collect_subtree_upto k d incl) (doc_children d n) s =
      s \<union> (\<Union>c \<in> set (doc_children d n). sub_nodes d incl c)" for s
    by (intro fold_collect Suc.IH)
  then show ?case by (subst sub_nodes_unfold [OF assms(1)]) simp
qed

lemma collect_subtree_eq:
  assumes "wf_doc d"
  shows "collect_subtree d incl n s = s \<union> sub_nodes d incl n"
proof -
  from wf_doc_budget [OF assms] obtain h where h: "depth_budget d h" .
  then have "h n \<le> doc_bound d" by (simp add: depth_budget_def)
  with assms h show ?thesis unfolding collect_subtree_def by (intro collect_subtree_upto_eq)
qed

text \<open>Every constructor yields a set of type \<open>Normal\<close>, for which membership is literal.\<close>

lemma contains_id_Normal: "set_type ns = Normal \<Longrightarrow> contains_id ns n \<longleftrightarrow> n \<in> nodes ns"
  by (simp add: contains_id_def)

lemma contains_id_ctor [simp]:
  "contains_id NodeSet_new n \<longleftrightarrow> False"
  "contains_id (NodeSet_all d) n \<longleftrightarrow> n = doc_root d \<or> n \<in> set (doc_descendants d (doc_root d))"
  "contains_id (tree_without_comments r d) n \<longleftrightarrow> n \<in> collect_subtree d False r {}"
  "contains_id (tree_with_comments r d) n \<longleftrightarrow> n \<in> collect_subtree d True r {}"
  by (simp_all add: contains_id_def node_set_ctor_defs)

section \<open>Properties\<close>

text \<open>
  A same-document reference selects exactly its subtree: on a well-formed document the node
  sets built by \<open>tree_with_comments\<close> and \<open>tree_without_comments\<close> contain a node if and only if the
  root of the selection is the node or one of its ancestors and, for the variant without comments,
  the node is not a comment.
\<close>

theorem tree_selection:
  assumes "wf_doc d"
  shows "(contains_id (tree_with_comments r d) n \<longleftrightarrow> anc_self d r n) \<and>
    (contains_id (tree_without_comments r d) n \<longleftrightarrow> anc_self d r n \<and> \<not> is_comment d n)"
  by (simp_all add: collect_subtree_eq [OF assms] sub_nodes_def)

definition sample_arena :: arena where
  "sample_arena =
     [(Document, None),
      (Element \<lparr>el_name = \<lparr>qn_local_name = ''a'', qn_prefix = None, qn_namespace_uri = None\<rparr>,
        el_attributes = [], el_namespace_declarations = []\<rparr>, Some 0),
      (Comment ''c'', Some 1), (Text ''t'', Some 1)]"

lemma sample_arena_ok: "arena_ok sample_arena"
  by (simp add: arena_ok_def sample_arena_def is_container_def upt_conv_Cons numeral_2_eq_2)

theorem tree_selection_witness:
  "wf_doc (arena_doc sample_arena) \<and>
   contains_id (tree_with_comments 1 (arena_doc sample_arena)) 2 \<and>
   \<not> contains_id (tree_without_comments 1 (arena_doc sample_arena)) 2"
proof -
  let ?d = "arena_doc sample_arena"
  have wf: "wf_doc ?d" by (rule arena_wf [OF sample_arena_ok])
  have "doc_parent ?d 2 = Some 1" "is_comment ?d 2"
    by (simp_all add: arena_parent_def arena_kind_def is_comment_def sample_arena_def)
  then have "anc_self ?d 1 2" by (auto intro: anc_self.intros)
  with \<open>is_comment ?d 2\<close> tree_selection [OF wf, of 1 2] wf show ?thesis by simp
qed

text \<open>
  Intersection and union of node sets: membership of the result is the conjunction or
  disjunction of the memberships, and so is the visibility of every namespace node.
\<close>

theorem node_set_algebra:
  assumes "set_type a = Normal" "set_type b = Normal"
  shows "(contains_id (ns_intersection a b) n \<longleftrightarrow> contains_id a n \<and> contains_id b n) \<and>
    (contains_id (ns_union a b) n \<longleftrightarrow> contains_id a n \<or> contains_id b n) \<and>
    (contains_id (ns_subtract a b) n \<longleftrightarrow> contains_id a n \<and> \<not> contains_id b n) \<and>
    (is_ns_visible (ns_intersection a b) e p \<longleftrightarrow> is_ns_visible a e p \<and> is_ns_visible b e p) \<and>
    (is_ns_visible (ns_union a b) e p \<longleftrightarrow> is_ns_visible a e p \<or> is_ns_visible b e p)"
  using assms
  by (auto simp: contains_id_def ns_intersection_def ns_union_def ns_subtract_def is_ns_visible_def
      merge_ns_visible_intersection_def merge_ns_visible_union_def unwrap_or_def
      split: option.splits)

theorem node_set_algebra_witness:
  "contains_id (ns_intersection (from_ids {1, 2} Normal) (from_ids {2, 3} Normal)) 2 \<and>
   \<not> contains_id (ns_subtract (from_ids {1, 2} Normal) (from_ids {2, 3} Normal)) 2"
proof -
  have "set_type (from_ids {1, 2} Normal) = Normal" "set_type (from_ids {2, 3} Normal) = Normal"
    by (simp_all add: from_ids_def)
  from node_set_algebra [OF this, of 2] show ?thesis by (simp add: contains_id_def from_ids_def)
qed

text \<open>
  Subtracting a set with a namespace-visibility map from a set without one (all namespace
  nodes visible) leaves no namespace node visible at all, although only the ones visible in the
  subtrahend should be removed; when both sets carry a map the difference is as expected.
\<close>

theorem ns_subtract_visibility:
  assumes "ns_visible b = Some m"
  shows "is_ns_visible (ns_subtract a b) e p \<longleftrightarrow>
    (case ns_visible a of None \<Rightarrow> False | Some _ \<Rightarrow> is_ns_visible a e p \<and> \<not> is_ns_visible b e p)"
  using assms by (auto simp: is_ns_visible_def ns_subtract_def merge_ns_visible_subtract_def unwrap_or_def
      split: option.splits)

theorem ns_subtract_visibility_witness:
  "\<not> is_ns_visible (ns_subtract NodeSet_new (set_ns_visible NodeSet_new Map.empty)) 5 ''p'' \<and>
   is_ns_visible (ns_subtract (set_ns_visible NodeSet_new [(5, ''p'') \<mapsto> True])
     (set_ns_visible NodeSet_new Map.empty)) 5 ''p''"
proof -
  have "ns_visible NodeSet_new = None"
    "ns_visible (set_ns_visible NodeSet_new Map.empty) = Some Map.empty"
    "ns_visible (set_ns_visible NodeSet_new [(5, ''p'') \<mapsto> True]) = Some [(5, ''p'') \<mapsto> True]"
    by (simp_all add: NodeSet_new_def set_ns_visible_def)
  with ns_subtract_visibility [OF this(2), of _ 5 "''p''"]
  show ?thesis by (simp add: is_ns_visible_def set_ns_visible_def)
qed

end
