(* ===== verification/C14n_Render.thy ===== *)
theory C14n_Render
  imports Node_Set
begin

text \<open>
  Escaping and rendering shared by the canonicalizers (\<open>bergshamra-c14n/src/escape.rs\<close>,
  \<open>bergshamra-c14n/src/render.rs\<close>): character escapes, namespace declarations and attributes with
  the orders in which C14N outputs them.
\<close>

section \<open>\<open>escape.rs\<close>\<close>

definition escape_text_char :: "char \<Rightarrow> string" where
  "escape_text_char ch =
     (if ch = CHR ''&'' then ''&amp;''
      else if ch = CHR ''<'' then ''&lt;''
      else if ch = CHR ''>'' then ''&gt;''
      else if ch = CHR 0x0D then ''&#xD;''
      else [ch])"

definition escape_text :: "string \<Rightarrow> string" where
  "escape_text s = concat (map escape_text_char s)"

definition escape_attr_char :: "char \<Rightarrow> string" where
  "escape_attr_char ch =
     (if ch = CHR ''&'' then ''&amp;''
      else if ch = CHR ''<'' then ''&lt;''
      else if ch = CHR 0x22 then ''&quot;''
      else if ch = CHR 0x09 then ''&#x9;''
      else if ch = CHR 0x0A then ''&#xA;''
      else if ch = CHR 0x0D then ''&#xD;''
      else [ch])"

definition escape_attr :: "string \<Rightarrow> string" where
  "escape_attr s = concat (map escape_attr_char s)"

definition escape_pi :: "string \<Rightarrow> string" where
  "escape_pi s = concat (map (\<lambda>c. if c = CHR 0x0D then ''&#xD;'' else [c]) s)"

text \<open>
  How an XML processor reads character data and attribute values (XML 1.0, sections 2.4, 2.11, 3.3.3, 4.1
  and 4.6), in UTF-8 octets and independently of what the canonicalizers write: the predefined
  entities and character references are replaced; \<open><\<close> and \<open>]]>\<close> do not belong to character data, \<open><\<close>
  and the quote do not belong to a value in double quotes; literal line ends become a line feed in
  character data, and literal white space becomes a space in attribute values.
\<close>

definition predefined_entities :: "(string \<times> char) list" where
  "predefined_entities =
     [(''amp'', CHR ''&''), (''lt'', CHR ''<''), (''gt'', CHR ''>''), (''apos'', CHR 0x27), (''quot'', CHR 0x22)]"

definition digit_values :: "(char \<times> nat) list" where
  "digit_values = zip ''0123456789abcdef'' [0..<16] @ zip ''ABCDEF'' [10..<16]"

fun numeral_value :: "nat \<Rightarrow> nat \<Rightarrow> string \<Rightarrow> nat option" where
  "numeral_value base v [] = Some v"
| "numeral_value base v (c # s) =
     (case map_of digit_values c of
        Some k \<Rightarrow> if k < base then numeral_value base (base * v + k) s else None
      | None \<Rightarrow> None)"

definition xml_char :: "nat \<Rightarrow> bool" where
  "xml_char v \<longleftrightarrow> v \<in> {9, 10, 13} \<or> 32 \<le> v \<and> v < 0xD800 \<or> 0xE000 \<le> v \<and> v < 0xFFFE \<or> 0x10000 \<le> v \<and> v < 0x110000"

definition utf8_char :: "nat \<Rightarrow> string" where
  "utf8_char v =
     (if v < 0x80 then [char_of v]
      else if v < 0x800 then [char_of (0xC0 + v div 64), char_of (0x80 + v mod 64)]
      else if v < 0x10000 then
        [char_of (0xE0 + v div 4096), char_of (0x80 + v div 64 mod 64), char_of (0x80 + v mod 64)]
      else
        [char_of (0xF0 + v div 262144), char_of (0x80 + v div 4096 mod 64), char_of (0x80 + v div 64 mod 64),
         char_of (0x80 + v mod 64)])"

definition character_reference :: "nat \<Rightarrow> string \<Rightarrow> string option" where
  "character_reference base ds =
     (if ds = [] then None
      else case numeral_value base 0 ds of
        Some v \<Rightarrow> if xml_char v then Some (utf8_char v) else None
      | None \<Rightarrow> None)"

definition reference_value :: "string \<Rightarrow> string option" where
  "reference_value name =
     (case map_of predefined_entities name of
        Some c \<Rightarrow> Some [c]
      | None \<Rightarrow>
          if take 2 name = ''#x'' then character_reference 16 (drop 2 name)
          else if take 1 name = ''#'' then character_reference 10 (drop 1 name)
          else None)"

text \<open>The reference that starts after an ampersand: its value, and what follows the semicolon.\<close>

definition read_reference :: "string \<Rightarrow> (string \<times> string) option" where
  "read_reference s =
     (case dropWhile (\<lambda>c. c \<noteq> CHR '';'') s of
        [] \<Rightarrow> None
      | _ # rest \<Rightarrow> map_option (\<lambda>v. (v, rest)) (reference_value (takeWhile (\<lambda>c. c \<noteq> CHR '';'') s)))"

lemma read_reference_shorter: "read_reference s = Some (v, rest) \<Longrightarrow> length rest < length s"
proof -
  assume "read_reference s = Some (v, rest)"
  then obtain c where "dropWhile (\<lambda>c. c \<noteq> CHR '';'') s = c # rest"
    by (auto simp: read_reference_def split: list.splits)
  then show ?thesis by (metis length_dropWhile_le Suc_le_eq length_Cons)
qed

function xml_read_text :: "string \<Rightarrow> string option" where
  "xml_read_text [] = Some []"
| "xml_read_text (c # s) =
     (if c = CHR ''&'' then
        (case read_reference s of
           None \<Rightarrow> None
         | Some (v, rest) \<Rightarrow> map_option (\<lambda>r. v @ r) (xml_read_text rest))
      else if c = CHR ''<'' \<or> take 3 (c # s) = '']]>'' then None
      else if c = CHR 0x0D then
        map_option (\<lambda>r. CHR 0x0A # r) (xml_read_text (if take 1 s = [CHR 0x0A] then tl s else s))
      else map_option (\<lambda>r. c # r) (xml_read_text s))"
  by pat_completeness auto
termination
  by (relation "measure length") (auto dest: read_reference_shorter)

function xml_read_value :: "string \<Rightarrow> string option" where
  "xml_read_value [] = Some []"
| "xml_read_value (c # s) =
     (if c = CHR ''&'' then
        (case read_reference s of
           None \<Rightarrow> None
         | Some (v, rest) \<Rightarrow> map_option (\<lambda>r. v @ r) (xml_read_value rest))
      else if c \<in> {CHR ''<'', CHR 0x22} then None
      else if c = CHR 0x0D then
        map_option (\<lambda>r. CHR '' '' # r) (xml_read_value (if take 1 s = [CHR 0x0A] then tl s else s))
      else if c \<in> {CHR 0x09, CHR 0x0A} then map_option (\<lambda>r. CHR '' '' # r) (xml_read_value s)
      else map_option (\<lambda>r. c # r) (xml_read_value s))"
  by pat_completeness auto
termination
  by (relation "measure length") (auto dest: read_reference_shorter)

lemma escape_text_Cons [simp]: "escape_text (c # s) = escape_text_char c @ escape_text s"
  by (simp add: escape_text_def)

lemma escape_attr_Cons [simp]: "escape_attr (c # s) = escape_attr_char c @ escape_attr s"
  by (simp add: escape_attr_def)

lemma escape_Nil [simp]: "escape_text [] = []" "escape_attr [] = []"
  by (simp_all add: escape_text_def escape_attr_def)

lemma reference_values:
  "reference_value ''amp'' = Some ''&''" "reference_value ''lt'' = Some ''<''" "reference_value ''gt'' = Some ''>''"
  "reference_value ''quot'' = Some [CHR 0x22]" "reference_value ''#x9'' = Some [CHR 0x09]"
  "reference_value ''#xA'' = Some [CHR 0x0A]" "reference_value ''#xD'' = Some [CHR 0x0D]"
  by code_simp+

lemma read_references:
  "read_reference (''amp;'' @ s) = Some (''&'', s)" "read_reference (''lt;'' @ s) = Some (''<'', s)"
  "read_reference (''gt;'' @ s) = Some (''>'', s)" "read_reference (''quot;'' @ s) = Some ([CHR 0x22], s)"
  "read_reference (''#x9;'' @ s) = Some ([CHR 0x09], s)" "read_reference (''#xA;'' @ s) = Some ([CHR 0x0A], s)"
  "read_reference (''#xD;'' @ s) = Some ([CHR 0x0D], s)"
  by (simp_all add: read_reference_def reference_values)

lemma no_gt_text: "CHR ''>'' \<notin> set (escape_text s)"
  by (induction s) (auto simp: escape_text_char_def)

lemma read_escaped_text: "xml_read_text (escape_text s) = Some s"
proof (induction s)
  case (Cons c s)
  have no_end: "take 3 (c # escape_text s) \<noteq> '']]>''"
  proof
    assume "take 3 (c # escape_text s) = '']]>''"
    then have "CHR ''>'' \<in> set (take 2 (escape_text s))" by (auto simp: numeral_3_eq_3 numeral_2_eq_2)
    then show False using no_gt_text [of s] by (meson in_set_takeD)
  qed
  show ?case
    using Cons no_end read_references by (simp add: escape_text_char_def)
qed simp

lemma read_escaped_value: "xml_read_value (escape_attr s) = Some s"
  by (induction s) (use read_references in \<open>simp_all add: escape_attr_char_def\<close>)

section \<open>\<open>render.rs\<close>\<close>

record ns_decl =
  nd_prefix :: string
  nd_uri :: string

definition NsDecl_render :: "ns_decl \<Rightarrow> string" where
  "NsDecl_render n =
     (if nd_prefix n = [] then '' xmlns='' @ [CHR 0x22] @ escape_attr (nd_uri n) @ [CHR 0x22]
      else '' xmlns:'' @ nd_prefix n @ ''='' @ [CHR 0x22] @ escape_attr (nd_uri n) @ [CHR 0x22])"

definition NsDecl_cmp :: "ns_decl \<Rightarrow> ns_decl \<Rightarrow> ordering" where
  "NsDecl_cmp a b =
     (case (nd_prefix a = [], nd_prefix b = []) of
        (True, False) \<Rightarrow> Less
      | (False, True) \<Rightarrow> Greater
      | _ \<Rightarrow> str_cmp (nd_prefix a) (nd_prefix b))"

record attr =
  ar_ns_uri :: string
  ar_local_name :: string
  ar_qualified_name :: string
  ar_value :: string

definition Attr_render :: "attr \<Rightarrow> string" where
  "Attr_render a =
     '' '' @ ar_qualified_name a @ ''='' @ [CHR 0x22] @ escape_attr (ar_value a) @ [CHR 0x22]"

definition Attr_cmp :: "attr \<Rightarrow> attr \<Rightarrow> ordering" where
  "Attr_cmp a b =
     (case (ar_ns_uri a = [], ar_ns_uri b = []) of
        (True, True) \<Rightarrow> str_cmp (ar_local_name a) (ar_local_name b)
      | (True, False) \<Rightarrow> Less
      | (False, True) \<Rightarrow> Greater
      | (False, False) \<Rightarrow>
          then_cmp (str_cmp (ar_ns_uri a) (ar_ns_uri b))
            (str_cmp (ar_local_name a) (ar_local_name b)))"

text \<open>
  The order on declarations is the order of their prefixes, the empty prefix being the least
  string anyway; the order on attributes is lexicographic in (namespace, local name).
\<close>

lemma Nil_least_string [simp]: "([] :: string) \<le> s" "\<not> s < ([] :: string)" "([] :: string) < s \<longleftrightarrow> s \<noteq> []"
  by (cases s; simp)+

lemma NsDecl_cmp_eq: "NsDecl_cmp a b = str_cmp (nd_prefix a) (nd_prefix b)"
  by (auto simp: NsDecl_cmp_def str_cmp_def split: bool.splits)

definition attr_key :: "attr \<Rightarrow> string \<times> string" where
  "attr_key a = (ar_ns_uri a, ar_local_name a)"

lemma Attr_cmp_eq:
  "Attr_cmp a b = then_cmp (str_cmp (ar_ns_uri a) (ar_ns_uri b))
     (str_cmp (ar_local_name a) (ar_local_name b))"
  by (auto simp: Attr_cmp_def str_cmp_def then_cmp_def split: bool.splits)

lemma Attr_cmp_Equal_iff: "Attr_cmp a b = Equal \<longleftrightarrow> attr_key a = attr_key b"
  by (auto simp: Attr_cmp_eq attr_key_def str_cmp_def then_cmp_def)

lemma NsDecl_cmp_Equal_iff: "NsDecl_cmp a b = Equal \<longleftrightarrow> nd_prefix a = nd_prefix b"
  by (simp add: NsDecl_cmp_eq)

interpretation ns_ord: total_cmp NsDecl_cmp
proof
  show "NsDecl_cmp y x = ord_flip (NsDecl_cmp x y)" for x y
    unfolding NsDecl_cmp_eq by (rule str_ord.cmp_flip)
  show "NsDecl_cmp x y \<noteq> Greater \<Longrightarrow> NsDecl_cmp y z \<noteq> Greater \<Longrightarrow> NsDecl_cmp x z \<noteq> Greater"
    for x y z
    unfolding NsDecl_cmp_eq by (rule str_ord.cmp_trans)
qed

interpretation attr_ord: total_cmp Attr_cmp
proof
  show "Attr_cmp y x = ord_flip (Attr_cmp x y)" for x y
    by (auto simp: Attr_cmp_eq str_cmp_def then_cmp_def)
  show "Attr_cmp x y \<noteq> Greater \<Longrightarrow> Attr_cmp y z \<noteq> Greater \<Longrightarrow> Attr_cmp x z \<noteq> Greater" for x y z
    by (auto simp: Attr_cmp_eq str_cmp_def then_cmp_def split: if_splits)
qed

definition sort_ns_decls :: "ns_decl list \<Rightarrow> ns_decl list" where
  "sort_ns_decls = sort_by NsDecl_cmp"

definition sort_attrs :: "attr list \<Rightarrow> attr list" where
  "sort_attrs = sort_by Attr_cmp"

lemma set_sorts [simp]: "set (sort_ns_decls ds) = set ds" "set (sort_attrs as) = set as"
  by (simp_all add: sort_ns_decls_def sort_attrs_def)

lemma mset_sorts [simp]: "mset (sort_ns_decls ds) = mset ds" "mset (sort_attrs as) = mset as"
  by (simp_all add: sort_ns_decls_def sort_attrs_def)

lemma distinct_sort_ns_decls: "distinct (map nd_prefix (sort_ns_decls ds)) = distinct (map nd_prefix ds)"
  by (metis mset_map mset_sorts(1) mset_eq_imp_distinct_iff)

section \<open>Properties\<close>

text \<open>
  C33: What is written is read back: an XML processor that reads the output of \<open>escape_text\<close> as character data,
  or that of \<open>escape_attr\<close> as an attribute value in double quotes, gets the original string, with the
  carriage returns, tabs and line feeds that it would otherwise normalise; escaped text holds no \<open>>\<close>.
  So distinct contents have distinct canonical forms.
\<close>

theorem escape_roundtrip:
  "xml_read_text (escape_text s) = Some s \<and> xml_read_value (escape_attr s) = Some s \<and>
   CHR ''>'' \<notin> set (escape_text s) \<and> inj escape_text \<and> inj escape_attr"
  using read_escaped_text read_escaped_value no_gt_text by (metis injI option.inject)

text \<open>
  Escaped text cannot open or close markup: \<open>escape_text\<close> writes no \<open><\<close>, \<open>>\<close> or carriage return,
  and \<open>escape_attr\<close> no \<open><\<close>, quote, tab, newline or carriage return, so an attribute value cannot
  end the attribute it is written in.
\<close>

theorem escape_no_markup:
  "set (escape_text s) \<inter> {CHR ''<'', CHR ''>'', CHR 0x0D} = {} \<and>
   set (escape_attr s) \<inter> {CHR ''<'', CHR 0x22, CHR 0x09, CHR 0x0A, CHR 0x0D} = {}"
  by (induction s) (auto simp: escape_text_char_def escape_attr_char_def)

text \<open>
  The attributes of a start tag come out in the order of C14N, by namespace URI and then local
  name, whatever order the parser delivers them in: two lists with the same attributes, no two of
  which share namespace and local name, are sorted to the same list, in strictly increasing order.
\<close>

theorem attr_order_canonical:
  assumes "mset xs = mset ys" and "distinct (map attr_key xs)"
  shows "sort_attrs xs = sort_attrs ys \<and>
    sorted_wrt (\<lambda>a b. ar_ns_uri a < ar_ns_uri b \<or>
      ar_ns_uri a = ar_ns_uri b \<and> ar_local_name a < ar_local_name b) (sort_attrs xs)"
proof
  have inj: "x = y" if "x \<in> set xs" "y \<in> set xs" "Attr_cmp x y = Equal" for x y
    using assms(2) that by (auto simp: distinct_map inj_on_def Attr_cmp_Equal_iff)
  show "sort_attrs xs = sort_attrs ys"
    unfolding sort_attrs_def by (rule attr_ord.sort_by_permuted) (use assms(1) inj in auto)
  have d: "distinct (map attr_key (sort_attrs xs))"
    using assms(2) by (metis mset_map mset_sorts(2) mset_eq_imp_distinct_iff)
  have "sorted_wrt (\<lambda>a b. Attr_cmp a b \<noteq> Greater \<and> attr_key a \<noteq> attr_key b) (sort_attrs xs)"
    using attr_ord.sorted_sort_by [of xs] d
    by (simp add: sort_attrs_def [symmetric] sorted_wrt_iff_nth_less distinct_conv_nth)
  then show "sorted_wrt (\<lambda>a b. ar_ns_uri a < ar_ns_uri b \<or>
      ar_ns_uri a = ar_ns_uri b \<and> ar_local_name a < ar_local_name b) (sort_attrs xs)"
    by (rule sorted_wrt_mono_rel [rotated])
      (auto simp: Attr_cmp_eq attr_key_def str_cmp_def then_cmp_def split: if_splits)
qed

definition sample_attrs :: "attr list" where
  "sample_attrs =
     [\<lparr>ar_ns_uri = [], ar_local_name = ''b'', ar_qualified_name = ''b'', ar_value = ''1''\<rparr>,
      \<lparr>ar_ns_uri = [], ar_local_name = ''a'', ar_qualified_name = ''a'', ar_value = ''2''\<rparr>]"

theorem attr_order_canonical_witness:
  "sort_attrs sample_attrs = sort_attrs (rev sample_attrs) \<and>
   map ar_local_name (sort_attrs sample_attrs) = [''a'', ''b'']"
proof -
  have "mset sample_attrs = mset (rev sample_attrs)" "distinct (map attr_key sample_attrs)"
    by (simp_all add: sample_attrs_def attr_key_def)
  from attr_order_canonical [OF this] show ?thesis
    by (simp add: sample_attrs_def sort_attrs_def sort_by_def Attr_cmp_eq str_cmp_def then_cmp_def
        less_char_def)
qed

end
