(* ===== verification/C14n_Walk.thy ===== *)
theory C14n_Walk
  imports C14n_Render
begin

text \<open>
  What the inclusive and the exclusive canonicalizer have in common: the helpers that
  \<open>inclusive.rs\<close> and \<open>exclusive.rs\<close> both define, and the contract \<open>canonicalizer\<close> of a document walk,
  under which the walk ends, prunes hidden subtrees and localises to a selected subtree.
\<close>

section \<open>Names\<close>

definition xml_ns :: string where
  "xml_ns = ''http://www.w3.org/XML/1998/namespace''"

definition qualified_element_name :: "element \<Rightarrow> string" where
  "qualified_element_name elem =
     (case qn_prefix (el_name elem) of
        Some pre \<Rightarrow> pre @ '':'' @ qn_local_name (el_name elem)
      | None \<Rightarrow> qn_local_name (el_name elem))"

section \<open>Document-level newlines\<close>

definition has_preceding_element :: "document \<Rightarrow> node_id \<Rightarrow> bool" where
  "has_preceding_element d n = list_ex (is_element d) (prev_chain d (doc_prev_sibling d n))"

definition has_following_element :: "document \<Rightarrow> node_id \<Rightarrow> bool" where
  "has_following_element d n = list_ex (is_element d) (next_chain d (doc_next_sibling d n))"

definition parent_is_root :: "document \<Rightarrow> node_id \<Rightarrow> bool" where
  "parent_is_root d n =
     (case doc_parent d n of None \<Rightarrow> False | Some p \<Rightarrow> doc_kind d p = Some Document)"

text \<open>The newline before and after a comment or processing instruction at document level.\<close>

definition at_document_level :: "document \<Rightarrow> node_id \<Rightarrow> string \<Rightarrow> string" where
  "at_document_level d n out =
     (if parent_is_root d n \<and> has_preceding_element d n then [CHR 0x0A] else []) @ out @
     (if parent_is_root d n \<and> has_following_element d n then [CHR 0x0A] else [])"

definition render_comment :: "document \<Rightarrow> node_id \<Rightarrow> string \<Rightarrow> string" where
  "render_comment d n text = at_document_level d n (''<!--'' @ text @ ''-->'')"

definition render_pi :: "document \<Rightarrow> node_id \<Rightarrow> proc_inst \<Rightarrow> string" where
  "render_pi d n p =
     at_document_level d n
       (''<?'' @ pi_target p @
        (case pi_data p of
           None \<Rightarrow> []
         | Some v \<Rightarrow> if v = [] then [] else '' '' @ escape_pi v) @ ''?>'')"

section \<open>Visibility\<close>

definition is_visible :: "node_set option \<Rightarrow> node_id \<Rightarrow> bool" where
  "is_visible nso n = (case nso of None \<Rightarrow> True | Some ns \<Rightarrow> contains_id ns n)"

definition has_ns_filter :: "node_set option \<Rightarrow> bool" where
  "has_ns_filter nso = (case nso of None \<Rightarrow> False | Some ns \<Rightarrow> has_ns_visible ns)"

text \<open>The namespaces of an element whose namespace node is in the node set.\<close>

definition filter_visible_ns :: "node_set option \<Rightarrow> node_id \<Rightarrow> ns_map \<Rightarrow> ns_map" where
  "filter_visible_ns nso n m =
     (case nso of
        None \<Rightarrow> m
      | Some ns \<Rightarrow> if has_ns_visible ns then filter (\<lambda>e. is_ns_visible ns n (fst e)) m else m)"

section \<open>Tags and children\<close>

definition start_tag :: "string \<Rightarrow> ns_decl list \<Rightarrow> attr list \<Rightarrow> string" where
  "start_tag name decls attrs =
     ''<'' @ name @ concat (map NsDecl_render decls) @ concat (map Attr_render attrs) @ ''>''"

definition end_tag :: "string \<Rightarrow> string" where
  "end_tag name = ''</'' @ name @ ''>''"

type_synonym node_proc = "node_id \<Rightarrow> ns_map \<Rightarrow> bytes option"

definition process_children :: "node_proc \<Rightarrow> document \<Rightarrow> node_id \<Rightarrow> ns_map \<Rightarrow> bytes option" where
  "process_children rec d n m = concat_opt (map (\<lambda>c. rec c m) (doc_children d n))"

section \<open>Walks over a document\<close>

lemma map_option_append_Nil [simp]: "map_option ((@) []) x = x"
  by (cases x) simp_all

text \<open>Induction from the leaves of a document to its root.\<close>

lemma child_induct:
  assumes "wf_doc d" and "\<And>n. (\<And>c. c \<in> set (doc_children d n) \<Longrightarrow> P c) \<Longrightarrow> P n"
  shows "P n"
proof -
  from wf_doc_budget [OF assms(1)] obtain h where "depth_budget d h" .
  then have h: "\<And>p c. c \<in> set (doc_children d p) \<Longrightarrow> h c < h p" by (simp add: depth_budget_def)
  show ?thesis
    by (induction "h n" arbitrary: n rule: less_induct) (use assms(2) h in blast)
qed

lemma process_children_cong:
  "(\<And>c. c \<in> set (doc_children d n) \<Longrightarrow> rec c m = rec' c m) \<Longrightarrow>
   process_children rec d n m = process_children rec' d n m"
  unfolding process_children_def by (rule arg_cong [where f = concat_opt]) simp

lemma process_children_total:
  "(\<And>c. c \<in> set (doc_children d n) \<Longrightarrow> rec c m \<noteq> None) \<Longrightarrow>
   process_children rec d n m \<noteq> None"
  unfolding process_children_def
  using concat_opt_Some_iff [of "map (\<lambda>c. rec c m) (doc_children d n)"] by fastforce

lemma process_children_empty:
  "(\<And>c. c \<in> set (doc_children d n) \<Longrightarrow> rec c m = Some []) \<Longrightarrow>
   process_children rec d n m = Some []"
  unfolding process_children_def by (rule concat_opt_Nil) simp

lemma concat_opt_single:
  assumes "distinct cs" "c \<in> set cs" "\<And>x. x \<in> set cs \<Longrightarrow> x \<noteq> c \<Longrightarrow> f x = Some []"
  shows "concat_opt (map f cs) = f c"
  using assms
proof (induction cs)
  case (Cons a cs)
  show ?case
  proof (cases "a = c")
    case True
    with Cons.prems have "concat_opt (map f cs) = Some []"
      by (intro concat_opt_Nil) auto
    with True show ?thesis by (auto split: option.split)
  next
    case False
    with Cons have "concat_opt (map f cs) = f c" "f a = Some []" by auto
    then show ?thesis by (auto split: option.split)
  qed
qed simp

text \<open>
  The contract: \<open>walk k\<close> processes a node with recursion depth at most \<open>k\<close>; \<open>elem\<close> is the element
  case with the recursive call as its argument. It uses that call only on the children, returns
  when the call does, and an element outside the node set adds nothing of its own unless single
  namespace nodes are selected.
\<close>

locale canonicalizer =
  fixes d :: document and nso :: "node_set option" and wc :: bool
    and elem :: "node_proc \<Rightarrow> node_proc" and walk :: "nat \<Rightarrow> node_proc"
  assumes walk_0: "walk 0 n m = None"
    and walk_Suc: "walk (Suc k) n m =
      (case doc_kind d n of
         Some Document \<Rightarrow> process_children (walk k) d n m
       | Some (Element _) \<Rightarrow> elem (walk k) n m
       | Some (Text text) \<Rightarrow> Some (if is_visible nso n then escape_text text else [])
       | Some (CData text) \<Rightarrow> Some (if is_visible nso n then escape_text text else [])
       | Some (Comment text) \<Rightarrow>
           Some (if wc \<and> is_visible nso n then render_comment d n text else [])
       | Some (ProcessingInstruction p) \<Rightarrow> Some (if is_visible nso n then render_pi d n p else [])
       | None \<Rightarrow> Some [])"
    and elem_cong: "(\<And>c m. c \<in> set (doc_children d n) \<Longrightarrow> rec c m = rec' c m) \<Longrightarrow>
      elem rec n m = elem rec' n m"
    and elem_total: "is_element d n \<Longrightarrow> (\<And>c m. c \<in> set (doc_children d n) \<Longrightarrow> rec c m \<noteq> None) \<Longrightarrow>
      elem rec n m \<noteq> None"
    and elem_hidden: "\<not> is_visible nso n \<Longrightarrow> \<not> has_ns_filter nso \<Longrightarrow>
      elem rec n m = process_children rec d n m"
begin

abbreviation full :: node_proc where
  "full \<equiv> walk (doc_bound d)"

lemma walk_enough:
  assumes "depth_budget d h"
  shows "h n \<le> k \<Longrightarrow> h n \<le> l \<Longrightarrow> walk k n m = walk l n m"
proof (induction k arbitrary: n m l)
  case 0
  then show ?case using assms by (simp add: depth_budget_def) (metis less_numeral_extra(3))
next
  case (Suc k)
  from assms have "0 < h n" by (simp add: depth_budget_def)
  with Suc.prems obtain l' where l: "l = Suc l'" by (cases l) auto
  have c: "walk k c m = walk l' c m" if "c \<in> set (doc_children d n)" for c m
  proof (rule Suc.IH)
    from that assms have "h c < h n" by (simp add: depth_budget_def)
    with Suc.prems l show "h c \<le> k" "h c \<le> l'" by simp_all
  qed
  then show ?case
    unfolding l walk_Suc
    using elem_cong [of n "walk k" "walk l'"] process_children_cong [of d n "walk k" m "walk l'"]
    by (auto split: option.splits node_kind.splits)
qed

text \<open>The equation of the source: on a well-formed document the bound does not show.\<close>

lemma full_unfold:
  assumes "wf_doc d"
  shows "full n m =
    (case doc_kind d n of
       Some Document \<Rightarrow> process_children full d n m
     | Some (Element _) \<Rightarrow> elem full n m
     | Some (Text text) \<Rightarrow> Some (if is_visible nso n then escape_text text else [])
     | Some (CData text) \<Rightarrow> Some (if is_visible nso n then escape_text text else [])
     | Some (Comment text) \<Rightarrow>
         Some (if wc \<and> is_visible nso n then render_comment d n text else [])
     | Some (ProcessingInstruction p) \<Rightarrow> Some (if is_visible nso n then render_pi d n p else [])
     | None \<Rightarrow> Some [])"
proof -
  from wf_doc_budget [OF assms] obtain h where h: "depth_budget d h" .
  then have b: "h n \<le> doc_bound d" "0 < h n" for n by (simp_all add: depth_budget_def)
  then have "full n m = walk (Suc (doc_bound d)) n m"
    by (intro walk_enough [OF h]) (auto intro: le_SucI)
  then show ?thesis by (simp only: walk_Suc)
qed

lemma full_total:
  assumes "wf_doc d"
  shows "full n m \<noteq> None"
proof (induction n arbitrary: m rule: child_induct [OF assms])
  case (1 n)
  then show ?case
    using elem_total [of n full m] process_children_total [of d n full m]
    by (subst full_unfold [OF assms])
      (auto simp: is_element_def doc_element_def split: option.splits node_kind.splits)
qed

lemma full_hidden:
  assumes "wf_doc d" "\<not> has_ns_filter nso"
  shows "(\<And>x. anc_self d n x \<Longrightarrow> \<not> is_visible nso x) \<Longrightarrow> full n m = Some []"
proof (induction n arbitrary: m rule: child_induct [OF assms(1)])
  case (1 n)
  have "full c m = Some []" if "c \<in> set (doc_children d n)" for c m
    using that 1 anc_self_down [OF assms(1), of n] by blast
  moreover have "\<not> is_visible nso n" using 1 anc_refl by blast
  ultimately show ?case
    using process_children_empty [of d n full m] elem_hidden [of n full m] assms(2)
    by (subst full_unfold [OF assms(1)])
      (auto split: option.splits node_kind.splits)
qed

text \<open>
  Selecting nodes inside one subtree localises the walk: the ancestors of the subtree and what lies
  beside it add nothing.
\<close>

lemma full_localises:
  assumes "wf_doc d" "\<not> has_ns_filter nso"
    and sel: "\<And>x. is_visible nso x \<Longrightarrow> anc_self d r x"
  shows "anc_self d n r \<Longrightarrow> full n m = full r m"
proof (induction n arbitrary: m rule: child_induct [OF assms(1)])
  case (1 n)
  show ?case
  proof (cases "n = r")
    case False
    with 1(2) anc_self_down [OF assms(1), of n r] obtain c
      where c: "c \<in> set (doc_children d n)" "anc_self d c r" by auto
    then have cr: "full c m = full r m" for m by (rule 1(1))
    have nr: "\<not> anc_self d r n" using anc_self_antisym [OF assms(1)] 1(2) False by blast
    have other: "full x m = Some []" if x: "x \<in> set (doc_children d n)" "x \<noteq> c" for x m
    proof (rule full_hidden [OF assms(1,2)])
      fix y assume xy: "anc_self d x y"
      show "\<not> is_visible nso y"
      proof
        assume "is_visible nso y"
        then have "anc_self d c y" using sel anc_self_trans c(2) by blast
        with siblings_disjoint [OF assms(1) x(1) c(1) xy] x(2) show False by blast
      qed
    qed
    have "process_children full d n m = full c m"
      unfolding process_children_def
      using wf_docD(7) [OF assms(1)] c(1) other by (intro concat_opt_single) auto
    moreover have "\<not> is_visible nso n" using sel nr by blast
    moreover obtain k where "doc_kind d n = Some k" "is_container k"
      using c(1) wf_docD(9) [OF assms(1), of n] by (cases "doc_children d n = []") auto
    ultimately show ?thesis
      using elem_hidden [of n full m] assms(2) cr
      by (subst full_unfold [OF assms(1)])
        (auto simp: is_container_def split: node_kind.splits)
  qed simp
qed

end

end
