(* ===== verification/C14n_Inclusive.thy ===== *)
theory C14n_Inclusive
  imports C14n_Walk
begin

text \<open>
  Inclusive Canonical XML 1.0 and 1.1 (\<open>bergshamra-c14n/src/inclusive.rs\<close>, \<open>inclusive11.rs\<close>).

  \<open>process_node\<close> and \<open>process_element\<close> are mutually recursive in the code. Here \<open>process_element\<close> takes
  the recursive call as an argument, and \<open>process_node\<close> ties the knot with a bound on the recursion
  depth. The code appends to an output buffer and always returns \<open>Ok\<close>; the model returns the
  appended bytes, \<open>None\<close> standing for a run that exceeds the bound (or panics), which theorem
  \<open>inclusive_terminates\<close> excludes for well-formed documents.
\<close>

section \<open>Namespaces in scope\<close>

definition ns_level :: "element \<Rightarrow> ns_map" where
  "ns_level elem =
     fold (\<lambda>e m. bt_insert (fst e) (snd e) m) (el_namespace_declarations elem) []"

definition ns_stack :: "document \<Rightarrow> node_id \<Rightarrow> ns_map list" where
  "ns_stack d n = map ns_level (List.map_filter (doc_element d) (parent_chain d (Some n)))"

definition merge_ns_entry :: "string \<times> string \<Rightarrow> ns_map \<Rightarrow> ns_map" where
  "merge_ns_entry e result =
     (if snd e = [] \<and> fst e = [] then bt_insert (fst e) (snd e) result
      else if snd e = [] then bt_remove (fst e) result
      else bt_insert (fst e) (snd e) result)"

definition collect_inscope_namespaces :: "document \<Rightarrow> node_id \<Rightarrow> ns_map" where
  "collect_inscope_namespaces d n = fold (fold merge_ns_entry) (rev (ns_stack d n)) []"

section \<open>Names and base URIs\<close>

definition find_attr_prefix :: "attribute \<Rightarrow> string option" where
  "find_attr_prefix a =
     (case qn_namespace_uri (at_name a) of
        Some uri \<Rightarrow> if uri = xml_ns then Some ''xml'' else qn_prefix (at_name a)
      | None \<Rightarrow> None)"

definition parse_uri_components :: "string \<Rightarrow> string \<times> string \<times> string" where
  "parse_uri_components uri =
     (let (scheme, rest) =
            (case find_str ''://'' uri of
               Some pos \<Rightarrow> (take (pos + 1) uri, drop (pos + 1) uri)
             | None \<Rightarrow> ([], uri));
          (authority, path) =
            (case strip_prefix ''//'' rest of
               Some stripped \<Rightarrow>
                 (case find_str ''/'' stripped of
                    Some slash_pos \<Rightarrow> (take (slash_pos + 2) rest, drop (slash_pos + 2) rest)
                  | None \<Rightarrow> (rest, []))
             | None \<Rightarrow> ([], rest))
      in (scheme, authority, path))"

definition resolve_uri_reference :: "string \<Rightarrow> string \<Rightarrow> string" where
  "resolve_uri_reference base reference =
     (if contains_str reference ''://'' then reference
      else
        let (scheme, authority, base_path) = parse_uri_components base in
        if starts_with reference ''/'' then scheme @ authority @ reference
        else if reference = [] then base
        else
          let merged =
            (if authority = [] \<and> base_path = [] then ''/'' @ reference
             else
               let last_slash = (case rfind_char CHR ''/'' base_path of None \<Rightarrow> 0 | Some i \<Rightarrow> i + 1)
               in take last_slash base_path @ reference)
          in scheme @ authority @ merged)"

definition xml_base_of :: "element \<Rightarrow> string option" where
  "xml_base_of elem =
     map_option at_value
       (find (\<lambda>a. qn_namespace_uri (at_name a) = Some xml_ns \<and> qn_local_name (at_name a) = ''base'')
          (el_attributes elem))"

definition compute_absolute_base_uri :: "document \<Rightarrow> node_id \<Rightarrow> string" where
  "compute_absolute_base_uri d n =
     (let base_chain =
        List.map_filter xml_base_of (List.map_filter (doc_element d) (parent_chain d (Some n)))
      in fold (\<lambda>base_val absolute.
                 if absolute = [] then base_val else resolve_uri_reference absolute base_val)
           (rev base_chain) [])"

section \<open>The canonicalizer\<close>

record c14n_ctx =
  cx_doc :: document
  cx_with_comments :: bool
  cx_node_set :: "node_set option"
  cx_c14n11 :: bool

definition attrs_excluded :: "node_set option \<Rightarrow> bool" where
  "attrs_excluded nso = (case nso of None \<Rightarrow> False | Some ns \<Rightarrow> exclude_attrs ns)"

definition new_ns_decls :: "ns_map \<Rightarrow> ns_map \<Rightarrow> ns_decl list" where
  "new_ns_decls vis inherited =
     List.map_filter
       (\<lambda>e. if fst e = ''xml'' then None
            else if bt_get inherited (fst e) \<noteq> Some (snd e) then
              if snd e = [] \<and> bt_get inherited (fst e) = None then None
              else Some \<lparr>nd_prefix = fst e, nd_uri = snd e\<rparr>
            else None) vis"

definition undeclare_default :: "node_set option \<Rightarrow> ns_map \<Rightarrow> ns_map \<Rightarrow> ns_decl list" where
  "undeclare_default nso vis inherited =
     (if has_ns_filter nso then
        case bt_get inherited [] of
          Some u \<Rightarrow> if u \<noteq> [] \<and> \<not> bt_contains vis [] then [\<lparr>nd_prefix = [], nd_uri = []\<rparr>] else []
        | None \<Rightarrow> []
      else [])"

definition element_attrs :: "element \<Rightarrow> attr list" where
  "element_attrs elem =
     map (\<lambda>a. \<lparr>ar_ns_uri = unwrap_or [] (qn_namespace_uri (at_name a)),
               ar_local_name = qn_local_name (at_name a),
               ar_qualified_name =
                 (case find_attr_prefix a of
                    Some pre \<Rightarrow> pre @ '':'' @ qn_local_name (at_name a)
                  | None \<Rightarrow> qn_local_name (at_name a)),
               ar_value = at_value a\<rparr>) (el_attributes elem)"

definition collect_inherited_xml_attrs :: "document \<Rightarrow> node_id \<Rightarrow> attr list \<Rightarrow> attr list" where
  "collect_inherited_xml_attrs d n existing =
     (let inherited_xml =
        fold (\<lambda>a m. if qn_namespace_uri (at_name a) = Some xml_ns \<and>
                       \<not> bt_contains m (qn_local_name (at_name a))
                    then bt_insert (qn_local_name (at_name a)) (at_value a) m else m)
          (concat (map el_attributes
             (List.map_filter (doc_element d) (parent_chain d (doc_parent d n))))) []
      in List.map_filter
           (\<lambda>e. if list_ex (\<lambda>a. ar_ns_uri a = xml_ns \<and> ar_local_name a = fst e) existing then None
                else Some \<lparr>ar_ns_uri = xml_ns, ar_local_name = fst e,
                           ar_qualified_name = ''xml:'' @ fst e, ar_value = snd e\<rparr>)
           inherited_xml)"

text \<open>\<open>attrs.iter_mut().find(p)\<close> followed by an assignment through the found reference.\<close>

fun update_first :: "('a \<Rightarrow> bool) \<Rightarrow> ('a \<Rightarrow> 'a) \<Rightarrow> 'a list \<Rightarrow> 'a list" where
  "update_first P f [] = []"
| "update_first P f (x # xs) = (if P x then f x # xs else x # update_first P f xs)"

definition is_xml_base :: "attr \<Rightarrow> bool" where
  "is_xml_base a \<longleftrightarrow> ar_ns_uri a = xml_ns \<and> ar_local_name a = ''base''"

definition absolutize_base :: "string \<Rightarrow> attr list \<Rightarrow> attr list" where
  "absolutize_base abs_base attrs =
     (if list_ex is_xml_base attrs then
        if abs_base \<noteq> [] then update_first is_xml_base (\<lambda>a. a\<lparr>ar_value := abs_base\<rparr>) attrs else attrs
      else if abs_base \<noteq> [] then
        attrs @ [\<lparr>ar_ns_uri = xml_ns, ar_local_name = ''base'',
                  ar_qualified_name = ''xml:base'', ar_value = abs_base\<rparr>]
      else attrs)"

definition parent_not_visible :: "c14n_ctx \<Rightarrow> node_id \<Rightarrow> bool" where
  "parent_not_visible ctx n =
     (case doc_parent (cx_doc ctx) n of
        None \<Rightarrow> True
      | Some p \<Rightarrow> \<not> is_element (cx_doc ctx) p \<or> \<not> is_visible (cx_node_set ctx) p)"

definition rendered_attrs :: "c14n_ctx \<Rightarrow> node_id \<Rightarrow> element \<Rightarrow> attr list" where
  "rendered_attrs ctx n elem =
     (let nso = cx_node_set ctx;
          attrs = sort_attrs (if attrs_excluded nso then [] else element_attrs elem);
          attrs =
            (if nso \<noteq> None \<and> \<not> attrs_excluded nso \<and> parent_not_visible ctx n then
               let attrs = attrs @ collect_inherited_xml_attrs (cx_doc ctx) n attrs in
               if cx_c14n11 ctx then absolutize_base (compute_absolute_base_uri (cx_doc ctx) n) attrs
               else attrs
             else attrs)
      in sort_attrs attrs)"

definition rendered_ns_decls :: "c14n_ctx \<Rightarrow> ns_map \<Rightarrow> ns_map \<Rightarrow> ns_decl list" where
  "rendered_ns_decls ctx vis inherited =
     sort_ns_decls (new_ns_decls vis inherited @ undeclare_default (cx_node_set ctx) vis inherited)"

definition child_namespaces :: "node_set option \<Rightarrow> ns_map \<Rightarrow> ns_map \<Rightarrow> ns_map" where
  "child_namespaces nso vis inherited =
     fold (\<lambda>e m. bt_insert (fst e) (snd e) m) (filter (\<lambda>e. fst e \<noteq> ''xml'') vis)
       (if has_ns_filter nso then [] else inherited)"

definition process_element :: "node_proc \<Rightarrow> c14n_ctx \<Rightarrow> node_id \<Rightarrow> ns_map \<Rightarrow> bytes option" where
  "process_element rec ctx n inherited =
     (let d = cx_doc ctx; nso = cx_node_set ctx;
          vis = filter_visible_ns nso n (collect_inscope_namespaces d n) in
      if is_visible nso n then
        case doc_element d n of
          None \<Rightarrow> None
        | Some elem \<Rightarrow>
            map_option
              (\<lambda>body. start_tag (qualified_element_name elem)
                        (rendered_ns_decls ctx vis inherited) (rendered_attrs ctx n elem) @
                      body @ end_tag (qualified_element_name elem))
              (process_children rec d n (child_namespaces nso vis inherited))
      else
        map_option
          (\<lambda>body. (if has_ns_filter nso
                    then concat (map NsDecl_render (sort_ns_decls (new_ns_decls vis inherited)))
                    else []) @ body)
          (process_children rec d n inherited))"

fun process_node :: "nat \<Rightarrow> c14n_ctx \<Rightarrow> node_proc" where
  "process_node 0 ctx n inherited = None"
| "process_node (Suc k) ctx n inherited =
     (let d = cx_doc ctx; nso = cx_node_set ctx in
      case doc_kind d n of
        Some Document \<Rightarrow> process_children (process_node k ctx) d n inherited
      | Some (Element _) \<Rightarrow> process_element (process_node k ctx) ctx n inherited
      | Some (Text text) \<Rightarrow> Some (if is_visible nso n then escape_text text else [])
      | Some (CData text) \<Rightarrow> Some (if is_visible nso n then escape_text text else [])
      | Some (Comment text) \<Rightarrow>
          Some (if cx_with_comments ctx \<and> is_visible nso n then render_comment d n text else [])
      | Some (ProcessingInstruction p) \<Rightarrow> Some (if is_visible nso n then render_pi d n p else [])
      | None \<Rightarrow> Some [])"

abbreviation incl_ctx :: "document \<Rightarrow> bool \<Rightarrow> node_set option \<Rightarrow> bool \<Rightarrow> c14n_ctx" where
  "incl_ctx d wc nso c11 \<equiv>
     \<lparr>cx_doc = d, cx_with_comments = wc, cx_node_set = nso, cx_c14n11 = c11\<rparr>"

definition canonicalize_with_options ::
  "document \<Rightarrow> bool \<Rightarrow> node_set option \<Rightarrow> bool \<Rightarrow> bytes option" where
  "canonicalize_with_options d with_comments nso c14n11_mode =
     process_node (doc_bound d) (incl_ctx d with_comments nso c14n11_mode) (doc_root d) []"

definition inclusive_canonicalize :: "document \<Rightarrow> bool \<Rightarrow> node_set option \<Rightarrow> bytes option" where
  "inclusive_canonicalize d with_comments nso = canonicalize_with_options d with_comments nso False"

definition inclusive11_canonicalize :: "document \<Rightarrow> bool \<Rightarrow> node_set option \<Rightarrow> bytes option" where
  "inclusive11_canonicalize d with_comments nso = canonicalize_with_options d with_comments nso True"

section \<open>The walk\<close>

lemma process_element_cong:
  assumes "\<And>c m. c \<in> set (doc_children (cx_doc ctx) n) \<Longrightarrow> rec c m = rec' c m"
  shows "process_element rec ctx n m = process_element rec' ctx n m"
proof -
  have "process_children rec (cx_doc ctx) n m = process_children rec' (cx_doc ctx) n m" for m
    using assms by (rule process_children_cong)
  then show ?thesis by (simp add: process_element_def Let_def split: option.split)
qed

lemma process_element_total:
  assumes "is_element (cx_doc ctx) n"
    and "\<And>c m. c \<in> set (doc_children (cx_doc ctx) n) \<Longrightarrow> rec c m \<noteq> None"
  shows "process_element rec ctx n m \<noteq> None"
proof -
  have "process_children rec (cx_doc ctx) n m \<noteq> None" for m
    using assms(2) by (rule process_children_total)
  with assms(1) show ?thesis
    by (auto simp: process_element_def is_element_def Let_def split: option.splits)
qed

interpretation incl: canonicalizer d nso wc
  "\<lambda>rec. process_element rec (incl_ctx d wc nso c11)" "\<lambda>k. process_node k (incl_ctx d wc nso c11)"
  for d nso wc c11
proof
  show "process_node 0 (incl_ctx d wc nso c11) n m = None" for n m by simp
  show "(\<And>c m. c \<in> set (doc_children d n) \<Longrightarrow> rec c m = rec' c m) \<Longrightarrow>
      process_element rec (incl_ctx d wc nso c11) n m =
      process_element rec' (incl_ctx d wc nso c11) n m" for n m rec rec'
    by (rule process_element_cong) simp
  show "is_element d n \<Longrightarrow> (\<And>c m. c \<in> set (doc_children d n) \<Longrightarrow> rec c m \<noteq> None) \<Longrightarrow>
      process_element rec (incl_ctx d wc nso c11) n m \<noteq> None" for n m rec
    by (rule process_element_total) simp_all
qed (simp_all add: Let_def process_element_def split: option.split node_kind.split)

text \<open>Without a visible comment the mode with comments and the mode without agree.\<close>

lemma process_element_comments:
  "process_element rec (ctx\<lparr>cx_with_comments := b\<rparr>) n m = process_element rec ctx n m"
  by (simp add: process_element_def rendered_ns_decls_def rendered_attrs_def parent_not_visible_def
      Let_def split: option.split)

lemma process_node_comments:
  assumes "\<And>n. is_comment (cx_doc ctx) n \<Longrightarrow> \<not> is_visible (cx_node_set ctx) n"
  shows "process_node k (ctx\<lparr>cx_with_comments := b\<rparr>) n m = process_node k ctx n m"
proof (induction k arbitrary: n m)
  case (Suc k)
  then have "process_node k (ctx\<lparr>cx_with_comments := b\<rparr>) = process_node k ctx" by blast
  moreover have "\<not> is_visible (cx_node_set ctx) n" if "doc_kind (cx_doc ctx) n = Some (Comment t)" for t
    using that assms by (simp add: is_comment_def)
  ultimately show ?case
    by (auto simp: process_element_comments Let_def split: option.splits node_kind.splits)
qed simp

section \<open>Namespaces of a start tag\<close>

lemma bt_wf_ns_level: "bt_wf (ns_level e)"
  unfolding ns_level_def by (rule bt.ok_fold_ins) (rule bt.ok_emp)

lemma bt_wf_merge: "bt_wf m \<Longrightarrow> bt_wf (merge_ns_entry e m)"
  by (simp add: merge_ns_entry_def bt.ok_ins bt.ok_del)

lemma bt_wf_inscope: "bt_wf (collect_inscope_namespaces d n)"
proof -
  have step: "bt_wf m \<Longrightarrow> bt_wf (fold merge_ns_entry es m)" for es m
    by (induction es arbitrary: m) (simp_all add: bt_wf_merge)
  have "bt_wf m \<Longrightarrow> bt_wf (fold (fold merge_ns_entry) ls m)" for ls m
    by (induction ls arbitrary: m) (simp_all add: step)
  then show ?thesis by (simp add: collect_inscope_namespaces_def bt.ok_emp)
qed

lemma bt_wf_filter: "bt_wf m \<Longrightarrow> bt_wf (filter P m)"
  by (induction m) (auto simp: bt_wf_Cons)

lemma bt_wf_visible: "bt_wf m \<Longrightarrow> bt_wf (filter_visible_ns nso n m)"
  by (simp add: filter_visible_ns_def bt_wf_filter split: option.split)

lemma bt_get_filter_key: "bt_get (filter (\<lambda>e. P (fst e)) m) p = (if P p then bt_get m p else None)"
  by (induction m) (auto simp: bt_get_def)

text \<open>
  The URI a namespace-aware reader of the output binds to a prefix after a start tag with the given
  declarations, in a context of enclosing bindings; an absent binding and an empty one are alike.
\<close>

definition reader_binding :: "ns_map \<Rightarrow> ns_decl list \<Rightarrow> string \<Rightarrow> string" where
  "reader_binding m decls p =
     (case find (\<lambda>x. nd_prefix x = p) decls of
        Some x \<Rightarrow> nd_uri x | None \<Rightarrow> unwrap_or [] (bt_get m p))"

lemma set_map_filter: "y \<in> set (List.map_filter f xs) \<longleftrightarrow> (\<exists>x \<in> set xs. f x = Some y)"
  by (induction xs) (auto split: option.splits)

lemma set_new_ns_decls:
  assumes "bt_wf vis"
  shows "x \<in> set (new_ns_decls vis inh) \<longleftrightarrow>
    nd_prefix x \<noteq> ''xml'' \<and> bt_get vis (nd_prefix x) = Some (nd_uri x) \<and>
    bt_get inh (nd_prefix x) \<noteq> Some (nd_uri x) \<and>
    (nd_uri x = [] \<longrightarrow> bt_get inh (nd_prefix x) \<noteq> None)"
proof -
  have "x \<in> set (new_ns_decls vis inh) \<longleftrightarrow> (\<exists>e \<in> set vis. fst e \<noteq> ''xml'' \<and>
      bt_get inh (fst e) \<noteq> Some (snd e) \<and> \<not> (snd e = [] \<and> bt_get inh (fst e) = None) \<and>
      x = \<lparr>nd_prefix = fst e, nd_uri = snd e\<rparr>)"
    unfolding new_ns_decls_def set_map_filter by (rule bex_cong) auto
  also have "\<dots> \<longleftrightarrow> (nd_prefix x, nd_uri x) \<in> set vis \<and> nd_prefix x \<noteq> ''xml'' \<and>
      bt_get inh (nd_prefix x) \<noteq> Some (nd_uri x) \<and>
      \<not> (nd_uri x = [] \<and> bt_get inh (nd_prefix x) = None)"
    by (cases x) force
  finally show ?thesis using bt.entries_get [OF assms, of "nd_prefix x" "nd_uri x"] by auto
qed

lemma new_ns_decls_Cons:
  "new_ns_decls (e # vis) inh =
     (if fst e \<noteq> ''xml'' \<and> bt_get inh (fst e) \<noteq> Some (snd e) \<and>
         \<not> (snd e = [] \<and> bt_get inh (fst e) = None)
      then [\<lparr>nd_prefix = fst e, nd_uri = snd e\<rparr>] else []) @ new_ns_decls vis inh"
  by (simp add: new_ns_decls_def)

lemma distinct_new_ns_decls: "bt_wf vis \<Longrightarrow> distinct (map nd_prefix (new_ns_decls vis inh))"
proof (induction vis)
  case (Cons e vis)
  then have vis: "bt_wf vis" "\<forall>x \<in> set vis. fst e < fst x" by (simp_all add: bt_wf_Cons)
  have "fst e \<noteq> nd_prefix x" if "x \<in> set (new_ns_decls vis inh)" for x
  proof -
    from that vis(1) have "(nd_prefix x, nd_uri x) \<in> set vis"
      by (simp add: set_new_ns_decls bt.entries_get)
    with vis(2) show ?thesis by force
  qed
  then have "fst e \<notin> nd_prefix ` set (new_ns_decls vis inh)" by blast
  with Cons.IH [OF vis(1)] show ?case by (simp add: new_ns_decls_Cons)
qed (simp add: new_ns_decls_def)

lemma find_distinct:
  assumes "distinct (map f xs)"
  shows "find (\<lambda>x. f x = k) xs = Some x \<longleftrightarrow> x \<in> set xs \<and> f x = k"
  using assms by (induction xs) auto

lemma find_cong_set: "(\<And>x. x \<in> set xs \<Longrightarrow> P x \<longleftrightarrow> False) \<Longrightarrow> find P xs = None"
  by (induction xs) auto

lemma undeclare_default_cases:
  "undeclare_default nso vis inh = [] \<or>
   undeclare_default nso vis inh = [\<lparr>nd_prefix = [], nd_uri = []\<rparr>] \<and> has_ns_filter nso \<and>
     bt_get vis [] = None \<and> unwrap_or [] (bt_get inh []) \<noteq> []"
  by (auto simp: undeclare_default_def bt_contains_def split: option.splits)

lemma undeclareD:
  assumes "x \<in> set (undeclare_default nso vis inh)"
  shows "nd_prefix x = [] \<and> nd_uri x = [] \<and> has_ns_filter nso \<and> bt_get vis [] = None \<and>
    unwrap_or [] (bt_get inh []) \<noteq> []"
  using undeclare_default_cases [of nso vis inh]
proof
  assume "undeclare_default nso vis inh = []"
  with assms show ?thesis by (metis empty_iff empty_set)
next
  assume *: "undeclare_default nso vis inh = [\<lparr>nd_prefix = [], nd_uri = []\<rparr>] \<and> has_ns_filter nso \<and>
     bt_get vis [] = None \<and> unwrap_or [] (bt_get inh []) \<noteq> []"
  with assms have "x \<in> set [\<lparr>nd_prefix = [], nd_uri = []\<rparr>]" by metis
  then have "nd_prefix x = [] \<and> nd_uri x = []" by auto
  with * show ?thesis by blast
qed

lemma distinct_rendered_ns_decls:
  assumes "bt_wf vis"
  shows "distinct (map nd_prefix (rendered_ns_decls ctx vis inh))"
proof -
  have "distinct (map nd_prefix (new_ns_decls vis inh @ undeclare_default (cx_node_set ctx) vis inh))"
    using distinct_new_ns_decls [OF assms, of inh] undeclare_default_cases [of "cx_node_set ctx" vis inh]
    by (auto simp: set_new_ns_decls [OF assms])
  then show ?thesis by (simp add: rendered_ns_decls_def distinct_sort_ns_decls)
qed

lemma bt_get_child_namespaces:
  assumes "bt_wf vis" "bt_wf inh"
  shows "bt_get (child_namespaces nso vis inh) p =
    (if p \<noteq> ''xml'' \<and> bt_get vis p \<noteq> None then bt_get vis p
     else if has_ns_filter nso then None else bt_get inh p)"
proof -
  let ?v = "filter (\<lambda>e. fst e \<noteq> ''xml'') vis"
  have d: "distinct (map fst ?v)"
    using bt.entries_distinct [OF bt_wf_filter [OF assms(1)]] by simp
  have v: "map_of (rev ?v) p = (if p \<noteq> ''xml'' then bt_get vis p else None)"
    using map_of_inject_set [of "rev ?v" ?v] d bt_get_filter_key [of "\<lambda>p. p \<noteq> ''xml''" vis p]
    by (simp add: bt_get_def rev_map [symmetric])
  have "bt_wf (if has_ns_filter nso then [] else inh)" using assms(2) by (simp add: bt_wf_def)
  from bt.get_fold_ins [OF this, of ?v p] v show ?thesis
    by (auto simp: child_namespaces_def bt.get_emp split: option.splits)
qed

lemma set_rendered_ns_decls:
  "bt_wf vis \<Longrightarrow> x \<in> set (rendered_ns_decls ctx vis inh) \<longleftrightarrow>
     nd_prefix x \<noteq> ''xml'' \<and> bt_get vis (nd_prefix x) = Some (nd_uri x) \<and>
       bt_get inh (nd_prefix x) \<noteq> Some (nd_uri x) \<and>
       (nd_uri x = [] \<longrightarrow> bt_get inh (nd_prefix x) \<noteq> None) \<or>
     x \<in> set (undeclare_default (cx_node_set ctx) vis inh)"
  by (simp add: rendered_ns_decls_def set_new_ns_decls)

lemma reader_binding_eq:
  assumes "distinct (map nd_prefix decls)"
  shows "x \<in> set decls \<Longrightarrow> reader_binding m decls (nd_prefix x) = nd_uri x"
    and "(\<And>x. x \<in> set decls \<Longrightarrow> nd_prefix x \<noteq> p) \<Longrightarrow>
      reader_binding m decls p = unwrap_or [] (bt_get m p)"
proof -
  show "reader_binding m decls (nd_prefix x) = nd_uri x" if "x \<in> set decls"
    using find_distinct [OF assms, of "nd_prefix x" x] that by (simp add: reader_binding_def)
  show "reader_binding m decls p = unwrap_or [] (bt_get m p)"
    if "\<And>x. x \<in> set decls \<Longrightarrow> nd_prefix x \<noteq> p"
    using that find_cong_set [of decls "\<lambda>x. nd_prefix x = p"] by (simp add: reader_binding_def)
qed

lemma reader_binding_rendered:
  assumes "bt_wf vis"
  shows "p \<noteq> ''xml'' \<Longrightarrow> bt_get vis p = Some u \<Longrightarrow>
      reader_binding inh (rendered_ns_decls ctx vis inh) p = u"
    and "p = ''xml'' \<or> bt_get vis p = None \<Longrightarrow> \<not> has_ns_filter (cx_node_set ctx) \<Longrightarrow>
      reader_binding inh (rendered_ns_decls ctx vis inh) p = unwrap_or [] (bt_get inh p)"
proof -
  note eq = reader_binding_eq [OF distinct_rendered_ns_decls [OF assms, of ctx inh]]
  note mem = set_rendered_ns_decls [OF assms, of _ ctx inh]
  show "reader_binding inh (rendered_ns_decls ctx vis inh) p = unwrap_or [] (bt_get inh p)"
    if "p = ''xml'' \<or> bt_get vis p = None" "\<not> has_ns_filter (cx_node_set ctx)"
    using that by (intro eq(2)) (auto simp: mem dest!: undeclareD)
  show "reader_binding inh (rendered_ns_decls ctx vis inh) p = u"
    if p: "p \<noteq> ''xml''" "bt_get vis p = Some u"
  proof (cases "\<lparr>nd_prefix = p, nd_uri = u\<rparr> \<in> set (rendered_ns_decls ctx vis inh)")
    case True
    from eq(1) [OF this] show ?thesis by simp
  next
    case False
    with p have "unwrap_or [] (bt_get inh p) = u"
      by (auto simp: mem unwrap_or_def split: option.splits)
    moreover have "nd_prefix x \<noteq> p" if x: "x \<in> set (rendered_ns_decls ctx vis inh)" for x
    proof
      assume xp: "nd_prefix x = p"
      with x p have "nd_uri x = u" by (auto simp: mem dest!: undeclareD)
      with xp have "x = \<lparr>nd_prefix = p, nd_uri = u\<rparr>" by simp
      with False x show False by simp
    qed
    ultimately show ?thesis using eq(2) by simp
  qed
qed

section \<open>URI components\<close>

lemma parse_uri_components_eq:
  assumes "CHR '':'' \<notin> set scheme" "CHR ''/'' \<notin> set host" "path = [] \<or> starts_with path ''/''"
  shows "parse_uri_components (scheme @ ''://'' @ host @ path) = (scheme @ '':'', ''//'' @ host, path)"
proof -
  have "find_str ''://'' (scheme @ ''://'' @ host @ path) = Some (length scheme)"
    using assms(1) by (intro find_str_skip) simp_all
  moreover have "find_str ''/'' (host @ path) = (if path = [] then None else Some (length host))"
    using assms(2,3) find_str_skip [of "CHR ''/''" host path "[]"] by (auto simp: find_str_char_None)
  ultimately show ?thesis
    by (simp add: parse_uri_components_def strip_prefix_def)
qed

section \<open>Properties\<close>

text \<open>
  C34: The canonicalizer always returns: on a well-formed document, inclusive canonicalization in
  any of its modes, of any node set, yields an octet sequence.
\<close>

theorem inclusive_terminates:
  assumes "wf_doc d"
  shows "\<exists>out. canonicalize_with_options d wc nso c11 = Some out"
  unfolding canonicalize_with_options_def using incl.full_total [OF assms] by blast

theorem inclusive_terminates_witness:
  "\<exists>out. canonicalize_with_options (arena_doc sample_arena) False None False = Some out"
  by (rule inclusive_terminates) (rule arena_wf [OF sample_arena_ok])

text \<open>
  Canonicalizing the selection of a subtree gives the canonical form of that subtree alone:
  whatever surrounds the selected element in the document, the output is what processing the
  element itself with no inherited namespace writes, with and without comments.
\<close>

theorem inclusive_subtree:
  assumes "wf_doc d" and "anc_self d (doc_root d) r"
    and "ns = tree_without_comments r d \<or> ns = tree_with_comments r d"
  shows "canonicalize_with_options d wc (Some ns) c11 =
    process_node (doc_bound d) (incl_ctx d wc (Some ns) c11) r []"
proof -
  have "\<not> has_ns_filter (Some ns)" "is_visible (Some ns) x \<Longrightarrow> anc_self d r x" for x
    using assms(3) collect_subtree_eq [OF assms(1)]
    by (auto simp: has_ns_filter_def has_ns_visible_def is_visible_def node_set_ctor_defs
        contains_id_def sub_nodes_def)
  from incl.full_localises [OF assms(1) this assms(2)] show ?thesis
    by (simp add: canonicalize_with_options_def)
qed

theorem inclusive_subtree_witness:
  "canonicalize_with_options (arena_doc sample_arena) False
     (Some (tree_without_comments 1 (arena_doc sample_arena))) False =
   process_node 5 (incl_ctx (arena_doc sample_arena) False
     (Some (tree_without_comments 1 (arena_doc sample_arena))) False) 1 []"
proof -
  let ?d = "arena_doc sample_arena"
  have wf: "wf_doc ?d" by (rule arena_wf [OF sample_arena_ok])
  have "doc_parent ?d 1 = Some (doc_root ?d)" by (simp add: arena_parent_def sample_arena_def)
  then have "anc_self ?d (doc_root ?d) 1" by (auto intro: anc_self.intros)
  moreover have "doc_bound ?d = 5" by (simp add: sample_arena_def)
  ultimately show ?thesis using inclusive_subtree [OF wf, of 1] by metis
qed

text \<open>
  What is not selected leaves no trace: if no node of a subtree is in the node set and no single
  namespace nodes are selected, processing the subtree writes nothing. In particular a signature
  removed from the node set by the enveloped-signature transform does not influence the digest.
\<close>

theorem inclusive_hidden_subtree:
  assumes "wf_doc d" and "\<not> has_ns_filter nso"
    and "\<And>x. anc_self d n x \<Longrightarrow> \<not> is_visible nso x"
  shows "process_node (doc_bound d) (incl_ctx d wc nso c11) n m = Some []"
  using assms by (rule incl.full_hidden)

theorem inclusive_hidden_subtree_witness:
  "process_node 5 (incl_ctx (arena_doc sample_arena) True (Some NodeSet_new) False) 1 [] = Some []"
proof -
  have "process_node (doc_bound (arena_doc sample_arena))
      (incl_ctx (arena_doc sample_arena) True (Some NodeSet_new) False) 1 [] = Some []"
    by (rule inclusive_hidden_subtree [OF arena_wf [OF sample_arena_ok]])
      (simp_all add: has_ns_filter_def has_ns_visible_def NodeSet_new_def is_visible_def
        contains_id_def)
  moreover have "doc_bound (arena_doc sample_arena) = 5" by (simp add: sample_arena_def)
  ultimately show ?thesis by metis
qed

text \<open>
  The comments switch only concerns comments: for a node set that contains no comment the
  modes with and without comments produce the same octets. A reference by bare name (\<open>#id\<close>) and the
  selection of \<open>SignedInfo\<close> are such node sets, so for them \<open>#WithComments\<close> has no effect.
\<close>

theorem comments_mode_irrelevant:
  assumes "\<And>n. is_comment d n \<Longrightarrow> \<not> is_visible nso n"
  shows "canonicalize_with_options d True nso c11 = canonicalize_with_options d False nso c11"
  using process_node_comments [of "incl_ctx d False nso c11" "doc_bound d" True] assms
  by (simp add: canonicalize_with_options_def)

theorem comments_mode_irrelevant_witness:
  "canonicalize_with_options (arena_doc sample_arena) True
     (Some (tree_without_comments 0 (arena_doc sample_arena))) False =
   canonicalize_with_options (arena_doc sample_arena) False
     (Some (tree_without_comments 0 (arena_doc sample_arena))) False"
proof (rule comments_mode_irrelevant)
  fix n assume "is_comment (arena_doc sample_arena) n"
  then show "\<not> is_visible (Some (tree_without_comments 0 (arena_doc sample_arena))) n"
    by (simp add: is_visible_def collect_subtree_eq [OF arena_wf [OF sample_arena_ok]] sub_nodes_def)
qed

text \<open>
  C35: The namespace declarations of a start tag are exactly the ones a reader needs. No prefix is
  declared twice and \<open>xml\<close> is never declared; they are sorted by prefix; after the tag, a
  namespace-aware reader binds every visible in-scope prefix to its URI, and its bindings are those
  the canonicalizer passes on to the children, so nothing is declared again below; and every
  declaration changes the binding that was inherited.
\<close>

theorem ns_decls_correct:
  assumes "bt_wf vis" "bt_wf inh" and "decls = rendered_ns_decls ctx vis inh"
  shows "distinct (map nd_prefix decls) \<and> ''xml'' \<notin> set (map nd_prefix decls) \<and>
    sorted_wrt (\<lambda>a b. nd_prefix a \<le> nd_prefix b) decls \<and>
    (\<forall>p u. bt_get vis p = Some u \<and> p \<noteq> ''xml'' \<longrightarrow> reader_binding inh decls p = u) \<and>
    (\<not> has_ns_filter (cx_node_set ctx) \<longrightarrow> (\<forall>p. reader_binding inh decls p =
        unwrap_or [] (bt_get (child_namespaces (cx_node_set ctx) vis inh) p))) \<and>
    (\<forall>x \<in> set decls. unwrap_or [] (bt_get inh (nd_prefix x)) \<noteq> nd_uri x)"
proof (intro conjI allI impI ballI)
  show "distinct (map nd_prefix decls)"
    using assms(1,3) by (simp add: distinct_rendered_ns_decls)
  show "''xml'' \<notin> set (map nd_prefix decls)"
    using assms(1,3) by (auto simp: set_rendered_ns_decls dest!: undeclareD)
  show "sorted_wrt (\<lambda>a b. nd_prefix a \<le> nd_prefix b) decls"
    using ns_ord.sorted_sort_by assms(3)
    by (simp add: rendered_ns_decls_def sort_ns_decls_def NsDecl_cmp_eq not_less)
  show "bt_get vis p = Some u \<and> p \<noteq> ''xml'' \<Longrightarrow> reader_binding inh decls p = u" for p u
    using reader_binding_rendered [OF assms(1)] assms(3) by simp
  show "reader_binding inh decls p =
      unwrap_or [] (bt_get (child_namespaces (cx_node_set ctx) vis inh) p)"
    if "\<not> has_ns_filter (cx_node_set ctx)" for p
    using reader_binding_rendered [OF assms(1)] assms(3) that
    by (auto simp: bt_get_child_namespaces [OF assms(1,2)])
  show "unwrap_or [] (bt_get inh (nd_prefix x)) \<noteq> nd_uri x" if "x \<in> set decls" for x
    using that assms(1,3)
    by (auto simp: set_rendered_ns_decls unwrap_or_def split: option.splits dest!: undeclareD)
qed

theorem ns_decls_correct_witness:
  "reader_binding [(''a'', ''u'')]
     (rendered_ns_decls (incl_ctx (arena_doc sample_arena) False None False)
       [(''a'', ''v''), (''b'', ''w'')] [(''a'', ''u'')]) ''b'' = ''w''"
proof -
  have "bt_wf [(''a'', ''v''), (''b'', ''w'')]" "bt_wf [(''a'', ''u'')]"
    by (simp_all add: bt_wf_def less_char_def)
  from ns_decls_correct [OF this refl, of "incl_ctx (arena_doc sample_arena) False None False"]
  show ?thesis by (simp add: bt_get_def)
qed

text \<open>
  How the code resolves a relative reference against \<open>scheme://host\<close> and a path. The last path
  segment is replaced by the reference, as RFC 3986 has it, when the base has a path; when the base
  has an authority and no path the reference is glued to the host name without the slash that
  RFC 3986, section 5.2.3 requires (the code inserts the slash only when there is no authority).
\<close>

theorem resolve_relative_reference:
  assumes "CHR '':'' \<notin> set scheme" and "CHR ''/'' \<notin> set host" and "CHR ''/'' \<notin> set file"
    and "reference \<noteq> []" "\<not> starts_with reference ''/''" "\<not> contains_str reference ''://''"
  shows "resolve_uri_reference (scheme @ ''://'' @ host @ ''/'' @ file) reference =
      scheme @ ''://'' @ host @ ''/'' @ reference \<and>
    resolve_uri_reference (scheme @ ''://'' @ host @ ''/'' @ dir @ ''/'' @ file) reference =
      scheme @ ''://'' @ host @ ''/'' @ dir @ ''/'' @ reference \<and>
    resolve_uri_reference (scheme @ ''://'' @ host) reference = scheme @ ''://'' @ host @ reference"
proof (intro conjI)
  note comps = parse_uri_components_eq [OF assms(1,2)]
  note rel = resolve_uri_reference_def assms(4,5,6)
  show "resolve_uri_reference (scheme @ ''://'' @ host @ ''/'' @ file) reference =
      scheme @ ''://'' @ host @ ''/'' @ reference"
    using comps [of "''/'' @ file"] rfind_char_append [OF assms(3), of "[]"] by (simp add: rel)
  show "resolve_uri_reference (scheme @ ''://'' @ host @ ''/'' @ dir @ ''/'' @ file) reference =
      scheme @ ''://'' @ host @ ''/'' @ dir @ ''/'' @ reference"
    using comps [of "''/'' @ dir @ ''/'' @ file"] rfind_char_append [OF assms(3), of "''/'' @ dir"]
    by (simp add: rel)
  show "resolve_uri_reference (scheme @ ''://'' @ host) reference = scheme @ ''://'' @ host @ reference"
    using comps [of "[]"] by (simp add: rel)
qed

theorem resolve_relative_reference_witness:
  "resolve_uri_reference ''http://example.org'' ''a'' = ''http://example.orga''"
  using resolve_relative_reference [of "''http''" "''example.org''" "[]" "''a''" "[]"]
  by (simp add: contains_str_def)

end
