(* ===== verification/C14n_Exclusive.thy ===== *)
theory C14n_Exclusive
  imports C14n_Inclusive
begin

text \<open>
  Exclusive Canonical XML 1.0 (\<open>bergshamra-c14n/src/exclusive.rs\<close>). The walk has the shape of the
  inclusive one and is another interpretation of \<open>canonicalizer\<close>; what differs is which namespaces a
  start tag declares. The names carry the prefix \<open>exc_\<close> where \<open>inclusive.rs\<close> has a function of the
  same name.

  A \<open>HashSet<String>\<close> is a list without duplicates, in insertion order; lemma \<open>exc_hash_order\<close> shows
  that the unspecified iteration order of the code's hash set does not show in the result.
\<close>

section \<open>Names and namespaces\<close>

definition get_element_prefix :: "element \<Rightarrow> string" where
  "get_element_prefix elem = unwrap_or [] (qn_prefix (el_name elem))"

definition get_attr_prefix :: "attribute \<Rightarrow> string option" where
  "get_attr_prefix a =
     (case qn_namespace_uri (at_name a) of
        Some ns_uri \<Rightarrow>
          if ns_uri = xml_ns then Some ''xml'' else Some (unwrap_or [] (qn_prefix (at_name a)))
      | None \<Rightarrow> None)"

definition exc_merge_entry :: "string \<times> string \<Rightarrow> ns_map \<Rightarrow> ns_map" where
  "exc_merge_entry e result =
     (if snd e = [] then bt_remove (fst e) result else bt_insert (fst e) (snd e) result)"

definition exc_collect_inscope_namespaces :: "document \<Rightarrow> node_id \<Rightarrow> ns_map" where
  "exc_collect_inscope_namespaces d n = fold (fold exc_merge_entry) (rev (ns_stack d n)) []"

section \<open>The canonicalizer\<close>

record exc_ctx =
  ex_doc :: document
  ex_with_comments :: bool
  ex_node_set :: "node_set option"
  ex_inclusive_prefixes :: "string list"

definition utilized_prefixes :: "string list \<Rightarrow> element \<Rightarrow> string list" where
  "utilized_prefixes inclusive_prefixes elem =
     (let s = [get_element_prefix elem];
          s = fold (\<lambda>a s. case get_attr_prefix a of
                 Some pre \<Rightarrow> if pre \<noteq> [] then List.insert pre s else s
               | None \<Rightarrow> s) (el_attributes elem) s
      in fold (\<lambda>p s. if p = ''#default'' then List.insert [] s else List.insert p s)
           inclusive_prefixes s)"

definition exc_ns_decl :: "ns_map \<Rightarrow> ns_map \<Rightarrow> string \<Rightarrow> ns_decl option" where
  "exc_ns_decl vis rendered p =
     (if p = ''xml'' then None
      else case bt_get vis p of
        Some uri \<Rightarrow>
          if bt_get rendered p \<noteq> Some uri then Some \<lparr>nd_prefix = p, nd_uri = uri\<rparr> else None
      | None \<Rightarrow>
          if p = [] then
            case bt_get rendered [] of
              Some u \<Rightarrow> if u \<noteq> [] then Some \<lparr>nd_prefix = [], nd_uri = []\<rparr> else None
            | None \<Rightarrow> None
          else None)"

definition exc_ns_decls :: "ns_map \<Rightarrow> ns_map \<Rightarrow> string list \<Rightarrow> ns_decl list" where
  "exc_ns_decls vis rendered ps = sort_ns_decls (List.map_filter (exc_ns_decl vis rendered) ps)"

definition exc_attrs :: "element \<Rightarrow> attr list" where
  "exc_attrs elem =
     sort_attrs (map (\<lambda>a. \<lparr>ar_ns_uri = unwrap_or [] (qn_namespace_uri (at_name a)),
               ar_local_name = qn_local_name (at_name a),
               ar_qualified_name =
                 (case get_attr_prefix a of
                    Some pre \<Rightarrow>
                      if pre = [] then qn_local_name (at_name a)
                      else pre @ '':'' @ qn_local_name (at_name a)
                  | None \<Rightarrow> qn_local_name (at_name a)),
               ar_value = at_value a\<rparr>) (el_attributes elem))"

definition exc_child_rendered ::
  "node_set option \<Rightarrow> ns_map \<Rightarrow> string list \<Rightarrow> ns_decl list \<Rightarrow> ns_map \<Rightarrow> ns_map" where
  "exc_child_rendered nso vis ps decls rendered =
     (let m = fold (\<lambda>x m. bt_insert (nd_prefix x) (nd_uri x) m) decls rendered in
      if has_ns_filter nso then
        fold (\<lambda>p m. if p = ''xml'' then m
                     else if \<not> bt_contains vis p then bt_remove p m else m) ps m
      else m)"

text \<open>The namespace nodes written for an element outside the node set.\<close>

definition exc_hidden_ns_decls :: "exc_ctx \<Rightarrow> node_id \<Rightarrow> ns_map \<Rightarrow> ns_decl list" where
  "exc_hidden_ns_decls ctx n rendered =
     (if has_ns_filter (ex_node_set ctx) \<and> ex_inclusive_prefixes ctx \<noteq> [] then
        let visible_ns =
              filter (\<lambda>e. if fst e = [] then list_ex (\<lambda>p. p = ''#default'') (ex_inclusive_prefixes ctx)
                          else fst e \<in> set (ex_inclusive_prefixes ctx))
                (filter_visible_ns (ex_node_set ctx) n (exc_collect_inscope_namespaces (ex_doc ctx) n))
        in sort_ns_decls
             (List.map_filter
               (\<lambda>e. if fst e = ''xml'' then None
                    else if bt_get rendered (fst e) \<noteq> Some (snd e)
                    then Some \<lparr>nd_prefix = fst e, nd_uri = snd e\<rparr> else None) visible_ns)
      else [])"

definition exc_process_element :: "node_proc \<Rightarrow> exc_ctx \<Rightarrow> node_id \<Rightarrow> ns_map \<Rightarrow> bytes option" where
  "exc_process_element rec ctx n rendered =
     (let d = ex_doc ctx; nso = ex_node_set ctx in
      if is_visible nso n then
        case doc_element d n of
          None \<Rightarrow> None
        | Some elem \<Rightarrow>
            let ps = utilized_prefixes (ex_inclusive_prefixes ctx) elem;
                vis = filter_visible_ns nso n (exc_collect_inscope_namespaces d n);
                decls = exc_ns_decls vis rendered ps
            in map_option
                 (\<lambda>body. start_tag (qualified_element_name elem) decls (exc_attrs elem) @ body @
                          end_tag (qualified_element_name elem))
                 (process_children rec d n (exc_child_rendered nso vis ps decls rendered))
      else
        map_option
          (\<lambda>body. concat (map NsDecl_render (exc_hidden_ns_decls ctx n rendered)) @ body)
          (process_children rec d n rendered))"

fun exc_process_node :: "nat \<Rightarrow> exc_ctx \<Rightarrow> node_proc" where
  "exc_process_node 0 ctx n rendered = None"
| "exc_process_node (Suc k) ctx n rendered =
     (let d = ex_doc ctx; nso = ex_node_set ctx in
      case doc_kind d n of
        Some Document \<Rightarrow> process_children (exc_process_node k ctx) d n rendered
      | Some (Element _) \<Rightarrow> exc_process_element (exc_process_node k ctx) ctx n rendered
      | Some (Text text) \<Rightarrow> Some (if is_visible nso n then escape_text text else [])
      | Some (CData text) \<Rightarrow> Some (if is_visible nso n then escape_text text else [])
      | Some (Comment text) \<Rightarrow>
          Some (if ex_with_comments ctx \<and> is_visible nso n then render_comment d n text else [])
      | Some (ProcessingInstruction p) \<Rightarrow> Some (if is_visible nso n then render_pi d n p else [])
      | None \<Rightarrow> Some [])"

abbreviation exc_ctx_of :: "document \<Rightarrow> bool \<Rightarrow> node_set option \<Rightarrow> string list \<Rightarrow> exc_ctx" where
  "exc_ctx_of d wc nso ips \<equiv>
     \<lparr>ex_doc = d, ex_with_comments = wc, ex_node_set = nso, ex_inclusive_prefixes = ips\<rparr>"

definition exclusive_canonicalize ::
  "document \<Rightarrow> bool \<Rightarrow> node_set option \<Rightarrow> string list \<Rightarrow> bytes option" where
  "exclusive_canonicalize d with_comments nso inclusive_prefixes =
     exc_process_node (doc_bound d) (exc_ctx_of d with_comments nso (remdups inclusive_prefixes))
       (doc_root d) []"

section \<open>The walk\<close>

lemma exc_process_element_cong:
  assumes "\<And>c m. c \<in> set (doc_children (ex_doc ctx) n) \<Longrightarrow> rec c m = rec' c m"
  shows "exc_process_element rec ctx n m = exc_process_element rec' ctx n m"
proof -
  have "process_children rec (ex_doc ctx) n m = process_children rec' (ex_doc ctx) n m" for m
    using assms by (rule process_children_cong)
  then show ?thesis by (simp add: exc_process_element_def Let_def split: option.split)
qed

lemma exc_process_element_total:
  assumes "is_element (ex_doc ctx) n"
    and "\<And>c m. c \<in> set (doc_children (ex_doc ctx) n) \<Longrightarrow> rec c m \<noteq> None"
  shows "exc_process_element rec ctx n m \<noteq> None"
proof -
  have "process_children rec (ex_doc ctx) n m \<noteq> None" for m
    using assms(2) by (rule process_children_total)
  with assms(1) show ?thesis
    by (auto simp: exc_process_element_def is_element_def Let_def split: option.splits)
qed

interpretation exc: canonicalizer d nso wc
  "\<lambda>rec. exc_process_element rec (exc_ctx_of d wc nso ips)"
  "\<lambda>k. exc_process_node k (exc_ctx_of d wc nso ips)"
  for d nso wc ips
proof
  show "exc_process_node 0 (exc_ctx_of d wc nso ips) n m = None" for n m by simp
  show "(\<And>c m. c \<in> set (doc_children d n) \<Longrightarrow> rec c m = rec' c m) \<Longrightarrow>
      exc_process_element rec (exc_ctx_of d wc nso ips) n m =
      exc_process_element rec' (exc_ctx_of d wc nso ips) n m" for n m rec rec'
    by (rule exc_process_element_cong) simp
  show "is_element d n \<Longrightarrow> (\<And>c m. c \<in> set (doc_children d n) \<Longrightarrow> rec c m \<noteq> None) \<Longrightarrow>
      exc_process_element rec (exc_ctx_of d wc nso ips) n m \<noteq> None" for n m rec
    by (rule exc_process_element_total) simp_all
qed (simp_all add: Let_def exc_process_element_def exc_hidden_ns_decls_def
    split: option.split node_kind.split)

section \<open>Declared namespaces\<close>

lemma distinct_fold_insert:
  assumes "\<And>x s. distinct s \<Longrightarrow> distinct (f x s)" "distinct s"
  shows "distinct (fold f xs s)"
  using assms(2) by (induction xs arbitrary: s) (simp_all add: assms(1))

lemma distinct_utilized: "distinct (utilized_prefixes ips elem)"
  unfolding utilized_prefixes_def Let_def
  by (intro distinct_fold_insert) (auto split: option.split)

lemma exc_ns_decl_prefix: "exc_ns_decl vis r p = Some x \<Longrightarrow> nd_prefix x = p"
  by (auto simp: exc_ns_decl_def split: if_splits option.splits)

lemma set_exc_ns_decls: "x \<in> set (exc_ns_decls vis r ps) \<longleftrightarrow>
    nd_prefix x \<in> set ps \<and> exc_ns_decl vis r (nd_prefix x) = Some x"
  unfolding exc_ns_decls_def set_sorts set_map_filter by (metis exc_ns_decl_prefix)

lemma distinct_exc_ns_decls:
  assumes "distinct ps"
  shows "distinct (map nd_prefix (exc_ns_decls vis r ps))"
proof -
  have "distinct (map nd_prefix (List.map_filter (exc_ns_decl vis r) ps)) \<and>
      set (map nd_prefix (List.map_filter (exc_ns_decl vis r) ps)) \<subseteq> set ps"
    using assms exc_ns_decl_prefix by (induction ps) (fastforce split: option.splits)+
  then show ?thesis by (simp add: exc_ns_decls_def distinct_sort_ns_decls)
qed

text \<open>The order in which the hash set of utilized prefixes is iterated does not matter.\<close>

lemma exc_hash_order:
  assumes "mset ps = mset qs" "distinct ps"
  shows "exc_ns_decls vis r ps = exc_ns_decls vis r qs"
  unfolding exc_ns_decls_def sort_ns_decls_def
proof (rule ns_ord.sort_by_permuted)
  show "mset (List.map_filter (exc_ns_decl vis r) ps) = mset (List.map_filter (exc_ns_decl vis r) qs)"
    unfolding List.map_filter_def mset_map mset_filter assms(1) by simp
  show "x = y" if "x \<in> set (List.map_filter (exc_ns_decl vis r) ps)"
    "y \<in> set (List.map_filter (exc_ns_decl vis r) ps)" "NsDecl_cmp x y = Equal" for x y
    using that exc_ns_decl_prefix by (fastforce simp: NsDecl_cmp_Equal_iff set_map_filter)
qed

lemma bt_get_exc_child:
  assumes "bt_wf r" "distinct (map nd_prefix decls)"
  shows "\<not> has_ns_filter nso \<Longrightarrow> bt_get (exc_child_rendered nso vis ps decls r) p =
    (case find (\<lambda>x. nd_prefix x = p) decls of Some x \<Rightarrow> Some (nd_uri x) | None \<Rightarrow> bt_get r p)"
  using assms
  unfolding exc_child_rendered_def Let_def
proof (simp, induction decls arbitrary: r)
  case (Cons x decls)
  have "find (\<lambda>y. nd_prefix y = nd_prefix x) decls = None"
    using Cons.prems(3) by (intro find_cong_set) (metis image_eqI list.set_map distinct.simps(2) list.simps(9))
  with Cons show ?case by (auto simp: bt.ok_ins bt.get_ins split: option.split)
qed simp


lemma exc_reader_binding:
  assumes "distinct ps" "p \<in> set ps" "p \<noteq> ''xml''" "bt_get vis p \<noteq> None \<or> p = []"
  shows "reader_binding r (exc_ns_decls vis r ps) p = unwrap_or [] (bt_get vis p)"
proof (cases "exc_ns_decl vis r p")
  case (Some x)
  then have x: "nd_prefix x = p" "nd_uri x = unwrap_or [] (bt_get vis p)"
    using assms(3) by (auto simp: exc_ns_decl_def split: if_splits option.splits)
  with Some assms(2) have "x \<in> set (exc_ns_decls vis r ps)" by (simp add: set_exc_ns_decls)
  from reader_binding_eq(1) [OF distinct_exc_ns_decls [OF assms(1)] this] x show ?thesis by simp
next
  case None
  then have "\<And>x. x \<in> set (exc_ns_decls vis r ps) \<Longrightarrow> nd_prefix x \<noteq> p"
    by (auto simp: set_exc_ns_decls)
  from reader_binding_eq(2) [OF distinct_exc_ns_decls [OF assms(1)] this]
  have "reader_binding r (exc_ns_decls vis r ps) p = unwrap_or [] (bt_get r p)" .
  also have "\<dots> = unwrap_or [] (bt_get vis p)"
    using None assms(3,4) by (auto simp: exc_ns_decl_def split: if_splits option.splits)
  finally show ?thesis .
qed

text \<open>The declarations look at the utilized prefixes only.\<close>

lemma exc_ns_decls_cong:
  assumes "\<And>p. p \<in> set ps \<Longrightarrow> bt_get vis p = bt_get vis' p"
  shows "exc_ns_decls vis r ps = exc_ns_decls vis' r ps"
proof -
  have "List.map_filter (exc_ns_decl vis r) ps = List.map_filter (exc_ns_decl vis' r) ps"
    using assms by (induction ps) (auto simp: exc_ns_decl_def split: option.splits)
  then show ?thesis by (simp add: exc_ns_decls_def)
qed

text \<open>
  Two documents that agree on the subtree of \<open>r\<close> up to its namespace context: the same nodes, below
  an element, and for each of its elements the same bindings of the prefixes it visibly utilizes.
\<close>

definition same_subtree :: "string list \<Rightarrow> document \<Rightarrow> document \<Rightarrow> node_id \<Rightarrow> bool" where
  "same_subtree ips d d' r \<longleftrightarrow>
     (\<forall>n. anc_self d r n \<longrightarrow>
        doc_kind d n = doc_kind d' n \<and> doc_children d n = doc_children d' n \<and>
        \<not> parent_is_root d n \<and> \<not> parent_is_root d' n \<and>
        (\<forall>elem. doc_element d n = Some elem \<longrightarrow>
           (\<forall>p \<in> set (utilized_prefixes ips elem).
              bt_get (exc_collect_inscope_namespaces d n) p =
              bt_get (exc_collect_inscope_namespaces d' n) p)))"

lemma exc_process_element_context:
  assumes "\<not> has_ns_filter nso" and "doc_children d n = doc_children d' n"
    and "doc_element d n = Some elem" "doc_element d' n = Some elem"
    and "\<And>p. p \<in> set (utilized_prefixes ips elem) \<Longrightarrow>
      bt_get (exc_collect_inscope_namespaces d n) p = bt_get (exc_collect_inscope_namespaces d' n) p"
    and "\<And>c m. c \<in> set (doc_children d n) \<Longrightarrow> rec c m = rec' c m"
  shows "exc_process_element rec (exc_ctx_of d wc nso ips) n m =
    exc_process_element rec' (exc_ctx_of d' wc nso ips) n m"
proof -
  have c: "process_children rec d n m = process_children rec' d' n m" for m
    using assms(2,6) process_children_cong [of d n rec m rec'] by (simp add: process_children_def)
  have f: "filter_visible_ns nso n v = v" for v
    using assms(1) by (simp add: filter_visible_ns_def has_ns_filter_def split: option.splits)
  have "exc_child_rendered nso v ps ds m = exc_child_rendered nso v' ps ds m" for v v' ps ds m
    using assms(1) by (simp add: exc_child_rendered_def)
  with c exc_ns_decls_cong [OF assms(5)] show ?thesis
    by (simp add: exc_process_element_def Let_def assms(1,3,4) f exc_hidden_ns_decls_def) metis
qed

lemma exc_same_subtree:
  assumes wf: "wf_doc d" "wf_doc d'" and filter: "\<not> has_ns_filter nso" and same: "same_subtree ips d d' r"
  shows "anc_self d r n \<Longrightarrow>
    exc_process_node (doc_bound d) (exc_ctx_of d wc nso ips) n m =
    exc_process_node (doc_bound d') (exc_ctx_of d' wc nso ips) n m"
proof (induction n arbitrary: m rule: child_induct [OF wf(1)])
  case (1 n)
  let ?w = "exc_process_node (doc_bound d) (exc_ctx_of d wc nso ips)"
  let ?w' = "exc_process_node (doc_bound d') (exc_ctx_of d' wc nso ips)"
  from same 1(2) have n: "doc_kind d n = doc_kind d' n" "doc_children d n = doc_children d' n"
      "\<not> parent_is_root d n" "\<not> parent_is_root d' n"
    and b: "\<And>elem p. doc_element d n = Some elem \<Longrightarrow> p \<in> set (utilized_prefixes ips elem) \<Longrightarrow>
      bt_get (exc_collect_inscope_namespaces d n) p = bt_get (exc_collect_inscope_namespaces d' n) p"
    by (simp_all add: same_subtree_def)
  have c: "?w c m = ?w' c m" if "c \<in> set (doc_children d n)" for c m
    using that 1 anc_self_trans [of d n c r] anc_self_child [OF wf(1)] by blast
  then have cs: "process_children ?w d n m = process_children ?w' d' n m"
    using n(2) process_children_cong [of d n ?w m ?w'] by (simp add: process_children_def)
  have e: "exc_process_element ?w (exc_ctx_of d wc nso ips) n m =
      exc_process_element ?w' (exc_ctx_of d' wc nso ips) n m" if "doc_kind d n = Some (Element elem)" for elem
    using that n(1,2) b c by (intro exc_process_element_context [OF filter]) (auto simp: doc_element_def)
  show ?case
    by (subst exc.full_unfold [OF wf(1)], subst exc.full_unfold [OF wf(2)])
      (use n cs e in \<open>auto simp: render_comment_def render_pi_def at_document_level_def
        split: option.splits node_kind.splits\<close>)
qed

section \<open>Properties\<close>

text \<open>
  Exclusive canonicalization always returns on a well-formed document, for every node set and
  every prefix list.
\<close>

theorem exclusive_terminates:
  assumes "wf_doc d"
  shows "\<exists>out. exclusive_canonicalize d wc nso ips = Some out"
  unfolding exclusive_canonicalize_def using exc.full_total [OF assms] by blast

theorem exclusive_terminates_witness:
  "\<exists>out. exclusive_canonicalize (arena_doc sample_arena) True None [''#default''] = Some out"
  by (rule exclusive_terminates) (rule arena_wf [OF sample_arena_ok])

text \<open>
  C36: A start tag of the exclusive form declares what its element uses and nothing else. Every
  declared prefix is visibly utilized, is not \<open>xml\<close>, and is declared once; after the tag a
  namespace-aware reader binds every utilized prefix that is in scope, and the default namespace when
  utilized, to the URI it has in the document; and what the reader binds is what the canonicalizer
  records as rendered for the children.
\<close>

theorem exc_ns_decls_correct:
  assumes "bt_wf rendered" and "ps = utilized_prefixes ips elem" and "decls = exc_ns_decls vis rendered ps"
  shows "distinct (map nd_prefix decls) \<and> set (map nd_prefix decls) \<subseteq> set ps - {''xml''} \<and>
    (\<forall>p. p \<in> set ps \<and> p \<noteq> ''xml'' \<and> (bt_get vis p \<noteq> None \<or> p = []) \<longrightarrow>
       reader_binding rendered decls p = unwrap_or [] (bt_get vis p)) \<and>
    (\<not> has_ns_filter nso \<longrightarrow> (\<forall>p. reader_binding rendered decls p =
       unwrap_or [] (bt_get (exc_child_rendered nso vis ps decls rendered) p)))"
proof (intro conjI allI impI)
  have d: "distinct ps" using assms(2) by (simp add: distinct_utilized)
  then show dd: "distinct (map nd_prefix decls)" using assms(3) by (simp add: distinct_exc_ns_decls)
  show "set (map nd_prefix decls) \<subseteq> set ps - {''xml''}"
    using assms(3) by (auto simp: set_exc_ns_decls exc_ns_decl_def)
  show "reader_binding rendered decls p = unwrap_or [] (bt_get vis p)"
    if "p \<in> set ps \<and> p \<noteq> ''xml'' \<and> (bt_get vis p \<noteq> None \<or> p = [])" for p
    using that exc_reader_binding [OF d, of p vis rendered] assms(3) by simp
  show "reader_binding rendered decls p =
      unwrap_or [] (bt_get (exc_child_rendered nso vis ps decls rendered) p)"
    if "\<not> has_ns_filter nso" for p
    using bt_get_exc_child [OF assms(1) dd that, of vis ps p]
    by (simp add: reader_binding_def split: option.split)
qed

definition sample_exc_element :: element where
  "sample_exc_element =
     \<lparr>el_name = \<lparr>qn_local_name = ''e'', qn_prefix = Some ''b'', qn_namespace_uri = Some ''w''\<rparr>,
      el_attributes = [], el_namespace_declarations = []\<rparr>"

theorem exc_ns_decls_correct_witness:
  "reader_binding [(''b'', ''u'')]
     (exc_ns_decls [(''a'', ''v''), (''b'', ''w'')] [(''b'', ''u'')]
       (utilized_prefixes [] sample_exc_element)) ''b'' = ''w''"
proof -
  have "bt_wf [(''b'', ''u'')]" by (simp add: bt_wf_def)
  from exc_ns_decls_correct [OF this refl refl, where ips = "[]" and elem = sample_exc_element
      and vis = "[(''a'', ''v''), (''b'', ''w'')]" and nso = None]
  show ?thesis
    by (simp add: bt_get_def sample_exc_element_def utilized_prefixes_def get_element_prefix_def)
qed

text \<open>
  C37: The exclusive form of a subtree does not depend on its context. Take two documents that
  contain the same subtree and give the prefixes its elements visibly utilize the same meaning, and
  a node set inside it: both documents canonicalize to the same octets, whatever the enclosing
  elements are and whatever other namespaces they declare. So a signed element can be moved into
  another envelope without breaking its digest.
\<close>

theorem exclusive_context_free:
  assumes "wf_doc d" "wf_doc d'" and "anc_self d (doc_root d) r" "anc_self d' (doc_root d') r"
    and "\<not> has_ns_filter nso"
    and "\<And>x. is_visible nso x \<Longrightarrow> anc_self d r x \<and> anc_self d' r x"
    and "same_subtree (remdups ips) d d' r"
  shows "exclusive_canonicalize d wc nso ips = exclusive_canonicalize d' wc nso ips"
proof -
  have "exclusive_canonicalize d wc nso ips =
      exc_process_node (doc_bound d) (exc_ctx_of d wc nso (remdups ips)) r []"
    unfolding exclusive_canonicalize_def
    using assms(6) by (intro exc.full_localises [OF assms(1,5) _ assms(3)]) blast
  also have "\<dots> = exc_process_node (doc_bound d') (exc_ctx_of d' wc nso (remdups ips)) r []"
    using assms(1,2,5,7) anc_refl by (rule exc_same_subtree)
  also have "\<dots> = exclusive_canonicalize d' wc nso ips"
    unfolding exclusive_canonicalize_def
    using assms(6) by (intro exc.full_localises [OF assms(2,5) _ assms(4), symmetric]) blast
  finally show ?thesis .
qed

text \<open>The same element \<open>b:e\<close> in an envelope with and without an extra namespace \<open>x\<close>.\<close>

definition envelope :: "(string \<times> string) list \<Rightarrow> arena" where
  "envelope nss =
     [(Document, None),
      (Element \<lparr>el_name = \<lparr>qn_local_name = ''a'', qn_prefix = None, qn_namespace_uri = None\<rparr>,
        el_attributes = [], el_namespace_declarations = (''b'', ''w'') # nss\<rparr>, Some 0),
      (Element sample_exc_element, Some 1)]"

lemma envelope_ok: "arena_ok (envelope nss)"
  by (simp add: arena_ok_def envelope_def is_container_def upt_conv_Cons numeral_2_eq_2)

lemma envelope_sub: "anc_self (arena_doc (envelope nss)) 2 n \<longleftrightarrow> n = 2"
  using descendants_iff [OF arena_wf [OF envelope_ok], of n 2 nss]
  by (simp add: arena_descendants_def envelope_def upt_conv_Cons arena_parent_def numeral_2_eq_2
      numeral_3_eq_3 split: if_splits)

lemma envelope_root: "anc_self (arena_doc (envelope nss)) 0 2"
proof -
  have "doc_parent (arena_doc (envelope nss)) 2 = Some 1"
    "doc_parent (arena_doc (envelope nss)) 1 = Some 0"
    by (simp_all add: arena_parent_def envelope_def)
  then show ?thesis by (metis anc_refl anc_step)
qed

lemma envelope_element: "doc_element (arena_doc (envelope nss)) 2 = Some sample_exc_element"
  by (simp add: doc_element_def arena_kind_def envelope_def)

lemma envelope_same:
  assumes "bt_get (exc_collect_inscope_namespaces (arena_doc (envelope nss)) 2) ''b'' = Some ''w''"
    "bt_get (exc_collect_inscope_namespaces (arena_doc (envelope nss')) 2) ''b'' = Some ''w''"
  shows "same_subtree [] (arena_doc (envelope nss)) (arena_doc (envelope nss')) 2"
proof -
  have "doc_children (arena_doc (envelope nss)) 2 = []" for nss
    by (simp add: arena_children_def envelope_def upt_conv_Cons arena_parent_def)
  moreover have "doc_kind (arena_doc (envelope nss)) 2 = Some (Element sample_exc_element)"
    "\<not> parent_is_root (arena_doc (envelope nss)) 2" for nss
    by (simp_all add: arena_kind_def envelope_def parent_is_root_def arena_parent_def)
  moreover have "utilized_prefixes [] sample_exc_element = [''b'']"
    by (simp add: utilized_prefixes_def sample_exc_element_def get_element_prefix_def)
  ultimately show ?thesis
    using assms by (simp add: same_subtree_def envelope_sub envelope_element)
qed

theorem exclusive_context_free_witness:
  "exclusive_canonicalize (arena_doc (envelope [])) False (Some (from_ids {2} Normal)) [] =
   exclusive_canonicalize (arena_doc (envelope [(''x'', ''urn:x'')])) False
     (Some (from_ids {2} Normal)) []"
proof (rule exclusive_context_free [where r = 2])
  show "same_subtree (remdups []) (arena_doc (envelope []))
      (arena_doc (envelope [(''x'', ''urn:x'')])) 2"
    unfolding remdups.simps
    by (rule envelope_same)
      (simp_all add: exc_collect_inscope_namespaces_def ns_stack_def parent_chain_def envelope_def
        arena_parent_def doc_element_def arena_kind_def sample_exc_element_def ns_level_def
        exc_merge_entry_def bt_get_def numeral_3_eq_3 numeral_2_eq_2)
qed (simp_all add: arena_wf envelope_ok envelope_root envelope_sub has_ns_filter_def
    has_ns_visible_def from_ids_def is_visible_def contains_id_def)

end
