(* ===== verification/C14n.thy ===== *)
theory C14n
  imports C14n_Exclusive Core
begin

text \<open>
  The entry points of the canonicalization crate (\<open>bergshamra-c14n/src/lib.rs\<close>): the modes, their
  algorithm URIs and the dispatch. The XML parser (the \<open>uppsala\<close> crate) is the argument \<open>parse\<close>. A
  canonicalizer that exceeds its recursion bound, which \<open>inclusive_terminates\<close> and
  \<open>exclusive_terminates\<close> exclude, is reported as \<open>bound_exceeded\<close>: the code has no such outcome, and
  it never constructs the error that stands for it here.
\<close>

definition bound_exceeded :: error where
  "bound_exceeded = Error_Canonicalization []"

datatype c14n_mode =
    Inclusive
  | InclusiveWithComments
  | Inclusive11
  | Inclusive11WithComments
  | Exclusive
  | ExclusiveWithComments

fun C14nMode_uri :: "c14n_mode \<Rightarrow> string" where
  "C14nMode_uri Inclusive = alg_C14N"
| "C14nMode_uri InclusiveWithComments = alg_C14N_WITH_COMMENTS"
| "C14nMode_uri Inclusive11 = alg_C14N11"
| "C14nMode_uri Inclusive11WithComments = alg_C14N11_WITH_COMMENTS"
| "C14nMode_uri Exclusive = alg_EXC_C14N"
| "C14nMode_uri ExclusiveWithComments = alg_EXC_C14N_WITH_COMMENTS"

definition C14nMode_from_uri :: "string \<Rightarrow> c14n_mode option" where
  "C14nMode_from_uri uri =
     (if uri = alg_C14N then Some Inclusive
      else if uri = alg_C14N_WITH_COMMENTS then Some InclusiveWithComments
      else if uri = alg_C14N11 then Some Inclusive11
      else if uri = alg_C14N11_WITH_COMMENTS then Some Inclusive11WithComments
      else if uri = alg_EXC_C14N then Some Exclusive
      else if uri = alg_EXC_C14N_WITH_COMMENTS then Some ExclusiveWithComments
      else None)"

definition C14nMode_with_comments :: "c14n_mode \<Rightarrow> bool" where
  "C14nMode_with_comments m \<longleftrightarrow>
     m = InclusiveWithComments \<or> m = Inclusive11WithComments \<or> m = ExclusiveWithComments"

definition C14nMode_is_exclusive :: "c14n_mode \<Rightarrow> bool" where
  "C14nMode_is_exclusive m \<longleftrightarrow> m = Exclusive \<or> m = ExclusiveWithComments"

definition canonicalize_doc ::
  "document \<Rightarrow> c14n_mode \<Rightarrow> node_set option \<Rightarrow> string list \<Rightarrow> bytes result" where
  "canonicalize_doc d mode nso inclusive_prefixes =
     ok_or bound_exceeded (case mode of
        Inclusive \<Rightarrow> inclusive_canonicalize d (C14nMode_with_comments mode) nso
      | InclusiveWithComments \<Rightarrow> inclusive_canonicalize d (C14nMode_with_comments mode) nso
      | Inclusive11 \<Rightarrow> inclusive11_canonicalize d (C14nMode_with_comments mode) nso
      | Inclusive11WithComments \<Rightarrow> inclusive11_canonicalize d (C14nMode_with_comments mode) nso
      | Exclusive \<Rightarrow>
          exclusive_canonicalize d (C14nMode_with_comments mode) nso inclusive_prefixes
      | ExclusiveWithComments \<Rightarrow>
          exclusive_canonicalize d (C14nMode_with_comments mode) nso inclusive_prefixes)"

definition canonicalize ::
  "(string \<Rightarrow> string + document) \<Rightarrow> string \<Rightarrow> c14n_mode \<Rightarrow> node_set option \<Rightarrow> string list \<Rightarrow>
   bytes result" where
  "canonicalize parse xml mode nso inclusive_prefixes =
     and_then (map_err Error_XmlParse (parse xml))
       (\<lambda>d. canonicalize_doc d mode nso inclusive_prefixes)"

lemmas c14n_entry_defs =
  canonicalize_doc_def inclusive_canonicalize_def inclusive11_canonicalize_def
  canonicalize_with_options_def exclusive_canonicalize_def

lemma canonicalize_doc_total: "wf_doc d \<Longrightarrow> \<exists>out. canonicalize_doc d mode nso ips = Inr out"
  unfolding c14n_entry_defs ok_or_Inr_iff not_None_eq [symmetric]
  by (cases mode) (simp_all only: c14n_mode.case incl.full_total exc.full_total not_False_eq_True)

section \<open>Properties\<close>

text \<open>
  The algorithm URI of a mode is read back as that mode, a URI is accepted only as the URI of
  the mode it yields, and exactly the modes with comments have a \<open>#WithComments\<close> URI. No two modes
  share a URI, so the canonicalization a signature names is the one that is run.
\<close>

theorem c14n_mode_uri_roundtrip:
  "C14nMode_from_uri (C14nMode_uri m) = Some m \<and>
   (C14nMode_from_uri u = Some m' \<longleftrightarrow> u = C14nMode_uri m') \<and>
   (C14nMode_with_comments m \<longleftrightarrow> ends_with (C14nMode_uri m) ''WithComments'')"
proof (intro conjI)
  show "C14nMode_from_uri (C14nMode_uri m) = Some m"
    by (cases m) (simp_all add: C14nMode_from_uri_def uri_defs)
  show "C14nMode_from_uri u = Some m' \<longleftrightarrow> u = C14nMode_uri m'"
    by (cases m') (auto simp: C14nMode_from_uri_def uri_defs)
  show "C14nMode_with_comments m \<longleftrightarrow> ends_with (C14nMode_uri m) ''WithComments''"
    by (cases m) (simp_all add: C14nMode_with_comments_def uri_defs ends_with_def)
qed

end
