(* ===== verification/Transforms.thy ===== *)
theory Transforms
  imports C14n
begin

text \<open>
  The transform pipeline (\<open>bergshamra-transforms\<close>): the data that flows through it, the C14N, base64
  and enveloped-signature transforms, and the resolution of reference URIs. The XML parser and the
  base64 decoder are arguments \<open>parse\<close> and \<open>b64\<close>; both return the text of their error on the left. Of the
  message for invalid UTF-8 the part added by this code is modelled, not the detail appended by the
  standard library.
\<close>

section \<open>\<open>pipeline.rs\<close>\<close>

datatype transform_data =
    Xml string "node_set option"
  | Binary bytes

type_synonym xml_parser = "string \<Rightarrow> string + document"

definition to_binary :: "xml_parser \<Rightarrow> transform_data \<Rightarrow> bytes result" where
  "to_binary parse data =
     (case data of
        Binary b \<Rightarrow> Inr b
      | Xml xml_text node_set \<Rightarrow> canonicalize parse xml_text Inclusive node_set [])"

record transform =
  tr_uri :: string
  tr_execute :: "transform_data \<Rightarrow> transform_data result"

type_synonym pipeline = "transform list"

definition TransformPipeline_new :: pipeline where
  "TransformPipeline_new = []"

definition TransformPipeline_push :: "pipeline \<Rightarrow> transform \<Rightarrow> pipeline" where
  "TransformPipeline_push p t = p @ [t]"

definition TransformPipeline_execute :: "pipeline \<Rightarrow> transform_data \<Rightarrow> transform_data result" where
  "TransformPipeline_execute p input = try_fold (\<lambda>data t. tr_execute t data) input p"

definition TransformPipeline_len :: "pipeline \<Rightarrow> nat" where
  "TransformPipeline_len p = length p"

definition TransformPipeline_is_empty :: "pipeline \<Rightarrow> bool" where
  "TransformPipeline_is_empty p = (p = [])"

definition C14nTransform_execute ::
  "xml_parser \<Rightarrow> c14n_mode \<Rightarrow> string list \<Rightarrow> transform_data \<Rightarrow> transform_data result" where
  "C14nTransform_execute parse mode inclusive_prefixes input =
     (case input of
        Xml xml_text node_set \<Rightarrow>
          and_then (canonicalize parse xml_text mode node_set inclusive_prefixes) (\<lambda>b. Inr (Binary b))
      | Binary data \<Rightarrow>
          if valid_utf8 data then
            and_then (canonicalize parse data mode None inclusive_prefixes) (\<lambda>b. Inr (Binary b))
          else Inl (Error_Transform ''invalid UTF-8: ''))"

definition C14nTransform :: "xml_parser \<Rightarrow> c14n_mode \<Rightarrow> string list \<Rightarrow> transform" where
  "C14nTransform parse mode inclusive_prefixes =
     \<lparr>tr_uri = C14nMode_uri mode, tr_execute = C14nTransform_execute parse mode inclusive_prefixes\<rparr>"

section \<open>\<open>base64_transform.rs\<close>\<close>

definition text_of :: "document \<Rightarrow> node_set option \<Rightarrow> node_id \<Rightarrow> string" where
  "text_of d node_set n =
     (case doc_kind d n of
        Some (Text t) \<Rightarrow> if is_visible node_set n then t else []
      | Some (CData t) \<Rightarrow> if is_visible node_set n then t else []
      | _ \<Rightarrow> [])"

definition extract_text_content :: "xml_parser \<Rightarrow> string \<Rightarrow> node_set option \<Rightarrow> string result" where
  "extract_text_content parse xml_text node_set =
     and_then (map_err (\<lambda>e. Error_Transform (''base64: XML parse: '' @ e)) (parse xml_text))
       (\<lambda>d. Inr (concat (map (text_of d node_set) (doc_descendants d (doc_root d)))))"

definition Base64DecodeTransform_execute ::
  "xml_parser \<Rightarrow> (string \<Rightarrow> string + bytes) \<Rightarrow> transform_data \<Rightarrow> transform_data result" where
  "Base64DecodeTransform_execute parse b64 input =
     and_then
       (case input of
          Binary data \<Rightarrow>
            if valid_utf8 data then Inr data else Inl (Error_Transform ''base64 input not UTF-8: '')
        | Xml xml_text node_set \<Rightarrow> extract_text_content parse xml_text node_set)
       (\<lambda>text. and_then (map_err (\<lambda>e. Error_Base64 (''decode error: '' @ e)) (b64 (remove_ws text)))
          (\<lambda>decoded. Inr (Binary decoded)))"

section \<open>\<open>enveloped.rs\<close>\<close>

text \<open>The recursion into the children, with a bound on its depth as in \<open>collect_subtree\<close>.\<close>

fun remove_subtree_upto :: "nat \<Rightarrow> document \<Rightarrow> node_id \<Rightarrow> node_set \<Rightarrow> node_set" where
  "remove_subtree_upto 0 d n ns = ns"
| "remove_subtree_upto (Suc k) d n ns =
     fold (remove_subtree_upto k d) (doc_children d n) (remove_id ns n)"

definition remove_subtree :: "node_id \<Rightarrow> document \<Rightarrow> node_set \<Rightarrow> node_set" where
  "remove_subtree n d ns = remove_subtree_upto (doc_bound d) d n ns"

definition EnvelopedSignatureTransform_execute ::
  "xml_parser \<Rightarrow> node_id \<Rightarrow> transform_data \<Rightarrow> transform_data result" where
  "EnvelopedSignatureTransform_execute parse signature_node_index input =
     (case input of
        Xml xml_text node_set \<Rightarrow>
          and_then (map_err Error_XmlParse (parse xml_text))
            (\<lambda>d. let ns = (case node_set of Some ns \<Rightarrow> ns | None \<Rightarrow> NodeSet_all d)
                  in Inr (Xml xml_text (Some (remove_subtree signature_node_index d ns))))
      | Binary _ \<Rightarrow> Inl (Error_Transform ''enveloped-signature transform requires XML input''))"

section \<open>\<open>uri.rs\<close>\<close>

definition resolve_uri ::
  "string \<Rightarrow> document \<Rightarrow> id_map \<Rightarrow> string \<Rightarrow> (string \<times> node_set option) result" where
  "resolve_uri uri d ids xml_text =
     (if uri = [] then Inr (xml_text, Some (NodeSet_all d))
      else case parse_same_document_ref uri of
        Some i \<Rightarrow>
          and_then (resolve_id d ids i) (\<lambda>n. Inr (xml_text, Some (tree_without_comments n d)))
      | None \<Rightarrow> Inl (Error_InvalidUri (''external URI not supported: '' @ uri)))"

definition resolve_same_document :: "string \<Rightarrow> document \<Rightarrow> id_map \<Rightarrow> node_set result" where
  "resolve_same_document i d ids =
     and_then (resolve_id d ids i) (\<lambda>n. Inr (tree_without_comments n d))"

section \<open>Lemmas\<close>

lemma remove_id_simps [simp]:
  "nodes (remove_id ns n) = nodes ns - {n}"
  "set_type (remove_id ns n) = set_type ns"
  "ns_visible (remove_id ns n) = ns_visible ns"
  "exclude_attrs (remove_id ns n) = exclude_attrs ns"
  by (simp_all add: remove_id_def)

lemma fold_minus:
  assumes "\<And>c s. c \<in> set cs \<Longrightarrow> f c s = s\<lparr>nodes := nodes s - g c\<rparr>"
  shows "fold f cs s = s\<lparr>nodes := nodes s - (\<Union>c \<in> set cs. g c)\<rparr>"
  using assms
proof (induction cs arbitrary: s)
  case (Cons c cs)
  then show ?case by (simp add: Diff_Un [symmetric] Diff_eq Int_assoc)
qed simp

lemma remove_subtree_upto_eq:
  assumes "wf_doc d" "depth_budget d h"
  shows "h n \<le> k \<Longrightarrow> remove_subtree_upto k d n ns = ns\<lparr>nodes := nodes ns - sub_nodes d True n\<rparr>"
proof (induction k arbitrary: n ns)
  case 0
  from assms(2) have "0 < h n" by (simp add: depth_budget_def)
  with 0 show ?case by simp
next
  case (Suc k)
  have "h c \<le> k" if "c \<in> set (doc_children d n)" for c
    using that assms(2) Suc.prems by (fastforce simp: depth_budget_def)
  then have "fold (remove_subtree_upto k d) (doc_children d n) s =
      s\<lparr>nodes := nodes s - (\<Union>c \<in> set (doc_children d n). sub_nodes d True c)\<rparr>" for s
    by (intro fold_minus Suc.IH)
  then show ?case
    by (subst sub_nodes_unfold [OF assms(1)]) (auto simp: remove_id_def Diff_insert2 [symmetric])
qed

lemma remove_subtree_eq:
  assumes "wf_doc d"
  shows "remove_subtree n d ns = ns\<lparr>nodes := nodes ns - sub_nodes d True n\<rparr>"
proof -
  from wf_doc_budget [OF assms] obtain h where h: "depth_budget d h" .
  then have "h n \<le> doc_bound d" by (simp add: depth_budget_def)
  with assms h show ?thesis unfolding remove_subtree_def by (intro remove_subtree_upto_eq)
qed

section \<open>Properties\<close>

text \<open>
  C38: The enveloped-signature transform removes exactly the signature: the nodes left are those that
  were selected (all nodes of the document when there was no node set) and are not the signature
  element or below it. Afterwards neither canonicalizer writes anything for the signature, so its
  content cannot influence the digest.
\<close>

theorem enveloped_removes_signature:
  assumes "parse xml = Inr d" and "wf_doc d" and "\<And>ns. nso = Some ns \<Longrightarrow> set_type ns = Normal"
  shows "\<exists>ns'. EnvelopedSignatureTransform_execute parse s (Xml xml nso) = Inr (Xml xml (Some ns')) \<and>
    (\<forall>n. contains_id ns' n \<longleftrightarrow>
       (case nso of None \<Rightarrow> anc_self d (doc_root d) n | Some ns \<Rightarrow> contains_id ns n) \<and> \<not> anc_self d s n) \<and>
    (\<not> has_ns_visible ns' \<longrightarrow>
       process_node (doc_bound d) (incl_ctx d wc (Some ns') c11) s m = Some [] \<and>
       exc_process_node (doc_bound d) (exc_ctx_of d wc (Some ns') ips) s m = Some [])"
proof -
  define ns where "ns = (case nso of Some ns \<Rightarrow> ns | None \<Rightarrow> NodeSet_all d)"
  define ns' where "ns' = remove_subtree s d ns"
  have normal: "set_type ns = Normal" using assms(3) by (auto simp: ns_def NodeSet_all_def split: option.split)
  have sel: "contains_id ns' n \<longleftrightarrow> contains_id ns n \<and> \<not> anc_self d s n" for n
    using normal by (simp add: ns'_def remove_subtree_eq [OF assms(2)] contains_id_Normal sub_nodes_def)
  have "contains_id ns n \<longleftrightarrow>
      (case nso of None \<Rightarrow> anc_self d (doc_root d) n | Some ns \<Rightarrow> contains_id ns n)" for n
    using descendants_iff [OF assms(2), of n "doc_root d"] by (simp add: ns_def split: option.split)
  moreover have "process_node (doc_bound d) (incl_ctx d wc (Some ns') c11) s m = Some []"
    "exc_process_node (doc_bound d) (exc_ctx_of d wc (Some ns') ips) s m = Some []"
    if "\<not> has_ns_visible ns'"
  proof -
    have hidden: "\<not> has_ns_filter (Some ns')" "\<And>x. anc_self d s x \<Longrightarrow> \<not> is_visible (Some ns') x"
      using that sel by (simp_all add: has_ns_filter_def is_visible_def)
    show "process_node (doc_bound d) (incl_ctx d wc (Some ns') c11) s m = Some []"
      by (rule incl.full_hidden [OF assms(2) hidden])
    show "exc_process_node (doc_bound d) (exc_ctx_of d wc (Some ns') ips) s m = Some []"
      by (rule exc.full_hidden [OF assms(2) hidden])
  qed
  ultimately show ?thesis
    using assms(1) sel
    by (intro exI [of _ ns']) (simp add: EnvelopedSignatureTransform_execute_def ns_def ns'_def)
qed

theorem enveloped_removes_signature_witness:
  "\<exists>ns'. EnvelopedSignatureTransform_execute (\<lambda>_. Inr (arena_doc sample_arena)) 1 (Xml ''x'' None) =
       Inr (Xml ''x'' (Some ns')) \<and> \<not> contains_id ns' 2"
proof -
  let ?d = "arena_doc sample_arena"
  have "doc_parent ?d 2 = Some 1" by (simp add: arena_parent_def sample_arena_def)
  then have "anc_self ?d 1 2" by (auto intro: anc_self.intros)
  moreover have "\<exists>ns'. EnvelopedSignatureTransform_execute (\<lambda>_. Inr ?d) 1 (Xml ''x'' None) =
       Inr (Xml ''x'' (Some ns')) \<and>
     (\<forall>n. contains_id ns' n \<longleftrightarrow>
        (case None of None \<Rightarrow> anc_self ?d (doc_root ?d) n | Some ns \<Rightarrow> contains_id ns n) \<and>
        \<not> anc_self ?d 1 n) \<and>
     (\<not> has_ns_visible ns' \<longrightarrow>
        process_node (doc_bound ?d) (incl_ctx ?d False (Some ns') False) 1 [] = Some [] \<and>
        exc_process_node (doc_bound ?d) (exc_ctx_of ?d False (Some ns') []) 1 [] = Some [])"
    by (rule enveloped_removes_signature) (simp_all add: arena_wf [OF sample_arena_ok])
  ultimately show ?thesis by blast
qed

text \<open>
  A pipeline runs its transforms in order and stops at the first error: executing two pipelines
  one after the other is executing the concatenation, pushing a transform runs it last on the result,
  and once a transform fails its error is the result whatever follows.
\<close>

theorem pipeline_composition:
  "TransformPipeline_execute (p @ q) x =
     and_then (TransformPipeline_execute p x) (TransformPipeline_execute q) \<and>
   TransformPipeline_execute (TransformPipeline_push p t) x =
     and_then (TransformPipeline_execute p x) (tr_execute t) \<and>
   (TransformPipeline_execute p x = Inl e \<longrightarrow> TransformPipeline_execute (p @ q) x = Inl e)"
proof -
  have "TransformPipeline_execute [t] y = tr_execute t y" for y
    by (cases "tr_execute t y") (simp_all add: TransformPipeline_execute_def)
  then have "TransformPipeline_execute [t] = tr_execute t" by (rule ext)
  moreover have "TransformPipeline_execute (p @ q) x =
      and_then (TransformPipeline_execute p x) (TransformPipeline_execute q)" for q
    unfolding TransformPipeline_execute_def by (rule try_fold_append)
  ultimately show ?thesis
    by (simp add: TransformPipeline_push_def)
qed

theorem pipeline_composition_witness:
  "TransformPipeline_execute
     ([\<lparr>tr_uri = [], tr_execute = \<lambda>_. Inl (Error_Transform ''a'')\<rparr>] @
      [\<lparr>tr_uri = [], tr_execute = \<lambda>_. Inr (Binary [])\<rparr>]) (Binary ''x'') = Inl (Error_Transform ''a'')"
  using pipeline_composition [of "[\<lparr>tr_uri = [], tr_execute = \<lambda>_. Inl (Error_Transform ''a'')\<rparr>]"
      "[\<lparr>tr_uri = [], tr_execute = \<lambda>_. Inr (Binary [])\<rparr>]" "Binary ''x''" undefined
      "Error_Transform ''a''"]
  by (simp add: TransformPipeline_execute_def)

text \<open>
  Resolving a reference: the empty URI selects every node of the document, comments included; a
  fragment selects the subtree of the element registered under that ID without its comments, and is
  an error when there is none; any other URI is refused.
\<close>

theorem resolve_uri_selects:
  assumes "wf_doc d"
  shows "case resolve_uri uri d ids xml of
      Inr (text, nso) \<Rightarrow> text = xml \<and>
        (\<exists>ns. nso = Some ns \<and>
           (uri = [] \<and> (\<forall>n. contains_id ns n \<longleftrightarrow> anc_self d (doc_root d) n) \<or>
            (\<exists>i r. uri = CHR ''#'' # i \<and> ids i = Some r \<and>
               (\<forall>n. contains_id ns n \<longleftrightarrow> anc_self d r n \<and> \<not> is_comment d n))))
    | Inl e \<Rightarrow> uri \<noteq> [] \<and> (\<forall>i. uri = CHR ''#'' # i \<longrightarrow> ids i = None)"
proof -
  have "contains_id (NodeSet_all d) n \<longleftrightarrow> anc_self d (doc_root d) n" for n
    using descendants_iff [OF assms, of n "doc_root d"] by simp
  then show ?thesis
    by (auto simp: resolve_uri_def resolve_id_def parse_same_document_ref_def strip_prefix_def
        and_then_def ok_or_def collect_subtree_eq [OF assms] sub_nodes_def
        split: option.splits if_splits sum.splits elim: starts_with.elims)
qed

theorem resolve_uri_selects_witness:
  "case resolve_uri ''#a'' (arena_doc sample_arena) [''a'' \<mapsto> 1] ''x'' of
     Inr (text, nso) \<Rightarrow> text = ''x'' | Inl e \<Rightarrow> False"
  using resolve_uri_selects [OF arena_wf [OF sample_arena_ok], of "''#a''" "[''a'' \<mapsto> 1]" "''x''"]
  by (auto split: sum.splits)

end
