(* ===== verification/Bytes.thy ===== *)
theory Bytes
  imports Prelude
begin

text \<open>Octet strings as big-endian numbers.\<close>

abbreviation zeros :: "nat \<Rightarrow> bytes" where
  "zeros n \<equiv> replicate n (CHR 0x00)"

definition byte_val :: "char \<Rightarrow> nat" where
  "byte_val c = of_char c"

lemma byte_val_less: "byte_val c < 256"
  unfolding byte_val_def by (metis of_char_mod_256 mod_less_divisor zero_less_numeral)

lemma byte_val_inject [simp]: "byte_val c = byte_val d \<longleftrightarrow> c = d"
  by (simp add: byte_val_def)

lemma byte_val_0 [simp]: "byte_val (CHR 0x00) = 0"
  by (simp add: byte_val_def)

lemma byte_val_0_iff: "byte_val c = 0 \<longleftrightarrow> c = CHR 0x00"
  using byte_val_inject [of c "CHR 0x00"] by (simp del: byte_val_inject)

lemma byte_val_char_of: "byte_val (char_of n) = n mod 256"
  by (simp add: byte_val_def)

fun be_val :: "bytes \<Rightarrow> nat" where
  "be_val [] = 0"
| "be_val (c # b) = byte_val c * 256 ^ length b + be_val b"

lemma be_val_append: "be_val (a @ b) = be_val a * 256 ^ length b + be_val b"
  by (induction a) (simp_all add: power_add algebra_simps)

lemma be_val_zeros [simp]: "be_val (zeros n) = 0"
  by (induction n) simp_all

lemma be_val_pad [simp]: "be_val (zeros n @ b) = be_val b"
  by (simp add: be_val_append)

lemma be_val_less: "be_val b < 256 ^ length b"
proof (induction b)
  case (Cons c b)
  have "byte_val c \<le> 255" using byte_val_less [of c] by simp
  then have "byte_val c * 256 ^ length b \<le> 255 * 256 ^ length b" by (rule mult_right_mono) simp
  with Cons have "byte_val c * 256 ^ length b + be_val b < 255 * 256 ^ length b + 256 ^ length b"
    by linarith
  then show ?case by simp
qed simp

lemma be_val_ge:
  assumes "c \<noteq> CHR 0x00"
  shows "256 ^ length b \<le> be_val (c # b)"
proof -
  have "1 \<le> byte_val c" using assms by (metis byte_val_0_iff One_nat_def Suc_leI neq0_conv)
  then have "1 * 256 ^ length b \<le> byte_val c * 256 ^ length b" by (rule mult_right_mono) simp
  then show ?thesis unfolding be_val.simps by linarith
qed

text \<open>Octet strings of the same length are equal when their values are.\<close>

lemma be_val_inject: "length a = length b \<Longrightarrow> be_val a = be_val b \<Longrightarrow> a = b"
proof (induction a b rule: list_induct2)
  case (Cons x xs y ys)
  have "byte_val x = be_val (x # xs) div 256 ^ length xs"
    using be_val_less [of xs] by simp
  also have "\<dots> = byte_val y"
    using be_val_less [of ys] Cons.prems Cons.hyps by simp
  finally have "x = y" by simp
  with Cons show ?case by simp
qed simp

end
