(* ===== verification/Crypto_Sign.thy ===== *)
theory Crypto_Sign
  imports Core Bytes
begin

text \<open>
  Digest and signature algorithms (\<open>bergshamra-crypto/src/digest.rs\<close>, \<open>sign.rs\<close>): the dispatch from
  algorithm URI to algorithm, the check that a key fits its algorithm, and the conversions between
  signature formats. The cryptographic primitives come from other crates (\<open>kryptering\<close>, \<open>rsa\<close>,
  \<open>ecdsa\<close>, \<open>dsa\<close>, \<open>ed25519_dalek\<close>, \<open>ml_dsa\<close>, \<open>slh_dsa\<close>); they are the fields of a record
  \<open>crypto_lib\<close>, over a type \<open>'v\<close> of the library's opaque values (keys, parsed signatures, big
  integers). A fallible primitive returns the display text of its error on the left. A randomised
  signing primitive is the function computed in one run. The argument \<open>legacy\<close> is the crate feature
  \<open>legacy-algorithms\<close>. A \<open>match\<close> on a URI is a table that is searched in the order of its arms.
\<close>

section \<open>Types\<close>

datatype hash_type = Sha1 | Sha224 | Sha256 | Sha384 | Sha512 | Sha3_224 | Sha3_256 | Sha3_384 | Sha3_512 | Md5 | Ripemd160

text \<open>\<open>kryptering::HashAlgorithm\<close>, and the parts of \<open>kryptering::SignatureAlgorithm\<close> the code names.\<close>

datatype hash_alg = H_Sha1 | H_Sha224 | H_Sha256 | H_Sha384 | H_Sha512 | H_Sha3_224 | H_Sha3_256 | H_Sha3_384 | H_Sha3_512 | H_Md5 | H_Ripemd160

datatype ec_curve = P256 | P384 | P521

datatype ml_dsa_variant = V_MlDsa44 | V_MlDsa65 | V_MlDsa87

datatype slh_dsa_variant =
  V_Sha2_128f | V_Sha2_128s | V_Sha2_192f | V_Sha2_192s | V_Sha2_256f | V_Sha2_256s

datatype kryptering_sig_alg =
    S_RsaPkcs1v15 hash_alg
  | S_RsaPss hash_alg
  | S_Ecdsa ec_curve hash_alg
  | S_Ed25519
  | S_Hmac hash_alg
  | S_Dsa hash_alg
  | S_MlDsa ml_dsa_variant
  | S_SlhDsa slh_dsa_variant

datatype pq_algorithm =
  MlDsa44 | MlDsa65 | MlDsa87 | SlhDsaSha2_128f | SlhDsaSha2_128s | SlhDsaSha2_192f | SlhDsaSha2_192s | SlhDsaSha2_256f | SlhDsaSha2_256s

fun PqAlgorithm_name :: "pq_algorithm \<Rightarrow> string" where
  "PqAlgorithm_name MlDsa44 = ''ML-DSA-44''"
| "PqAlgorithm_name MlDsa65 = ''ML-DSA-65''"
| "PqAlgorithm_name MlDsa87 = ''ML-DSA-87''"
| "PqAlgorithm_name SlhDsaSha2_128f = ''SLH-DSA-SHA2-128f''"
| "PqAlgorithm_name SlhDsaSha2_128s = ''SLH-DSA-SHA2-128s''"
| "PqAlgorithm_name SlhDsaSha2_192f = ''SLH-DSA-SHA2-192f''"
| "PqAlgorithm_name SlhDsaSha2_192s = ''SLH-DSA-SHA2-192s''"
| "PqAlgorithm_name SlhDsaSha2_256f = ''SLH-DSA-SHA2-256f''"
| "PqAlgorithm_name SlhDsaSha2_256s = ''SLH-DSA-SHA2-256s''"

datatype 'v signing_key =
    Rsa 'v
  | RsaPublic 'v
  | EcP256 'v
  | EcP256Public 'v
  | EcP384 'v
  | EcP384Public 'v
  | EcP521 'v
  | EcP521Public 'v
  | Dsa 'v
  | DsaPublic 'v
  | Ed25519 'v
  | Ed25519Public 'v
  | Hmac bytes
  | PostQuantum pq_algorithm "bytes option" bytes

datatype sig_alg =
    RsaPkcs1v15 string hash_type
  | RsaPss string hash_type
  | Ecdsa string hash_type
  | DsaSign string hash_type
  | Ed25519Sign
  | HmacSign string hash_type
  | PqSign string pq_algorithm bytes

record 'v crypto_lib =
  lib_digest :: "hash_alg \<Rightarrow> bytes \<Rightarrow> bytes"
  lib_hmac :: "hash_alg \<Rightarrow> bytes \<Rightarrow> bytes \<Rightarrow> bytes"
  lib_hmac_verify_truncated :: "hash_alg \<Rightarrow> bytes \<Rightarrow> bytes \<Rightarrow> bytes \<Rightarrow> nat \<Rightarrow> bool"
  lib_constant_time_eq :: "bytes \<Rightarrow> bytes \<Rightarrow> bool"
  rsa_to_public_key :: "'v \<Rightarrow> 'v"
  pkcs1_sign :: "hash_type \<Rightarrow> 'v \<Rightarrow> bytes \<Rightarrow> bytes"
  pkcs1_signature :: "bytes \<Rightarrow> string + 'v"
  pkcs1_verify :: "hash_type \<Rightarrow> 'v \<Rightarrow> bytes \<Rightarrow> 'v \<Rightarrow> bool"
  pss_sign :: "hash_type \<Rightarrow> 'v \<Rightarrow> bytes \<Rightarrow> bytes"
  pss_signature :: "bytes \<Rightarrow> string + 'v"
  pss_verify :: "hash_type \<Rightarrow> 'v \<Rightarrow> bytes \<Rightarrow> 'v \<Rightarrow> bool"
  ec_from_scalars :: "ec_curve \<Rightarrow> bytes \<Rightarrow> bytes \<Rightarrow> string + 'v"
  ec_from_der :: "ec_curve \<Rightarrow> bytes \<Rightarrow> string + 'v"
  ec_split_bytes :: "ec_curve \<Rightarrow> 'v \<Rightarrow> bytes \<times> bytes"
  ec_verifying_key :: "ec_curve \<Rightarrow> 'v \<Rightarrow> 'v"
  ec_sign_prehash :: "ec_curve \<Rightarrow> 'v \<Rightarrow> bytes \<Rightarrow> string + 'v"
  ec_verify_prehash :: "ec_curve \<Rightarrow> 'v \<Rightarrow> bytes \<Rightarrow> 'v \<Rightarrow> bool"
  dsa_verifying_key :: "'v \<Rightarrow> 'v"
  dsa_q_bits :: "'v \<Rightarrow> nat"
  dsa_sign_digest :: "hash_type \<Rightarrow> 'v \<Rightarrow> bytes \<Rightarrow> string + 'v"
  dsa_verify_digest :: "hash_type \<Rightarrow> 'v \<Rightarrow> bytes \<Rightarrow> 'v \<Rightarrow> bool"
  dsa_sig_r :: "'v \<Rightarrow> 'v"
  dsa_sig_s :: "'v \<Rightarrow> 'v"
  dsa_from_components :: "'v \<Rightarrow> 'v \<Rightarrow> string + 'v"
  biguint_to_bytes_be :: "'v \<Rightarrow> bytes"
  biguint_from_bytes_be :: "bytes \<Rightarrow> 'v"
  ed25519_verifying_key :: "'v \<Rightarrow> 'v"
  ed25519_sign :: "'v \<Rightarrow> bytes \<Rightarrow> bytes"
  ed25519_signature :: "bytes \<Rightarrow> string + 'v"
  ed25519_verify :: "'v \<Rightarrow> bytes \<Rightarrow> 'v \<Rightarrow> bool"
  pq_from_pkcs8_der :: "pq_algorithm \<Rightarrow> bytes \<Rightarrow> 'v option"
  ml_dsa_seed :: "bytes \<Rightarrow> 'v option"
  ml_dsa_from_seed :: "pq_algorithm \<Rightarrow> 'v \<Rightarrow> 'v"
  slh_dsa_raw_key :: "pq_algorithm \<Rightarrow> bytes \<Rightarrow> string + 'v"
  pq_sign_with_context :: "pq_algorithm \<Rightarrow> 'v \<Rightarrow> bytes \<Rightarrow> bytes \<Rightarrow> string + bytes"
  pq_public_key_der :: "pq_algorithm \<Rightarrow> bytes \<Rightarrow> string + 'v"
  ml_dsa_encoded :: "pq_algorithm \<Rightarrow> bytes \<Rightarrow> 'v option"
  ml_dsa_decode :: "pq_algorithm \<Rightarrow> 'v \<Rightarrow> 'v option"
  slh_dsa_signature :: "pq_algorithm \<Rightarrow> bytes \<Rightarrow> string + 'v"
  pq_verify_with_context :: "pq_algorithm \<Rightarrow> 'v \<Rightarrow> bytes \<Rightarrow> bytes \<Rightarrow> 'v \<Rightarrow> bool"

section \<open>Digests\<close>

definition digest_table :: "bool \<Rightarrow> (string \<times> hash_alg) list" where
  "digest_table legacy =
     [(alg_SHA1, H_Sha1),
      (alg_SHA224, H_Sha224),
      (alg_SHA256, H_Sha256),
      (alg_SHA384, H_Sha384),
      (alg_SHA512, H_Sha512),
      (alg_SHA3_224, H_Sha3_224),
      (alg_SHA3_256, H_Sha3_256),
      (alg_SHA3_384, H_Sha3_384),
      (alg_SHA3_512, H_Sha3_512)] @
     (if legacy then [(alg_MD5, H_Md5), (alg_RIPEMD160, H_Ripemd160)] else [])"

definition uri_to_hash :: "bool \<Rightarrow> string \<Rightarrow> hash_alg result" where
  "uri_to_hash legacy uri =
     ok_or (Error_UnsupportedAlgorithm (''digest algorithm: '' @ uri)) (map_of (digest_table legacy) uri)"

fun hash_to_uri :: "bool \<Rightarrow> hash_alg \<Rightarrow> string" where
  "hash_to_uri legacy H_Sha1 = alg_SHA1"
| "hash_to_uri legacy H_Sha224 = alg_SHA224"
| "hash_to_uri legacy H_Sha256 = alg_SHA256"
| "hash_to_uri legacy H_Sha384 = alg_SHA384"
| "hash_to_uri legacy H_Sha512 = alg_SHA512"
| "hash_to_uri legacy H_Sha3_224 = alg_SHA3_224"
| "hash_to_uri legacy H_Sha3_256 = alg_SHA3_256"
| "hash_to_uri legacy H_Sha3_384 = alg_SHA3_384"
| "hash_to_uri legacy H_Sha3_512 = alg_SHA3_512"
| "hash_to_uri legacy H_Md5 = (if legacy then alg_MD5 else ''unsupported'')"
| "hash_to_uri legacy H_Ripemd160 = (if legacy then alg_RIPEMD160 else ''unsupported'')"

definition digest :: "bool \<Rightarrow> 'v crypto_lib \<Rightarrow> string \<Rightarrow> bytes \<Rightarrow> bytes result" where
  "digest legacy lib uri data =
     and_then (uri_to_hash legacy uri) (\<lambda>algo. Inr (lib_digest lib algo data))"

section \<open>Algorithm dispatch\<close>

definition sig_table :: "bool \<Rightarrow> (string \<times> (bytes option \<Rightarrow> sig_alg)) list" where
  "sig_table legacy =
     [(alg_RSA_SHA1, \<lambda>_. RsaPkcs1v15 alg_RSA_SHA1 Sha1),
      (alg_RSA_SHA224, \<lambda>_. RsaPkcs1v15 alg_RSA_SHA224 Sha224),
      (alg_RSA_SHA256, \<lambda>_. RsaPkcs1v15 alg_RSA_SHA256 Sha256),
      (alg_RSA_SHA384, \<lambda>_. RsaPkcs1v15 alg_RSA_SHA384 Sha384),
      (alg_RSA_SHA512, \<lambda>_. RsaPkcs1v15 alg_RSA_SHA512 Sha512),
      (alg_RSA_PSS_SHA1, \<lambda>_. RsaPss alg_RSA_PSS_SHA1 Sha1),
      (alg_RSA_PSS_SHA224, \<lambda>_. RsaPss alg_RSA_PSS_SHA224 Sha224),
      (alg_RSA_PSS_SHA256, \<lambda>_. RsaPss alg_RSA_PSS_SHA256 Sha256),
      (alg_RSA_PSS_SHA384, \<lambda>_. RsaPss alg_RSA_PSS_SHA384 Sha384),
      (alg_RSA_PSS_SHA512, \<lambda>_. RsaPss alg_RSA_PSS_SHA512 Sha512),
      (alg_RSA_PSS_SHA3_224, \<lambda>_. RsaPss alg_RSA_PSS_SHA3_224 Sha3_224),
      (alg_RSA_PSS_SHA3_256, \<lambda>_. RsaPss alg_RSA_PSS_SHA3_256 Sha3_256),
      (alg_RSA_PSS_SHA3_384, \<lambda>_. RsaPss alg_RSA_PSS_SHA3_384 Sha3_384),
      (alg_RSA_PSS_SHA3_512, \<lambda>_. RsaPss alg_RSA_PSS_SHA3_512 Sha3_512),
      (alg_ECDSA_SHA1, \<lambda>_. Ecdsa alg_ECDSA_SHA1 Sha1),
      (alg_ECDSA_SHA224, \<lambda>_. Ecdsa alg_ECDSA_SHA224 Sha224),
      (alg_ECDSA_SHA256, \<lambda>_. Ecdsa alg_ECDSA_SHA256 Sha256),
      (alg_ECDSA_SHA384, \<lambda>_. Ecdsa alg_ECDSA_SHA384 Sha384),
      (alg_ECDSA_SHA512, \<lambda>_. Ecdsa alg_ECDSA_SHA512 Sha512),
      (alg_ECDSA_SHA3_224, \<lambda>_. Ecdsa alg_ECDSA_SHA3_224 Sha3_224),
      (alg_ECDSA_SHA3_256, \<lambda>_. Ecdsa alg_ECDSA_SHA3_256 Sha3_256),
      (alg_ECDSA_SHA3_384, \<lambda>_. Ecdsa alg_ECDSA_SHA3_384 Sha3_384),
      (alg_ECDSA_SHA3_512, \<lambda>_. Ecdsa alg_ECDSA_SHA3_512 Sha3_512),
      (alg_DSA_SHA1, \<lambda>_. DsaSign alg_DSA_SHA1 Sha1),
      (alg_DSA_SHA256, \<lambda>_. DsaSign alg_DSA_SHA256 Sha256),
      (alg_EDDSA_ED25519, \<lambda>_. Ed25519Sign),
      (alg_HMAC_SHA1, \<lambda>_. HmacSign alg_HMAC_SHA1 Sha1),
      (alg_HMAC_SHA224, \<lambda>_. HmacSign alg_HMAC_SHA224 Sha224),
      (alg_HMAC_SHA256, \<lambda>_. HmacSign alg_HMAC_SHA256 Sha256),
      (alg_HMAC_SHA384, \<lambda>_. HmacSign alg_HMAC_SHA384 Sha384),
      (alg_HMAC_SHA512, \<lambda>_. HmacSign alg_HMAC_SHA512 Sha512)] @
     (if legacy then
     [(alg_RSA_MD5, \<lambda>_. RsaPkcs1v15 alg_RSA_MD5 Md5),
      (alg_RSA_RIPEMD160, \<lambda>_. RsaPkcs1v15 alg_RSA_RIPEMD160 Ripemd160),
      (alg_ECDSA_RIPEMD160, \<lambda>_. Ecdsa alg_ECDSA_RIPEMD160 Ripemd160),
      (alg_HMAC_MD5, \<lambda>_. HmacSign alg_HMAC_MD5 Md5),
      (alg_HMAC_RIPEMD160, \<lambda>_. HmacSign alg_HMAC_RIPEMD160 Ripemd160)] else []) @
     [(alg_ML_DSA_44, \<lambda>context. PqSign alg_ML_DSA_44 MlDsa44 (unwrap_or [] context)),
      (alg_ML_DSA_65, \<lambda>context. PqSign alg_ML_DSA_65 MlDsa65 (unwrap_or [] context)),
      (alg_ML_DSA_87, \<lambda>context. PqSign alg_ML_DSA_87 MlDsa87 (unwrap_or [] context)),
      (alg_SLH_DSA_SHA2_128F, \<lambda>context. PqSign alg_SLH_DSA_SHA2_128F SlhDsaSha2_128f (unwrap_or [] context)),
      (alg_SLH_DSA_SHA2_128S, \<lambda>context. PqSign alg_SLH_DSA_SHA2_128S SlhDsaSha2_128s (unwrap_or [] context)),
      (alg_SLH_DSA_SHA2_192F, \<lambda>context. PqSign alg_SLH_DSA_SHA2_192F SlhDsaSha2_192f (unwrap_or [] context)),
      (alg_SLH_DSA_SHA2_192S, \<lambda>context. PqSign alg_SLH_DSA_SHA2_192S SlhDsaSha2_192s (unwrap_or [] context)),
      (alg_SLH_DSA_SHA2_256F, \<lambda>context. PqSign alg_SLH_DSA_SHA2_256F SlhDsaSha2_256f (unwrap_or [] context)),
      (alg_SLH_DSA_SHA2_256S, \<lambda>context. PqSign alg_SLH_DSA_SHA2_256S SlhDsaSha2_256s (unwrap_or [] context))]"

definition from_uri_with_context :: "bool \<Rightarrow> string \<Rightarrow> bytes option \<Rightarrow> sig_alg result" where
  "from_uri_with_context legacy uri context =
     ok_or (Error_UnsupportedAlgorithm (''signature algorithm: '' @ uri))
       (map_option (\<lambda>mk. mk context) (map_of (sig_table legacy) uri))"

definition sign_from_uri :: "bool \<Rightarrow> string \<Rightarrow> sig_alg result" where
  "sign_from_uri legacy uri = from_uri_with_context legacy uri None"

fun hash_to_kryptering :: "hash_type \<Rightarrow> hash_alg" where
  "hash_to_kryptering Sha1 = H_Sha1"
| "hash_to_kryptering Sha224 = H_Sha224"
| "hash_to_kryptering Sha256 = H_Sha256"
| "hash_to_kryptering Sha384 = H_Sha384"
| "hash_to_kryptering Sha512 = H_Sha512"
| "hash_to_kryptering Sha3_224 = H_Sha3_224"
| "hash_to_kryptering Sha3_256 = H_Sha3_256"
| "hash_to_kryptering Sha3_384 = H_Sha3_384"
| "hash_to_kryptering Sha3_512 = H_Sha3_512"
| "hash_to_kryptering Md5 = H_Md5"
| "hash_to_kryptering Ripemd160 = H_Ripemd160"

fun kryptering_algorithm_uri :: "bool \<Rightarrow> kryptering_sig_alg \<Rightarrow> string option" where
  "kryptering_algorithm_uri legacy (S_RsaPkcs1v15 H_Sha1) = Some alg_RSA_SHA1"
| "kryptering_algorithm_uri legacy (S_RsaPkcs1v15 H_Sha224) = Some alg_RSA_SHA224"
| "kryptering_algorithm_uri legacy (S_RsaPkcs1v15 H_Sha256) = Some alg_RSA_SHA256"
| "kryptering_algorithm_uri legacy (S_RsaPkcs1v15 H_Sha384) = Some alg_RSA_SHA384"
| "kryptering_algorithm_uri legacy (S_RsaPkcs1v15 H_Sha512) = Some alg_RSA_SHA512"
| "kryptering_algorithm_uri legacy (S_RsaPss H_Sha1) = Some alg_RSA_PSS_SHA1"
| "kryptering_algorithm_uri legacy (S_RsaPss H_Sha224) = Some alg_RSA_PSS_SHA224"
| "kryptering_algorithm_uri legacy (S_RsaPss H_Sha256) = Some alg_RSA_PSS_SHA256"
| "kryptering_algorithm_uri legacy (S_RsaPss H_Sha384) = Some alg_RSA_PSS_SHA384"
| "kryptering_algorithm_uri legacy (S_RsaPss H_Sha512) = Some alg_RSA_PSS_SHA512"
| "kryptering_algorithm_uri legacy (S_RsaPss H_Sha3_224) = Some alg_RSA_PSS_SHA3_224"
| "kryptering_algorithm_uri legacy (S_RsaPss H_Sha3_256) = Some alg_RSA_PSS_SHA3_256"
| "kryptering_algorithm_uri legacy (S_RsaPss H_Sha3_384) = Some alg_RSA_PSS_SHA3_384"
| "kryptering_algorithm_uri legacy (S_RsaPss H_Sha3_512) = Some alg_RSA_PSS_SHA3_512"
| "kryptering_algorithm_uri legacy (S_Ecdsa c H_Sha1) = Some alg_ECDSA_SHA1"
| "kryptering_algorithm_uri legacy (S_Ecdsa c H_Sha224) = Some alg_ECDSA_SHA224"
| "kryptering_algorithm_uri legacy (S_Ecdsa c H_Sha256) = Some alg_ECDSA_SHA256"
| "kryptering_algorithm_uri legacy (S_Ecdsa c H_Sha384) = Some alg_ECDSA_SHA384"
| "kryptering_algorithm_uri legacy (S_Ecdsa c H_Sha512) = Some alg_ECDSA_SHA512"
| "kryptering_algorithm_uri legacy (S_Ecdsa c H_Sha3_224) = Some alg_ECDSA_SHA3_224"
| "kryptering_algorithm_uri legacy (S_Ecdsa c H_Sha3_256) = Some alg_ECDSA_SHA3_256"
| "kryptering_algorithm_uri legacy (S_Ecdsa c H_Sha3_384) = Some alg_ECDSA_SHA3_384"
| "kryptering_algorithm_uri legacy (S_Ecdsa c H_Sha3_512) = Some alg_ECDSA_SHA3_512"
| "kryptering_algorithm_uri legacy (S_Ed25519) = Some alg_EDDSA_ED25519"
| "kryptering_algorithm_uri legacy (S_Hmac H_Sha1) = Some alg_HMAC_SHA1"
| "kryptering_algorithm_uri legacy (S_Hmac H_Sha224) = Some alg_HMAC_SHA224"
| "kryptering_algorithm_uri legacy (S_Hmac H_Sha256) = Some alg_HMAC_SHA256"
| "kryptering_algorithm_uri legacy (S_Hmac H_Sha384) = Some alg_HMAC_SHA384"
| "kryptering_algorithm_uri legacy (S_Hmac H_Sha512) = Some alg_HMAC_SHA512"
| "kryptering_algorithm_uri legacy (S_Dsa H_Sha1) = (if legacy then Some alg_DSA_SHA1 else None)"
| "kryptering_algorithm_uri legacy (S_Dsa H_Sha256) = (if legacy then Some alg_DSA_SHA256 else None)"
| "kryptering_algorithm_uri legacy (S_MlDsa V_MlDsa44) = Some alg_ML_DSA_44"
| "kryptering_algorithm_uri legacy (S_MlDsa V_MlDsa65) = Some alg_ML_DSA_65"
| "kryptering_algorithm_uri legacy (S_MlDsa V_MlDsa87) = Some alg_ML_DSA_87"
| "kryptering_algorithm_uri legacy (S_SlhDsa V_Sha2_128f) = Some alg_SLH_DSA_SHA2_128F"
| "kryptering_algorithm_uri legacy (S_SlhDsa V_Sha2_128s) = Some alg_SLH_DSA_SHA2_128S"
| "kryptering_algorithm_uri legacy (S_SlhDsa V_Sha2_192f) = Some alg_SLH_DSA_SHA2_192F"
| "kryptering_algorithm_uri legacy (S_SlhDsa V_Sha2_192s) = Some alg_SLH_DSA_SHA2_192S"
| "kryptering_algorithm_uri legacy (S_SlhDsa V_Sha2_256f) = Some alg_SLH_DSA_SHA2_256F"
| "kryptering_algorithm_uri legacy (S_SlhDsa V_Sha2_256s) = Some alg_SLH_DSA_SHA2_256S"
| "kryptering_algorithm_uri legacy _ = None"

definition hmac_hash_output_bits :: "string \<Rightarrow> nat option" where
  "hmac_hash_output_bits uri =
     map_of [(alg_HMAC_SHA1, 160), (alg_HMAC_SHA224, 224), (alg_HMAC_SHA256, 256),
       (alg_HMAC_SHA384, 384), (alg_HMAC_SHA512, 512), (alg_HMAC_MD5, 128),
       (alg_HMAC_RIPEMD160, 160)] uri"

definition is_hmac_algorithm :: "string \<Rightarrow> bool" where
  "is_hmac_algorithm uri = (hmac_hash_output_bits uri \<noteq> None)"

definition is_pq_algorithm :: "string \<Rightarrow> bool" where
  "is_pq_algorithm uri \<longleftrightarrow>
     uri \<in> set [alg_ML_DSA_44, alg_ML_DSA_65, alg_ML_DSA_87, alg_SLH_DSA_SHA2_128F,
       alg_SLH_DSA_SHA2_128S, alg_SLH_DSA_SHA2_192F, alg_SLH_DSA_SHA2_192S, alg_SLH_DSA_SHA2_256F,
       alg_SLH_DSA_SHA2_256S]"

fun sig_uri :: "sig_alg \<Rightarrow> string" where
  "sig_uri (RsaPkcs1v15 uri _) = uri"
| "sig_uri (RsaPss uri _) = uri"
| "sig_uri (Ecdsa uri _) = uri"
| "sig_uri (DsaSign uri _) = uri"
| "sig_uri Ed25519Sign = alg_EDDSA_ED25519"
| "sig_uri (HmacSign uri _) = uri"
| "sig_uri (PqSign uri _ _) = uri"

section \<open>Signature formats\<close>

definition trim_component :: "bytes \<Rightarrow> bytes" where
  "trim_component c =
     (let rest = dropWhile (\<lambda>b. b = CHR 0x00) c in
      if rest \<noteq> [] then rest else drop (length c - 1) c)"

definition normalize_component :: "nat \<Rightarrow> string \<Rightarrow> bytes \<Rightarrow> bytes result" where
  "normalize_component field_size name c =
     (let trimmed = trim_component c in
      if field_size < length trimmed then
        Inl (Error_Crypto (''ECDSA component '' @ name @ '' too large: '' @ show_nat (length trimmed) @
          '' bytes (field size '' @ show_nat field_size @ '')''))
      else Inr (zeros (field_size - length trimmed) @ trimmed))"

definition normalize_raw_ecdsa :: "bytes \<Rightarrow> nat \<Rightarrow> bytes result" where
  "normalize_raw_ecdsa sig_bytes field_size =
     (if length sig_bytes mod 2 \<noteq> 0 then
        Inl (Error_Crypto (''ECDSA signature has odd length '' @ show_nat (length sig_bytes) @
          '', cannot split into r||s''))
      else
        let half = length sig_bytes div 2 in
        and_then (normalize_component field_size ''r'' (take half sig_bytes)) (\<lambda>r.
        and_then (normalize_component field_size ''s'' (drop half sig_bytes)) (\<lambda>s.
        Inr (r @ s))))"

fun field_size :: "ec_curve \<Rightarrow> nat" where
  "field_size P256 = 32"
| "field_size P384 = 48"
| "field_size P521 = 66"

fun curve_name :: "ec_curve \<Rightarrow> string" where
  "curve_name P256 = ''P-256''"
| "curve_name P384 = ''P-384''"
| "curve_name P521 = ''P-521''"

text \<open>The body that \<open>xmldsig_to_p256\<close>, \<open>xmldsig_to_p384\<close> and \<open>xmldsig_to_p521\<close> share.\<close>

definition xmldsig_to_ec :: "'v crypto_lib \<Rightarrow> ec_curve \<Rightarrow> bytes \<Rightarrow> 'v result" where
  "xmldsig_to_ec lib c sig_bytes =
     (let FIELD = field_size c;
          scalars = (\<lambda>rs. map_err (\<lambda>e. Error_Crypto (''invalid '' @ curve_name c @ '' signature: '' @ e))
            (ec_from_scalars lib c (take FIELD rs) (drop FIELD rs)))
      in
      if length sig_bytes = FIELD * 2 then scalars sig_bytes
      else if starts_with sig_bytes [CHR 0x30] then
        map_err (\<lambda>e. Error_Crypto (''invalid '' @ curve_name c @ '' DER signature: '' @ e))
          (ec_from_der lib c sig_bytes)
      else and_then (normalize_raw_ecdsa sig_bytes FIELD) scalars)"

definition xmldsig_to_p256 :: "'v crypto_lib \<Rightarrow> bytes \<Rightarrow> 'v result" where
  "xmldsig_to_p256 lib = xmldsig_to_ec lib P256"

definition xmldsig_to_p384 :: "'v crypto_lib \<Rightarrow> bytes \<Rightarrow> 'v result" where
  "xmldsig_to_p384 lib = xmldsig_to_ec lib P384"

definition xmldsig_to_p521 :: "'v crypto_lib \<Rightarrow> bytes \<Rightarrow> 'v result" where
  "xmldsig_to_p521 lib = xmldsig_to_ec lib P521"

definition ec_to_xmldsig :: "'v crypto_lib \<Rightarrow> ec_curve \<Rightarrow> 'v \<Rightarrow> bytes" where
  "ec_to_xmldsig lib c s = fst (ec_split_bytes lib c s) @ snd (ec_split_bytes lib c s)"

definition pad_prehash :: "bytes \<Rightarrow> nat \<Rightarrow> bytes" where
  "pad_prehash prehash fsize =
     (if fsize \<le> length prehash then prehash else zeros (fsize - length prehash) @ prehash)"

definition div_ceil :: "nat \<Rightarrow> nat \<Rightarrow> nat" where
  "div_ceil a b = (a + (b - 1)) div b"

text \<open>
  Writing \<open>b\<close> right-aligned into \<open>n\<close> zero bytes; a \<open>b\<close> longer than \<open>n\<close> loses its leading bytes.
\<close>

definition right_align :: "nat \<Rightarrow> bytes \<Rightarrow> bytes" where
  "right_align n b = zeros (n - length b) @ drop (length b - n) b"

definition dsa_sig_to_xmldsig :: "'v crypto_lib \<Rightarrow> 'v \<Rightarrow> 'v \<Rightarrow> bytes" where
  "dsa_sig_to_xmldsig lib vk s =
     (let q_len = div_ceil (dsa_q_bits lib vk) 8 in
      right_align q_len (biguint_to_bytes_be lib (dsa_sig_r lib s)) @
      right_align q_len (biguint_to_bytes_be lib (dsa_sig_s lib s)))"

definition xmldsig_to_dsa :: "'v crypto_lib \<Rightarrow> 'v \<Rightarrow> bytes \<Rightarrow> 'v result" where
  "xmldsig_to_dsa lib vk rs =
     (let q_len = div_ceil (dsa_q_bits lib vk) 8 in
      if length rs \<noteq> q_len * 2 then
        Inl (Error_Crypto (''DSA signature must be '' @ show_nat (q_len * 2) @ '' bytes (2 * q_len='' @
          show_nat q_len @ ''), got '' @ show_nat (length rs)))
      else
        map_err (\<lambda>e. Error_Crypto (''invalid DSA signature: '' @ e))
          (dsa_from_components lib (biguint_from_bytes_be lib (take q_len rs))
             (biguint_from_bytes_be lib (drop q_len rs))))"

section \<open>Verification\<close>

definition compute_hash :: "'v crypto_lib \<Rightarrow> hash_type \<Rightarrow> bytes \<Rightarrow> bytes" where
  "compute_hash lib hash data = lib_digest lib (hash_to_kryptering hash) data"

definition rsa_verify_with_key ::
  "'v crypto_lib \<Rightarrow> hash_type \<Rightarrow> 'v \<Rightarrow> bytes \<Rightarrow> bytes \<Rightarrow> bool result" where
  "rsa_verify_with_key lib hash pubk data sig_bytes =
     and_then (map_err (\<lambda>e. Error_Crypto (''invalid RSA signature: '' @ e)) (pkcs1_signature lib sig_bytes))
       (\<lambda>s. Inr (pkcs1_verify lib hash pubk data s))"

definition RsaPkcs1v15_verify ::
  "'v crypto_lib \<Rightarrow> hash_type \<Rightarrow> 'v signing_key \<Rightarrow> bytes \<Rightarrow> bytes \<Rightarrow> bool result" where
  "RsaPkcs1v15_verify lib hash key data sig_bytes =
     (case key of
        Rsa pk \<Rightarrow> rsa_verify_with_key lib hash (rsa_to_public_key lib pk) data sig_bytes
      | RsaPublic pk \<Rightarrow> rsa_verify_with_key lib hash pk data sig_bytes
      | _ \<Rightarrow> Inl (Error_Key ''RSA key required''))"

fun hash_debug :: "hash_type \<Rightarrow> string" where
  "hash_debug Md5 = ''Md5''"
| "hash_debug Ripemd160 = ''Ripemd160''"
| "hash_debug Sha1 = ''Sha1''"
| "hash_debug Sha224 = ''Sha224''"
| "hash_debug Sha256 = ''Sha256''"
| "hash_debug Sha384 = ''Sha384''"
| "hash_debug Sha512 = ''Sha512''"
| "hash_debug Sha3_224 = ''Sha3_224''"
| "hash_debug Sha3_256 = ''Sha3_256''"
| "hash_debug Sha3_384 = ''Sha3_384''"
| "hash_debug Sha3_512 = ''Sha3_512''"

definition RsaPss_verify ::
  "'v crypto_lib \<Rightarrow> hash_type \<Rightarrow> 'v signing_key \<Rightarrow> bytes \<Rightarrow> bytes \<Rightarrow> bool result" where
  "RsaPss_verify lib hash key data sig_bytes =
     and_then
       (case key of
          Rsa pk \<Rightarrow> Inr (rsa_to_public_key lib pk)
        | RsaPublic pk \<Rightarrow> Inr pk
        | _ \<Rightarrow> Inl (Error_Key ''RSA key required for PSS''))
       (\<lambda>pubk.
          and_then (map_err (\<lambda>e. Error_Crypto (''invalid RSA-PSS signature: '' @ e))
            (pss_signature lib sig_bytes))
          (\<lambda>s. if hash = Md5 \<or> hash = Ripemd160
                then Inl (Error_UnsupportedAlgorithm (''RSA-PSS with '' @ hash_debug hash))
                else Inr (pss_verify lib hash pubk data s)))"

definition ec_verify_public ::
  "'v crypto_lib \<Rightarrow> ec_curve \<Rightarrow> bytes \<Rightarrow> 'v \<Rightarrow> bytes \<Rightarrow> bool result" where
  "ec_verify_public lib c raw_hash vk sig_bytes =
     and_then (xmldsig_to_ec lib c sig_bytes)
       (\<lambda>s. Inr (ec_verify_prehash lib c vk (pad_prehash raw_hash (field_size c)) s))"

definition Ecdsa_verify ::
  "'v crypto_lib \<Rightarrow> hash_type \<Rightarrow> 'v signing_key \<Rightarrow> bytes \<Rightarrow> bytes \<Rightarrow> bool result" where
  "Ecdsa_verify lib hash key data sig_bytes =
     (let raw_hash = compute_hash lib hash data in
      case key of
        EcP256 sk \<Rightarrow> ec_verify_public lib P256 raw_hash (ec_verifying_key lib P256 sk) sig_bytes
      | EcP256Public vk \<Rightarrow> ec_verify_public lib P256 raw_hash vk sig_bytes
      | EcP384 sk \<Rightarrow> ec_verify_public lib P384 raw_hash (ec_verifying_key lib P384 sk) sig_bytes
      | EcP384Public vk \<Rightarrow> ec_verify_public lib P384 raw_hash vk sig_bytes
      | EcP521 sk \<Rightarrow> ec_verify_public lib P521 raw_hash (ec_verifying_key lib P521 sk) sig_bytes
      | EcP521Public vk \<Rightarrow> ec_verify_public lib P521 raw_hash vk sig_bytes
      | _ \<Rightarrow> Inl (Error_Key ''ECDSA key required (P-256, P-384, or P-521)''))"

definition DsaSign_verify ::
  "'v crypto_lib \<Rightarrow> hash_type \<Rightarrow> 'v signing_key \<Rightarrow> bytes \<Rightarrow> bytes \<Rightarrow> bool result" where
  "DsaSign_verify lib hash key data sig_bytes =
     and_then
       (case key of
          Dsa sk \<Rightarrow> Inr (dsa_verifying_key lib sk)
        | DsaPublic vk \<Rightarrow> Inr vk
        | _ \<Rightarrow> Inl (Error_Key ''DSA key required''))
       (\<lambda>vk. and_then (xmldsig_to_dsa lib vk sig_bytes)
          (\<lambda>s. if hash = Sha1 \<or> hash = Sha256 then Inr (dsa_verify_digest lib hash vk data s)
                else Inl (Error_UnsupportedAlgorithm (''DSA with '' @ hash_debug hash))))"

definition Ed25519Sign_verify ::
  "'v crypto_lib \<Rightarrow> 'v signing_key \<Rightarrow> bytes \<Rightarrow> bytes \<Rightarrow> bool result" where
  "Ed25519Sign_verify lib key data sig_bytes =
     and_then
       (case key of
          Ed25519 sk \<Rightarrow> Inr (ed25519_verifying_key lib sk)
        | Ed25519Public vk \<Rightarrow> Inr vk
        | _ \<Rightarrow> Inl (Error_Key ''Ed25519 key required''))
       (\<lambda>vk. and_then (map_err (\<lambda>e. Error_Crypto (''invalid Ed25519 signature: '' @ e))
            (ed25519_signature lib sig_bytes))
          (\<lambda>s. Inr (ed25519_verify lib vk data s)))"

definition compute_hmac :: "'v crypto_lib \<Rightarrow> hash_type \<Rightarrow> bytes \<Rightarrow> bytes \<Rightarrow> bytes" where
  "compute_hmac lib hash key data = lib_hmac lib (hash_to_kryptering hash) key data"

definition HmacSign_verify ::
  "'v crypto_lib \<Rightarrow> hash_type \<Rightarrow> 'v signing_key \<Rightarrow> bytes \<Rightarrow> bytes \<Rightarrow> bool result" where
  "HmacSign_verify lib hash key data sig_bytes =
     (case key of
        Hmac key_bytes \<Rightarrow> Inr (lib_constant_time_eq lib (compute_hmac lib hash key_bytes data) sig_bytes)
      | _ \<Rightarrow> Inl (Error_Key ''HMAC key required''))"

definition is_ml_dsa :: "pq_algorithm \<Rightarrow> bool" where
  "is_ml_dsa a \<longleftrightarrow> a = MlDsa44 \<or> a = MlDsa65 \<or> a = MlDsa87"

definition pq_ml_dsa_verify ::
  "'v crypto_lib \<Rightarrow> pq_algorithm \<Rightarrow> bytes \<Rightarrow> bytes \<Rightarrow> bytes \<Rightarrow> bytes \<Rightarrow> bool result" where
  "pq_ml_dsa_verify lib a public_der data sig_bytes context =
     and_then (map_err (\<lambda>e. Error_Key (''failed to parse ML-DSA public key: '' @ e))
       (pq_public_key_der lib a public_der)) (\<lambda>vk.
     and_then (ok_or (Error_Crypto ''invalid ML-DSA signature length'') (ml_dsa_encoded lib a sig_bytes))
       (\<lambda>encoded_sig.
     and_then (ok_or (Error_Crypto ''failed to decode ML-DSA signature'') (ml_dsa_decode lib a encoded_sig))
       (\<lambda>s. Inr (pq_verify_with_context lib a vk data context s))))"

definition pq_slh_dsa_verify ::
  "'v crypto_lib \<Rightarrow> pq_algorithm \<Rightarrow> bytes \<Rightarrow> bytes \<Rightarrow> bytes \<Rightarrow> bytes \<Rightarrow> bool result" where
  "pq_slh_dsa_verify lib a public_der data sig_bytes context =
     and_then (map_err (\<lambda>e. Error_Key (''failed to parse SLH-DSA public key: '' @ e))
       (pq_public_key_der lib a public_der)) (\<lambda>vk.
     and_then (map_err (\<lambda>e. Error_Crypto (''invalid SLH-DSA signature: '' @ e))
       (slh_dsa_signature lib a sig_bytes)) (\<lambda>s.
     Inr (pq_verify_with_context lib a vk data context s)))"

definition pq_mismatch :: "pq_algorithm \<Rightarrow> pq_algorithm \<Rightarrow> error" where
  "pq_mismatch key_alg alg =
     Error_Key (''key algorithm mismatch: key is '' @ PqAlgorithm_name key_alg @
       '', but signature requires '' @ PqAlgorithm_name alg)"

definition PqSign_verify ::
  "'v crypto_lib \<Rightarrow> pq_algorithm \<Rightarrow> bytes \<Rightarrow> 'v signing_key \<Rightarrow> bytes \<Rightarrow> bytes \<Rightarrow> bool result" where
  "PqSign_verify lib alg context key data sig_bytes =
     (case key of
        PostQuantum key_alg _ public_der \<Rightarrow>
          if key_alg \<noteq> alg then Inl (pq_mismatch key_alg alg)
          else if is_ml_dsa alg then pq_ml_dsa_verify lib alg public_der data sig_bytes context
          else pq_slh_dsa_verify lib alg public_der data sig_bytes context
      | _ \<Rightarrow> Inl (Error_Key (PqAlgorithm_name alg @ '' key required'')))"

fun sig_verify :: "'v crypto_lib \<Rightarrow> sig_alg \<Rightarrow> 'v signing_key \<Rightarrow> bytes \<Rightarrow> bytes \<Rightarrow> bool result" where
  "sig_verify lib (RsaPkcs1v15 _ h) key data s = RsaPkcs1v15_verify lib h key data s"
| "sig_verify lib (RsaPss _ h) key data s = RsaPss_verify lib h key data s"
| "sig_verify lib (Ecdsa _ h) key data s = Ecdsa_verify lib h key data s"
| "sig_verify lib (DsaSign _ h) key data s = DsaSign_verify lib h key data s"
| "sig_verify lib Ed25519Sign key data s = Ed25519Sign_verify lib key data s"
| "sig_verify lib (HmacSign _ h) key data s = HmacSign_verify lib h key data s"
| "sig_verify lib (PqSign _ a context) key data s = PqSign_verify lib a context key data s"

definition sig_verify_truncated ::
  "'v crypto_lib \<Rightarrow> sig_alg \<Rightarrow> 'v signing_key \<Rightarrow> bytes \<Rightarrow> bytes \<Rightarrow> nat \<Rightarrow> bool result" where
  "sig_verify_truncated lib alg key data s expected_len_bytes =
     (case alg of
        HmacSign _ h \<Rightarrow>
          (case key of
             Hmac key_bytes \<Rightarrow>
               Inr (lib_hmac_verify_truncated lib (hash_to_kryptering h) key_bytes data s expected_len_bytes)
           | _ \<Rightarrow> Inl (Error_Key ''HMAC key required''))
      | _ \<Rightarrow> if length s \<noteq> expected_len_bytes then Inr False else sig_verify lib alg key data s)"

section \<open>Signing\<close>

definition RsaPkcs1v15_sign ::
  "'v crypto_lib \<Rightarrow> hash_type \<Rightarrow> 'v signing_key \<Rightarrow> bytes \<Rightarrow> bytes result" where
  "RsaPkcs1v15_sign lib hash key data =
     (case key of
        Rsa pk \<Rightarrow> Inr (pkcs1_sign lib hash pk data)
      | _ \<Rightarrow> Inl (Error_Key ''RSA private key required''))"

definition RsaPss_sign ::
  "'v crypto_lib \<Rightarrow> hash_type \<Rightarrow> 'v signing_key \<Rightarrow> bytes \<Rightarrow> bytes result" where
  "RsaPss_sign lib hash key data =
     (case key of
        Rsa pk \<Rightarrow>
          if hash = Md5 \<or> hash = Ripemd160
          then Inl (Error_UnsupportedAlgorithm (''RSA-PSS with '' @ hash_debug hash))
          else Inr (pss_sign lib hash pk data)
      | _ \<Rightarrow> Inl (Error_Key ''RSA private key required for PSS''))"

definition ec_sign_private :: "'v crypto_lib \<Rightarrow> ec_curve \<Rightarrow> bytes \<Rightarrow> 'v \<Rightarrow> bytes result" where
  "ec_sign_private lib c raw_hash sk =
     and_then
       (map_err (\<lambda>e. Error_Crypto (''ECDSA '' @ curve_name c @ '' sign: '' @ e))
         (ec_sign_prehash lib c sk (pad_prehash raw_hash (field_size c))))
       (\<lambda>s. Inr (ec_to_xmldsig lib c s))"

definition Ecdsa_sign ::
  "'v crypto_lib \<Rightarrow> hash_type \<Rightarrow> 'v signing_key \<Rightarrow> bytes \<Rightarrow> bytes result" where
  "Ecdsa_sign lib hash key data =
     (let raw_hash = compute_hash lib hash data in
      case key of
        EcP256 sk \<Rightarrow> ec_sign_private lib P256 raw_hash sk
      | EcP384 sk \<Rightarrow> ec_sign_private lib P384 raw_hash sk
      | EcP521 sk \<Rightarrow> ec_sign_private lib P521 raw_hash sk
      | _ \<Rightarrow> Inl (Error_Key ''ECDSA signing key required (P-256, P-384, or P-521)''))"

definition DsaSign_sign ::
  "'v crypto_lib \<Rightarrow> hash_type \<Rightarrow> 'v signing_key \<Rightarrow> bytes \<Rightarrow> bytes result" where
  "DsaSign_sign lib hash key data =
     (case key of
        Dsa sk \<Rightarrow>
          if hash = Sha1 \<or> hash = Sha256 then
            and_then (map_err (\<lambda>e. Error_Crypto (''DSA sign: '' @ e)) (dsa_sign_digest lib hash sk data))
              (\<lambda>s. Inr (dsa_sig_to_xmldsig lib (dsa_verifying_key lib sk) s))
          else Inl (Error_UnsupportedAlgorithm (''DSA signature with '' @ hash_debug hash))
      | _ \<Rightarrow> Inl (Error_Key ''DSA signing key required''))"

definition Ed25519Sign_sign :: "'v crypto_lib \<Rightarrow> 'v signing_key \<Rightarrow> bytes \<Rightarrow> bytes result" where
  "Ed25519Sign_sign lib key data =
     (case key of
        Ed25519 sk \<Rightarrow> Inr (ed25519_sign lib sk data)
      | _ \<Rightarrow> Inl (Error_Key ''Ed25519 signing key required''))"

definition HmacSign_sign ::
  "'v crypto_lib \<Rightarrow> hash_type \<Rightarrow> 'v signing_key \<Rightarrow> bytes \<Rightarrow> bytes result" where
  "HmacSign_sign lib hash key data =
     (case key of
        Hmac key_bytes \<Rightarrow> Inr (compute_hmac lib hash key_bytes data)
      | _ \<Rightarrow> Inl (Error_Key ''HMAC key required''))"

definition load_ml_dsa_signing_key :: "'v crypto_lib \<Rightarrow> pq_algorithm \<Rightarrow> bytes \<Rightarrow> 'v result" where
  "load_ml_dsa_signing_key lib a private_der =
     (case pq_from_pkcs8_der lib a private_der of
        Some sk \<Rightarrow> Inr sk
      | None \<Rightarrow>
          if length private_der = 32 then
            and_then (ok_or (Error_Key ''invalid ML-DSA seed length'') (ml_dsa_seed lib private_der))
              (\<lambda>seed. Inr (ml_dsa_from_seed lib a seed))
          else Inl (Error_Key
            (''failed to parse ML-DSA private key: expected PKCS#8 DER or 32-byte seed, got '' @
             show_nat (length private_der) @ '' bytes'')))"

definition load_slh_dsa_signing_key :: "'v crypto_lib \<Rightarrow> pq_algorithm \<Rightarrow> bytes \<Rightarrow> 'v result" where
  "load_slh_dsa_signing_key lib a private_der =
     (case pq_from_pkcs8_der lib a private_der of
        Some sk \<Rightarrow> Inr sk
      | None \<Rightarrow> map_err (\<lambda>e. Error_Key (''failed to parse SLH-DSA private key: '' @ e))
          (slh_dsa_raw_key lib a private_der))"

definition pq_ml_dsa_sign ::
  "'v crypto_lib \<Rightarrow> pq_algorithm \<Rightarrow> bytes \<Rightarrow> bytes \<Rightarrow> bytes \<Rightarrow> bytes result" where
  "pq_ml_dsa_sign lib a private_der data context =
     and_then (load_ml_dsa_signing_key lib a private_der)
       (\<lambda>sk. map_err (\<lambda>e. Error_Crypto (''ML-DSA sign failed: '' @ e))
          (pq_sign_with_context lib a sk data context))"

definition pq_slh_dsa_sign ::
  "'v crypto_lib \<Rightarrow> pq_algorithm \<Rightarrow> bytes \<Rightarrow> bytes \<Rightarrow> bytes \<Rightarrow> bytes result" where
  "pq_slh_dsa_sign lib a private_der data context =
     and_then (load_slh_dsa_signing_key lib a private_der)
       (\<lambda>sk. map_err (\<lambda>e. Error_Crypto (''SLH-DSA sign failed: '' @ e))
          (pq_sign_with_context lib a sk data context))"

definition PqSign_sign ::
  "'v crypto_lib \<Rightarrow> pq_algorithm \<Rightarrow> bytes \<Rightarrow> 'v signing_key \<Rightarrow> bytes \<Rightarrow> bytes result" where
  "PqSign_sign lib alg context key data =
     (case key of
        PostQuantum key_alg private_der _ \<Rightarrow>
          if key_alg \<noteq> alg then Inl (pq_mismatch key_alg alg)
          else
            and_then (ok_or (Error_Key (PqAlgorithm_name alg @ '' private key required for signing''))
                private_der)
              (\<lambda>private. if is_ml_dsa alg then pq_ml_dsa_sign lib alg private data context
                          else pq_slh_dsa_sign lib alg private data context)
      | _ \<Rightarrow> Inl (Error_Key (PqAlgorithm_name alg @ '' signing key required'')))"

fun sig_sign :: "'v crypto_lib \<Rightarrow> sig_alg \<Rightarrow> 'v signing_key \<Rightarrow> bytes \<Rightarrow> bytes result" where
  "sig_sign lib (RsaPkcs1v15 _ h) key data = RsaPkcs1v15_sign lib h key data"
| "sig_sign lib (RsaPss _ h) key data = RsaPss_sign lib h key data"
| "sig_sign lib (Ecdsa _ h) key data = Ecdsa_sign lib h key data"
| "sig_sign lib (DsaSign _ h) key data = DsaSign_sign lib h key data"
| "sig_sign lib Ed25519Sign key data = Ed25519Sign_sign lib key data"
| "sig_sign lib (HmacSign _ h) key data = HmacSign_sign lib h key data"
| "sig_sign lib (PqSign _ a context) key data = PqSign_sign lib a context key data"

section \<open>A sample library\<close>

text \<open>
  Trivial primitives, used only to show that hypotheses about the library can be met: the MAC of a
  message is the key followed by the message, and a signature is the message itself.
\<close>

definition sample_lib :: "bytes crypto_lib" where
  "sample_lib =
     \<lparr>lib_digest = (\<lambda>_ d. d),
      lib_hmac = (\<lambda>_ k d. k @ d),
      lib_hmac_verify_truncated = (\<lambda>_ k d s n. length s = n \<and> s = take n (k @ d)),
      lib_constant_time_eq = (\<lambda>a b. a = b),
      rsa_to_public_key = (\<lambda>k. k),
      pkcs1_sign = (\<lambda>_ _ d. d),
      pkcs1_signature = Inr,
      pkcs1_verify = (\<lambda>_ _ d s. d = s),
      pss_sign = (\<lambda>_ _ d. d),
      pss_signature = Inr,
      pss_verify = (\<lambda>_ _ d s. d = s),
      ec_from_scalars = (\<lambda>_ r s. Inr (r @ s)),
      ec_from_der = (\<lambda>_ d. Inr d),
      ec_split_bytes = (\<lambda>c s. (take (field_size c) s, drop (field_size c) s)),
      ec_verifying_key = (\<lambda>_ k. k),
      ec_sign_prehash = (\<lambda>c _ h. Inr (take (2 * field_size c) (h @ h))),
      ec_verify_prehash = (\<lambda>c _ h s. s = take (2 * field_size c) (h @ h)),
      dsa_verifying_key = (\<lambda>k. k),
      dsa_q_bits = (\<lambda>_. 16),
      dsa_sign_digest = (\<lambda>_ _ d. Inr d),
      dsa_verify_digest = (\<lambda>_ _ d s. d = s),
      dsa_sig_r = (\<lambda>s. s),
      dsa_sig_s = (\<lambda>s. s),
      dsa_from_components = (\<lambda>r _. Inr r),
      biguint_to_bytes_be = (\<lambda>v. CHR 0x01 # v),
      biguint_from_bytes_be = (\<lambda>b. tl (dropWhile (\<lambda>c. c = CHR 0x00) b)),
      ed25519_verifying_key = (\<lambda>k. k),
      ed25519_sign = (\<lambda>_ d. d),
      ed25519_signature = Inr,
      ed25519_verify = (\<lambda>_ d s. d = s),
      pq_from_pkcs8_der = (\<lambda>_ d. Some d),
      ml_dsa_seed = Some,
      ml_dsa_from_seed = (\<lambda>_ s. s),
      slh_dsa_raw_key = (\<lambda>_ d. Inr d),
      pq_sign_with_context = (\<lambda>_ _ d _. Inr d),
      pq_public_key_der = (\<lambda>_ d. Inr d),
      ml_dsa_encoded = (\<lambda>_ s. Some s),
      ml_dsa_decode = (\<lambda>_ s. Some s),
      slh_dsa_signature = (\<lambda>_ s. Inr s),
      pq_verify_with_context = (\<lambda>_ _ d _ s. d = s)\<rparr>"

end
