(* ===== verification/Crypto_Sign_Laws.thy ===== *)
theory Crypto_Sign_Laws
  imports Crypto_Sign
begin

text \<open>
  Properties of the digest and signature algorithms: a URI selects the algorithm it names, a key is
  used only with an algorithm of its kind, and the signature formats are converted without loss.
\<close>

section \<open>Lemmas\<close>

lemma from_uri_with_context_Inr:
  "from_uri_with_context legacy uri context = Inr alg \<Longrightarrow>
   \<exists>mk. (uri, mk) \<in> set (sig_table legacy) \<and> alg = mk context"
  by (auto simp: from_uri_with_context_def res_simps dest: map_of_SomeD)

definition is_hmac_alg :: "sig_alg \<Rightarrow> bool" where
  "is_hmac_alg alg = (case alg of HmacSign _ _ \<Rightarrow> True | _ \<Rightarrow> False)"

definition is_pq_alg :: "sig_alg \<Rightarrow> bool" where
  "is_pq_alg alg = (case alg of PqSign _ _ _ \<Rightarrow> True | _ \<Rightarrow> False)"

lemmas uri_char_simps = list.inject char.inject simp_thms list.distinct

lemma sig_table_hmac:
  "\<forall>(uri, mk) \<in> set (sig_table True). is_hmac_algorithm uri \<longleftrightarrow> is_hmac_alg (mk context)"
  unfolding sig_table_def is_hmac_algorithm_def hmac_hash_output_bits_def is_hmac_alg_def uri_defs
  by simp

lemma sig_table_pq:
  "\<forall>(uri, mk) \<in> set (sig_table True). is_pq_algorithm uri \<longleftrightarrow> is_pq_alg (mk context)"
  unfolding sig_table_def is_pq_algorithm_def is_pq_alg_def uri_defs
  by simp

lemma zeros_dropWhile: "\<exists>n. c = zeros n @ dropWhile (\<lambda>b. b = CHR 0x00) c"
proof (induction c)
  case (Cons x c)
  then obtain n where "c = zeros n @ dropWhile (\<lambda>b. b = CHR 0x00) c" ..
  then have "x = CHR 0x00 \<Longrightarrow> x # c = zeros (Suc n) @ dropWhile (\<lambda>b. b = CHR 0x00) (x # c)"
    by simp
  then show ?case by (cases "x = CHR 0x00") (blast, intro exI [of _ 0], simp)
qed simp

lemma trim_component_zeros: "\<exists>n. c = zeros n @ trim_component c"
proof (cases "dropWhile (\<lambda>b. b = CHR 0x00) c = []")
  case True
  with zeros_dropWhile [of c] obtain n where n: "c = zeros n" by auto
  then have "trim_component c = zeros (min 1 n)"
    by (cases n) (simp_all add: trim_component_def del: replicate.simps)
  then have "c = zeros (n - 1) @ trim_component c"
    by (cases n) (simp_all add: n replicate_append_same)
  then show ?thesis ..
next
  case False
  with zeros_dropWhile [of c] show ?thesis by (simp add: trim_component_def)
qed

lemma be_val_trim: "be_val (trim_component c) = be_val c"
proof -
  obtain n where "c = zeros n @ trim_component c" using trim_component_zeros ..
  then have "be_val c = be_val (zeros n @ trim_component c)" by (rule arg_cong)
  then show ?thesis by simp
qed

lemma pow256_less: "(256::nat) ^ a < 256 ^ b \<longleftrightarrow> a < b"
  by (rule power_strict_increasing_iff) simp

text \<open>A component keeps only as many octets as its value needs (one when it is zero).\<close>

lemma length_trim_component:
  assumes "0 < f"
  shows "length (trim_component c) \<le> f \<longleftrightarrow> be_val c < 256 ^ f"
proof
  show "be_val c < 256 ^ f" if "length (trim_component c) \<le> f"
  proof -
    have "be_val c < 256 ^ length (trim_component c)"
      using be_val_less [of "trim_component c"] be_val_trim [of c] by simp
    also have "\<dots> \<le> 256 ^ f" using that by (simp add: power_increasing)
    finally show ?thesis .
  qed
  show "length (trim_component c) \<le> f" if less: "be_val c < 256 ^ f"
  proof (cases "dropWhile (\<lambda>b. b = CHR 0x00) c")
    case Nil
    then show ?thesis using assms by (simp add: trim_component_def)
  next
    case (Cons x xs)
    then have t: "trim_component c = x # xs" by (simp add: trim_component_def)
    have "x \<noteq> CHR 0x00" using Cons hd_dropWhile [of "\<lambda>b. b = CHR 0x00" c] by auto
    then have "256 ^ length xs \<le> be_val c"
      using be_val_ge [of x xs] be_val_trim [of c] unfolding t by simp
    with less have "256 ^ length xs < (256::nat) ^ f" by (rule le_less_trans [rotated])
    then show ?thesis unfolding pow256_less by (simp add: t)
  qed
qed

lemma normalize_component_eq:
  assumes "0 < f"
  shows "case normalize_component f name c of
      Inl _ \<Rightarrow> 256 ^ f \<le> be_val c
    | Inr out \<Rightarrow> be_val c < 256 ^ f \<and> length out = f \<and> be_val out = be_val c"
  using length_trim_component [OF assms, of c]
  by (cases "length (trim_component c) \<le> f")
    (simp_all add: normalize_component_def Let_def be_val_trim not_less)

text \<open>The kind of key an algorithm accepts.\<close>

fun key_fits :: "sig_alg \<Rightarrow> 'v signing_key \<Rightarrow> bool" where
  "key_fits (RsaPkcs1v15 _ _) key = (case key of Rsa _ \<Rightarrow> True | RsaPublic _ \<Rightarrow> True | _ \<Rightarrow> False)"
| "key_fits (RsaPss _ _) key = (case key of Rsa _ \<Rightarrow> True | RsaPublic _ \<Rightarrow> True | _ \<Rightarrow> False)"
| "key_fits (Ecdsa _ _) key =
     (case key of EcP256 _ \<Rightarrow> True | EcP256Public _ \<Rightarrow> True | EcP384 _ \<Rightarrow> True | EcP384Public _ \<Rightarrow> True
      | EcP521 _ \<Rightarrow> True | EcP521Public _ \<Rightarrow> True | _ \<Rightarrow> False)"
| "key_fits (DsaSign _ _) key = (case key of Dsa _ \<Rightarrow> True | DsaPublic _ \<Rightarrow> True | _ \<Rightarrow> False)"
| "key_fits Ed25519Sign key = (case key of Ed25519 _ \<Rightarrow> True | Ed25519Public _ \<Rightarrow> True | _ \<Rightarrow> False)"
| "key_fits (HmacSign _ _) key = (case key of Hmac _ \<Rightarrow> True | _ \<Rightarrow> False)"
| "key_fits (PqSign _ a _) key = (case key of PostQuantum a' _ _ \<Rightarrow> a' = a | _ \<Rightarrow> False)"

lemmas verify_defs =
  RsaPkcs1v15_verify_def RsaPss_verify_def Ecdsa_verify_def DsaSign_verify_def
  Ed25519Sign_verify_def HmacSign_verify_def PqSign_verify_def

lemma sig_verify_fits: "sig_verify lib alg key data s = Inr b \<Longrightarrow> key_fits alg key"
  by (cases alg) (auto simp: verify_defs Let_def split: signing_key.splits if_splits)

lemma sig_verify_truncated_fits:
  "sig_verify_truncated lib alg key data s n = Inr True \<Longrightarrow> key_fits alg key"
proof (cases "is_hmac_alg alg")
  case True
  assume "sig_verify_truncated lib alg key data s n = Inr True"
  with True show ?thesis
    by (cases alg; cases key) (simp_all add: is_hmac_alg_def sig_verify_truncated_def)
next
  case False
  assume v: "sig_verify_truncated lib alg key data s n = Inr True"
  have "sig_verify_truncated lib alg key data s n =
      (if length s \<noteq> n then Inr False else sig_verify lib alg key data s)"
    using False by (cases alg) (simp_all add: is_hmac_alg_def sig_verify_truncated_def)
  with v show ?thesis by (simp add: sig_verify_fits split: if_splits)
qed

lemma length_right_align: "length (right_align n b) = n"
  by (simp add: right_align_def)

text \<open>The algorithm a \<open>kryptering\<close> algorithm stands for.\<close>

fun same_algorithm :: "kryptering_sig_alg \<Rightarrow> sig_alg \<Rightarrow> bool" where
  "same_algorithm (S_RsaPkcs1v15 h) (RsaPkcs1v15 _ t) = (hash_to_kryptering t = h)"
| "same_algorithm (S_RsaPss h) (RsaPss _ t) = (hash_to_kryptering t = h)"
| "same_algorithm (S_Ecdsa _ h) (Ecdsa _ t) = (hash_to_kryptering t = h)"
| "same_algorithm S_Ed25519 Ed25519Sign = True"
| "same_algorithm (S_Hmac h) (HmacSign _ t) = (hash_to_kryptering t = h)"
| "same_algorithm (S_Dsa h) (DsaSign _ t) = (hash_to_kryptering t = h)"
| "same_algorithm (S_MlDsa v) (PqSign _ a _) =
     ((v, a) \<in> {(V_MlDsa44, MlDsa44), (V_MlDsa65, MlDsa65), (V_MlDsa87, MlDsa87)})"
| "same_algorithm (S_SlhDsa v) (PqSign _ a _) =
     ((v, a) \<in> {(V_Sha2_128f, SlhDsaSha2_128f), (V_Sha2_128s, SlhDsaSha2_128s),
       (V_Sha2_192f, SlhDsaSha2_192f), (V_Sha2_192s, SlhDsaSha2_192s),
       (V_Sha2_256f, SlhDsaSha2_256f), (V_Sha2_256s, SlhDsaSha2_256s)})"
| "same_algorithm _ _ = False"

lemma distinct_sig_table: "distinct (map fst (sig_table legacy))"
proof -
  have "distinct (map fst (sig_table True))"
    unfolding sig_table_def uri_defs if_True append.simps list.map fst_conv
    by (simp only: distinct.simps list.set insert_iff empty_iff list.inject char.inject simp_thms
        list.distinct HOL.eq_False bool_simps)
  then show ?thesis by (cases legacy) (auto simp: sig_table_def)
qed

lemma sig_table_complete:
  "kryptering_algorithm_uri legacy a = Some uri \<Longrightarrow>
   list_ex (\<lambda>e. fst e = uri \<and> same_algorithm a (snd e context)) (sig_table legacy)"
  by (rule kryptering_algorithm_uri.cases [of "(legacy, a)"])
    (simp_all add: sig_table_def split: if_splits)

section \<open>Properties\<close>

text \<open>
  A signature method URI selects the algorithm it names: the algorithm found for a URI carries
  that URI, it is an HMAC exactly when \<open>is_hmac_algorithm\<close> says so (so the \<open>HMACOutputLength\<close> checks
  apply to every HMAC and to nothing else), and post-quantum exactly when \<open>is_pq_algorithm\<close> says so;
  and a URI that is in none of the match arms is refused as unsupported.
\<close>

theorem signature_dispatch:
  "case from_uri_with_context legacy uri context of
     Inr alg \<Rightarrow> sig_uri alg = uri \<and> (is_hmac_algorithm uri \<longleftrightarrow> is_hmac_alg alg) \<and>
       (is_pq_algorithm uri \<longleftrightarrow> is_pq_alg alg)
   | Inl e \<Rightarrow> e = Error_UnsupportedAlgorithm (''signature algorithm: '' @ uri) \<and>
       uri \<notin> set (map fst (sig_table legacy))"
proof (cases "from_uri_with_context legacy uri context")
  case (Inr alg)
  then obtain mk where mk: "(uri, mk) \<in> set (sig_table legacy)" "alg = mk context"
    using from_uri_with_context_Inr by blast
  then have "(uri, mk) \<in> set (sig_table True)" by (auto simp: sig_table_def split: if_splits)
  moreover have "sig_uri (mk context) = uri" using mk(1) by (auto simp: sig_table_def split: if_splits)
  ultimately show ?thesis
    using sig_table_hmac [of "context"] sig_table_pq [of "context"] Inr mk(2) by auto
next
  case (Inl e)
  then show ?thesis
    by (auto simp: from_uri_with_context_def ok_or_def map_of_eq_None_iff split: option.splits)
qed

text \<open>
  C39: No algorithm confusion: whenever verification with a key returns a verdict at all (in the
  truncated variant: a positive one), the key is of the kind the algorithm works with. In particular
  a public key can never be used as an HMAC secret, and a post-quantum key only with the parameter
  set it was made for.
\<close>

theorem verification_key_kind:
  "(sig_verify lib alg key data s = Inr b \<longrightarrow> key_fits alg key) \<and>
   (sig_verify_truncated lib alg key data s n = Inr True \<longrightarrow> key_fits alg key)"
  using sig_verify_fits sig_verify_truncated_fits by blast

theorem verification_key_kind_witness:
  "key_fits (HmacSign alg_HMAC_SHA1 Sha1) (Hmac ''k'' :: bytes signing_key)"
proof -
  have "sig_verify (sample_lib :: bytes crypto_lib) (HmacSign alg_HMAC_SHA1 Sha1) (Hmac ''k'') ''m'' ''km'' =
      Inr True"
    by (simp add: HmacSign_verify_def sample_lib_def compute_hmac_def)
  with verification_key_kind show ?thesis by blast
qed

text \<open>
  The URI that the hardware path compares with the document is the right one: when
  \<open>kryptering_algorithm_uri\<close> gives a URI for the algorithm of an HSM signer or verifier, the software
  dispatch maps that URI to the same algorithm with the same hash.
\<close>

theorem hsm_uri_agrees:
  assumes "kryptering_algorithm_uri legacy a = Some uri"
  shows "\<exists>alg. from_uri_with_context legacy uri context = Inr alg \<and> same_algorithm a alg"
proof -
  from sig_table_complete [OF assms, of "context"] obtain mk
    where mk: "(uri, mk) \<in> set (sig_table legacy)" "same_algorithm a (mk context)"
    by (auto simp: list_ex_iff)
  then have "map_of (sig_table legacy) uri = Some mk"
    using distinct_sig_table by (simp add: map_of_eq_Some_iff)
  with mk(2) show ?thesis by (simp add: from_uri_with_context_def)
qed

theorem hsm_uri_agrees_witness:
  "\<exists>alg. from_uri_with_context False alg_ECDSA_SHA256 None = Inr alg \<and>
     same_algorithm (S_Ecdsa P256 H_Sha256) alg"
  by (rule hsm_uri_agrees) simp

text \<open>
  Normalizing a raw ECDSA signature keeps the numbers: it succeeds exactly when the length is
  even and both halves, read as big-endian numbers, fit the field; the result has twice the field
  size and its halves have the same values.
\<close>

theorem normalize_raw_ecdsa_correct:
  assumes "0 < f"
  shows "case normalize_raw_ecdsa s f of
      Inr out \<Rightarrow> even (length s) \<and> length out = 2 * f \<and>
        be_val (take f out) = be_val (take (length s div 2) s) \<and>
        be_val (drop f out) = be_val (drop (length s div 2) s)
    | Inl _ \<Rightarrow> odd (length s) \<or> 256 ^ f \<le> be_val (take (length s div 2) s) \<or>
        256 ^ f \<le> be_val (drop (length s div 2) s)"
proof (cases "even (length s)")
  case True
  define r where "r = take (length s div 2) s"
  define t where "t = drop (length s div 2) s"
  have eq: "normalize_raw_ecdsa s f = and_then (normalize_component f ''r'' r) (\<lambda>a.
      and_then (normalize_component f ''s'' t) (\<lambda>b. Inr (a @ b)))"
    using True by (simp add: normalize_raw_ecdsa_def Let_def even_iff_mod_2_eq_zero r_def t_def)
  note parts = normalize_component_eq [OF assms, where name = "''r''" and c = r]
    normalize_component_eq [OF assms, where name = "''s''" and c = t]
  show ?thesis
    unfolding eq r_def [symmetric] t_def [symmetric]
    using True parts
    by (cases "normalize_component f ''r'' r"; cases "normalize_component f ''s'' t") simp_all
qed (simp add: normalize_raw_ecdsa_def odd_iff_mod_2_eq_one)

theorem normalize_raw_ecdsa_correct_witness:
  "be_val (take 2 [CHR 0x00, CHR 0x07, CHR 0x01, CHR 0x02]) = be_val [CHR 0x00, CHR 0x00, CHR 0x07]"
proof -
  let ?s = "[CHR 0x00, CHR 0x00, CHR 0x07, CHR 0x00, CHR 0x01, CHR 0x02]"
  have "normalize_raw_ecdsa ?s 2 = Inr [CHR 0x00, CHR 0x07, CHR 0x01, CHR 0x02]"
    by (simp add: normalize_raw_ecdsa_def normalize_component_def trim_component_def Let_def)
  with normalize_raw_ecdsa_correct [of 2 ?s] show ?thesis by simp
qed

text \<open>
  The XML format of a DSA signature can be read back: if the big-integer library ignores leading
  zero octets and the components fit the length of q, converting a signature to \<open>r||s\<close> and back
  gives the signature.
\<close>

theorem dsa_format_roundtrip:
  assumes "\<And>n v. biguint_from_bytes_be lib (zeros n @ biguint_to_bytes_be lib v) = v"
    and "length (biguint_to_bytes_be lib (dsa_sig_r lib s)) \<le> div_ceil (dsa_q_bits lib vk) 8"
    and "length (biguint_to_bytes_be lib (dsa_sig_s lib s)) \<le> div_ceil (dsa_q_bits lib vk) 8"
    and "dsa_from_components lib (dsa_sig_r lib s) (dsa_sig_s lib s) = Inr s"
  shows "xmldsig_to_dsa lib vk (dsa_sig_to_xmldsig lib vk s) = Inr s"
proof -
  have "biguint_from_bytes_be lib (right_align q (biguint_to_bytes_be lib v)) = v"
    if "length (biguint_to_bytes_be lib v) \<le> q" for q v
    using assms(1) that by (simp add: right_align_def)
  with assms show ?thesis
    by (simp add: xmldsig_to_dsa_def dsa_sig_to_xmldsig_def Let_def length_right_align)
qed

theorem dsa_format_roundtrip_witness:
  "xmldsig_to_dsa sample_lib [] (dsa_sig_to_xmldsig sample_lib [] [CHR 0x05]) = Inr [CHR 0x05]"
proof (rule dsa_format_roundtrip)
  fix n v
  show "biguint_from_bytes_be sample_lib (zeros n @ biguint_to_bytes_be sample_lib v) = v"
    by (induction n) (simp_all add: sample_lib_def)
qed (simp_all add: sample_lib_def div_ceil_def)

end
