(* ===== verification/Keys.thy ===== *)
theory Keys
  imports Crypto_Sign
begin

text \<open>
  Keys and the key manager (\<open>bergshamra-keys/src/key.rs\<close>, \<open>manager.rs\<close>). Key objects of the crypto
  crates are opaque values of type \<open>'v\<close>; the key manager is a record holding the list of its keys and
  the lists of DER-encoded certificates and CRLs.
\<close>

section \<open>\<open>key.rs\<close>\<close>

datatype key_usage = Usage_Sign | Usage_Verify | Usage_Encrypt | Usage_Decrypt | Usage_Any

datatype 'v key_data =
    Key_Rsa "'v option" 'v
  | Key_EcP256 "'v option" 'v
  | Key_EcP384 "'v option" 'v
  | Key_EcP521 "'v option" 'v
  | Key_Dsa "'v option" 'v
  | Key_Dh bytes bytes "bytes option" "bytes option" bytes
  | Key_Ed25519 "'v option" 'v
  | Key_X25519 "bytes option" bytes
  | Key_Hmac bytes
  | Key_Aes bytes
  | Key_Des3 bytes
  | Key_PostQuantum pq_algorithm "bytes option" bytes

fun KeyData_algorithm_name :: "'v key_data \<Rightarrow> string" where
  "KeyData_algorithm_name (Key_Rsa _ _) = ''RSA''"
| "KeyData_algorithm_name (Key_EcP256 _ _) = ''EC-P256''"
| "KeyData_algorithm_name (Key_EcP384 _ _) = ''EC-P384''"
| "KeyData_algorithm_name (Key_EcP521 _ _) = ''EC-P521''"
| "KeyData_algorithm_name (Key_Dsa _ _) = ''DSA''"
| "KeyData_algorithm_name (Key_Dh _ _ _ _ _) = ''DH''"
| "KeyData_algorithm_name (Key_Ed25519 _ _) = ''Ed25519''"
| "KeyData_algorithm_name (Key_X25519 _ _) = ''X25519''"
| "KeyData_algorithm_name (Key_Hmac _) = ''HMAC''"
| "KeyData_algorithm_name (Key_Aes _) = ''AES''"
| "KeyData_algorithm_name (Key_Des3 _) = ''3DES''"
| "KeyData_algorithm_name (Key_PostQuantum a _ _) = PqAlgorithm_name a"

record 'v key =
  key_name :: "string option"
  key_data :: "'v key_data"
  key_usage :: key_usage
  key_x509_chain :: "bytes list"

definition Key_new :: "'v key_data \<Rightarrow> key_usage \<Rightarrow> 'v key" where
  "Key_new data usage =
     \<lparr>key_name = None, key_data = data, key_usage = usage, key_x509_chain = []\<rparr>"

definition Key_with_name :: "'v key \<Rightarrow> string \<Rightarrow> 'v key" where
  "Key_with_name k name = k\<lparr>key_name := Some name\<rparr>"

fun to_signing_key_data :: "'v key_data \<Rightarrow> 'v signing_key option" where
  "to_signing_key_data (Key_Rsa (Some pk) _) = Some (Rsa pk)"
| "to_signing_key_data (Key_Rsa None public) = Some (RsaPublic public)"
| "to_signing_key_data (Key_EcP256 (Some sk) _) = Some (EcP256 sk)"
| "to_signing_key_data (Key_EcP256 None public) = Some (EcP256Public public)"
| "to_signing_key_data (Key_EcP384 (Some sk) _) = Some (EcP384 sk)"
| "to_signing_key_data (Key_EcP384 None public) = Some (EcP384Public public)"
| "to_signing_key_data (Key_EcP521 (Some sk) _) = Some (EcP521 sk)"
| "to_signing_key_data (Key_EcP521 None public) = Some (EcP521Public public)"
| "to_signing_key_data (Key_Dsa (Some sk) _) = Some (Dsa sk)"
| "to_signing_key_data (Key_Dsa None public) = Some (DsaPublic public)"
| "to_signing_key_data (Key_Ed25519 (Some sk) _) = Some (Ed25519 sk)"
| "to_signing_key_data (Key_Ed25519 None public) = Some (Ed25519Public public)"
| "to_signing_key_data (Key_Hmac k) = Some (Hmac k)"
| "to_signing_key_data (Key_PostQuantum a private_der public_der) =
     Some (PostQuantum a private_der public_der)"
| "to_signing_key_data (Key_Dh _ _ _ _ _) = None"
| "to_signing_key_data (Key_X25519 _ _) = None"
| "to_signing_key_data (Key_Aes _) = None"
| "to_signing_key_data (Key_Des3 _) = None"

definition to_signing_key :: "'v key \<Rightarrow> 'v signing_key option" where
  "to_signing_key k = to_signing_key_data (key_data k)"

fun has_private_key_data :: "'v key_data \<Rightarrow> bool" where
  "has_private_key_data (Key_Rsa private _) = (private \<noteq> None)"
| "has_private_key_data (Key_EcP256 private _) = (private \<noteq> None)"
| "has_private_key_data (Key_EcP384 private _) = (private \<noteq> None)"
| "has_private_key_data (Key_EcP521 private _) = (private \<noteq> None)"
| "has_private_key_data (Key_Dsa private _) = (private \<noteq> None)"
| "has_private_key_data (Key_Dh _ _ _ private_key _) = (private_key \<noteq> None)"
| "has_private_key_data (Key_Ed25519 private _) = (private \<noteq> None)"
| "has_private_key_data (Key_X25519 private _) = (private \<noteq> None)"
| "has_private_key_data (Key_PostQuantum _ private_der _) = (private_der \<noteq> None)"
| "has_private_key_data (Key_Hmac _) = True"
| "has_private_key_data (Key_Aes _) = True"
| "has_private_key_data (Key_Des3 _) = True"

definition has_private_key :: "'v key \<Rightarrow> bool" where
  "has_private_key k = has_private_key_data (key_data k)"

definition symmetric_key_bytes :: "'v key \<Rightarrow> bytes option" where
  "symmetric_key_bytes k =
     (case key_data k of
        Key_Hmac b \<Rightarrow> Some b | Key_Aes b \<Rightarrow> Some b | Key_Des3 b \<Rightarrow> Some b | _ \<Rightarrow> None)"

definition rsa_public_key :: "'v key \<Rightarrow> 'v option" where
  "rsa_public_key k = (case key_data k of Key_Rsa _ public \<Rightarrow> Some public | _ \<Rightarrow> None)"

definition rsa_private_key :: "'v key \<Rightarrow> 'v option" where
  "rsa_private_key k = (case key_data k of Key_Rsa private _ \<Rightarrow> private | _ \<Rightarrow> None)"

definition dh_data ::
  "'v key \<Rightarrow> (bytes \<times> bytes \<times> bytes option \<times> bytes option \<times> bytes) option" where
  "dh_data k =
     (case key_data k of
        Key_Dh p g q private_key public_key \<Rightarrow> Some (p, g, q, private_key, public_key)
      | _ \<Rightarrow> None)"

definition x25519_public_key_bytes :: "'v key \<Rightarrow> bytes option" where
  "x25519_public_key_bytes k = (case key_data k of Key_X25519 _ public \<Rightarrow> Some public | _ \<Rightarrow> None)"

definition x25519_private_key_bytes :: "'v key \<Rightarrow> bytes option" where
  "x25519_private_key_bytes k = (case key_data k of Key_X25519 private _ \<Rightarrow> private | _ \<Rightarrow> None)"

section \<open>\<open>manager.rs\<close>\<close>

record 'v keys_manager =
  km_keys :: "'v key list"
  km_trusted_certs :: "bytes list"
  km_untrusted_certs :: "bytes list"
  km_crls :: "bytes list"

definition KeysManager_new :: "'v keys_manager" where
  "KeysManager_new = \<lparr>km_keys = [], km_trusted_certs = [], km_untrusted_certs = [], km_crls = []\<rparr>"

definition add_key :: "'v keys_manager \<Rightarrow> 'v key \<Rightarrow> 'v keys_manager" where
  "add_key m k = m\<lparr>km_keys := km_keys m @ [k]\<rparr>"

definition insert_key_first :: "'v keys_manager \<Rightarrow> 'v key \<Rightarrow> 'v keys_manager" where
  "insert_key_first m k = m\<lparr>km_keys := k # km_keys m\<rparr>"

definition find_by_name :: "'v keys_manager \<Rightarrow> string \<Rightarrow> 'v key option" where
  "find_by_name m name = find (\<lambda>k. key_name k = Some name) (km_keys m)"

definition find_by_usage :: "'v keys_manager \<Rightarrow> key_usage \<Rightarrow> 'v key option" where
  "find_by_usage m usage = find (\<lambda>k. key_usage k = usage \<or> key_usage k = Usage_Any) (km_keys m)"

definition find_rsa :: "'v keys_manager \<Rightarrow> 'v key option" where
  "find_rsa m = find (\<lambda>k. case key_data k of Key_Rsa _ _ \<Rightarrow> True | _ \<Rightarrow> False) (km_keys m)"

definition find_ec_p256 :: "'v keys_manager \<Rightarrow> 'v key option" where
  "find_ec_p256 m = find (\<lambda>k. case key_data k of Key_EcP256 _ _ \<Rightarrow> True | _ \<Rightarrow> False) (km_keys m)"

definition find_ec_p384 :: "'v keys_manager \<Rightarrow> 'v key option" where
  "find_ec_p384 m = find (\<lambda>k. case key_data k of Key_EcP384 _ _ \<Rightarrow> True | _ \<Rightarrow> False) (km_keys m)"

definition find_ec_p521 :: "'v keys_manager \<Rightarrow> 'v key option" where
  "find_ec_p521 m = find (\<lambda>k. case key_data k of Key_EcP521 _ _ \<Rightarrow> True | _ \<Rightarrow> False) (km_keys m)"

definition find_hmac :: "'v keys_manager \<Rightarrow> 'v key option" where
  "find_hmac m = find (\<lambda>k. case key_data k of Key_Hmac _ \<Rightarrow> True | _ \<Rightarrow> False) (km_keys m)"

definition find_aes :: "'v keys_manager \<Rightarrow> 'v key option" where
  "find_aes m = find (\<lambda>k. case key_data k of Key_Aes _ \<Rightarrow> True | _ \<Rightarrow> False) (km_keys m)"

definition find_aes_by_size :: "'v keys_manager \<Rightarrow> nat \<Rightarrow> 'v key option" where
  "find_aes_by_size m size_bytes =
     find (\<lambda>k. case key_data k of Key_Aes b \<Rightarrow> length b = size_bytes | _ \<Rightarrow> False) (km_keys m)"

definition find_des3 :: "'v keys_manager \<Rightarrow> 'v key option" where
  "find_des3 m = find (\<lambda>k. case key_data k of Key_Des3 _ \<Rightarrow> True | _ \<Rightarrow> False) (km_keys m)"

definition find_pq :: "'v keys_manager \<Rightarrow> 'v key option" where
  "find_pq m = find (\<lambda>k. case key_data k of Key_PostQuantum _ _ _ \<Rightarrow> True | _ \<Rightarrow> False) (km_keys m)"

definition find_dh :: "'v keys_manager \<Rightarrow> 'v key option" where
  "find_dh m = find (\<lambda>k. case key_data k of Key_Dh _ _ _ _ _ \<Rightarrow> True | _ \<Rightarrow> False) (km_keys m)"

definition find_ed25519 :: "'v keys_manager \<Rightarrow> 'v key option" where
  "find_ed25519 m = find (\<lambda>k. case key_data k of Key_Ed25519 _ _ \<Rightarrow> True | _ \<Rightarrow> False) (km_keys m)"

definition find_x25519 :: "'v keys_manager \<Rightarrow> 'v key option" where
  "find_x25519 m = find (\<lambda>k. case key_data k of Key_X25519 _ _ \<Rightarrow> True | _ \<Rightarrow> False) (km_keys m)"

definition find_rsa_private :: "'v keys_manager \<Rightarrow> 'v key option" where
  "find_rsa_private m =
     find (\<lambda>k. case key_data k of Key_Rsa private _ \<Rightarrow> private \<noteq> None | _ \<Rightarrow> False) (km_keys m)"

definition first_key :: "'v keys_manager \<Rightarrow> 'v key result" where
  "first_key m =
     (case km_keys m of [] \<Rightarrow> Inl (Error_KeyNotFound ''no keys in manager'') | k # _ \<Rightarrow> Inr k)"

definition KeysManager_len :: "'v keys_manager \<Rightarrow> nat" where
  "KeysManager_len m = length (km_keys m)"

definition KeysManager_is_empty :: "'v keys_manager \<Rightarrow> bool" where
  "KeysManager_is_empty m = (km_keys m = [])"

definition add_trusted_cert :: "'v keys_manager \<Rightarrow> bytes \<Rightarrow> 'v keys_manager" where
  "add_trusted_cert m der = m\<lparr>km_trusted_certs := km_trusted_certs m @ [der]\<rparr>"

definition add_untrusted_cert :: "'v keys_manager \<Rightarrow> bytes \<Rightarrow> 'v keys_manager" where
  "add_untrusted_cert m der = m\<lparr>km_untrusted_certs := km_untrusted_certs m @ [der]\<rparr>"

definition add_crl :: "'v keys_manager \<Rightarrow> bytes \<Rightarrow> 'v keys_manager" where
  "add_crl m der = m\<lparr>km_crls := km_crls m @ [der]\<rparr>"

definition has_trusted_certs :: "'v keys_manager \<Rightarrow> bool" where
  "has_trusted_certs m = (km_trusted_certs m \<noteq> [])"

section \<open>Lookup\<close>

text \<open>
  The contract of a store with ordered keys that the lookup by name relies on: adding a key appends
  it, so an earlier key with the same name keeps its precedence; inserting first overrides.
\<close>

locale key_store =
  fixes empty :: 'm and add :: "'m \<Rightarrow> 'v key \<Rightarrow> 'm" and add_first :: "'m \<Rightarrow> 'v key \<Rightarrow> 'm"
    and lookup :: "'m \<Rightarrow> string \<Rightarrow> 'v key option" and members :: "'m \<Rightarrow> 'v key set"
  assumes lookup_empty: "lookup empty n = None"
    and members_empty: "members empty = {}"
    and lookup_add: "lookup (add m k) n =
      (case lookup m n of Some k' \<Rightarrow> Some k' | None \<Rightarrow> if key_name k = Some n then Some k else None)"
    and lookup_add_first: "lookup (add_first m k) n = (if key_name k = Some n then Some k else lookup m n)"
    and members_add: "members (add m k) = insert k (members m)"
    and members_add_first: "members (add_first m k) = insert k (members m)"
    and lookup_member: "lookup m n = Some k \<Longrightarrow> k \<in> members m \<and> key_name k = Some n"
begin

text \<open>A lookup after any sequence of additions finds the first key added under the name.\<close>

lemma lookup_adds:
  "lookup (fold (\<lambda>k m. add m k) ks m) n =
     (case lookup m n of Some k \<Rightarrow> Some k | None \<Rightarrow> find (\<lambda>k. key_name k = Some n) ks)"
  by (induction ks arbitrary: m) (auto simp: lookup_add split: option.splits)

lemma members_adds: "members (fold (\<lambda>k m. add m k) ks m) = members m \<union> set ks"
  by (induction ks arbitrary: m) (auto simp: members_add)

lemma lookup_adds_empty:
  "lookup (fold (\<lambda>k m. add m k) ks empty) n = find (\<lambda>k. key_name k = Some n) ks"
  by (simp add: lookup_adds lookup_empty)

end

lemma find_append: "find P (xs @ ys) = (case find P xs of Some x \<Rightarrow> Some x | None \<Rightarrow> find P ys)"
  by (induction xs) auto

lemma find_member: "find P xs = Some x \<Longrightarrow> x \<in> set xs \<and> P x"
  by (auto simp: find_Some_iff)

interpretation km: key_store KeysManager_new add_key insert_key_first find_by_name "\<lambda>m. set (km_keys m)"
  by unfold_locales
    (auto simp: KeysManager_new_def add_key_def insert_key_first_def find_by_name_def find_append
      split: option.splits dest: find_member)

text \<open>The lookups by kind, by usage and by name all pick a key of the manager.\<close>

lemmas find_defs =
  find_by_name_def find_by_usage_def find_rsa_def find_ec_p256_def find_ec_p384_def find_ec_p521_def
  find_hmac_def find_aes_def find_aes_by_size_def find_des3_def find_pq_def find_dh_def
  find_ed25519_def find_x25519_def find_rsa_private_def

lemma first_key_member: "first_key m = Inr k \<Longrightarrow> k \<in> set (km_keys m)"
  by (auto simp: first_key_def split: list.splits)

section \<open>Properties\<close>

text \<open>
  Looking a key up by name: in a manager built by adding keys in turn, the lookup returns the
  first key added under that name, and nothing when there is none; a key inserted at the front takes
  precedence over all others with its name.
\<close>

theorem key_lookup:
  "find_by_name (fold (\<lambda>k m. add_key m k) ks KeysManager_new) n = find (\<lambda>k. key_name k = Some n) ks \<and>
   find_by_name (insert_key_first m (Key_with_name k n)) n = Some (Key_with_name k n)"
  by (simp add: km.lookup_adds_empty km.lookup_add_first Key_with_name_def)

text \<open>
  The key handed to a signature algorithm is of the family of the stored key, and carries its
  private part exactly when there is one; AES, 3DES, DH and X25519 keys never become signing keys.
\<close>

theorem signing_key_family:
  "case to_signing_key k of
     None \<Rightarrow> KeyData_algorithm_name (key_data k) \<in> {''AES'', ''3DES'', ''DH'', ''X25519''}
   | Some (Rsa v) \<Rightarrow> rsa_private_key k = Some v
   | Some (RsaPublic v) \<Rightarrow> rsa_public_key k = Some v \<and> \<not> has_private_key k
   | Some (Hmac b) \<Rightarrow> symmetric_key_bytes k = Some b \<and> KeyData_algorithm_name (key_data k) = ''HMAC''
   | Some (PostQuantum a p q) \<Rightarrow> KeyData_algorithm_name (key_data k) = PqAlgorithm_name a \<and>
       (has_private_key k \<longleftrightarrow> p \<noteq> None)
   | Some (EcP256Public _) \<Rightarrow> \<not> has_private_key k | Some (EcP384Public _) \<Rightarrow> \<not> has_private_key k
   | Some (EcP521Public _) \<Rightarrow> \<not> has_private_key k | Some (DsaPublic _) \<Rightarrow> \<not> has_private_key k
   | Some (Ed25519Public _) \<Rightarrow> \<not> has_private_key k
   | Some _ \<Rightarrow> has_private_key k"
  by (cases "key_data k" rule: to_signing_key_data.cases)
    (simp_all add: to_signing_key_def has_private_key_def rsa_private_key_def rsa_public_key_def
      symmetric_key_bytes_def)

end
