(* ===== verification/Serial.thy ===== *)
theory Serial
  imports Bytes Rust_Str
begin

text \<open>
  Decimal serial numbers of certificates. \<open>format_serial_decimal\<close> of
  \<open>bergshamra-keys/src/keyinfo.rs\<close>, used to look a key up, converts the big-endian octets of an ASN.1
  INTEGER to decimal digit by digit; \<open>format_serial\<close> of \<open>bergshamra-dsig/src/sign.rs\<close>, used to write
  \<open>X509SerialNumber\<close>, divides the number by ten repeatedly. Both compute in 16-bit arithmetic.
\<close>

section \<open>The conversion\<close>

text \<open>A digit vector is little-endian, as in the code; \<open>u16\<close> arithmetic is taken modulo \<open>2 ^ 16\<close>.\<close>

fun push_carry :: "nat \<Rightarrow> nat list" where
  "push_carry carry = (if carry > 0 then (carry mod 10) # push_carry (carry div 10) else [])"

declare push_carry.simps [simp del]

text \<open>
  One pass over the digits: every digit is replaced by the last digit of \<open>digit * factor + carry\<close>,
  the rest is carried on, and what remains is pushed. The code runs it with factor 256 and carry 0,
  then with factor 1 and the octet as the carry.
\<close>

fun digit_pass :: "nat \<Rightarrow> nat \<Rightarrow> nat list \<Rightarrow> nat list" where
  "digit_pass factor carry [] = push_carry carry"
| "digit_pass factor carry (digit # digits) =
     (let val = (digit * factor + carry) mod 2 ^ 16
      in (val mod 10) mod 2 ^ 8 # digit_pass factor (val div 10) digits)"

definition add_octet :: "nat list \<Rightarrow> char \<Rightarrow> nat list" where
  "add_octet digits byte = digit_pass 1 (byte_val byte) (digit_pass 256 0 digits)"

definition format_serial_decimal :: "bytes \<Rightarrow> string" where
  "format_serial_decimal bytes =
     (if bytes = [] then ''0''
      else
        let digits = foldl add_octet [0] bytes;
            trimmed = dropWhile (\<lambda>c. c = CHR ''0'') (map (\<lambda>d. char_of (48 + d)) (rev digits))
        in if trimmed = [] then ''0'' else trimmed)"

text \<open>\<open>big_divmod\<close>: schoolbook division of the octets by a small number.\<close>

fun divmod_pass :: "nat \<Rightarrow> nat \<Rightarrow> bytes \<Rightarrow> bytes \<times> nat" where
  "divmod_pass divisor rem [] = ([], rem)"
| "divmod_pass divisor rem (b # bs) =
     (let r = (rem * 256 + byte_val b) mod 2 ^ 16;
          (q, m) = divmod_pass divisor (r mod divisor) bs
      in (char_of (r div divisor) # q, m))"

fun strip_leading_zeros :: "bytes \<Rightarrow> bytes" where
  "strip_leading_zeros (x # y # q) =
     (if x = CHR 0x00 then strip_leading_zeros (y # q) else x # y # q)"
| "strip_leading_zeros q = q"

definition big_divmod :: "bytes \<Rightarrow> nat \<Rightarrow> bytes \<times> nat" where
  "big_divmod bs divisor =
     (let (q, r) = divmod_pass divisor 0 bs in (strip_leading_zeros q, r))"

lemma divmod_pass_val:
  assumes "0 < n" "n \<le> 255"
  shows "r < n \<Longrightarrow> be_val (fst (divmod_pass n r bs)) = (r * 256 ^ length bs + be_val bs) div n \<and>
    snd (divmod_pass n r bs) = (r * 256 ^ length bs + be_val bs) mod n \<and>
    length (fst (divmod_pass n r bs)) = length bs"
proof (induction bs arbitrary: r)
  case (Cons b bs)
  let ?v = "r * 256 + byte_val b" and ?N = "256 ^ length bs"
  have v: "?v < n * 256"
  proof -
    have "r * 256 + 256 \<le> n * 256" using Cons.prems by (metis Suc_leI add.commute mult_Suc mult_le_mono1)
    with byte_val_less [of b] show ?thesis by linarith
  qed
  moreover have "n * 256 \<le> 255 * 256" using assms(2) by (rule mult_right_mono) simp
  ultimately have small: "?v mod 2 ^ 16 = ?v" by simp
  from v have q: "?v div n < 256" using assms(1) by (simp add: div_less_iff_less_mult mult.commute)
  from Cons.IH [of "?v mod n"] assms(1)
  have ih: "be_val (fst (divmod_pass n (?v mod n) bs)) = (?v mod n * ?N + be_val bs) div n"
    "snd (divmod_pass n (?v mod n) bs) = (?v mod n * ?N + be_val bs) mod n"
    "length (fst (divmod_pass n (?v mod n) bs)) = length bs" by simp_all
  have split: "r * 256 ^ length (b # bs) + be_val (b # bs) =
      (?v mod n * ?N + be_val bs) + n * (?v div n * ?N)"
  proof -
    have "r * 256 ^ length (b # bs) + be_val (b # bs) = ?v * ?N + be_val bs"
      by (simp add: algebra_simps)
    also have "?v * ?N = (?v div n * n + ?v mod n) * ?N" by simp
    finally show ?thesis by (simp only: algebra_simps)
  qed
  have pass: "divmod_pass n r (b # bs) =
      (char_of (?v div n) # fst (divmod_pass n (?v mod n) bs), snd (divmod_pass n (?v mod n) bs))"
    using small by (simp add: Let_def case_prod_beta)
  show ?case
    unfolding pass split using ih q assms(1) by (simp add: byte_val_char_of)
qed simp

lemma strip_leading_zeros_val [simp]: "be_val (strip_leading_zeros q) = be_val q"
  by (induction q rule: strip_leading_zeros.induct) auto

lemma strip_leading_zeros_0: "be_val q = 0 \<Longrightarrow> strip_leading_zeros q = [] \<or> strip_leading_zeros q = [CHR 0x00]"
  by (induction q rule: strip_leading_zeros.induct) (auto simp: byte_val_0_iff)

lemma big_divmod_val:
  assumes "0 < n" "n \<le> 255"
  shows "be_val (fst (big_divmod bs n)) = be_val bs div n \<and> snd (big_divmod bs n) = be_val bs mod n"
  using divmod_pass_val [OF assms, of 0 bs] assms(1) by (simp add: big_divmod_def case_prod_beta)

lemma big_divmod_zero:
  assumes "0 < n" "n \<le> 255"
  shows "be_val (fst (big_divmod bs n)) = 0 \<longleftrightarrow>
    fst (big_divmod bs n) = [] \<or> fst (big_divmod bs n) = [CHR 0x00]"
proof -
  define q where "q = fst (divmod_pass n 0 bs)"
  have "be_val (strip_leading_zeros q) = 0"
    if "strip_leading_zeros q = [] \<or> strip_leading_zeros q = [CHR 0x00]"
    using that by (auto simp del: strip_leading_zeros_val)
  then show ?thesis
    using strip_leading_zeros_0 [of q] by (auto simp: big_divmod_def case_prod_beta q_def)
qed

text \<open>The loop of \<open>format_serial\<close> and \<open>format_serial_bytes\<close>, which pushes the digits in reverse.\<close>

function serial_loop :: "bytes \<Rightarrow> string" where
  "serial_loop remainder =
     (let (quotient, r) = big_divmod remainder 10
      in char_of (48 + r) #
         (if quotient = [] \<or> quotient = [CHR 0x00] then [] else serial_loop quotient))"
  by pat_completeness auto
termination
proof (relation "measure be_val")
  fix remainder quotient :: bytes and r and x :: "bytes \<times> nat"
  assume x: "x = big_divmod remainder 10" "(quotient, r) = x"
    and "\<not> (quotient = [] \<or> quotient = [CHR 0x00])"
  moreover have q: "fst (big_divmod remainder 10) = quotient" by (metis x fst_conv)
  ultimately have "be_val quotient \<noteq> 0" using big_divmod_zero [of 10 remainder] by auto
  moreover have v: "be_val (fst (big_divmod remainder 10)) = be_val remainder div 10"
    by (rule big_divmod_val [THEN conjunct1]) simp_all
  ultimately have "0 < be_val remainder" unfolding q by (metis div_0 neq0_conv)
  then have "be_val quotient < be_val remainder" using v unfolding q by simp
  then show "(quotient, remainder) \<in> measure be_val" by simp
qed simp

definition format_serial_bytes :: "bytes \<Rightarrow> string" where
  "format_serial_bytes bs = rev (serial_loop bs)"

text \<open>Two's complement negation: complement every octet and add one from the right.\<close>

fun negate_octets :: "bytes \<Rightarrow> bytes \<times> bool" where
  "negate_octets [] = ([], True)"
| "negate_octets (b # bs) =
     (let (r, carry) = negate_octets bs; v = 255 - byte_val b
      in if carry then (char_of (v + 1) # r, v + 1 = 256) else (char_of v # r, False))"

definition format_negative_serial :: "bytes \<Rightarrow> string" where
  "format_negative_serial bs = ''-'' @ format_serial_bytes (fst (negate_octets bs))"

definition format_serial :: "bytes \<Rightarrow> string" where
  "format_serial bs =
     (case bs of
        [] \<Rightarrow> ''0''
      | b # _ \<Rightarrow> if 128 \<le> byte_val b then format_negative_serial bs else rev (serial_loop bs))"

section \<open>Correctness\<close>

declare serial_loop.simps [simp del]

lemma serial_loop_eq: "rev (serial_loop bs) = show_nat (be_val bs)"
proof (induction bs rule: serial_loop.induct)
  case (1 bs)
  define q where "q = fst (big_divmod bs 10)"
  define r where "r = snd (big_divmod bs 10)"
  have qr: "big_divmod bs 10 = (q, r)" by (simp add: q_def r_def)
  have v: "be_val q = be_val bs div 10" "r = be_val bs mod 10"
    using big_divmod_val [of 10 bs] by (simp_all add: q_def r_def)
  have z: "be_val q = 0 \<longleftrightarrow> q = [] \<or> q = [CHR 0x00]"
    unfolding q_def by (rule big_divmod_zero) simp_all
  show ?case
  proof (cases "q = [] \<or> q = [CHR 0x00]")
    case True
    with z v(1) have "be_val bs < 10" by simp
    then show ?thesis
      using True v(2) by (subst serial_loop.simps, subst show_nat.simps) (auto simp: qr)
  next
    case False
    with z v(1) have "\<not> be_val bs < 10" by auto
    moreover have "rev (serial_loop q) = show_nat (be_val q)" using 1 qr False by auto
    ultimately show ?thesis
      using False v by (subst serial_loop.simps, subst show_nat.simps) (auto simp: qr)
  qed
qed

lemma negate_octets_val:
  "be_val (fst (negate_octets bs)) + (if snd (negate_octets bs) then 256 ^ length bs else 0) + be_val bs =
     256 ^ length bs \<and> length (fst (negate_octets bs)) = length bs"
proof (induction bs)
  case (Cons b bs)
  define r where "r = fst (negate_octets bs)"
  define c where "c = snd (negate_octets bs)"
  have rc: "negate_octets bs = (r, c)" by (simp add: r_def c_def)
  have b: "byte_val b \<le> 255" using byte_val_less [of b] by simp
  have step: "be_val (fst (negate_octets (b # bs))) + (if snd (negate_octets (b # bs)) then 256 * 256 ^ length bs else 0)
      = (255 - byte_val b + (if c then 1 else 0)) * 256 ^ length bs + be_val r"
  proof (cases "byte_val b = 0")
    case True
    then show ?thesis using Cons.IH by (simp add: rc byte_val_char_of Let_def)
  next
    case False
    with b have "(256 - byte_val b) mod 256 = 256 - byte_val b" "255 - byte_val b + 1 = 256 - byte_val b"
      "(255 - byte_val b) mod 256 = 255 - byte_val b" "256 - byte_val b \<noteq> 256" by auto
    with False b show ?thesis using Cons.IH by (simp add: rc byte_val_char_of Let_def)
  qed
  have ih: "be_val r + (if c then 256 ^ length bs else 0) + be_val bs = 256 ^ length bs"
    "length r = length bs" using Cons.IH by (simp_all add: rc)
  have "(255 - byte_val b) * 256 ^ length bs + byte_val b * 256 ^ length bs = 255 * 256 ^ length bs"
    using b by (simp add: add_mult_distrib [symmetric])
  moreover have "(255 - byte_val b + (if c then 1 else 0)) * 256 ^ length bs =
      (255 - byte_val b) * 256 ^ length bs + (if c then 256 ^ length bs else 0)"
    by (simp add: add_mult_distrib)
  moreover have "length (fst (negate_octets (b # bs))) = Suc (length bs)"
    using ih(2) by (simp add: rc Let_def)
  moreover have "256 ^ length (b # bs) = 256 * (256 :: nat) ^ length bs"
    "be_val (b # bs) = byte_val b * 256 ^ length bs + be_val bs"
    by simp_all
  moreover have "(if snd (negate_octets (b # bs)) then 256 ^ length (b # bs) else 0) =
      (if snd (negate_octets (b # bs)) then 256 * (256 :: nat) ^ length bs else 0)" by simp
  ultimately show ?case using step ih(1) by (intro conjI) (linarith, simp)
qed simp


fun le_val :: "nat list \<Rightarrow> nat" where
  "le_val [] = 0"
| "le_val (d # ds) = d + 10 * le_val ds"

lemma push_carry_val: "le_val (push_carry c) = c \<and> (\<forall>d \<in> set (push_carry c). d < 10)"
proof (induction c rule: push_carry.induct)
  case (1 c)
  then show ?case by (subst (1 2) push_carry.simps) auto
qed

text \<open>No pass overflows: with digits below 10 the carry stays below 256.\<close>

lemma digit_pass_val:
  assumes "factor \<le> 256"
  shows "c < 256 \<Longrightarrow> \<forall>d \<in> set ds. d < 10 \<Longrightarrow>
    le_val (digit_pass factor c ds) = factor * le_val ds + c \<and>
    (\<forall>d \<in> set (digit_pass factor c ds). d < 10)"
proof (induction ds arbitrary: c)
  case (Cons d ds)
  let ?v = "d * factor + c"
  have "d * factor \<le> 9 * 256" using Cons.prems(2) assms by (intro mult_mono) auto
  with Cons.prems(1) have v: "?v < 2 ^ 16" "?v div 10 < 256" by simp_all
  then have pass: "digit_pass factor c (d # ds) = ?v mod 10 # digit_pass factor (?v div 10) ds"
    by (simp add: Let_def)
  from Cons.IH [of "?v div 10"] v(2) Cons.prems(2)
  have ih: "le_val (digit_pass factor (?v div 10) ds) = factor * le_val ds + ?v div 10"
    "\<forall>d \<in> set (digit_pass factor (?v div 10) ds). d < 10" by simp_all
  have "?v mod 10 + 10 * (factor * le_val ds + ?v div 10) = factor * (d + 10 * le_val ds) + c"
    using mod_mult_div_eq [of ?v 10] by (simp add: algebra_simps)
  with ih show ?case unfolding pass by simp
qed (simp add: push_carry_val)

lemma add_octet_val:
  assumes "\<forall>d \<in> set ds. d < 10"
  shows "le_val (add_octet ds b) = 256 * le_val ds + byte_val b \<and> (\<forall>d \<in> set (add_octet ds b). d < 10)"
proof -
  have mul: "le_val (digit_pass 256 0 ds) = 256 * le_val ds" "\<forall>d \<in> set (digit_pass 256 0 ds). d < 10"
    using digit_pass_val [of 256 0 ds] assms by simp_all
  have "le_val (digit_pass 1 (byte_val b) (digit_pass 256 0 ds)) =
      1 * le_val (digit_pass 256 0 ds) + byte_val b \<and>
      (\<forall>d \<in> set (digit_pass 1 (byte_val b) (digit_pass 256 0 ds)). d < 10)"
    by (rule digit_pass_val [OF _ byte_val_less mul(2)]) simp
  with mul(1) show ?thesis unfolding add_octet_def by simp
qed

lemma foldl_add_octet:
  "\<forall>d \<in> set ds. d < 10 \<Longrightarrow>
   le_val (foldl add_octet ds bs) = le_val ds * 256 ^ length bs + be_val bs \<and>
   (\<forall>d \<in> set (foldl add_octet ds bs). d < 10)"
proof (induction bs arbitrary: ds)
  case (Cons b bs)
  from Cons.IH [of "add_octet ds b"] add_octet_val [OF Cons.prems, of b]
  show ?case by (simp add: algebra_simps)
qed simp

lemma zero_digit: "char_of (48 :: nat) = CHR ''0''"
proof -
  have "(of_char CHR ''0'' :: nat) = 48" by simp
  then show ?thesis by (metis char_of_char)
qed

lemma show_nat_nonempty: "show_nat n \<noteq> []"
  by (subst show_nat.simps) simp

lemma show_digits:
  "\<forall>d \<in> set ds. d < 10 \<Longrightarrow>
   dropWhile (\<lambda>c. c = CHR ''0'') (map (\<lambda>d. char_of (48 + d)) (rev ds)) =
     (if le_val ds = 0 then [] else show_nat (le_val ds))"
proof (induction ds)
  case (Cons d ds)
  let ?z = "\<lambda>c. c = CHR ''0''"
  have z: "char_of (48 + d) = CHR ''0'' \<longleftrightarrow> d = 0"
  proof -
    have "d < 10" using Cons.prems by simp
    then have "(of_char (char_of (48 + d) :: char) :: nat) = 48 + d" by simp
    moreover have "(of_char CHR ''0'' :: nat) = 48" by simp
    ultimately show ?thesis by (metis add_cancel_right_right add.right_neutral char_of_char)
  qed
  have dw: "dropWhile ?z (xs @ [c]) = (if dropWhile ?z xs = [] then dropWhile ?z [c] else dropWhile ?z xs @ [c])"
    for xs c by (induction xs) auto
  have "show_nat (d + 10 * n) = show_nat n @ [char_of (48 + d)]" if "n \<noteq> 0" for n
    using that Cons.prems by (subst show_nat.simps) simp
  moreover have "show_nat d = [char_of (48 + d)]" using Cons.prems by (subst show_nat.simps) simp
  ultimately show ?case using Cons z by (auto simp: dw zero_digit show_nat_nonempty)
qed simp

lemma format_serial_decimal_eq: "format_serial_decimal bs = show_nat (be_val bs)"
proof -
  have zero: "show_nat 0 = ''0''" by (subst show_nat.simps) (simp add: zero_digit)
  from foldl_add_octet [of "[0]" bs] have "le_val (foldl add_octet [0] bs) = be_val bs"
    "\<forall>d \<in> set (foldl add_octet [0] bs). d < 10" by simp_all
  with show_digits [of "foldl add_octet [0] bs"]
  have "dropWhile (\<lambda>c. c = CHR ''0'') (map (\<lambda>d. char_of (48 + d)) (rev (foldl add_octet [0] bs))) =
      (if be_val bs = 0 then [] else show_nat (be_val bs))" by simp
  then show ?thesis
    unfolding format_serial_decimal_def Let_def using zero by (simp add: show_nat_nonempty)
qed

lemma show_nat_no_minus: "show_nat n \<noteq> CHR ''-'' # s"
proof -
  have "c \<noteq> CHR ''-''" if "c \<in> set (show_nat n)" for c
    using that
  proof (induction n rule: show_nat.induct)
    case (1 n)
    have digit: "char_of (48 + d) \<noteq> CHR ''-''" if "d < 10" for d :: nat
    proof
      assume "char_of (48 + d) = CHR ''-''"
      then have "(of_char (char_of (48 + d) :: char) :: nat) = of_char CHR ''-''" by simp
      with that show False by simp
    qed
    show ?case using 1 digit [of n] digit [of "n mod 10"]
      by (auto simp: show_nat.simps [of n] split: if_splits)
  qed
  then show ?thesis by force
qed

section \<open>Properties\<close>

text \<open>
  The decimal serial number is right: for every octet string the result is the decimal notation
  of the big-endian number it encodes, without leading zeros. The 16-bit arithmetic never overflows,
  so this holds for serial numbers of any length.
\<close>

theorem format_serial_decimal_correct: "format_serial_decimal bs = show_nat (be_val bs)"
  by (rule format_serial_decimal_eq)

text \<open>
  The writer and the reader of serial numbers agree on non-negative ones: \<open>format_serial\<close> (which
  writes \<open>X509SerialNumber\<close>) always returns, and gives the decimal notation of the number when the
  first octet is below 128, the same text \<open>format_serial_decimal\<close> (which looks a key up) computes. A
  serial number with the sign bit set is written as a negative number but looked up as a positive
  one, so such a certificate is never found by its serial number.
\<close>

theorem serial_writer_reader:
  assumes "bs \<noteq> []"
  shows "(byte_val (hd bs) < 128 \<longrightarrow>
      format_serial bs = show_nat (be_val bs) \<and> format_serial bs = format_serial_decimal bs) \<and>
    (128 \<le> byte_val (hd bs) \<longrightarrow>
      format_serial bs = ''-'' @ show_nat (256 ^ length bs - be_val bs) \<and>
      format_serial bs \<noteq> format_serial_decimal bs)"
proof -
  obtain b rest where bs: "bs = b # rest" using assms by (cases bs) auto
  have neg: "format_serial bs = ''-'' @ show_nat (256 ^ length bs - be_val bs)" if "128 \<le> byte_val b"
  proof -
    have "0 < byte_val b * 256 ^ length rest" using that by simp
    then have "0 < be_val bs" unfolding bs by simp
    with negate_octets_val [of bs] have "be_val (fst (negate_octets bs)) = 256 ^ length bs - be_val bs"
      by (auto split: if_splits)
    with that show ?thesis
      unfolding format_serial_def format_negative_serial_def format_serial_bytes_def serial_loop_eq
      by (simp add: bs del: negate_octets.simps be_val.simps)
  qed
  have "format_serial bs = show_nat (be_val bs)" if "byte_val b < 128"
    using that serial_loop_eq [of bs] by (simp add: bs format_serial_def)
  with neg show ?thesis
    using format_serial_decimal_eq [of bs] show_nat_no_minus [of "be_val bs", THEN not_sym]
    by (auto simp: bs)
qed

theorem serial_writer_reader_witness:
  "format_serial [CHR 0x80] = ''-128''"
proof -
  have "show_nat 128 = map char_of [49 :: nat, 50, 56]"
    by (subst show_nat.simps, subst show_nat.simps, subst show_nat.simps) simp
  also have "\<dots> = map char_of (map of_char ''128'' :: nat list)" by simp
  also have "\<dots> = ''128''" by (simp only: list.map char_of_char)
  finally show ?thesis using serial_writer_reader [of "[CHR 0x80]"] by (simp add: byte_val_def)
qed

end
