(* ===== verification/Asn1.thy ===== *)
theory Asn1
  imports Keys Bytes
begin

text \<open>
  The ASN.1 helpers of \<open>loader.rs\<close> and the key loaders that rest on them: Diffie-Hellman keys in
  PKCS#8 and SPKI form, raw symmetric and X25519 keys. The big integers and the primality test of
  the crate \<open>num_bigint_dig\<close> and the X25519 base point multiplication are arguments.
\<close>

section \<open>Lengths, elements, integers\<close>

definition parse_asn1_length :: "bytes \<Rightarrow> (nat \<times> bytes) option" where
  "parse_asn1_length data =
     (case data of
        [] \<Rightarrow> None
      | first # r \<Rightarrow>
          if byte_val first < 128 then Some (byte_val first, r)
          else if byte_val first = 129 then
            (case r of a # r' \<Rightarrow> Some (byte_val a, r') | _ \<Rightarrow> None)
          else if byte_val first = 130 then
            (case r of a # b # r' \<Rightarrow> Some (byte_val a * 256 + byte_val b, r') | _ \<Rightarrow> None)
          else if byte_val first = 131 then
            (case r of a # b # c # r' \<Rightarrow> Some (byte_val a * 65536 + byte_val b * 256 + byte_val c, r')
             | _ \<Rightarrow> None)
          else None)"

text \<open>\<open>{:02X}\<close> of an octet.\<close>

definition hex_digit :: "nat \<Rightarrow> char" where
  "hex_digit n = ''0123456789ABCDEF'' ! n"

definition hex_byte :: "char \<Rightarrow> string" where
  "hex_byte c = [hex_digit (byte_val c div 16), hex_digit (byte_val c mod 16)]"

definition parse_asn1_tl :: "bytes \<Rightarrow> char \<Rightarrow> (bytes \<times> bytes) result" where
  "parse_asn1_tl data expected_tag =
     (if data = [] \<or> hd data \<noteq> expected_tag then
        Inl (Error_Key (''expected ASN.1 tag 0x'' @ hex_byte expected_tag @ '', got 0x'' @
          hex_byte (case data of [] \<Rightarrow> CHR 0x00 | c # _ \<Rightarrow> c)))
      else
        and_then (ok_or (Error_Key ''invalid ASN.1 length'') (parse_asn1_length (tl data)))
          (\<lambda>(len, content_start).
             if length content_start < len then Inl (Error_Key ''ASN.1 length exceeds data'')
             else Inr (take len content_start, drop len content_start)))"

definition skip_asn1_element :: "bytes \<Rightarrow> (bytes \<times> bytes) result" where
  "skip_asn1_element data =
     (if data = [] then Inl (Error_Key ''empty ASN.1 data'')
      else
        and_then (ok_or (Error_Key ''invalid ASN.1 length'') (parse_asn1_length (tl data)))
          (\<lambda>(len, content_start).
             if length content_start < len then Inl (Error_Key ''ASN.1 element exceeds data'')
             else Inr (take len content_start, drop len content_start)))"

definition parse_asn1_integer :: "bytes \<Rightarrow> (bytes \<times> bytes) result" where
  "parse_asn1_integer data =
     and_then (parse_asn1_tl data (CHR 0x02))
       (\<lambda>(content, rest).
          Inr (if 1 < length content \<and> hd content = CHR 0x00 then tl content else content, rest))"

text \<open>
  \<open>extract_first_octet_string\<close> slices the content without checking the length, so it can panic:
  the result is \<open>Panics\<close>, or \<open>Returns\<close> the \<open>Option\<close> of the source.
\<close>

definition extract_first_octet_string :: "bytes \<Rightarrow> bytes option outcome" where
  "extract_first_octet_string data =
     (case data of
        [] \<Rightarrow> Returns None
      | t # data' \<Rightarrow>
          if t \<noteq> CHR 0x30 then Returns None
          else case parse_asn1_length data' of
            None \<Rightarrow> Returns None
          | Some (_, seq_content) \<Rightarrow>
              (case seq_content of
                 [] \<Rightarrow> Returns None
               | t' # seq' \<Rightarrow>
                   if t' \<noteq> CHR 0x04 then Returns None
                   else case parse_asn1_length seq' of
                     None \<Rightarrow> Returns None
                   | Some (octet_len, octet_content) \<Rightarrow>
                       if octet_len \<le> length octet_content then Returns (Some (take octet_len octet_content))
                       else Panics))"

section \<open>Diffie-Hellman keys\<close>

record num_lib =
  num_from_bytes_be :: "bytes \<Rightarrow> nat"
  num_to_bytes_be :: "nat \<Rightarrow> bytes"
  num_bits :: "nat \<Rightarrow> nat"
  num_probably_prime :: "nat \<Rightarrow> nat \<Rightarrow> bool"
  num_modpow :: "nat \<Rightarrow> nat \<Rightarrow> nat \<Rightarrow> nat"

definition OID_DH_PUBLIC_NUMBER :: bytes where
  "OID_DH_PUBLIC_NUMBER =
     [CHR 0x06, CHR 0x07, CHR 0x2A, CHR 0x86, CHR 0x48, CHR 0xCE, CHR 0x3E, CHR 0x02, CHR 0x01]"

definition validate_dh_params :: "num_lib \<Rightarrow> bytes \<Rightarrow> bytes \<Rightarrow> bytes option \<Rightarrow> unit result" where
  "validate_dh_params L p g q =
     (let p_uint = num_from_bytes_be L p; g_uint = num_from_bytes_be L g in
      if num_bits L p_uint < 512 then
        Inl (Error_Key ''DH prime p too small (W3C requires >= 512 bits)'')
      else if \<not> num_probably_prime L p_uint 20 then Inl (Error_Key ''DH prime p is not prime'')
      else if num_bits L g_uint < 160 then
        Inl (Error_Key ''DH generator g too small (W3C requires >= 160 bits)'')
      else if p_uint \<le> g_uint then Inl (Error_Key ''DH generator g out of range'')
      else case q of
        None \<Rightarrow> Inr ()
      | Some q_bytes \<Rightarrow>
          (let q_uint = num_from_bytes_be L q_bytes in
           if q_uint = 0 \<or> q_uint = 1 then Inl (Error_Key ''DH subgroup order q is trivial'')
           else if (p_uint - 1) mod q_uint \<noteq> 0 then
             Inl (Error_Key ''DH subgroup order q does not divide p-1'')
           else Inr ()))"

text \<open>The parameters \<open>SEQUENCE { p, g, [q] }\<close>, parsed the same way in both loaders.\<close>

definition parse_dh_params :: "bytes \<Rightarrow> (bytes \<times> bytes \<times> bytes option) result" where
  "parse_dh_params algo_rest =
     and_then (parse_asn1_tl algo_rest (CHR 0x30)) (\<lambda>(params_content, _).
     and_then (parse_asn1_integer params_content) (\<lambda>(p_bytes, params_rest).
     and_then (parse_asn1_integer params_rest) (\<lambda>(g_bytes, params_rest).
     and_then
       (if params_rest \<noteq> [] then
          and_then (parse_asn1_integer params_rest) (\<lambda>(q, _). Inr (Some q))
        else Inr None) (\<lambda>q_bytes.
     Inr (p_bytes, g_bytes, q_bytes)))))"

definition load_dh_private_pkcs8_der :: "num_lib \<Rightarrow> bytes \<Rightarrow> 'v key result" where
  "load_dh_private_pkcs8_der L der =
     (if \<not> contains_str der OID_DH_PUBLIC_NUMBER then Inl (Error_Key ''not a DH key (OID mismatch)'')
      else
        and_then (parse_asn1_tl der (CHR 0x30)) (\<lambda>(outer_content, _).
        and_then (skip_asn1_element outer_content) (\<lambda>(_, rest).
        and_then (parse_asn1_tl rest (CHR 0x30)) (\<lambda>(algo_content, rest).
        and_then (skip_asn1_element algo_content) (\<lambda>(_, algo_rest).
        and_then (parse_dh_params algo_rest) (\<lambda>(p_bytes, g_bytes, q_bytes).
        and_then (parse_asn1_tl rest (CHR 0x04)) (\<lambda>(pk_octet, _).
        and_then (parse_asn1_integer pk_octet) (\<lambda>(x_bytes, _).
        and_then (validate_dh_params L p_bytes g_bytes q_bytes) (\<lambda>_.
        let y_uint = num_modpow L (num_from_bytes_be L g_bytes) (num_from_bytes_be L x_bytes)
              (num_from_bytes_be L p_bytes)
        in Inr (Key_new (Key_Dh p_bytes g_bytes q_bytes (Some x_bytes) (num_to_bytes_be L y_uint))
             Usage_Any))))))))))"

definition load_dh_public_spki_der :: "num_lib \<Rightarrow> bytes \<Rightarrow> 'v key result" where
  "load_dh_public_spki_der L spki_der =
     (if \<not> contains_str spki_der OID_DH_PUBLIC_NUMBER then
        Inl (Error_Key ''not a DH key (OID mismatch)'')
      else
        and_then (parse_asn1_tl spki_der (CHR 0x30)) (\<lambda>(outer_content, _).
        and_then (parse_asn1_tl outer_content (CHR 0x30)) (\<lambda>(algo_content, rest).
        and_then (skip_asn1_element algo_content) (\<lambda>(_, algo_rest).
        and_then (parse_dh_params algo_rest) (\<lambda>(p_bytes, g_bytes, q_bytes).
        and_then (parse_asn1_tl rest (CHR 0x03)) (\<lambda>(bitstring_content, _).
        if bitstring_content = [] then Inl (Error_Key ''empty BIT STRING in DH public key'')
        else
        and_then (parse_asn1_integer (tl bitstring_content)) (\<lambda>(y_bytes, _).
        and_then (validate_dh_params L p_bytes g_bytes q_bytes) (\<lambda>_.
        Inr (Key_new (Key_Dh p_bytes g_bytes q_bytes None y_bytes) Usage_Any)))))))))"

section \<open>Raw keys\<close>

definition load_hmac_key :: "bytes \<Rightarrow> 'v key" where
  "load_hmac_key data = Key_new (Key_Hmac data) Usage_Any"

definition load_aes_key :: "bytes \<Rightarrow> 'v key result" where
  "load_aes_key data =
     (if length data = 16 \<or> length data = 24 \<or> length data = 32 then
        Inr (Key_new (Key_Aes data) Usage_Any)
      else Inl (Error_Key (''invalid AES key size: '' @ show_nat (length data) @ '' (expected 16, 24, or 32)'')))"

definition load_des3_key :: "bytes \<Rightarrow> 'v key result" where
  "load_des3_key data =
     (if length data \<noteq> 24 then
        Inl (Error_Key (''invalid 3DES key size: '' @ show_nat (length data) @ '' (expected 24)''))
      else Inr (Key_new (Key_Des3 data) Usage_Any))"

definition load_x25519_private_raw :: "(bytes \<Rightarrow> bytes) \<Rightarrow> bytes \<Rightarrow> 'v key result" where
  "load_x25519_private_raw public_of private_bytes =
     (if length private_bytes \<noteq> 32 then
        Inl (Error_Key (''X25519 private key must be 32 bytes, got '' @ show_nat (length private_bytes)))
      else Inr (Key_new (Key_X25519 (Some private_bytes) (public_of private_bytes)) Usage_Any))"

definition load_x25519_public_raw :: "bytes \<Rightarrow> 'v key result" where
  "load_x25519_public_raw public_bytes =
     (if length public_bytes \<noteq> 32 then
        Inl (Error_Key (''X25519 public key must be 32 bytes, got '' @ show_nat (length public_bytes)))
      else Inr (Key_new (Key_X25519 None public_bytes) Usage_Encrypt))"

section \<open>DER encodings\<close>

text \<open>
  The specification the parsers are compared with: the encoder of X.690, for lengths that fit in
  three octets.
\<close>

definition der_length :: "nat \<Rightarrow> bytes" where
  "der_length n =
     (if n < 128 then [char_of n]
      else if n < 256 then [CHR 0x81, char_of n]
      else if n < 65536 then [CHR 0x82, char_of (n div 256), char_of n]
      else [CHR 0x83, char_of (n div 65536), char_of (n div 256), char_of n])"

definition der_tlv :: "char \<Rightarrow> bytes \<Rightarrow> bytes" where
  "der_tlv tag content = tag # der_length (length content) @ content"

definition der_integer :: "bytes \<Rightarrow> bytes" where
  "der_integer v = der_tlv (CHR 0x02) (if 128 \<le> byte_val (hd v) then CHR 0x00 # v else v)"

text \<open>The octets of a non-negative integer without superfluous leading zeros.\<close>

definition minimal_octets :: "bytes \<Rightarrow> bool" where
  "minimal_octets v \<longleftrightarrow> v \<noteq> [] \<and> (1 < length v \<longrightarrow> hd v \<noteq> CHR 0x00)"

definition dh_algorithm :: "bytes \<Rightarrow> bytes \<Rightarrow> bytes option \<Rightarrow> bytes" where
  "dh_algorithm p g q =
     der_tlv (CHR 0x30) (OID_DH_PUBLIC_NUMBER @
       der_tlv (CHR 0x30) (der_integer p @ der_integer g @ (case q of None \<Rightarrow> [] | Some v \<Rightarrow> der_integer v)))"

definition dh_spki :: "bytes \<Rightarrow> bytes \<Rightarrow> bytes option \<Rightarrow> bytes \<Rightarrow> bytes" where
  "dh_spki p g q y =
     der_tlv (CHR 0x30) (dh_algorithm p g q @ der_tlv (CHR 0x03) (CHR 0x00 # der_integer y))"

definition dh_pkcs8 :: "bytes \<Rightarrow> bytes \<Rightarrow> bytes option \<Rightarrow> bytes \<Rightarrow> bytes" where
  "dh_pkcs8 p g q x =
     der_tlv (CHR 0x30) (der_integer [CHR 0x00] @ dh_algorithm p g q @ der_tlv (CHR 0x04) (der_integer x))"

section \<open>Lemmas\<close>

lemma byte_val_tag [simp]:
  "byte_val (CHR 0x81) = 129" "byte_val (CHR 0x82) = 130" "byte_val (CHR 0x83) = 131"
  by (simp_all add: byte_val_def)

lemma parse_der_length: "n < 2 ^ 24 \<Longrightarrow> parse_asn1_length (der_length n @ r) = Some (n, r)"
proof -
  assume n: "n < 2 ^ 24"
  have "n div 65536 = n div 256 div 256" by (simp add: div_mult2_eq [symmetric])
  then have "n div 65536 * 65536 + n div 256 mod 256 * 256 + n mod 256 = n"
    using div_mult_mod_eq [of "n div 256" 256] div_mult_mod_eq [of n 256] by linarith
  moreover have "n div 65536 mod 256 = n div 65536" using n by (simp add: less_mult_imp_div_less)
  moreover have "n div 256 mod 256 = n div 256" if "n < 65536"
    using that by (simp add: less_mult_imp_div_less)
  ultimately show ?thesis
    by (simp add: parse_asn1_length_def der_length_def byte_val_char_of)
qed

lemma length_der_tlv: "length content < length (der_tlv tag content)"
  by (simp add: der_tlv_def)

lemma parse_tl_tlv [simp]:
  "length c < 2 ^ 24 \<Longrightarrow> parse_asn1_tl (der_tlv tag c @ r) tag = Inr (c, r)"
  by (simp add: parse_asn1_tl_def der_tlv_def parse_der_length)

lemma skip_tlv [simp]:
  "length c < 2 ^ 24 \<Longrightarrow> skip_asn1_element (der_tlv tag c @ r) = Inr (c, r)"
  by (simp add: skip_asn1_element_def der_tlv_def parse_der_length)

lemma parse_der_integer [simp]:
  assumes "minimal_octets v" "length (der_integer v) < 2 ^ 24"
  shows "parse_asn1_integer (der_integer v @ r) = Inr (v, r)"
proof -
  obtain c b where v: "v = c # b" using assms(1) by (cases v) (auto simp: minimal_octets_def)
  have len: "length (if 128 \<le> byte_val (hd v) then CHR 0x00 # v else v) < 2 ^ 24"
    using assms(2) length_der_tlv unfolding der_integer_def by (rule less_trans [rotated])
  show ?thesis
    unfolding parse_asn1_integer_def der_integer_def
    using assms(1) by (simp only: parse_tl_tlv [OF len]) (auto simp: v minimal_octets_def)
qed

lemma length_der_integer: "v \<noteq> [] \<Longrightarrow> 2 < length (der_integer v)"
  by (cases v) (auto simp: der_integer_def der_tlv_def der_length_def)

lemma der_integer_Cons [simp]: "der_integer v \<noteq> []"
  by (simp add: der_integer_def der_tlv_def)

lemma oid_tlv: "OID_DH_PUBLIC_NUMBER =
  der_tlv (CHR 0x06) [CHR 0x2A, CHR 0x86, CHR 0x48, CHR 0xCE, CHR 0x3E, CHR 0x02, CHR 0x01]"
proof -
  have "of_char (CHR 0x07) = (7 :: nat)" by simp
  then have "char_of (7 :: nat) = CHR 0x07" by (metis char_of_char)
  then show ?thesis by (simp add: OID_DH_PUBLIC_NUMBER_def der_tlv_def der_length_def eval_nat_numeral)
qed

lemma contains_str_iff: "contains_str s p \<longleftrightarrow> sublist p s"
proof -
  have "find_str p s \<noteq> None \<longleftrightarrow> sublist p s"
    by (induction s) (auto simp: starts_with_iff_prefix sublist_Cons_right)
  then show ?thesis by (simp add: contains_str_def)
qed

lemma sublist_tlv: "sublist p c \<Longrightarrow> sublist p (der_tlv t c)"
proof -
  assume "sublist p c"
  then obtain a b where "c = a @ p @ b" by (auto simp: sublist_def)
  then have "der_tlv t c = (t # der_length (length c) @ a) @ p @ b" by (simp add: der_tlv_def)
  then show ?thesis unfolding sublist_def by blast
qed

lemma dh_algorithm_oid: "sublist OID_DH_PUBLIC_NUMBER (dh_algorithm p g q)"
  unfolding dh_algorithm_def by (rule sublist_tlv) (rule sublist_append_rightI)

lemma sublist_infix: "sublist p c \<Longrightarrow> sublist p (c @ b) \<and> sublist p (a @ c @ b)"
  unfolding sublist_def by (metis append.assoc)

lemma dh_oid:
  "contains_str (dh_spki p g q y) OID_DH_PUBLIC_NUMBER"
  "contains_str (dh_pkcs8 p g q x) OID_DH_PUBLIC_NUMBER"
  unfolding contains_str_iff dh_spki_def dh_pkcs8_def
  by (rule sublist_tlv, simp add: sublist_infix dh_algorithm_oid)+

lemma parse_tl_tlv_end: "length c < 2 ^ 24 \<Longrightarrow> parse_asn1_tl (der_tlv tag c) tag = Inr (c, [])"
  using parse_tl_tlv [of c tag "[]"] by simp

lemma parse_der_integer_end:
  "minimal_octets v \<Longrightarrow> length (der_integer v) < 2 ^ 24 \<Longrightarrow> parse_asn1_integer (der_integer v) = Inr (v, [])"
  using parse_der_integer [of v "[]"] by simp

lemma skip_oid: "skip_asn1_element (OID_DH_PUBLIC_NUMBER @ r) =
  Inr ([CHR 0x2A, CHR 0x86, CHR 0x48, CHR 0xCE, CHR 0x3E, CHR 0x02, CHR 0x01], r)"
  unfolding oid_tlv by (rule skip_tlv) simp

lemma parse_dh_params_der:
  assumes "minimal_octets p" "minimal_octets g" "\<forall>v. q = Some v \<longrightarrow> minimal_octets v"
    "length (dh_algorithm p g q) < 2 ^ 24"
  shows "parse_dh_params (der_tlv (CHR 0x30)
    (der_integer p @ der_integer g @ (case q of None \<Rightarrow> [] | Some v \<Rightarrow> der_integer v))) = Inr (p, g, q)"
proof -
  let ?c = "der_integer p @ der_integer g @ (case q of None \<Rightarrow> [] | Some v \<Rightarrow> der_integer v)"
  have "length ?c < length (der_tlv (CHR 0x30) ?c)" by (rule length_der_tlv)
  also have "\<dots> \<le> length (dh_algorithm p g q)" by (simp add: dh_algorithm_def der_tlv_def)
  finally have c: "length ?c < 2 ^ 24" using assms(4) by linarith
  then have "length (der_integer p) < 2 ^ 24" "length (der_integer g) < 2 ^ 24" by simp_all
  then show ?thesis
    using assms(1-3) c unfolding parse_dh_params_def parse_tl_tlv_end [OF c]
    by (cases q) (simp_all add: parse_der_integer_end)
qed

section \<open>Properties\<close>

text \<open>
  C28: Diffie-Hellman keys are read back: from the DER encoding of a public key (SPKI) or of a private
  key (PKCS#8) with the domain parameters \<open>p\<close>, \<open>g\<close> and an optional \<open>q\<close>, the loaders return a key with
  exactly these numbers, the private loader with the public value \<open>g^x mod p\<close>, provided the
  parameters pass the checks of \<open>validate_dh_params\<close>; otherwise they return its error. The encodings
  are those with lengths below \<open>2^24\<close>, the largest the length parser accepts.
\<close>

theorem dh_key_roundtrip:
  assumes "minimal_octets p" "minimal_octets g" "\<forall>v. q = Some v \<longrightarrow> minimal_octets v"
    "minimal_octets z" "length (dh_spki p g q z) < 2 ^ 24" "length (dh_pkcs8 p g q z) < 2 ^ 24"
  shows "load_dh_public_spki_der L (dh_spki p g q z) =
      and_then (validate_dh_params L p g q) (\<lambda>_. Inr (Key_new (Key_Dh p g q None z) Usage_Any)) \<and>
    load_dh_private_pkcs8_der L (dh_pkcs8 p g q z) =
      and_then (validate_dh_params L p g q)
        (\<lambda>_. Inr (Key_new (Key_Dh p g q (Some z) (num_to_bytes_be L
           (num_modpow L (num_from_bytes_be L g) (num_from_bytes_be L z) (num_from_bytes_be L p)))) Usage_Any))"
proof -
  let ?algo = "OID_DH_PUBLIC_NUMBER @ der_tlv (CHR 0x30)
    (der_integer p @ der_integer g @ (case q of None \<Rightarrow> [] | Some v \<Rightarrow> der_integer v))"
  let ?pub = "dh_algorithm p g q @ der_tlv (CHR 0x03) (CHR 0x00 # der_integer z)"
  let ?priv = "der_integer [CHR 0x00] @ dh_algorithm p g q @ der_tlv (CHR 0x04) (der_integer z)"
  have pub: "length ?pub < 2 ^ 24"
    using assms(5) length_der_tlv [of ?pub "CHR 0x30"] unfolding dh_spki_def by linarith
  have priv: "length ?priv < 2 ^ 24"
    using assms(6) length_der_tlv [of ?priv "CHR 0x30"] unfolding dh_pkcs8_def by linarith
  have algo: "length (dh_algorithm p g q) < 2 ^ 24" using pub by simp
  then have inner: "length ?algo < 2 ^ 24"
    using length_der_tlv [of ?algo "CHR 0x30"] unfolding dh_algorithm_def by linarith
  have bits: "length (CHR 0x00 # der_integer z) < 2 ^ 24"
    using pub length_der_tlv [of "CHR 0x00 # der_integer z" "CHR 0x03"] unfolding length_append by linarith
  then have int: "length (der_integer z) < 2 ^ 24" by simp
  have zero: "skip_asn1_element (der_integer [CHR 0x00] @ r) = Inr ([CHR 0x00], r)" for r
    unfolding der_integer_def by simp
  have tl_algo: "parse_asn1_tl (dh_algorithm p g q @ r) (CHR 0x30) = Inr (?algo, r)" for r
    unfolding dh_algorithm_def by (rule parse_tl_tlv [OF inner])
  note params = parse_dh_params_der [OF assms(1-3) algo]
  have "load_dh_public_spki_der L (dh_spki p g q z) =
      and_then (validate_dh_params L p g q) (\<lambda>_. Inr (Key_new (Key_Dh p g q None z) Usage_Any))"
    unfolding load_dh_public_spki_der_def
    by (simp only: dh_oid not_True_eq_False if_False)
      (simp only: dh_spki_def parse_tl_tlv_end [OF pub] parse_tl_tlv_end [OF bits] tl_algo skip_oid params
        parse_der_integer_end [OF assms(4) int] and_then_simps prod.case list.distinct list.sel if_False)
  moreover have "load_dh_private_pkcs8_der L (dh_pkcs8 p g q z) =
      and_then (validate_dh_params L p g q)
        (\<lambda>_. Inr (Key_new (Key_Dh p g q (Some z) (num_to_bytes_be L
           (num_modpow L (num_from_bytes_be L g) (num_from_bytes_be L z) (num_from_bytes_be L p)))) Usage_Any))"
    unfolding load_dh_private_pkcs8_der_def
    by (simp only: dh_oid not_True_eq_False if_False)
      (simp only: dh_pkcs8_def parse_tl_tlv_end [OF priv] parse_tl_tlv_end [OF int] zero tl_algo skip_oid params
        parse_der_integer_end [OF assms(4) int] and_then_simps prod.case Let_def)
  ultimately show ?thesis by blast
qed

text \<open>A concrete number library for the witness; it takes every number above 1 for a large prime.\<close>

definition sample_num :: num_lib where
  "sample_num = \<lparr>num_from_bytes_be = be_val, num_to_bytes_be = (\<lambda>n. [char_of n]), num_bits = (\<lambda>n. 512 * n),
     num_probably_prime = (\<lambda>n _. 1 < n), num_modpow = (\<lambda>b e m. b ^ e mod m)\<rparr>"

theorem dh_key_roundtrip_witness:
  "load_dh_public_spki_der sample_num (dh_spki [CHR 0x05] [CHR 0x02] (Some [CHR 0x04]) [CHR 0x03]) =
     Inr (Key_new (Key_Dh [CHR 0x05] [CHR 0x02] (Some [CHR 0x04]) None [CHR 0x03]) Usage_Any :: bytes key)"
proof -
  have "validate_dh_params sample_num [CHR 0x05] [CHR 0x02] (Some [CHR 0x04]) = Inr ()"
    by (simp add: validate_dh_params_def sample_num_def byte_val_def)
  moreover have "length (dh_spki [CHR 0x05] [CHR 0x02] (Some [CHR 0x04]) [CHR 0x03]) < 2 ^ 24"
    "length (dh_pkcs8 [CHR 0x05] [CHR 0x02] (Some [CHR 0x04]) [CHR 0x03]) < 2 ^ 24"
    by (simp_all add: dh_spki_def dh_pkcs8_def dh_algorithm_def der_integer_def der_tlv_def der_length_def
        OID_DH_PUBLIC_NUMBER_def byte_val_def)
  ultimately show ?thesis
    by (subst dh_key_roundtrip [THEN conjunct1]) (simp_all add: minimal_octets_def)
qed

text \<open>
  Reading the octet string inside an OpenSSL-style private key: the content is returned when the
  declared length is available, and the function panics (slice out of range) exactly when the
  declared length is larger than what follows. The declared length of the enclosing sequence is not
  looked at.
\<close>

theorem octet_string_bounds:
  assumes "m < 2 ^ 24" "n < 2 ^ 24"
  shows "extract_first_octet_string (CHR 0x30 # der_length m @ CHR 0x04 # der_length n @ content) =
    (if n \<le> length content then Returns (Some (take n content)) else Panics)"
  by (simp add: extract_first_octet_string_def parse_der_length [OF assms(1)] parse_der_length [OF assms(2)])

theorem octet_string_bounds_witness:
  "extract_first_octet_string (CHR 0x30 # der_length 4 @ CHR 0x04 # der_length 2 @ ''ab'') = Returns (Some ''ab'') \<and>
   extract_first_octet_string (CHR 0x30 # der_length 4 @ CHR 0x04 # der_length 9 @ ''ab'') = Panics"
  using octet_string_bounds [of 4 2 "''ab''"] octet_string_bounds [of 4 9 "''ab''"] by simp

end
