(* ===== verification/X509.thy ===== *)
theory X509
  imports Core
begin

text \<open>
  Certificate chain validation (\<open>x509.rs\<close>). Parsing of certificates and revocation lists
  (\<open>x509_cert\<close>, \<open>der\<close>), the trust store and chain building (\<open>tsp_ltv\<close>) and the clock are third-party
  code: they are the fields of \<open>cert_lib\<close>. A parsed certificate is the record of the parts the sources
  read. A \<open>DateTime\<close> is only compared, so a number stands for it.
\<close>

type_synonym date_time = nat

record certificate =
  cert_serial :: bytes
  cert_subject_der :: bytes
  cert_issuer_der :: bytes
  cert_extensions :: "(string \<times> bytes) list option"
  cert_spki_der :: "string + bytes"
  cert_alg_oid :: string
  cert_alg_params :: "bytes option"
  cert_public_key :: bytes
  cert_not_before :: date_time
  cert_not_after :: date_time

record 'v cert_lib =
  cert_from_der :: "bytes \<Rightarrow> string + certificate"
  basic_constraints_ca :: "bytes \<Rightarrow> bool option"
  crl_from_der :: "bytes \<Rightarrow> string + (bytes \<times> date_time) list option"
  signature_policy :: "bool \<Rightarrow> 'v"
  trust_store_new :: "'v \<Rightarrow> 'v"
  trust_add_der :: "'v \<Rightarrow> bytes \<Rightarrow> string + 'v"
  trust_is_empty :: "'v \<Rightarrow> bool"
  trust_contains_der :: "'v \<Rightarrow> bytes \<Rightarrow> bool"
  trust_anchor_subjects :: "'v \<Rightarrow> 'v"
  build_chain_from_pool :: "certificate \<Rightarrow> certificate list \<Rightarrow> 'v \<Rightarrow> 'v \<Rightarrow> string + certificate list"
  trust_verify_chain :: "'v \<Rightarrow> certificate list \<Rightarrow> date_time option \<Rightarrow> string + unit"
  verify_certificate_signature :: "certificate \<Rightarrow> certificate \<Rightarrow> 'v \<Rightarrow> string + unit"
  date_time_new :: "nat \<Rightarrow> nat \<Rightarrow> nat \<Rightarrow> nat \<Rightarrow> nat \<Rightarrow> nat \<Rightarrow> string + date_time"
  system_time :: "string + date_time"
  show_date_time :: "date_time \<Rightarrow> string"

record cert_validation_config =
  cfg_trusted_certs :: "bytes list"
  cfg_untrusted_certs :: "bytes list"
  cfg_crls :: "bytes list"
  cfg_verification_time :: "string option"
  cfg_skip_time_checks :: bool

text \<open>The argument is the cargo feature \<open>legacy-algorithms\<close>.\<close>

definition cert_signature_policy :: "bool \<Rightarrow> 'v cert_lib \<Rightarrow> 'v" where
  "cert_signature_policy legacy C = signature_policy C legacy"

text \<open>One field of the time: slice, then parse; the slices may panic inside a multi-byte character.\<close>

definition time_field :: "nat \<Rightarrow> nat \<Rightarrow> nat \<Rightarrow> string \<Rightarrow> string \<Rightarrow> string \<Rightarrow> nat result outcome" where
  "time_field a b mx what s whole =
     out_bind (str_slice a b s)
       (\<lambda>t. Returns (ok_or (Error_Certificate (''invalid '' @ what @ '' in time: '' @ whole)) (parse_uint mx t)))"

definition parse_verification_time :: "'v cert_lib \<Rightarrow> string \<Rightarrow> date_time result outcome" where
  "parse_verification_time C str =
     (let s = trim str in
      if length s < 19 then
        Returns (Inl (Error_Certificate (''invalid verification time format: '' @ s)))
      else
        out_then (time_field 0 4 65535 ''year'' s s) (\<lambda>year.
        out_then (time_field 5 7 255 ''month'' s s) (\<lambda>month.
        out_then (time_field 8 10 255 ''day'' s s) (\<lambda>day.
        out_bind (str_slice 11 (length s) s) (\<lambda>rest.
        out_then (time_field 0 2 255 ''hour'' rest s) (\<lambda>hour.
        out_then (time_field 3 5 255 ''minute'' rest s) (\<lambda>min.
        out_then (time_field 6 8 255 ''second'' rest s) (\<lambda>sec.
        Returns (map_err (\<lambda>e. Error_Certificate (''invalid verification time: '' @ e))
          (date_time_new C year month day hour min sec))))))))))"

definition resolve_verification_time :: "'v cert_lib \<Rightarrow> string option \<Rightarrow> date_time result outcome" where
  "resolve_verification_time C override_time =
     (case override_time of
        Some time_str \<Rightarrow> parse_verification_time C time_str
      | None \<Rightarrow> Returns (map_err Error_Certificate (system_time C)))"

definition check_cert_time_validity :: "'v cert_lib \<Rightarrow> certificate \<Rightarrow> date_time \<Rightarrow> unit result" where
  "check_cert_time_validity C cert verif_time =
     (if verif_time < cert_not_before cert then
        Inl (Error_Certificate (''certificate is not yet valid (notBefore: '' @ show_date_time C (cert_not_before cert) @ '')''))
      else if cert_not_after cert < verif_time then
        Inl (Error_Certificate (''certificate has expired (notAfter: '' @ show_date_time C (cert_not_after cert) @ '')''))
      else Inr ())"

definition check_revoked :: "certificate \<Rightarrow> date_time \<Rightarrow> (bytes \<times> date_time) list \<Rightarrow> unit result" where
  "check_revoked leaf verif_time revoked_certs =
     (if \<exists>(serial, revocation_time) \<in> set revoked_certs.
           serial = cert_serial leaf \<and> revocation_time \<le> verif_time
      then Inl (Error_Certificate ''certificate has been revoked (found in CRL)'')
      else Inr ())"

definition check_crl :: "'v cert_lib \<Rightarrow> certificate \<Rightarrow> date_time \<Rightarrow> unit \<Rightarrow> bytes \<Rightarrow> unit result" where
  "check_crl C leaf verif_time u crl_der =
     and_then (map_err (\<lambda>e. Error_Certificate (''failed to parse CRL: '' @ e)) (crl_from_der C crl_der))
       (\<lambda>revoked. case revoked of None \<Rightarrow> Inr () | Some rs \<Rightarrow> check_revoked leaf verif_time rs)"

definition check_crls :: "'v cert_lib \<Rightarrow> certificate \<Rightarrow> bytes list \<Rightarrow> string option \<Rightarrow> unit result outcome" where
  "check_crls C leaf crls verification_time_str =
     out_then (resolve_verification_time C verification_time_str)
       (\<lambda>verif_time. Returns (try_fold (check_crl C leaf verif_time) () crls))"

definition parsed_certs :: "'v cert_lib \<Rightarrow> bytes list \<Rightarrow> certificate list" where
  "parsed_certs C ders =
     List.map_filter (\<lambda>der. case cert_from_der C der of Inl _ \<Rightarrow> None | Inr c \<Rightarrow> Some c) ders"

text \<open>The steps of \<open>validate_cert_chain\<close>: the trust store, the validation time, and the decision.\<close>

definition build_trust_store :: "bool \<Rightarrow> 'v cert_lib \<Rightarrow> bytes list \<Rightarrow> 'v result" where
  "build_trust_store legacy C ders =
     try_fold
       (\<lambda>st der. map_err (\<lambda>e. Error_Certificate (''failed to add trusted cert: '' @ e)) (trust_add_der C st der))
       (trust_store_new C (cert_signature_policy legacy C)) ders"

definition chain_pool :: "'v cert_lib \<Rightarrow> bytes \<Rightarrow> bytes list \<Rightarrow> cert_validation_config \<Rightarrow> certificate list" where
  "chain_pool C leaf_der additional_certs config =
     parsed_certs C (filter (\<lambda>der. der \<noteq> leaf_der) additional_certs) @ parsed_certs C (cfg_untrusted_certs config)"

definition resolve_validation_time ::
  "'v cert_lib \<Rightarrow> cert_validation_config \<Rightarrow> date_time option result outcome" where
  "resolve_validation_time C config =
     (if cfg_skip_time_checks config then Returns (Inr None)
      else out_then (resolve_verification_time C (cfg_verification_time config))
             (\<lambda>t. Returns (Inr (Some t))))"

definition check_trusted_leaf ::
  "bool \<Rightarrow> 'v cert_lib \<Rightarrow> certificate \<Rightarrow> date_time option \<Rightarrow> unit result" where
  "check_trusted_leaf legacy C leaf validation_time =
     and_then
       (map_err (\<lambda>e. Error_Certificate (''self-signature verification failed: '' @ e))
         (verify_certificate_signature C leaf leaf (cert_signature_policy legacy C)))
       (\<lambda>_. case validation_time of
              None \<Rightarrow> Inr () | Some time \<Rightarrow> check_cert_time_validity C leaf time)"

definition check_chain ::
  "bool \<Rightarrow> 'v cert_lib \<Rightarrow> certificate \<Rightarrow> certificate list \<Rightarrow> 'v \<Rightarrow> date_time option \<Rightarrow>
   cert_validation_config \<Rightarrow> unit result outcome" where
  "check_chain legacy C leaf pool trust_store validation_time config =
     out_then (Returns (map_err (\<lambda>e. Error_Certificate (''cannot build certificate chain: '' @ e))
       (build_chain_from_pool C leaf pool (trust_anchor_subjects C trust_store)
         (cert_signature_policy legacy C)))) (\<lambda>chain.
     out_then (Returns (map_err Error_Certificate (trust_verify_chain C trust_store chain validation_time)))
       (\<lambda>_. if cfg_crls config \<noteq> [] then check_crls C leaf (cfg_crls config) (cfg_verification_time config)
            else Returns (Inr ())))"

definition validate_cert_chain ::
  "bool \<Rightarrow> 'v cert_lib \<Rightarrow> bytes \<Rightarrow> bytes list \<Rightarrow> cert_validation_config \<Rightarrow> unit result outcome" where
  "validate_cert_chain legacy C leaf_der additional_certs config =
     out_then (Returns (map_err (\<lambda>e. Error_Certificate (''failed to parse leaf certificate: '' @ e))
       (cert_from_der C leaf_der))) (\<lambda>leaf.
     out_then (Returns (build_trust_store legacy C (cfg_trusted_certs config))) (\<lambda>trust_store.
     if trust_is_empty C trust_store then
       Returns (Inl (Error_Certificate ''no trusted certificates available''))
     else
       out_then (resolve_validation_time C config) (\<lambda>validation_time.
       if trust_contains_der C trust_store leaf_der then
         Returns (check_trusted_leaf legacy C leaf validation_time)
       else
         check_chain legacy C leaf (chain_pool C leaf_der additional_certs config) trust_store
           validation_time config)))"

section \<open>Lemmas\<close>

text \<open>The list parses and does not name the leaf at or before the given time.\<close>

definition crl_clears :: "'v cert_lib \<Rightarrow> certificate \<Rightarrow> date_time \<Rightarrow> bytes \<Rightarrow> bool" where
  "crl_clears C leaf t crl \<longleftrightarrow>
     (\<exists>revoked. crl_from_der C crl = Inr revoked \<and>
        (\<forall>rs r. revoked = Some rs \<longrightarrow> (cert_serial leaf, r) \<in> set rs \<longrightarrow> t < r))"

lemma check_crl_ok: "check_crl C leaf t u crl = Inr () \<longleftrightarrow> crl_clears C leaf t crl"
  unfolding check_crl_def check_revoked_def crl_clears_def
  by (cases "crl_from_der C crl") (auto split: option.splits simp: not_le)

lemma check_crls_fold:
  "try_fold (check_crl C leaf t) u crls = Inr () \<longleftrightarrow> (\<forall>crl \<in> set crls. crl_clears C leaf t crl)"
proof (induction crls)
  case (Cons crl crls)
  then show ?case
    using check_crl_ok [of C leaf t u crl] by (cases "check_crl C leaf t u crl") auto
qed simp

lemma check_crls_ok:
  "check_crls C leaf crls vt = Returns (Inr ()) \<longleftrightarrow>
     (\<exists>t. resolve_verification_time C vt = Returns (Inr t) \<and> (\<forall>crl \<in> set crls. crl_clears C leaf t crl))"
  by (auto simp: check_crls_def res_simps check_crls_fold)

lemma check_trusted_leaf_ok:
  "check_trusted_leaf legacy C leaf time = Inr () \<longleftrightarrow>
     verify_certificate_signature C leaf leaf (cert_signature_policy legacy C) = Inr () \<and>
     (time = None \<or> cert_not_before leaf \<le> the time \<and> the time \<le> cert_not_after leaf)"
  by (cases time) (auto simp: check_trusted_leaf_def res_simps check_cert_time_validity_def not_less)

lemma check_chain_ok:
  "check_chain legacy C leaf pool store time config = Returns (Inr ()) \<longleftrightarrow>
     (\<exists>chain. trust_verify_chain C store chain time = Inr () \<and>
        build_chain_from_pool C leaf pool (trust_anchor_subjects C store) (cert_signature_policy legacy C) =
          Inr chain) \<and>
     (cfg_crls config = [] \<or>
        (\<exists>t. resolve_verification_time C (cfg_verification_time config) = Returns (Inr t) \<and>
           list_all (crl_clears C leaf t) (cfg_crls config)))"
  by (auto simp: check_chain_def res_simps check_crls_ok list_all_iff)

lemma validate_cert_chain_steps:
  "validate_cert_chain legacy C leaf_der additional config = Returns (Inr ()) \<longleftrightarrow>
    (\<exists>leaf store time.
      cert_from_der C leaf_der = Inr leaf \<and>
      build_trust_store legacy C (cfg_trusted_certs config) = Inr store \<and> \<not> trust_is_empty C store \<and>
      resolve_validation_time C config = Returns (Inr time) \<and>
      (if trust_contains_der C store leaf_der then check_trusted_leaf legacy C leaf time = Inr ()
       else check_chain legacy C leaf (chain_pool C leaf_der additional config) store time config =
         Returns (Inr ())))"
proof (cases "cert_from_der C leaf_der")
  case (Inr leaf)
  show ?thesis
  proof (cases "build_trust_store legacy C (cfg_trusted_certs config)")
    case store: (Inr store)
    show ?thesis
    proof (cases "resolve_validation_time C config")
      case time: (Returns r)
      show ?thesis by (cases r) (simp_all add: validate_cert_chain_def Inr store time)
    qed (simp add: validate_cert_chain_def Inr store)
  qed (simp add: validate_cert_chain_def Inr)
qed (simp add: validate_cert_chain_def)

section \<open>Properties\<close>

text \<open>
  C27: What a successful validation guarantees. The leaf certificate parsed, the trust store built
  from the configured certificates is not empty, and either the leaf is itself in the store, its
  self-signature verified and the validation time lies in its validity period, or a chain was
  built for the leaf and accepted by the store at that time, and no configured revocation list
  names the leaf at or before the verification time. In the first case the revocation lists are
  not consulted. Conversely these conditions are enough.
\<close>

theorem validate_cert_chain_correct:
  "validate_cert_chain legacy C leaf_der additional config = Returns (Inr ()) \<longleftrightarrow>
    (\<exists>leaf store time.
      cert_from_der C leaf_der = Inr leaf \<and>
      build_trust_store legacy C (cfg_trusted_certs config) = Inr store \<and> \<not> trust_is_empty C store \<and>
      resolve_validation_time C config = Returns (Inr time) \<and>
      (if trust_contains_der C store leaf_der then
         verify_certificate_signature C leaf leaf (cert_signature_policy legacy C) = Inr () \<and>
         (time = None \<or> cert_not_before leaf \<le> the time \<and> the time \<le> cert_not_after leaf)
       else
         (\<exists>chain. trust_verify_chain C store chain time = Inr () \<and>
            build_chain_from_pool C leaf (chain_pool C leaf_der additional config)
              (trust_anchor_subjects C store) (cert_signature_policy legacy C) = Inr chain) \<and>
         (cfg_crls config = [] \<or>
            (\<exists>t. resolve_verification_time C (cfg_verification_time config) = Returns (Inr t) \<and>
               list_all (crl_clears C leaf t) (cfg_crls config)))))"
  unfolding validate_cert_chain_steps check_trusted_leaf_ok check_chain_ok ..

end
