(* ===== verification/KeyInfo.thy ===== *)
theory KeyInfo
  imports Asn1 Serial X509 Dom
begin

text \<open>
  Reading keys from \<open>KeyInfo\<close> (\<open>keyinfo.rs\<close>) and the public key loaders it calls (\<open>loader.rs\<close>). The
  base64 decoder, the certificate parser and the constructors of the key crates are the fields of
  \<open>key_lib\<close>. Functions that can panic have an \<open>outcome\<close>.
\<close>

record 'v key_lib =
  kl_base64 :: "string \<Rightarrow> string + bytes"
  kl_cert :: "'v cert_lib"
  kl_num :: num_lib
  kl_biguint :: "bytes \<Rightarrow> 'v"
  kl_rsa_new :: "'v \<Rightarrow> 'v \<Rightarrow> string + 'v"
  kl_dsa_components :: "'v \<Rightarrow> 'v \<Rightarrow> 'v \<Rightarrow> string + 'v"
  kl_dsa_key :: "'v \<Rightarrow> 'v \<Rightarrow> string + 'v"
  kl_ec_encoded_point :: "ec_curve \<Rightarrow> bytes \<Rightarrow> string + 'v"
  kl_ec_public :: "ec_curve \<Rightarrow> 'v \<Rightarrow> 'v option"
  kl_ec_verifying :: "ec_curve \<Rightarrow> 'v \<Rightarrow> 'v"
  kl_rsa_spki :: "bytes \<Rightarrow> 'v option"
  kl_ec_spki :: "ec_curve \<Rightarrow> bytes \<Rightarrow> 'v option"
  kl_dsa_spki :: "bytes \<Rightarrow> 'v option"
  kl_ed25519_spki :: "bytes \<Rightarrow> string + 'v"
  kl_pq_spki_ok :: "pq_algorithm \<Rightarrow> bytes \<Rightarrow> bool"

section \<open>Public keys in SPKI form and certificates (\<open>loader.rs\<close>)\<close>

fun ec_key_data :: "ec_curve \<Rightarrow> 'v option \<Rightarrow> 'v \<Rightarrow> 'v key_data" where
  "ec_key_data P256 private public = Key_EcP256 private public"
| "ec_key_data P384 private public = Key_EcP384 private public"
| "ec_key_data P521 private public = Key_EcP521 private public"

definition pq_public_order :: "pq_algorithm list" where
  "pq_public_order =
     [MlDsa44, MlDsa65, MlDsa87, SlhDsaSha2_128f, SlhDsaSha2_128s, SlhDsaSha2_192f, SlhDsaSha2_192s,
      SlhDsaSha2_256f, SlhDsaSha2_256s]"

definition try_load_pq_public_key :: "'v key_lib \<Rightarrow> bytes \<Rightarrow> 'v key option" where
  "try_load_pq_public_key K spki_der =
     map_option (\<lambda>a. Key_new (Key_PostQuantum a None spki_der) Usage_Verify)
       (find (\<lambda>a. kl_pq_spki_ok K a spki_der) pq_public_order)"

definition load_ed25519_public_spki_der :: "'v key_lib \<Rightarrow> bytes \<Rightarrow> 'v key result" where
  "load_ed25519_public_spki_der K spki_der =
     and_then (map_err (\<lambda>e. Error_Key (''failed to parse Ed25519 public key: '' @ e)) (kl_ed25519_spki K spki_der))
       (\<lambda>vk. Inr (Key_new (Key_Ed25519 None vk) Usage_Verify))"

text \<open>\<open>.ok()\<close>, \<open>.or_else(..)\<close> on options.\<close>

definition ok :: "'e + 'a \<Rightarrow> 'a option" where
  "ok r = (case r of Inl _ \<Rightarrow> None | Inr v \<Rightarrow> Some v)"

definition or_else :: "'a option \<Rightarrow> 'a option \<Rightarrow> 'a option" where
  "or_else x y = (case x of None \<Rightarrow> y | Some v \<Rightarrow> Some v)"

text \<open>The attempts both loaders make first, in this order: RSA, the three curves, DSA.\<close>

definition classical_spki :: "'v key_lib \<Rightarrow> bytes \<Rightarrow> 'v key option" where
  "classical_spki K spki_der =
     map_option (\<lambda>data. Key_new data Usage_Verify)
       (or_else (map_option (Key_Rsa None) (kl_rsa_spki K spki_der))
       (or_else (map_option (ec_key_data P256 None) (kl_ec_spki K P256 spki_der))
       (or_else (map_option (ec_key_data P384 None) (kl_ec_spki K P384 spki_der))
       (or_else (map_option (ec_key_data P521 None) (kl_ec_spki K P521 spki_der))
         (map_option (Key_Dsa None) (kl_dsa_spki K spki_der))))))"

definition load_x509_cert_der :: "'v key_lib \<Rightarrow> bytes \<Rightarrow> 'v key result" where
  "load_x509_cert_der K data =
     and_then (map_err (\<lambda>e. Error_Key (''failed to parse X.509 certificate: '' @ e))
       (cert_from_der (kl_cert K) data)) (\<lambda>cert.
     and_then (map_err (\<lambda>e. Error_Key (''failed to encode SPKI: '' @ e)) (cert_spki_der cert)) (\<lambda>spki_der.
     ok_or (Error_Key ''unsupported public key algorithm in X.509 certificate'')
       (map_option (\<lambda>k. k\<lparr>key_x509_chain := [data]\<rparr>)
         (or_else (classical_spki K spki_der)
         (or_else (try_load_pq_public_key K spki_der)
         (or_else (ok (load_dh_public_spki_der (kl_num K) spki_der))
           (ok (load_ed25519_public_spki_der K spki_der))))))))"

definition load_spki_der :: "'v key_lib \<Rightarrow> bytes \<Rightarrow> 'v key result" where
  "load_spki_der K spki_der =
     ok_or (Error_Key ''unsupported public key algorithm in SPKI DER'')
       (or_else (classical_spki K spki_der)
       (or_else (ok (load_dh_public_spki_der (kl_num K) spki_der))
       (or_else (ok (load_ed25519_public_spki_der K spki_der))
         (try_load_pq_public_key K spki_der))))"

section \<open>\<open>decode_crypto_binary\<close>\<close>

definition hexdigit_val :: "char \<Rightarrow> nat option" where
  "hexdigit_val c =
     (let n = byte_val c in
      if 48 \<le> n \<and> n \<le> 57 then Some (n - 48)
      else if 65 \<le> n \<and> n \<le> 70 then Some (n - 55)
      else if 97 \<le> n \<and> n \<le> 102 then Some (n - 87)
      else None)"

definition is_ascii_hexdigit :: "char \<Rightarrow> bool" where
  "is_ascii_hexdigit c = (hexdigit_val c \<noteq> None)"

text \<open>
  The hex decoding loop: two characters at a time; the slice of a single left-over character is out
  of range. All characters are hex digits here, so \<open>from_str_radix\<close> succeeds.
\<close>

fun hex_pairs :: "string \<Rightarrow> bytes outcome" where
  "hex_pairs [] = Returns []"
| "hex_pairs [c] = Panics"
| "hex_pairs (a # b # s) =
     out_bind (hex_pairs s)
       (\<lambda>r. Returns (char_of (16 * the (hexdigit_val a) + the (hexdigit_val b)) # r))"

definition decode_crypto_binary :: "'v key_lib \<Rightarrow> string \<Rightarrow> (string + bytes) outcome" where
  "decode_crypto_binary K text =
     (let clean = remove_ws (trim text) in
      if clean = [] then Returns (Inl ''empty value'')
      else case kl_base64 K clean of
        Inr b \<Rightarrow> Returns (Inr b)
      | Inl _ \<Rightarrow>
          if 2 \<le> length clean \<and> list_all is_ascii_hexdigit clean then
            out_bind (hex_pairs clean) (\<lambda>b. Returns (Inr b))
          else
            out_bind (str_slice 0 (min (length clean) 20) clean)
              (\<lambda>t. Returns (Inl (''Invalid symbol at position 0 for '' @ t))))"

section \<open>Key values\<close>

definition elem_local :: "element \<Rightarrow> string" where
  "elem_local e = qn_local_name (el_name e)"

definition elem_ns :: "element \<Rightarrow> string" where
  "elem_ns e = unwrap_or [] (qn_namespace_uri (el_name e))"

text \<open>\<open>children(n).into_iter().find(|n| doc.element(n).map(p).unwrap_or(false))\<close>\<close>

definition find_child :: "document \<Rightarrow> node_id \<Rightarrow> (element \<Rightarrow> bool) \<Rightarrow> node_id option" where
  "find_child d n p =
     find (\<lambda>c. case doc_element d c of Some e \<Rightarrow> p e | None \<Rightarrow> False) (doc_children d n)"

definition child_text :: "document \<Rightarrow> node_id \<Rightarrow> string \<Rightarrow> string \<Rightarrow> string result" where
  "child_text d n local what =
     map_sum (\<lambda>e. e) (doc_text_deep d)
       (ok_or (Error_MissingElement what) (find_child d n (\<lambda>e. elem_local e = local)))"

definition parse_rsa_key_value :: "'v key_lib \<Rightarrow> document \<Rightarrow> node_id \<Rightarrow> 'v key result outcome" where
  "parse_rsa_key_value K d key_value_node =
     out_then (Returns (ok_or (Error_MissingElement ''RSAKeyValue'')
       (find_child d key_value_node (\<lambda>e. elem_local e = node_RSA_KEY_VALUE \<and> elem_ns e = ns_DSIG)))) (\<lambda>rsa_kv.
     out_then (Returns (child_text d rsa_kv node_RSA_MODULUS ''Modulus'')) (\<lambda>modulus_b64.
     out_then (Returns (child_text d rsa_kv node_RSA_EXPONENT ''Exponent'')) (\<lambda>exponent_b64.
     out_then (out_bind (decode_crypto_binary K modulus_b64)
       (\<lambda>r. Returns (map_err (\<lambda>e. Error_Base64 (''Modulus: '' @ e)) r))) (\<lambda>modulus_bytes.
     out_then (out_bind (decode_crypto_binary K exponent_b64)
       (\<lambda>r. Returns (map_err (\<lambda>e. Error_Base64 (''Exponent: '' @ e)) r))) (\<lambda>exponent_bytes.
     Returns (and_then
       (map_err (\<lambda>e. Error_Key (''invalid RSA public key: '' @ e))
         (kl_rsa_new K (kl_biguint K modulus_bytes) (kl_biguint K exponent_bytes)))
       (\<lambda>public. Inr (Key_new (Key_Rsa None public) Usage_Verify))))))))"

definition dsa_decode_elem :: "'v key_lib \<Rightarrow> document \<Rightarrow> node_id \<Rightarrow> string \<Rightarrow> bytes result" where
  "dsa_decode_elem K d dsa_kv name =
     and_then (child_text d dsa_kv name name)
       (\<lambda>b64. map_err (\<lambda>e. Error_Base64 (name @ '': '' @ e)) (kl_base64 K (remove_ws (trim b64))))"

definition parse_dsa_key_value :: "'v key_lib \<Rightarrow> document \<Rightarrow> node_id \<Rightarrow> 'v key result" where
  "parse_dsa_key_value K d key_value_node =
     and_then (ok_or (Error_MissingElement ''DSAKeyValue'')
       (find_child d key_value_node (\<lambda>e. elem_local e = node_DSA_KEY_VALUE \<and> elem_ns e = ns_DSIG))) (\<lambda>dsa_kv.
     and_then (dsa_decode_elem K d dsa_kv node_DSA_P) (\<lambda>p_bytes.
     and_then (dsa_decode_elem K d dsa_kv node_DSA_Q) (\<lambda>q_bytes.
     and_then (dsa_decode_elem K d dsa_kv node_DSA_G) (\<lambda>g_bytes.
     and_then (dsa_decode_elem K d dsa_kv node_DSA_Y) (\<lambda>y_bytes.
     and_then (map_err (\<lambda>e. Error_Key (''invalid DSA components: '' @ e))
       (kl_dsa_components K (kl_biguint K p_bytes) (kl_biguint K q_bytes) (kl_biguint K g_bytes))) (\<lambda>components.
     and_then (map_err (\<lambda>e. Error_Key (''invalid DSA public key: '' @ e))
       (kl_dsa_key K components (kl_biguint K y_bytes))) (\<lambda>vk.
     Inr (Key_new (Key_Dsa None vk) Usage_Verify))))))))"

fun curve_label :: "ec_curve \<Rightarrow> string" where
  "curve_label P256 = ''P-256''"
| "curve_label P384 = ''P-384''"
| "curve_label P521 = ''P-521''"

definition curve_of_uri :: "string \<Rightarrow> ec_curve option" where
  "curve_of_uri uri =
     (if uri = ''urn:oid:1.2.840.10045.3.1.7'' then Some P256
      else if uri = ''urn:oid:1.3.132.0.34'' then Some P384
      else if uri = ''urn:oid:1.3.132.0.35'' then Some P521
      else None)"

definition ec_point_key :: "'v key_lib \<Rightarrow> ec_curve \<Rightarrow> bytes \<Rightarrow> 'v key result" where
  "ec_point_key K c point_bytes =
     and_then (map_err (\<lambda>e. Error_Key (''invalid '' @ curve_label c @ '' point: '' @ e))
       (kl_ec_encoded_point K c point_bytes)) (\<lambda>encoded.
     and_then (ok_or (Error_Key (''invalid '' @ curve_label c @ '' public key point'')) (kl_ec_public K c encoded))
       (\<lambda>point. Inr (Key_new (ec_key_data c None (kl_ec_verifying K c point)) Usage_Verify)))"

definition parse_ec_key_value :: "'v key_lib \<Rightarrow> document \<Rightarrow> node_id \<Rightarrow> 'v key result outcome" where
  "parse_ec_key_value K d key_value_node =
     out_then (Returns (ok_or (Error_MissingElement ''ECKeyValue'')
       (find_child d key_value_node (\<lambda>e. elem_local e = node_EC_KEY_VALUE \<and>
          (elem_ns e = ns_DSIG11 \<or> elem_ns e = ns_DSIG))))) (\<lambda>ec_kv.
     out_then (Returns (ok_or (Error_MissingElement ''NamedCurve'')
       (find_child d ec_kv (\<lambda>e. elem_local e = node_NAMED_CURVE)))) (\<lambda>named_curve.
     case doc_element d named_curve of
       None \<Rightarrow> Panics
     | Some e \<Rightarrow>
     out_then (Returns (ok_or (Error_MissingAttribute ''URI on NamedCurve'') (doc_get_attribute d e attr_URI))) (\<lambda>curve_uri.
     out_then (Returns (child_text d ec_kv node_PUBLIC_KEY ''PublicKey'')) (\<lambda>public_key_b64.
     out_then (Returns (map_err (\<lambda>e. Error_Base64 (''EC PublicKey: '' @ e))
       (kl_base64 K (filter (\<lambda>c. c \<notin> {CHR 0x0A, CHR 0x0D, CHR '' ''}) (trim public_key_b64))))) (\<lambda>point_bytes.
     Returns (case curve_of_uri curve_uri of
         Some c \<Rightarrow> ec_point_key K c point_bytes
       | None \<Rightarrow> Inl (Error_UnsupportedAlgorithm (''EC curve: '' @ curve_uri))))))))"

definition parse_der_encoded_key_value :: "'v key_lib \<Rightarrow> document \<Rightarrow> node_id \<Rightarrow> 'v key option" where
  "parse_der_encoded_key_value K d n =
     (let clean = remove_ws (trim (doc_text_deep d n)) in
      if clean = [] then None
      else case kl_base64 K clean of Inl _ \<Rightarrow> None | Inr der_bytes \<Rightarrow> ok (load_spki_der K der_bytes))"

section \<open>Certificates in \<open>X509Data\<close>\<close>

record parsed_cert =
  pc_cert :: certificate
  pc_der :: bytes

definition is_ca :: "'v cert_lib \<Rightarrow> certificate \<Rightarrow> bool" where
  "is_ca C cert =
     (case cert_extensions cert of
        None \<Rightarrow> False
      | Some exts \<Rightarrow>
          unwrap_or False
            (find_map (\<lambda>(extn_id, extn_value). if extn_id = ''2.5.29.19'' then basic_constraints_ca C extn_value else None)
              exts))"

definition is_issuer_of_other :: "parsed_cert list \<Rightarrow> nat \<Rightarrow> bool" where
  "is_issuer_of_other certs i =
     list_ex (\<lambda>j. i \<noteq> j \<and> cert_subject_der (pc_cert (certs ! i)) = cert_issuer_der (pc_cert (certs ! j)))
       [0..<length certs]"

definition find_leaf_cert :: "'v cert_lib \<Rightarrow> parsed_cert list \<Rightarrow> nat" where
  "find_leaf_cert C certs =
     (if length certs \<le> 1 then 0
      else
        let idx = [0..<length certs];
            not_ca = (\<lambda>i. \<not> is_ca C (pc_cert (certs ! i)));
            candidates = filter (\<lambda>i. not_ca i \<and> \<not> is_issuer_of_other certs i) idx
        in if length candidates = 1 then hd candidates
        else
          let candidates = (if candidates = [] then filter (\<lambda>i. \<not> is_issuer_of_other certs i) idx else candidates)
          in if length candidates = 1 then hd candidates
          else
            let candidates = (if candidates = [] then filter not_ca idx else candidates)
            in if 1 < length candidates then last candidates
            else if length candidates = 1 then hd candidates
            else length certs - 1)"

definition x509_certificates :: "'v key_lib \<Rightarrow> document \<Rightarrow> node_id \<Rightarrow> parsed_cert list" where
  "x509_certificates K d x509_data_node =
     List.map_filter
       (\<lambda>child. case doc_element d child of
          None \<Rightarrow> None
        | Some e \<Rightarrow>
            if elem_local e = node_X509_CERTIFICATE then
              (case kl_base64 K (remove_ws (trim (doc_text_deep d child))) of
                 Inl _ \<Rightarrow> None
               | Inr der \<Rightarrow>
                   (case cert_from_der (kl_cert K) der of
                      Inl _ \<Rightarrow> None | Inr cert \<Rightarrow> Some \<lparr>pc_cert = cert, pc_der = der\<rparr>))
            else None)
       (doc_children d x509_data_node)"

definition extract_x509_certificate :: "'v key_lib \<Rightarrow> document \<Rightarrow> node_id \<Rightarrow> 'v key option" where
  "extract_x509_certificate K d x509_data_node =
     (let certs = x509_certificates K d x509_data_node in
      if certs = [] then None
      else
        map_option (\<lambda>key. key\<lparr>key_x509_chain := map pc_der certs\<rparr>)
          (ok (load_x509_cert_der K (pc_der (certs ! find_leaf_cert (kl_cert K) certs)))))"

section \<open>Entry points\<close>

definition dsig_or_none :: "element \<Rightarrow> bool" where
  "dsig_or_none e = (elem_ns e = ns_DSIG \<or> elem_ns e = [])"

definition key_value_child :: "'v key_lib \<Rightarrow> document \<Rightarrow> node_id \<Rightarrow> 'v key option outcome" where
  "key_value_child K d child =
     out_bind (parse_rsa_key_value K d child) (\<lambda>r. case r of Inr k \<Rightarrow> Returns (Some k) | Inl _ \<Rightarrow>
     out_bind (parse_ec_key_value K d child) (\<lambda>r. case r of Inr k \<Rightarrow> Returns (Some k) | Inl _ \<Rightarrow>
     Returns (ok (parse_dsa_key_value K d child))))"

definition extract_key_value :: "'v key_lib \<Rightarrow> document \<Rightarrow> node_id \<Rightarrow> 'v key option outcome" where
  "extract_key_value K d key_info_node =
     out_find_map
       (\<lambda>child. case doc_element d child of
          None \<Rightarrow> Returns None
        | Some e \<Rightarrow>
            if elem_local e = node_KEY_VALUE \<and> dsig_or_none e then key_value_child K d child
            else if elem_local e = node_X509_DATA \<and> dsig_or_none e then
              Returns (extract_x509_certificate K d child)
            else if elem_local e = node_DER_ENCODED_KEY_VALUE \<and> elem_ns e = ns_DSIG11 then
              Returns (parse_der_encoded_key_value K d child)
            else Returns None)
       (doc_children d key_info_node)"

definition find_key_by_serial :: "'v key_lib \<Rightarrow> 'v keys_manager \<Rightarrow> string \<Rightarrow> 'v key option" where
  "find_key_by_serial K manager serial_text =
     find (\<lambda>key. case key_x509_chain key of
             [] \<Rightarrow> False
           | cert_der # _ \<Rightarrow>
               (case cert_from_der (kl_cert K) cert_der of
                  Inl _ \<Rightarrow> False
                | Inr cert \<Rightarrow> format_serial_decimal (cert_serial cert) = serial_text))
       (km_keys manager)"

definition key_by_name :: "document \<Rightarrow> 'v keys_manager \<Rightarrow> node_id \<Rightarrow> 'v key option" where
  "key_by_name d manager child =
     (case doc_element d child of
        None \<Rightarrow> None
      | Some e \<Rightarrow>
          if elem_ns e = ns_DSIG \<and> elem_local e = node_KEY_NAME then
            (let name_text = trim (doc_text_deep d child) in
             if name_text \<noteq> [] then find_by_name manager name_text else None)
          else None)"

definition key_by_issuer_serial :: "'v key_lib \<Rightarrow> document \<Rightarrow> 'v keys_manager \<Rightarrow> node_id \<Rightarrow> 'v key option" where
  "key_by_issuer_serial K d manager issuer_serial =
     (case doc_element d issuer_serial of
        None \<Rightarrow> None
      | Some e \<Rightarrow>
          if elem_local e \<noteq> node_X509_ISSUER_SERIAL then None
          else
            let serial_text = trim (case find_child d issuer_serial (\<lambda>e. elem_local e = node_X509_SERIAL_NUMBER) of
                  Some n \<Rightarrow> doc_text_deep d n | None \<Rightarrow> [])
            in if serial_text = [] then None else find_key_by_serial K manager serial_text)"

definition key_by_x509_data :: "'v key_lib \<Rightarrow> document \<Rightarrow> 'v keys_manager \<Rightarrow> node_id \<Rightarrow> 'v key option" where
  "key_by_x509_data K d manager child =
     (case doc_element d child of
        None \<Rightarrow> None
      | Some e \<Rightarrow>
          if elem_local e = node_X509_DATA \<and> dsig_or_none e then
            find_map (key_by_issuer_serial K d manager) (doc_children d child)
          else None)"

text \<open>The third loop only calls \<open>parse_rsa_key_value\<close> and drops its result, but the call can panic.\<close>

definition try_key_values :: "'v key_lib \<Rightarrow> document \<Rightarrow> node_id list \<Rightarrow> 'v key option outcome" where
  "try_key_values K d children =
     out_find_map
       (\<lambda>child. case doc_element d child of
          None \<Rightarrow> Returns None
        | Some e \<Rightarrow>
            if elem_local e = node_KEY_VALUE \<and> dsig_or_none e then
              out_bind (parse_rsa_key_value K d child) (\<lambda>_. Returns None)
            else Returns None)
       children"

definition resolve_key_info :: "'v key_lib \<Rightarrow> document \<Rightarrow> node_id \<Rightarrow> 'v keys_manager \<Rightarrow> 'v key result outcome" where
  "resolve_key_info K d key_info_node manager =
     (case find_map (key_by_name d manager) (doc_children d key_info_node) of
        Some key \<Rightarrow> Returns (Inr key)
      | None \<Rightarrow>
          (case find_map (key_by_x509_data K d manager) (doc_children d key_info_node) of
             Some key \<Rightarrow> Returns (Inr key)
           | None \<Rightarrow>
               out_bind (try_key_values K d (doc_children d key_info_node)) (\<lambda>_. Returns (first_key manager))))"

section \<open>Lemmas\<close>

lemma find_key_by_serial_member: "find_key_by_serial K m s = Some k \<Longrightarrow> k \<in> set (km_keys m)"
  unfolding find_key_by_serial_def by (auto simp: find_Some_iff)

lemma key_by_name_member: "key_by_name d m c = Some k \<Longrightarrow> k \<in> set (km_keys m)"
  by (auto simp: key_by_name_def find_by_name_def Let_def find_Some_iff split: option.splits if_splits)

lemma key_by_x509_member: "key_by_x509_data K d m c = Some k \<Longrightarrow> k \<in> set (km_keys m)"
  by (auto simp: key_by_x509_data_def key_by_issuer_serial_def Let_def find_key_by_serial_member
      split: option.splits if_splits dest!: find_map_SomeD)

lemma find_leaf_cert_bound: "certs \<noteq> [] \<Longrightarrow> find_leaf_cert C certs < length certs"
proof -
  assume ne: "certs \<noteq> []"
  have hd: "hd (filter p [0..<length certs]) < length certs" if "length (filter p [0..<length certs]) = 1" for p
    using that hd_in_set [of "filter p [0..<length certs]"] by (force simp del: hd_in_set)
  have last: "last (filter p [0..<length certs]) < length certs" if "1 < length (filter p [0..<length certs])" for p
    using that last_in_set [of "filter p [0..<length certs]"] by (force simp del: last_in_set)
  show ?thesis using ne unfolding find_leaf_cert_def Let_def by (simp add: hd last)
qed

lemma hex_digit_val:
  assumes "n < 16"
  shows "hexdigit_val (hex_digit n) = Some n \<and> graphic (hex_digit n)"
proof -
  have "list_all (\<lambda>n. hexdigit_val (hex_digit n) = Some n \<and> graphic (hex_digit n)) [0..<16]"
    by (simp add: upt_rec hexdigit_val_def hex_digit_def byte_val_def graphic_def)
  with assms show ?thesis by (simp add: list_all_iff)
qed

lemma hex_byte_split: "byte_val c div 16 < 16" "16 * (byte_val c div 16) + byte_val c mod 16 = byte_val c"
  using byte_val_less [of c] by (simp_all add: less_mult_imp_div_less)

lemma hex_pairs_bytes: "hex_pairs (concat (map hex_byte b)) = Returns b"
proof (induction b)
  case (Cons c b)
  then show ?case
    using hex_digit_val [OF hex_byte_split(1) [of c]] hex_digit_val [of "byte_val c mod 16"] hex_byte_split(2) [of c]
    by (simp add: hex_byte_def byte_val_def)
qed simp

lemma hex_chars:
  "list_all graphic (concat (map hex_byte b))" "list_all is_ascii_hexdigit (concat (map hex_byte b))"
proof -
  have "graphic x \<and> is_ascii_hexdigit x" if "x \<in> set (hex_byte c)" for x c
    using that hex_digit_val [OF hex_byte_split(1) [of c]] hex_digit_val [of "byte_val c mod 16"]
    by (auto simp: hex_byte_def is_ascii_hexdigit_def)
  then show "list_all graphic (concat (map hex_byte b))" "list_all is_ascii_hexdigit (concat (map hex_byte b))"
    by (auto simp: list_all_iff)
qed

lemma hexdigit_graphic: "is_ascii_hexdigit c \<Longrightarrow> graphic c"
  by (auto simp: is_ascii_hexdigit_def hexdigit_val_def graphic_def byte_val_def Let_def split: if_splits)

lemma hex_pairs_odd: "odd (length s) \<Longrightarrow> hex_pairs s = Panics"
  by (induction s rule: hex_pairs.induct) auto

section \<open>Properties\<close>

text \<open>
  \<open>resolve_key_info\<close> only ever hands out keys of the key store, whatever the document says: a key
  found by name, by certificate serial number, or the first key. And a \<open>KeyName\<close> decides: when some
  child names a stored key, the result is the stored key of the first such child.
\<close>

theorem resolve_key_info_stored:
  "(resolve_key_info K d n manager = Returns (Inr k) \<longrightarrow> k \<in> set (km_keys manager)) \<and>
   (find_map (key_by_name d manager) (doc_children d n) = Some k \<longrightarrow>
      resolve_key_info K d n manager = Returns (Inr k))"
proof -
  have "k \<in> set (km_keys manager)" if "resolve_key_info K d n manager = Returns (Inr k)"
    using that unfolding resolve_key_info_def
    by (auto simp: res_simps split: option.splits
        dest!: find_map_SomeD key_by_name_member key_by_x509_member first_key_member)
  then show ?thesis by (simp add: resolve_key_info_def)
qed

text \<open>
  The certificate a key is taken from need not be the first of its chain. When \<open>X509Data\<close> holds two
  certificates that are no CAs and where neither is the issuer of the other, the key comes from the
  second one, while the chain recorded with the key (whose first certificate is the one validated
  later) starts with the first one.
\<close>

theorem x509_key_not_of_first_certificate:
  assumes "x509_certificates K d n = [a, b]"
    "\<not> is_ca (kl_cert K) (pc_cert a)" "\<not> is_ca (kl_cert K) (pc_cert b)"
    "cert_subject_der (pc_cert a) \<noteq> cert_issuer_der (pc_cert b)"
    "cert_subject_der (pc_cert b) \<noteq> cert_issuer_der (pc_cert a)"
    "load_x509_cert_der K (pc_der b) = Inr kb"
  shows "extract_x509_certificate K d n = Some (kb\<lparr>key_x509_chain := [pc_der a, pc_der b]\<rparr>)"
proof -
  have idx: "[0..<length [a, b]] = [0, 1]" by (simp add: upt_rec)
  have "find_leaf_cert (kl_cert K) [a, b] = 1"
    using assms(2-5) unfolding find_leaf_cert_def is_issuer_of_other_def idx by simp
  then show ?thesis using assms(1,6) by (simp add: extract_x509_certificate_def ok_def)
qed

text \<open>
  Values in hexadecimal notation: when the base64 decoder rejects the text, the hexadecimal notation
  of any non-empty octet string is decoded to that string, and a text of hexadecimal digits with an
  odd length of at least three panics.
\<close>

theorem decode_crypto_binary_hex:
  "(b \<noteq> [] \<and> kl_base64 K (concat (map hex_byte b)) = Inl e \<longrightarrow>
      decode_crypto_binary K (concat (map hex_byte b)) = Returns (Inr b)) \<and>
   (list_all is_ascii_hexdigit s \<and> odd (length s) \<and> 3 \<le> length s \<and> kl_base64 K s = Inl e \<longrightarrow>
      decode_crypto_binary K s = Panics)"
proof -
  have "list_all graphic s" if "list_all is_ascii_hexdigit s"
    using that hexdigit_graphic by (auto simp: list_all_iff)
  moreover have "2 \<le> length (concat (map hex_byte b))" if "b \<noteq> []"
    using that by (cases b) (simp_all add: hex_byte_def)
  moreover have "concat (map hex_byte b) \<noteq> []" if "b \<noteq> []"
    using that by (cases b) (simp_all add: hex_byte_def)
  ultimately show ?thesis
    by (auto simp: decode_crypto_binary_def Let_def hex_chars hex_pairs_bytes hex_pairs_odd simp del: concat_eq_Nil_conv)
qed

section \<open>Witnesses\<close>

text \<open>Concrete libraries, used only to show that the hypotheses above can be met.\<close>

definition sample_cert_lib :: "bytes cert_lib" where
  "sample_cert_lib =
     \<lparr>cert_from_der = (\<lambda>der. Inr \<lparr>cert_serial = der, cert_subject_der = der, cert_issuer_der = ''I'' @ der,
         cert_extensions = None, cert_spki_der = Inr der, cert_alg_oid = [], cert_alg_params = None, cert_public_key = der, cert_not_before = 0, cert_not_after = 9\<rparr>),
      basic_constraints_ca = (\<lambda>_. None), crl_from_der = (\<lambda>_. Inr None), signature_policy = (\<lambda>_. []),
      trust_store_new = (\<lambda>p. p), trust_add_der = (\<lambda>st der. Inr (st @ der)), trust_is_empty = (\<lambda>st. st = []),
      trust_contains_der = (\<lambda>st der. st = der), trust_anchor_subjects = (\<lambda>st. st),
      build_chain_from_pool = (\<lambda>leaf pool _ _. Inr (leaf # pool)), trust_verify_chain = (\<lambda>_ _ _. Inr ()),
      verify_certificate_signature = (\<lambda>_ _ _. Inr ()), date_time_new = (\<lambda>y m d h mi s. Inr y),
      system_time = Inr 5, show_date_time = (\<lambda>_. [])\<rparr>"

definition sample_key_lib :: "bytes key_lib" where
  "sample_key_lib =
     \<lparr>kl_base64 = (\<lambda>s. if length s mod 4 = 0 then Inr s else Inl ''bad''), kl_cert = sample_cert_lib,
      kl_num = sample_num, kl_biguint = (\<lambda>b. b), kl_rsa_new = (\<lambda>n e. Inr (n @ e)),
      kl_dsa_components = (\<lambda>p q g. Inr (p @ q @ g)), kl_dsa_key = (\<lambda>c y. Inr (c @ y)),
      kl_ec_encoded_point = (\<lambda>_ b. Inr b), kl_ec_public = (\<lambda>_ p. Some p), kl_ec_verifying = (\<lambda>_ p. p),
      kl_rsa_spki = Some, kl_ec_spki = (\<lambda>_ _. None), kl_dsa_spki = (\<lambda>_. None),
      kl_ed25519_spki = (\<lambda>_. Inl []), kl_pq_spki_ok = (\<lambda>_ _. False)\<rparr>"

definition dsig_elem :: "string \<Rightarrow> attribute list \<Rightarrow> node_kind" where
  "dsig_elem local attrs =
     Element \<lparr>el_name = \<lparr>qn_local_name = local, qn_prefix = None, qn_namespace_uri = Some ns_DSIG\<rparr>,
       el_attributes = attrs, el_namespace_declarations = []\<rparr>"

definition sample_key_info :: arena where
  "sample_key_info =
     [(Document, None), (dsig_elem ''KeyInfo'' [], Some 0), (dsig_elem ''KeyName'' [], Some 1), (Text ''k1'', Some 2),
      (dsig_elem ''X509Data'' [], Some 1), (dsig_elem ''X509Certificate'' [], Some 4), (Text ''AAAA'', Some 5),
      (dsig_elem ''X509Certificate'' [], Some 4), (Text ''BBBB'', Some 7)]"

definition sample_key :: "bytes key" where
  "sample_key = Key_with_name (Key_new (Key_Hmac ''secret'') Usage_Any) ''k1''"

definition sample_manager :: "bytes keys_manager" where
  "sample_manager = add_key (add_key KeysManager_new (Key_new (Key_Hmac ''other'') Usage_Any)) sample_key"

theorem resolve_key_info_stored_witness:
  "resolve_key_info sample_key_lib (arena_doc sample_key_info) 1 sample_manager = Returns (Inr sample_key)"
proof -
  have "find_map (key_by_name (arena_doc sample_key_info) sample_manager) (doc_children (arena_doc sample_key_info) 1) =
      Some sample_key"
    by code_simp
  then show ?thesis
    using resolve_key_info_stored [of sample_key_lib "arena_doc sample_key_info" 1 sample_manager sample_key] by blast
qed

theorem x509_key_not_of_first_certificate_witness:
  "extract_x509_certificate sample_key_lib (arena_doc sample_key_info) 4 =
     Some (Key_new (Key_Rsa None ''BBBB'') Usage_Verify\<lparr>key_x509_chain := [''AAAA'', ''BBBB'']\<rparr>)"
proof -
  let ?c = "\<lambda>der. \<lparr>pc_cert = \<lparr>cert_serial = der, cert_subject_der = der, cert_issuer_der = ''I'' @ der,
         cert_extensions = None, cert_spki_der = Inr der, cert_alg_oid = [], cert_alg_params = None, cert_public_key = der, cert_not_before = 0, cert_not_after = 9\<rparr>, pc_der = der\<rparr>"
  have "x509_certificates sample_key_lib (arena_doc sample_key_info) 4 = [?c ''AAAA'', ?c ''BBBB'']"
    by code_simp
  moreover have "load_x509_cert_der sample_key_lib ''BBBB'' =
      Inr (Key_new (Key_Rsa None ''BBBB'') Usage_Verify\<lparr>key_x509_chain := [''BBBB'']\<rparr>)" by code_simp
  ultimately show ?thesis
    using x509_key_not_of_first_certificate [of sample_key_lib "arena_doc sample_key_info" 4 "?c ''AAAA''" "?c ''BBBB''"]
    by (simp add: is_ca_def)
qed

theorem decode_crypto_binary_hex_witness:
  "decode_crypto_binary sample_key_lib ''FEA'' = Panics \<and> decode_crypto_binary sample_key_lib ''61'' = Returns (Inr ''a'')"
proof -
  have "hex_byte (CHR ''a'') = ''61''" by code_simp
  moreover have "list_all is_ascii_hexdigit ''FEA''" by code_simp
  moreover have "kl_base64 sample_key_lib ''FEA'' = Inl ''bad''" "kl_base64 sample_key_lib ''61'' = Inl ''bad''" by code_simp+
  ultimately show ?thesis
    using decode_crypto_binary_hex [of "''a''" sample_key_lib "''bad''" "''FEA''"] by simp
qed

end
