(* ===== verification/Dsig_Dom.thy ===== *)
theory Dsig_Dom
  imports KeyInfo
begin

text \<open>
  The document helpers of \<open>verify.rs\<close>: element lookup, the ID map with its duplicate check, the position
  check of strict mode, and small readers. \<open>sign.rs\<close> has its own copies of several of them with the
  same text.
\<close>

section \<open>The XML writer\<close>

text \<open>The writer of the parser crate: the octets as a function of the calls made.\<close>

datatype writer_call =
    Write_Declaration
  | Start_Element string "(string \<times> string) list"
  | Empty_Element string "(string \<times> string) list"
  | Empty_Element_Expanded string "(string \<times> string) list"
  | End_Element string
  | Write_Text string
  | Write_Raw string

type_synonym xml_writer = "writer_call list \<Rightarrow> bytes"

section \<open>Lookups\<close>

definition is_named :: "document \<Rightarrow> string \<Rightarrow> string \<Rightarrow> node_id \<Rightarrow> bool" where
  "is_named d ns_uri local_name n =
     (case doc_element d n of
        None \<Rightarrow> False
      | Some e \<Rightarrow> elem_local e = local_name \<and> elem_ns e = ns_uri)"

definition find_element :: "document \<Rightarrow> string \<Rightarrow> string \<Rightarrow> node_id option" where
  "find_element d ns_uri local_name = find (is_named d ns_uri local_name) (doc_descendants d (doc_root d))"

definition find_child_element :: "document \<Rightarrow> node_id \<Rightarrow> string \<Rightarrow> string \<Rightarrow> node_id option" where
  "find_child_element d parent ns_uri local_name = find (is_named d ns_uri local_name) (doc_children d parent)"

definition find_child_elements :: "document \<Rightarrow> node_id \<Rightarrow> string \<Rightarrow> string \<Rightarrow> node_id list" where
  "find_child_elements d parent ns_uri local_name = filter (is_named d ns_uri local_name) (doc_children d parent)"

definition find_descendant_element :: "document \<Rightarrow> node_id \<Rightarrow> string \<Rightarrow> string \<Rightarrow> node_id option" where
  "find_descendant_element d n ns_uri local_name = find (is_named d ns_uri local_name) (doc_descendants d n)"

text \<open>\<open>doc.element(n).and_then(|e| e.get_attribute(name))\<close>\<close>

definition node_attribute :: "document \<Rightarrow> node_id \<Rightarrow> string \<Rightarrow> string option" where
  "node_attribute d n name = (case doc_element d n of None \<Rightarrow> None | Some e \<Rightarrow> doc_get_attribute d e name)"

definition resolve_key_info_reference :: "document \<Rightarrow> node_id \<Rightarrow> id_map \<Rightarrow> node_id option" where
  "resolve_key_info_reference d key_info_node ids =
     find_map
       (\<lambda>child. case doc_element d child of
          None \<Rightarrow> None
        | Some e \<Rightarrow>
            if elem_local e = node_KEY_INFO_REFERENCE \<and> elem_ns e = ns_DSIG11 then
              (case doc_get_attribute d e attr_URI of
                 None \<Rightarrow> None
               | Some uri \<Rightarrow>
                   (case strip_prefix ''#'' uri of None \<Rightarrow> None | Some fragment \<Rightarrow> ids fragment))
            else None)
       (doc_children d key_info_node)"

definition read_inclusive_prefixes :: "document \<Rightarrow> node_id \<Rightarrow> string list" where
  "read_inclusive_prefixes d n =
     unwrap_or []
       (find_map
         (\<lambda>child. case doc_element d child of
            None \<Rightarrow> None
          | Some e \<Rightarrow>
              if elem_local e = node_INCLUSIVE_NAMESPACES then
                map_option split_whitespace (doc_get_attribute d e attr_PREFIX_LIST)
              else None)
         (doc_children d n))"

definition element_text :: "document \<Rightarrow> node_id \<Rightarrow> string option" where
  "element_text d n =
     find_map (\<lambda>child. case doc_kind d child of Some (Text t) \<Rightarrow> Some t | Some (CData t) \<Rightarrow> Some t | _ \<Rightarrow> None)
       (doc_children d n)"

text \<open>\<open>element_text(doc, n).unwrap_or("").trim()\<close>\<close>

definition trimmed_text :: "document \<Rightarrow> node_id \<Rightarrow> string" where
  "trimmed_text d n = trim (unwrap_or [] (element_text d n))"

section \<open>The ID map\<close>

definition insert_unique_id :: "node_id \<Rightarrow> id_map \<Rightarrow> string \<Rightarrow> id_map result" where
  "insert_unique_id n m v =
     (if m v \<noteq> None then Inl (Error_XmlStructure (''duplicate ID: '' @ v)) else Inr (m(v \<mapsto> n)))"

definition element_ids :: "document \<Rightarrow> string list \<Rightarrow> element \<Rightarrow> string list" where
  "element_ids d attr_names e = List.map_filter (doc_get_attribute d e) (attr_names @ [''xml:id''])"

definition build_id_map :: "document \<Rightarrow> string list \<Rightarrow> id_map result" where
  "build_id_map d attr_names =
     try_fold
       (\<lambda>m n. case doc_element d n of
          None \<Rightarrow> Inr m
        | Some e \<Rightarrow> try_fold (insert_unique_id n) m (element_ids d attr_names e))
       Map.empty (doc_descendants d (doc_root d))"

section \<open>Reference positions\<close>

definition validate_reference_position :: "document \<Rightarrow> node_id \<Rightarrow> node_id \<Rightarrow> unit result" where
  "validate_reference_position d sig_node target_node =
     (if doc_document_element d = Some target_node then Inr ()
      else if is_ancestor_or_self d target_node sig_node then Inr ()
      else if is_sibling d target_node sig_node then Inr ()
      else Inl (Error_XmlStructure
        (''strict mode: reference target is not an ancestor, sibling, or document element '' @
         ''relative to Signature (possible XSW attack)'')))"

section \<open>Lemmas\<close>

text \<open>Every ID attribute of the document, with the element that carries it, in document order.\<close>

definition id_occurrences :: "document \<Rightarrow> string list \<Rightarrow> (string \<times> node_id) list" where
  "id_occurrences d attr_names =
     concat (map (\<lambda>n. case doc_element d n of
                        None \<Rightarrow> []
                      | Some e \<Rightarrow> map (\<lambda>v. (v, n)) (element_ids d attr_names e))
       (doc_descendants d (doc_root d)))"

definition insert_occurrence :: "id_map \<Rightarrow> string \<times> node_id \<Rightarrow> id_map result" where
  "insert_occurrence m oc = insert_unique_id (snd oc) m (fst oc)"

lemma try_fold_map: "try_fold f s (map g xs) = try_fold (\<lambda>s x. f s (g x)) s xs"
  by (induction xs arbitrary: s) (simp_all split: sum.splits)

lemma try_fold_concat: "try_fold f s (concat xss) = try_fold (try_fold f) s xss"
  by (induction xss arbitrary: s) (simp_all add: try_fold_append and_then_def split: sum.splits)

lemma build_id_map_occurrences:
  "build_id_map d names = try_fold insert_occurrence Map.empty (id_occurrences d names)"
proof -
  have "(case doc_element d n of None \<Rightarrow> Inr m | Some e \<Rightarrow> try_fold (insert_unique_id n) m (element_ids d names e)) =
      try_fold insert_occurrence m (case doc_element d n of None \<Rightarrow> []
        | Some e \<Rightarrow> map (\<lambda>v. (v, n)) (element_ids d names e))" for n m
    by (simp add: try_fold_map insert_occurrence_def split: option.splits)
  then show ?thesis
    unfolding build_id_map_def id_occurrences_def try_fold_concat try_fold_map by simp
qed

lemma try_fold_insert_occurrence:
  "try_fold insert_occurrence m os = Inr m' \<longleftrightarrow>
     distinct (map fst os) \<and> (\<forall>k \<in> fst ` set os. m k = None) \<and> m' = m ++ map_of os"
proof (induction os arbitrary: m)
  case (Cons oc os)
  obtain v n where oc: "oc = (v, n)" by (cases oc)
  show ?case
  proof (cases "m v")
    case None
    have "m(v \<mapsto> n) ++ map_of os = m ++ map_of ((v, n) # os)" if "v \<notin> fst ` set os"
    proof -
      have "map_of os v = None" using that by (simp add: map_of_eq_None_iff)
      then show ?thesis by (auto simp: map_add_def fun_eq_iff split: option.splits)
    qed
    moreover have "insert_occurrence m oc = Inr (m(v \<mapsto> n))"
      using None by (simp add: oc insert_occurrence_def insert_unique_id_def)
    moreover have "(\<forall>k \<in> fst ` set os. (m(v \<mapsto> n)) k = None) \<longleftrightarrow> v \<notin> fst ` set os \<and> (\<forall>k \<in> fst ` set os. m k = None)"
      by auto
    moreover have "distinct (map fst (oc # os)) \<longleftrightarrow> v \<notin> fst ` set os \<and> distinct (map fst os)"
      "(\<forall>k \<in> fst ` set (oc # os). m k = None) \<longleftrightarrow> (\<forall>k \<in> fst ` set os. m k = None)"
      using None by (simp_all add: oc)
    ultimately show ?thesis
      using Cons.IH [of "m(v \<mapsto> n)"] unfolding oc try_fold.simps by (simp only: and_then_simps) metis
  next
    case (Some a)
    then show ?thesis by (simp add: oc insert_occurrence_def insert_unique_id_def)
  qed
qed auto

text \<open>A document for the witnesses: an element with an ID next to a signature.\<close>

definition sample_id_elem :: element where
  "sample_id_elem =
     \<lparr>el_name = \<lparr>qn_local_name = ''Data'', qn_prefix = None, qn_namespace_uri = None\<rparr>,
      el_attributes = [\<lparr>at_name = \<lparr>qn_local_name = ''Id'', qn_prefix = None, qn_namespace_uri = None\<rparr>, at_value = ''a''\<rparr>],
      el_namespace_declarations = []\<rparr>"

definition sample_id_arena :: arena where
  "sample_id_arena =
     [(Document, None), (dsig_elem ''Root'' [], Some 0), (Element sample_id_elem, Some 1),
      (dsig_elem ''Signature'' [], Some 1)]"

lemma sample_id_arena_ok: "arena_ok sample_id_arena"
  by code_simp

section \<open>Properties\<close>

text \<open>
  C26: The ID map rejects every document in which an ID value occurs more than once, on two elements or
  on one, and otherwise maps each ID value to the element that carries it. So a reference \<open>#id\<close> can
  resolve to one element only.
\<close>

theorem id_map_unique:
  "build_id_map d names = Inr m \<longleftrightarrow>
     distinct (map fst (id_occurrences d names)) \<and> m = map_of (id_occurrences d names)"
  by (simp add: build_id_map_occurrences try_fold_insert_occurrence)

text \<open>
  An ID attribute name given twice makes every document that uses it fail: \<open>add_id_attr\<close> with one of
  the default names (\<open>Id\<close>, \<open>ID\<close>, \<open>id\<close>, \<open>AssertionID\<close>) turns each element with that attribute into a
  duplicate of itself.
\<close>

theorem id_attr_given_twice:
  assumes "n \<in> set (doc_descendants d (doc_root d))" "doc_element d n = Some e"
    "doc_get_attribute d e a = Some v" "names = xs @ a # ys @ a # zs"
  shows "\<exists>err. build_id_map d names = Inl err"
proof -
  have "\<not> distinct (element_ids d names e)"
    using assms(3) by (auto simp: element_ids_def assms(4) List.map_filter_def)
  then have "\<not> distinct (map fst (case doc_element d n of None \<Rightarrow> []
      | Some e \<Rightarrow> map (\<lambda>v. (v, n)) (element_ids d names e)))"
    by (simp add: assms(2) comp_def)
  moreover have "distinct (map fst xs)" if "distinct (map fst (concat yss))" "xs \<in> set yss"
    for yss :: "(string \<times> node_id) list list" and xs
    using that by (induction yss) auto
  ultimately have "\<not> distinct (map fst (id_occurrences d names))"
    unfolding id_occurrences_def using assms(1) by (metis (no_types, lifting) image_eqI set_map)
  then show ?thesis
    by (cases "build_id_map d names") (auto simp: build_id_map_occurrences try_fold_insert_occurrence)
qed

text \<open>
  In strict mode a reference target is accepted exactly when it is the document element, the
  signature or one of its ancestors, or shares its parent with the signature.
\<close>

theorem reference_position:
  assumes "wf_doc d"
  shows "validate_reference_position d sig target = Inr () \<longleftrightarrow>
    doc_document_element d = Some target \<or> anc_self d target sig \<or>
    (\<exists>p. target \<in> set (doc_children d p) \<and> sig \<in> set (doc_children d p))"
  using is_ancestor_or_self_iff [OF assms] is_sibling_iff [OF assms]
  by (simp add: validate_reference_position_def)

theorem id_attr_given_twice_witness:
  "\<exists>err. build_id_map (arena_doc sample_id_arena) [''Id'', ''ID'', ''id'', ''AssertionID'', ''Id''] = Inl err"
proof -
  have "2 \<in> set (doc_descendants (arena_doc sample_id_arena) (doc_root (arena_doc sample_id_arena)))"
    "doc_element (arena_doc sample_id_arena) 2 = Some sample_id_elem"
    "doc_get_attribute (arena_doc sample_id_arena) sample_id_elem ''Id'' = Some ''a''"
    by code_simp+
  then show ?thesis
    by (rule id_attr_given_twice [where xs = "[]" and ys = "[''ID'', ''id'', ''AssertionID'']" and zs = "[]"]) simp
qed

theorem reference_position_witness:
  "validate_reference_position (arena_doc sample_id_arena) 3 2 = Inr ()"
proof -
  have "2 \<in> set (doc_children (arena_doc sample_id_arena) 1)" "3 \<in> set (doc_children (arena_doc sample_id_arena) 1)"
    by code_simp+
  then show ?thesis using reference_position [OF arena_wf [OF sample_id_arena_ok]] by blast
qed

end
