(* ===== verification/Crypto_Enc.thy ===== *)
theory Crypto_Enc
  imports Crypto_Sign
begin

text \<open>
  The encryption side of \<open>bergshamra-crypto\<close>: block ciphers (\<open>cipher.rs\<close>), key wrap (\<open>keywrap.rs\<close>), key
  transport (\<open>keytransport.rs\<close>), key derivation (\<open>kdf.rs\<close>), key agreement (\<open>keyagreement.rs\<close>) and the
  registry (\<open>registry.rs\<close>). The primitives are those of the crate \<open>kryptering\<close>: they are the fields of
  \<open>enc_lib\<close> and fail with that crate's error type, which \<open>map_kryptering_err\<close> converts.
\<close>

datatype kryptering_error =
    KErr_Crypto string
  | KErr_UnsupportedAlgorithm string
  | KErr_Key string
  | KErr_Io string
  | KErr_Other string

fun map_kryptering_err :: "kryptering_error \<Rightarrow> error" where
  "map_kryptering_err (KErr_Crypto s) = Error_Crypto s"
| "map_kryptering_err (KErr_UnsupportedAlgorithm s) = Error_UnsupportedAlgorithm s"
| "map_kryptering_err (KErr_Key s) = Error_Key s"
| "map_kryptering_err (KErr_Io s) = Error_Io s"
| "map_kryptering_err (KErr_Other s) = Error_Crypto s"

datatype aes_key_size = Aes128 | Aes192 | Aes256

datatype k_cipher = AesCbc aes_key_size | AesGcm aes_key_size | TripleDesCbc

datatype k_keywrap = AesKw aes_key_size | TripleDesKw

record oaep_config =
  oc_digest :: hash_alg
  oc_mgf_digest :: hash_alg

datatype k_keytransport = KT_RsaPkcs1v15 | KT_RsaOaep oaep_config

record concat_kdf_params =
  ck_digest_uri :: "string option"
  ck_algorithm_id :: "bytes option"
  ck_party_u_info :: "bytes option"
  ck_party_v_info :: "bytes option"

record pbkdf2_params =
  pb_prf_uri :: string
  pb_salt :: bytes
  pb_iteration_count :: nat
  pb_key_length :: nat

record hkdf_params =
  hk_prf_uri :: "string option"
  hk_salt :: "bytes option"
  hk_info :: "bytes option"
  hk_key_length_bits :: nat

type_synonym 'a k_result = "kryptering_error + 'a"

text \<open>Encryption draws randomness (IVs, paddings): the first octet string of the encryption functions.\<close>

record 'v enc_lib =
  k_aes_cbc_encrypt :: "bytes \<Rightarrow> aes_key_size \<Rightarrow> bytes \<Rightarrow> bytes \<Rightarrow> bytes k_result"
  k_aes_cbc_decrypt :: "aes_key_size \<Rightarrow> bytes \<Rightarrow> bytes \<Rightarrow> bytes k_result"
  k_cipher_encrypt :: "bytes \<Rightarrow> k_cipher \<Rightarrow> bytes \<Rightarrow> bytes \<Rightarrow> bytes k_result"
  k_cipher_decrypt :: "k_cipher \<Rightarrow> bytes \<Rightarrow> bytes \<Rightarrow> bytes k_result"
  k_cipher_key_size :: "k_cipher \<Rightarrow> nat"
  k_wrap :: "k_keywrap \<Rightarrow> bytes \<Rightarrow> bytes \<Rightarrow> bytes k_result"
  k_unwrap :: "k_keywrap \<Rightarrow> bytes \<Rightarrow> bytes \<Rightarrow> bytes k_result"
  k_kek_size :: "k_keywrap \<Rightarrow> nat"
  k_kt_encrypt :: "bytes \<Rightarrow> k_keytransport \<Rightarrow> 'v \<Rightarrow> bytes \<Rightarrow> bytes option \<Rightarrow> bytes k_result"
  k_kt_decrypt :: "k_keytransport \<Rightarrow> 'v \<Rightarrow> bytes \<Rightarrow> bytes option \<Rightarrow> bytes k_result"
  k_concat_kdf :: "bytes \<Rightarrow> nat \<Rightarrow> hash_alg \<Rightarrow> concat_kdf_params \<Rightarrow> bytes k_result"
  k_pbkdf2 :: "bytes \<Rightarrow> hash_alg \<Rightarrow> pbkdf2_params \<Rightarrow> bytes k_result"
  k_hkdf :: "bytes \<Rightarrow> nat \<Rightarrow> hash_alg \<Rightarrow> hkdf_params \<Rightarrow> bytes k_result"
  k_ecdh :: "ec_curve \<Rightarrow> bytes \<Rightarrow> 'v \<Rightarrow> bytes k_result"
  k_x25519 :: "bytes \<Rightarrow> bytes \<Rightarrow> bytes k_result"
  k_dh_compute :: "bytes \<Rightarrow> bytes \<Rightarrow> bytes \<Rightarrow> bytes option \<Rightarrow> bytes k_result"

section \<open>Ciphers\<close>

definition cipher_table :: "(string \<times> k_cipher) list" where
  "cipher_table =
     [(alg_AES128_CBC, AesCbc Aes128), (alg_AES192_CBC, AesCbc Aes192), (alg_AES256_CBC, AesCbc Aes256),
      (alg_AES128_GCM, AesGcm Aes128), (alg_AES192_GCM, AesGcm Aes192), (alg_AES256_GCM, AesGcm Aes256),
      (alg_TRIPLEDES_CBC, TripleDesCbc)]"

definition uri_to_cipher :: "string \<Rightarrow> (k_cipher \<times> string) result" where
  "uri_to_cipher uri =
     (case map_of cipher_table uri of
        Some c \<Rightarrow> Inr (c, uri)
      | None \<Rightarrow> Inl (Error_UnsupportedAlgorithm (''cipher: '' @ uri)))"

record cipher_alg =
  ca_algo :: k_cipher
  ca_uri :: string

definition cipher_from_uri :: "string \<Rightarrow> cipher_alg result" where
  "cipher_from_uri uri =
     and_then (uri_to_cipher uri) (\<lambda>(algo, static_uri). Inr \<lparr>ca_algo = algo, ca_uri = static_uri\<rparr>)"

definition cipher_key_size :: "'v enc_lib \<Rightarrow> cipher_alg \<Rightarrow> nat" where
  "cipher_key_size E c = k_cipher_key_size E (ca_algo c)"

definition cipher_encrypt :: "'v enc_lib \<Rightarrow> bytes \<Rightarrow> cipher_alg \<Rightarrow> bytes \<Rightarrow> bytes \<Rightarrow> bytes result" where
  "cipher_encrypt E rnd c k plaintext =
     map_err map_kryptering_err
       (case ca_algo c of
          AesCbc sz \<Rightarrow> k_aes_cbc_encrypt E rnd sz k plaintext
        | _ \<Rightarrow> k_cipher_encrypt E rnd (ca_algo c) k plaintext)"

definition cipher_decrypt :: "'v enc_lib \<Rightarrow> cipher_alg \<Rightarrow> bytes \<Rightarrow> bytes \<Rightarrow> bytes result" where
  "cipher_decrypt E c k ciphertext =
     map_err map_kryptering_err
       (case ca_algo c of
          AesCbc sz \<Rightarrow> k_aes_cbc_decrypt E sz k ciphertext
        | _ \<Rightarrow> k_cipher_decrypt E (ca_algo c) k ciphertext)"

section \<open>Key wrap\<close>

definition keywrap_table :: "(string \<times> k_keywrap) list" where
  "keywrap_table =
     [(alg_KW_AES128, AesKw Aes128), (alg_KW_AES192, AesKw Aes192), (alg_KW_AES256, AesKw Aes256),
      (alg_KW_TRIPLEDES, TripleDesKw)]"

definition uri_to_keywrap :: "string \<Rightarrow> (k_keywrap \<times> string) result" where
  "uri_to_keywrap uri =
     (case map_of keywrap_table uri of
        Some c \<Rightarrow> Inr (c, uri)
      | None \<Rightarrow> Inl (Error_UnsupportedAlgorithm (''key wrap: '' @ uri)))"

record keywrap_alg =
  kw_algo :: k_keywrap
  kw_uri :: string

definition keywrap_from_uri :: "string \<Rightarrow> keywrap_alg result" where
  "keywrap_from_uri uri =
     and_then (uri_to_keywrap uri) (\<lambda>(algo, static_uri). Inr \<lparr>kw_algo = algo, kw_uri = static_uri\<rparr>)"

definition keywrap_kek_size :: "'v enc_lib \<Rightarrow> keywrap_alg \<Rightarrow> nat" where
  "keywrap_kek_size E w = k_kek_size E (kw_algo w)"

definition keywrap_wrap :: "'v enc_lib \<Rightarrow> keywrap_alg \<Rightarrow> bytes \<Rightarrow> bytes \<Rightarrow> bytes result" where
  "keywrap_wrap E w kek key_data = map_err map_kryptering_err (k_wrap E (kw_algo w) kek key_data)"

definition keywrap_unwrap :: "'v enc_lib \<Rightarrow> keywrap_alg \<Rightarrow> bytes \<Rightarrow> bytes \<Rightarrow> bytes result" where
  "keywrap_unwrap E w kek wrapped = map_err map_kryptering_err (k_unwrap E (kw_algo w) kek wrapped)"

section \<open>Key transport\<close>

record oaep_params =
  op_digest_uri :: "string option"
  op_mgf_uri :: "string option"
  op_oaep_params :: "bytes option"

definition OaepParams_default :: oaep_params where
  "OaepParams_default = \<lparr>op_digest_uri = None, op_mgf_uri = None, op_oaep_params = None\<rparr>"

definition oaep_digest_table :: "bool \<Rightarrow> (string \<times> hash_alg) list" where
  "oaep_digest_table legacy =
     [(alg_SHA1, H_Sha1), (alg_SHA256, H_Sha256), (alg_SHA384, H_Sha384), (alg_SHA512, H_Sha512),
      (alg_SHA224, H_Sha224)] @
     (if legacy then [(alg_RIPEMD160, H_Ripemd160), (alg_MD5, H_Md5)] else [])"

definition resolve_digest :: "bool \<Rightarrow> string option \<Rightarrow> hash_alg result" where
  "resolve_digest legacy uri =
     (case uri of
        None \<Rightarrow> Inr H_Sha1
      | Some u \<Rightarrow>
          (case map_of (oaep_digest_table legacy) u of
             Some h \<Rightarrow> Inr h
           | None \<Rightarrow> Inl (Error_UnsupportedAlgorithm (''unsupported OAEP DigestMethod: '' @ u))))"

definition mgf_table :: "(string \<times> hash_alg) list" where
  "mgf_table =
     [(alg_MGF1_SHA1, H_Sha1), (alg_MGF1_SHA224, H_Sha224), (alg_MGF1_SHA256, H_Sha256),
      (alg_MGF1_SHA384, H_Sha384), (alg_MGF1_SHA512, H_Sha512)]"

definition resolve_mgf :: "string option \<Rightarrow> hash_alg option result" where
  "resolve_mgf uri =
     (case uri of
        None \<Rightarrow> Inr None
      | Some u \<Rightarrow>
          (case map_of mgf_table u of
             Some h \<Rightarrow> Inr (Some h)
           | None \<Rightarrow> Inl (Error_UnsupportedAlgorithm (''unsupported OAEP MGF: '' @ u))))"

definition resolve_oaep_mgf :: "string \<Rightarrow> oaep_params \<Rightarrow> hash_alg \<Rightarrow> hash_alg result" where
  "resolve_oaep_mgf uri params dig =
     and_then (resolve_mgf (op_mgf_uri params)) (\<lambda>m.
       case m of
         Some mgf \<Rightarrow> Inr mgf
       | None \<Rightarrow> if uri = alg_RSA_OAEP then Inr H_Sha1 else Inr dig)"

record keytransport_alg =
  kt_uri :: string
  kt_algo :: k_keytransport
  kt_label :: "bytes option"

definition keytransport_from_uri_with_params :: "bool \<Rightarrow> string \<Rightarrow> oaep_params \<Rightarrow> keytransport_alg result" where
  "keytransport_from_uri_with_params legacy uri params =
     (if uri = alg_RSA_PKCS1 then
        Inr \<lparr>kt_uri = alg_RSA_PKCS1, kt_algo = KT_RsaPkcs1v15, kt_label = None\<rparr>
      else if uri = alg_RSA_OAEP \<or> uri = alg_RSA_OAEP_ENC11 then
        let static_uri = (if uri = alg_RSA_OAEP then alg_RSA_OAEP else alg_RSA_OAEP_ENC11) in
        and_then (resolve_digest legacy (op_digest_uri params)) (\<lambda>dig.
        and_then (resolve_oaep_mgf uri params dig) (\<lambda>mgf.
        Inr \<lparr>kt_uri = static_uri, kt_algo = KT_RsaOaep \<lparr>oc_digest = dig, oc_mgf_digest = mgf\<rparr>,
             kt_label = op_oaep_params params\<rparr>))
      else Inl (Error_UnsupportedAlgorithm (''key transport: '' @ uri)))"

definition keytransport_from_uri :: "bool \<Rightarrow> string \<Rightarrow> keytransport_alg result" where
  "keytransport_from_uri legacy uri = keytransport_from_uri_with_params legacy uri OaepParams_default"

definition keytransport_encrypt :: "'v enc_lib \<Rightarrow> bytes \<Rightarrow> keytransport_alg \<Rightarrow> 'v \<Rightarrow> bytes \<Rightarrow> bytes result" where
  "keytransport_encrypt E rnd t public_key key_data =
     map_err map_kryptering_err (k_kt_encrypt E rnd (kt_algo t) public_key key_data (kt_label t))"

definition keytransport_decrypt :: "'v enc_lib \<Rightarrow> keytransport_alg \<Rightarrow> 'v \<Rightarrow> bytes \<Rightarrow> bytes result" where
  "keytransport_decrypt E t private_key encrypted =
     map_err map_kryptering_err (k_kt_decrypt E (kt_algo t) private_key encrypted (kt_label t))"

section \<open>Key derivation and agreement\<close>

definition kdf_digest_table :: "(string \<times> hash_alg) list" where
  "kdf_digest_table =
     [(alg_SHA1, H_Sha1), (alg_SHA224, H_Sha224), (alg_SHA256, H_Sha256), (alg_SHA384, H_Sha384),
      (alg_SHA512, H_Sha512), (alg_SHA3_224, H_Sha3_224), (alg_SHA3_256, H_Sha3_256),
      (alg_SHA3_384, H_Sha3_384), (alg_SHA3_512, H_Sha3_512)]"

definition digest_uri_to_hash :: "string \<Rightarrow> hash_alg result" where
  "digest_uri_to_hash uri =
     ok_or (Error_UnsupportedAlgorithm (''digest algorithm: '' @ uri)) (map_of kdf_digest_table uri)"

definition prf_table :: "(string \<times> hash_alg) list" where
  "prf_table =
     [(alg_HMAC_SHA1, H_Sha1), (alg_HMAC_SHA224, H_Sha224), (alg_HMAC_SHA256, H_Sha256),
      (alg_HMAC_SHA384, H_Sha384), (alg_HMAC_SHA512, H_Sha512)]"

definition prf_uri_to_hash :: "string \<Rightarrow> hash_alg result" where
  "prf_uri_to_hash uri = ok_or (Error_UnsupportedAlgorithm (''PRF: '' @ uri)) (map_of prf_table uri)"

definition concat_kdf :: "'v enc_lib \<Rightarrow> bytes \<Rightarrow> nat \<Rightarrow> concat_kdf_params \<Rightarrow> bytes result" where
  "concat_kdf E shared_secret key_len params =
     (let digest_uri = unwrap_or alg_SHA256 (ck_digest_uri params) in
      and_then (map_err (\<lambda>_. Error_UnsupportedAlgorithm (''ConcatKDF digest: '' @ digest_uri))
        (digest_uri_to_hash digest_uri))
        (\<lambda>h. map_err map_kryptering_err (k_concat_kdf E shared_secret key_len h params)))"

definition pbkdf2_derive :: "'v enc_lib \<Rightarrow> bytes \<Rightarrow> pbkdf2_params \<Rightarrow> bytes result" where
  "pbkdf2_derive E password params =
     and_then (map_err (\<lambda>_. Error_UnsupportedAlgorithm (''PBKDF2 PRF: '' @ pb_prf_uri params))
       (prf_uri_to_hash (pb_prf_uri params)))
       (\<lambda>h. map_err map_kryptering_err (k_pbkdf2 E password h params))"

definition hkdf_derive :: "'v enc_lib \<Rightarrow> bytes \<Rightarrow> nat \<Rightarrow> hkdf_params \<Rightarrow> bytes result" where
  "hkdf_derive E shared_secret key_len params =
     (let prf_uri = unwrap_or alg_HMAC_SHA256 (hk_prf_uri params) in
      and_then (map_err (\<lambda>_. Error_UnsupportedAlgorithm (''HKDF PRF: '' @ prf_uri)) (prf_uri_to_hash prf_uri))
        (\<lambda>h. map_err map_kryptering_err (k_hkdf E shared_secret key_len h params)))"

definition ecdh_p256 :: "'v enc_lib \<Rightarrow> bytes \<Rightarrow> 'v \<Rightarrow> bytes result" where
  "ecdh_p256 E originator_public recipient_private =
     map_err map_kryptering_err (k_ecdh E P256 originator_public recipient_private)"

definition ecdh_p384 :: "'v enc_lib \<Rightarrow> bytes \<Rightarrow> 'v \<Rightarrow> bytes result" where
  "ecdh_p384 E originator_public recipient_private =
     map_err map_kryptering_err (k_ecdh E P384 originator_public recipient_private)"

definition ecdh_p521 :: "'v enc_lib \<Rightarrow> bytes \<Rightarrow> 'v \<Rightarrow> bytes result" where
  "ecdh_p521 E originator_public recipient_private =
     map_err map_kryptering_err (k_ecdh E P521 originator_public recipient_private)"

definition ecdh_x25519 :: "'v enc_lib \<Rightarrow> bytes \<Rightarrow> bytes \<Rightarrow> bytes result" where
  "ecdh_x25519 E originator_public recipient_private =
     map_err map_kryptering_err (k_x25519 E originator_public recipient_private)"

definition dh_compute :: "'v enc_lib \<Rightarrow> bytes \<Rightarrow> bytes \<Rightarrow> bytes \<Rightarrow> bytes option \<Rightarrow> bytes result" where
  "dh_compute E other_public my_private p q =
     map_err map_kryptering_err (k_dh_compute E other_public my_private p q)"

section \<open>\<open>registry.rs\<close>\<close>

definition registry_digest :: "bool \<Rightarrow> string \<Rightarrow> hash_alg result" where
  "registry_digest legacy uri = uri_to_hash legacy uri"

definition registry_signature :: "bool \<Rightarrow> string \<Rightarrow> sig_alg result" where
  "registry_signature legacy uri = sign_from_uri legacy uri"

definition registry_cipher :: "string \<Rightarrow> cipher_alg result" where
  "registry_cipher uri = cipher_from_uri uri"

definition registry_key_wrap :: "string \<Rightarrow> keywrap_alg result" where
  "registry_key_wrap uri = keywrap_from_uri uri"

definition registry_key_transport :: "bool \<Rightarrow> string \<Rightarrow> keytransport_alg result" where
  "registry_key_transport legacy uri = keytransport_from_uri legacy uri"

section \<open>Properties\<close>

text \<open>
  C32: RSA-OAEP parameters fail closed. Key transport is set up exactly for RSA PKCS#1, or for OAEP when
  the digest and the mask generation function are each absent or supported; then the digest is the
  declared one (SHA-1 only when none is declared), and the mask function is the declared one, or
  SHA-1 for \<open>rsa-oaep-mgf1p\<close> and the digest's for \<open>rsa-oaep\<close>. An unknown declared algorithm is an error,
  never a default.
\<close>

theorem oaep_fails_closed:
  "keytransport_from_uri_with_params legacy uri params = Inr t \<longleftrightarrow>
     uri = alg_RSA_PKCS1 \<and> t = \<lparr>kt_uri = uri, kt_algo = KT_RsaPkcs1v15, kt_label = None\<rparr> \<or>
     (uri = alg_RSA_OAEP \<or> uri = alg_RSA_OAEP_ENC11) \<and>
     (\<exists>dig mgf.
        (case op_digest_uri params of
           None \<Rightarrow> dig = H_Sha1
         | Some u \<Rightarrow> map_of (oaep_digest_table legacy) u = Some dig) \<and>
        (case op_mgf_uri params of
           None \<Rightarrow> mgf = (if uri = alg_RSA_OAEP then H_Sha1 else dig)
         | Some u \<Rightarrow> map_of mgf_table u = Some mgf) \<and>
        t = \<lparr>kt_uri = uri, kt_algo = KT_RsaOaep \<lparr>oc_digest = dig, oc_mgf_digest = mgf\<rparr>,
             kt_label = op_oaep_params params\<rparr>)"
proof -
  have "alg_RSA_PKCS1 \<noteq> alg_RSA_OAEP" "alg_RSA_PKCS1 \<noteq> alg_RSA_OAEP_ENC11" by (simp_all add: uri_defs)
  then show ?thesis
    unfolding keytransport_from_uri_with_params_def resolve_digest_def resolve_oaep_mgf_def resolve_mgf_def Let_def
    by (cases "op_digest_uri params"; cases "op_mgf_uri params") (auto simp: res_simps split: option.splits)
qed

end
