(* ===== verification/Dsig_Context.thy ===== *)
theory Dsig_Context
  imports Keys Crypto_Enc
begin

text \<open>
  \<open>DsigContext\<close> (\<open>context.rs\<close>): keys and settings of a signature operation. An HSM signer or verifier is an
  implementation of the traits of the crate \<open>kryptering\<close>: a record of its methods.
\<close>

record hsm_signer =
  hs_algorithm :: kryptering_sig_alg
  hs_sign :: "bytes \<Rightarrow> bytes k_result"

record hsm_verifier =
  hv_algorithm :: kryptering_sig_alg
  hv_verify :: "bytes \<Rightarrow> bytes \<Rightarrow> bool k_result"

record 'v dsig_context =
  cx_keys_manager :: "'v keys_manager"
  cx_id_attrs :: "string list"
  cx_url_maps :: "(string \<times> string) list"
  cx_hmac_min_out_len :: nat
  cx_debug :: bool
  cx_base_dir :: "string option"
  cx_insecure :: bool
  cx_verify_keys :: bool
  cx_verification_time :: "string option"
  cx_skip_time_checks :: bool
  cx_enabled_key_data_x509 :: bool
  cx_trusted_keys_only :: bool
  cx_strict_verification :: bool
  cx_hsm_signer :: "hsm_signer option"
  cx_hsm_verifier :: "hsm_verifier option"

definition DsigContext_new_permissive :: "'v keys_manager \<Rightarrow> 'v dsig_context" where
  "DsigContext_new_permissive m =
     \<lparr>cx_keys_manager = m, cx_id_attrs = [], cx_url_maps = [], cx_hmac_min_out_len = 0, cx_debug = False,
      cx_base_dir = None, cx_insecure = False, cx_verify_keys = False, cx_verification_time = None,
      cx_skip_time_checks = False, cx_enabled_key_data_x509 = False, cx_trusted_keys_only = False,
      cx_strict_verification = False, cx_hsm_signer = None, cx_hsm_verifier = None\<rparr>"

definition DsigContext_new :: "'v keys_manager \<Rightarrow> 'v dsig_context" where
  "DsigContext_new m =
     (DsigContext_new_permissive m)\<lparr>cx_trusted_keys_only := True, cx_strict_verification := True,
       cx_hmac_min_out_len := 160\<rparr>"

definition add_id_attr :: "'v dsig_context \<Rightarrow> string \<Rightarrow> 'v dsig_context" where
  "add_id_attr c name = c\<lparr>cx_id_attrs := cx_id_attrs c @ [name]\<rparr>"

definition add_url_map :: "'v dsig_context \<Rightarrow> string \<Rightarrow> string \<Rightarrow> 'v dsig_context" where
  "add_url_map c url file_path = c\<lparr>cx_url_maps := cx_url_maps c @ [(url, file_path)]\<rparr>"

definition with_debug :: "'v dsig_context \<Rightarrow> bool \<Rightarrow> 'v dsig_context" where
  "with_debug c b = c\<lparr>cx_debug := b\<rparr>"

definition with_insecure :: "'v dsig_context \<Rightarrow> bool \<Rightarrow> 'v dsig_context" where
  "with_insecure c b = c\<lparr>cx_insecure := b\<rparr>"

definition with_verify_keys :: "'v dsig_context \<Rightarrow> bool \<Rightarrow> 'v dsig_context" where
  "with_verify_keys c b = c\<lparr>cx_verify_keys := b\<rparr>"

definition with_verification_time :: "'v dsig_context \<Rightarrow> string \<Rightarrow> 'v dsig_context" where
  "with_verification_time c t = c\<lparr>cx_verification_time := Some t\<rparr>"

definition with_skip_time_checks :: "'v dsig_context \<Rightarrow> bool \<Rightarrow> 'v dsig_context" where
  "with_skip_time_checks c b = c\<lparr>cx_skip_time_checks := b\<rparr>"

definition with_enabled_key_data_x509 :: "'v dsig_context \<Rightarrow> bool \<Rightarrow> 'v dsig_context" where
  "with_enabled_key_data_x509 c b = c\<lparr>cx_enabled_key_data_x509 := b\<rparr>"

definition with_trusted_keys_only :: "'v dsig_context \<Rightarrow> bool \<Rightarrow> 'v dsig_context" where
  "with_trusted_keys_only c b = c\<lparr>cx_trusted_keys_only := b\<rparr>"

definition with_strict_verification :: "'v dsig_context \<Rightarrow> bool \<Rightarrow> 'v dsig_context" where
  "with_strict_verification c b = c\<lparr>cx_strict_verification := b\<rparr>"

definition with_hmac_min_out_len :: "'v dsig_context \<Rightarrow> nat \<Rightarrow> 'v dsig_context" where
  "with_hmac_min_out_len c bits = c\<lparr>cx_hmac_min_out_len := bits\<rparr>"

definition with_base_dir :: "'v dsig_context \<Rightarrow> string \<Rightarrow> 'v dsig_context" where
  "with_base_dir c dir = c\<lparr>cx_base_dir := Some dir\<rparr>"

definition with_hsm_signer :: "'v dsig_context \<Rightarrow> hsm_signer \<Rightarrow> 'v dsig_context" where
  "with_hsm_signer c s = c\<lparr>cx_hsm_signer := Some s\<rparr>"

definition with_hsm_verifier :: "'v dsig_context \<Rightarrow> hsm_verifier \<Rightarrow> 'v dsig_context" where
  "with_hsm_verifier c v = c\<lparr>cx_hsm_verifier := Some v\<rparr>"

end
