(* ===== verification/Dsig_Keys.thy ===== *)
theory Dsig_Keys
  imports Dsig_Dom Dsig_Context
begin

text \<open>
  Where \<open>verify.rs\<close> finds a verification key besides \<open>KeyInfo\<close> values: an encrypted session key, and
  certificates fetched through \<open>RetrievalMethod\<close> from a file or from the document. The file system is
  a record of the operations of \<open>std::fs\<close> and \<open>std::path\<close> that are used.
\<close>

record file_system =
  fs_read :: "string \<Rightarrow> string + bytes"
  fs_exists :: "string \<Rightarrow> bool"
  fs_join :: "string \<Rightarrow> string \<Rightarrow> string"
  fs_parent :: "string \<Rightarrow> string option"

text \<open>Everything outside the repository that signature verification calls.\<close>

record 'v dsig_lib =
  dl_legacy :: bool
  dl_parse :: "string \<Rightarrow> string + document"
  dl_keys :: "'v key_lib"
  dl_crypto :: "'v crypto_lib"
  dl_enc :: "'v enc_lib"
  dl_fs :: file_system
  dl_rsa_pkcs1_der :: "bytes \<Rightarrow> 'v option"
  dl_ed25519_bytes :: "bytes \<Rightarrow> 'v option"
  dl_ec_sec1 :: "ec_curve \<Rightarrow> bytes \<Rightarrow> 'v option"
  dl_read_uint :: "bytes \<Rightarrow> (bytes \<times> bytes) option"
  dl_uint_from_der :: "bytes \<Rightarrow> bytes option"
  dl_decode_oid :: "bytes \<Rightarrow> string option"
  dl_show_alg :: "kryptering_sig_alg \<Rightarrow> string"
  dl_writer :: xml_writer

abbreviation dl_base64 :: "'v dsig_lib \<Rightarrow> string \<Rightarrow> string + bytes" where
  "dl_base64 L \<equiv> kl_base64 (dl_keys L)"

section \<open>Encrypted session keys\<close>

definition resolve_kek_from_key_info :: "document \<Rightarrow> node_id option \<Rightarrow> 'v keys_manager \<Rightarrow> 'v key result" where
  "resolve_kek_from_key_info d ek_key_info manager =
     (case (case ek_key_info of
              None \<Rightarrow> None
            | Some ki \<Rightarrow>
                find_map
                  (\<lambda>child. case doc_element d child of
                     None \<Rightarrow> None
                   | Some e \<Rightarrow>
                       if elem_ns e = ns_DSIG \<and> elem_local e = node_KEY_NAME then
                         (let name = trimmed_text d child in
                          if name \<noteq> [] then find_by_name manager name else None)
                       else None)
                  (doc_children d ki)) of
        Some key \<Rightarrow> Inr key
      | None \<Rightarrow> first_key manager)"

definition read_oaep_child :: "'v dsig_lib \<Rightarrow> document \<Rightarrow> node_id \<Rightarrow> oaep_params \<Rightarrow> oaep_params" where
  "read_oaep_child L d child params =
     (case doc_element d child of
        None \<Rightarrow> params
      | Some e \<Rightarrow>
          let local = elem_local e; child_ns = elem_ns e;
              params = (if local = node_DIGEST_METHOD \<and> (child_ns = ns_DSIG \<or> child_ns = ns_ENC) then
                  (case doc_get_attribute d e attr_ALGORITHM of
                     Some alg \<Rightarrow> params\<lparr>op_digest_uri := Some alg\<rparr> | None \<Rightarrow> params)
                else params);
              params = (if local = node_RSA_MGF \<and> (child_ns = ns_ENC11 \<or> child_ns = ns_ENC) then
                  (case doc_get_attribute d e attr_ALGORITHM of
                     Some alg \<Rightarrow> params\<lparr>op_mgf_uri := Some alg\<rparr> | None \<Rightarrow> params)
                else params)
          in if local = node_RSA_OAEP_PARAMS then
               (case element_text d child of
                  None \<Rightarrow> params
                | Some text \<Rightarrow>
                    (case dl_base64 L (remove_ws (trim text)) of
                       Inr b \<Rightarrow> params\<lparr>op_oaep_params := Some b\<rparr> | Inl _ \<Rightarrow> params))
             else params)"

definition read_oaep_params :: "'v dsig_lib \<Rightarrow> document \<Rightarrow> node_id \<Rightarrow> oaep_params" where
  "read_oaep_params L d enc_method = fold (read_oaep_child L d) (doc_children d enc_method) OaepParams_default"

definition aes_kw_size :: "string \<Rightarrow> nat" where
  "aes_kw_size uri =
     (if uri = alg_KW_AES128 then 16 else if uri = alg_KW_AES192 then 24 else if uri = alg_KW_AES256 then 32 else 0)"

definition unwrap_aes_kw :: "'v dsig_lib \<Rightarrow> document \<Rightarrow> node_id option \<Rightarrow> 'v keys_manager \<Rightarrow> string \<Rightarrow> bytes \<Rightarrow> bytes result" where
  "unwrap_aes_kw L d ek_key_info manager enc_uri cipher_bytes =
     and_then (keywrap_from_uri enc_uri) (\<lambda>kw.
     let expected_kek_size = aes_kw_size enc_uri in
     and_then (resolve_kek_from_key_info d ek_key_info manager) (\<lambda>kek.
     and_then (ok_or (Error_Key ''KEK has no symmetric key bytes'') (symmetric_key_bytes kek)) (\<lambda>kek_bytes.
     if 0 < expected_kek_size \<and> length kek_bytes \<noteq> expected_kek_size then
       (case find_aes_by_size manager expected_kek_size of
          Some sized_key \<Rightarrow>
            and_then (ok_or (Error_Key ''AES key has no bytes'') (symmetric_key_bytes sized_key))
              (\<lambda>sized_bytes. keywrap_unwrap (dl_enc L) kw sized_bytes cipher_bytes)
        | None \<Rightarrow> keywrap_unwrap (dl_enc L) kw kek_bytes cipher_bytes)
     else keywrap_unwrap (dl_enc L) kw kek_bytes cipher_bytes)))"

definition unwrap_session_key ::
  "'v dsig_lib \<Rightarrow> document \<Rightarrow> node_id \<Rightarrow> node_id option \<Rightarrow> 'v keys_manager \<Rightarrow> string \<Rightarrow> bytes \<Rightarrow> bytes result" where
  "unwrap_session_key L d enc_method ek_key_info manager enc_uri cipher_bytes =
     (if enc_uri = alg_KW_AES128 \<or> enc_uri = alg_KW_AES192 \<or> enc_uri = alg_KW_AES256 then
        unwrap_aes_kw L d ek_key_info manager enc_uri cipher_bytes
      else if enc_uri = alg_KW_TRIPLEDES then
        and_then (keywrap_from_uri enc_uri) (\<lambda>kw.
        and_then (resolve_kek_from_key_info d ek_key_info manager) (\<lambda>kek.
        and_then (ok_or (Error_Key ''no symmetric key for 3DES key unwrap'') (symmetric_key_bytes kek)) (\<lambda>kek_bytes.
        keywrap_unwrap (dl_enc L) kw kek_bytes cipher_bytes)))
      else if enc_uri = alg_RSA_PKCS1 \<or> enc_uri = alg_RSA_OAEP \<or> enc_uri = alg_RSA_OAEP_ENC11 then
        and_then (keytransport_from_uri_with_params (dl_legacy L) enc_uri (read_oaep_params L d enc_method)) (\<lambda>transport.
        and_then (ok_or (Error_Key ''no RSA key for EncryptedKey decryption'')
          (or_else (find_rsa_private manager) (find_rsa manager))) (\<lambda>rsa_key.
        and_then (ok_or (Error_Key ''RSA private key required for key transport'') (rsa_private_key rsa_key)) (\<lambda>private_key.
        keytransport_decrypt (dl_enc L) transport private_key cipher_bytes)))
      else Inl (Error_UnsupportedAlgorithm (''EncryptedKey method: '' @ enc_uri)))"

definition try_unwrap_encrypted_key :: "'v dsig_lib \<Rightarrow> document \<Rightarrow> node_id \<Rightarrow> 'v keys_manager \<Rightarrow> 'v key result" where
  "try_unwrap_encrypted_key L d key_info_node manager =
     and_then (ok_or (Error_Key ''no EncryptedKey found'') (find_child_element d key_info_node ns_ENC node_ENCRYPTED_KEY)) (\<lambda>enc_key_node.
     and_then (ok_or (Error_MissingElement ''EncryptionMethod on EncryptedKey'')
       (find_child_element d enc_key_node ns_ENC node_ENCRYPTION_METHOD)) (\<lambda>enc_method.
     and_then (ok_or (Error_MissingAttribute ''Algorithm on EncryptedKey EncryptionMethod'')
       (node_attribute d enc_method attr_ALGORITHM)) (\<lambda>enc_uri.
     and_then (ok_or (Error_MissingElement ''CipherData on EncryptedKey'')
       (find_child_element d enc_key_node ns_ENC node_CIPHER_DATA)) (\<lambda>cipher_data.
     and_then (ok_or (Error_MissingElement ''CipherValue on EncryptedKey'')
       (find_child_element d cipher_data ns_ENC node_CIPHER_VALUE)) (\<lambda>cipher_value.
     and_then (map_err (\<lambda>e. Error_Base64 (''EncryptedKey CipherValue: '' @ e))
       (dl_base64 L (remove_ws (trimmed_text d cipher_value)))) (\<lambda>cipher_bytes.
     and_then (unwrap_session_key L d enc_method (find_child_element d enc_key_node ns_DSIG node_KEY_INFO)
       manager enc_uri cipher_bytes) (\<lambda>session_key_bytes.
     Inr (Key_new (Key_Hmac session_key_bytes) Usage_Any))))))))"

section \<open>Retrieval methods\<close>

text \<open>
  The path lookups; \<open>path.parent()\<close> is repeated until there is none. Every parent is a shorter path, so
  the bound \<open>length base\<close> is not reached.
\<close>

definition retrieval_url_map :: "file_system \<Rightarrow> string \<Rightarrow> string \<times> string \<Rightarrow> string option" where
  "retrieval_url_map F uri = (\<lambda>(url, path).
     if uri = url then Some path
     else if starts_with uri url then
       (let full = fs_join F path (dropWhile (\<lambda>c. c = CHR ''/'') (drop (length url) uri)) in
        if fs_exists F full then Some full else None)
     else None)"

definition resolve_retrieval_uri :: "file_system \<Rightarrow> string \<Rightarrow> string option \<Rightarrow> (string \<times> string) list \<Rightarrow> string option" where
  "resolve_retrieval_uri F uri base_dir url_maps =
     or_else (find_map (retrieval_url_map F uri) url_maps)
    (or_else (case base_dir of
                None \<Rightarrow> None
              | Some base \<Rightarrow>
                  find (fs_exists F)
                    (map (\<lambda>p. fs_join F p uri) (follow (Suc (length base)) (fs_parent F) (Some base))))
       (if fs_exists F uri then Some uri else None))"

definition extract_dsa_key_from_cert :: "'v dsig_lib \<Rightarrow> certificate \<Rightarrow> 'v key_data option" where
  "extract_dsa_key_from_cert L cert =
     (case cert_alg_params cert of None \<Rightarrow> None | Some params_value \<Rightarrow>
     (case dl_read_uint L params_value of None \<Rightarrow> None | Some (p_int, r1) \<Rightarrow>
     (case dl_read_uint L r1 of None \<Rightarrow> None | Some (q_int, r2) \<Rightarrow>
     (case dl_read_uint L r2 of None \<Rightarrow> None | Some (g_int, r3) \<Rightarrow>
     (case dl_uint_from_der L (cert_public_key cert) of None \<Rightarrow> None | Some y_int \<Rightarrow>
     (let K = dl_keys L in
      case kl_dsa_components K (kl_biguint K p_int) (kl_biguint K q_int) (kl_biguint K g_int) of
        Inl _ \<Rightarrow> None
      | Inr components \<Rightarrow>
          map_option (Key_Dsa None) (ok (kl_dsa_key K components (kl_biguint K y_int)))))))))"

definition extract_ec_key_from_spki :: "'v dsig_lib \<Rightarrow> certificate \<Rightarrow> 'v key_data option" where
  "extract_ec_key_from_spki L cert =
     (case cert_alg_params cert of None \<Rightarrow> None | Some params \<Rightarrow>
     (case dl_decode_oid L params of None \<Rightarrow> None | Some curve_oid \<Rightarrow>
      let curve = (if curve_oid = ''1.2.840.10045.3.1.7'' then Some P256
                   else if curve_oid = ''1.3.132.0.34'' then Some P384
                   else if curve_oid = ''1.3.132.0.35'' then Some P521 else None)
      in case curve of
           None \<Rightarrow> None
         | Some c \<Rightarrow> map_option (ec_key_data c None) (dl_ec_sec1 L c (cert_public_key cert))))"

text \<open>
  The public key of a certificate by its algorithm OID: \<open>Some None\<close> is an algorithm that is skipped
  (\<open>continue\<close>), \<open>None\<close> a failure that ends the search.
\<close>

definition cert_key_data :: "'v dsig_lib \<Rightarrow> certificate \<Rightarrow> 'v key_data option option" where
  "cert_key_data L cert =
     (if cert_alg_oid cert = ''1.2.840.113549.1.1.1'' then
        map_option (\<lambda>k. Some (Key_Rsa None k)) (dl_rsa_pkcs1_der L (cert_public_key cert))
      else if cert_alg_oid cert = ''1.2.840.10040.4.1'' then
        map_option Some (extract_dsa_key_from_cert L cert)
      else if cert_alg_oid cert = ''1.2.840.10045.2.1'' then
        map_option Some (extract_ec_key_from_spki L cert)
      else if cert_alg_oid cert = ''1.3.101.112'' then
        (if length (cert_public_key cert) = 32 then
           map_option (\<lambda>k. Some (Key_Ed25519 None k)) (dl_ed25519_bytes L (cert_public_key cert))
         else None)
      else Some None)"

text \<open>A search over the children that an inner \<open>?\<close> can end: \<open>Inl r\<close> is the final answer.\<close>

fun search :: "('a \<Rightarrow> 'b option + unit) \<Rightarrow> 'a list \<Rightarrow> 'b option" where
  "search f [] = None"
| "search f (x # xs) = (case f x of Inl r \<Rightarrow> r | Inr _ \<Rightarrow> search f xs)"

definition retrieval_method :: "document \<Rightarrow> node_id \<Rightarrow> (string \<times> string) option" where
  "retrieval_method d child =
     (case doc_element d child of
        None \<Rightarrow> None
      | Some e \<Rightarrow>
          if elem_local e \<noteq> ''RetrievalMethod'' \<or> (elem_ns e \<noteq> ns_DSIG \<and> elem_ns e \<noteq> []) then None
          else Some (unwrap_or [] (doc_get_attribute d e ''Type''), unwrap_or [] (doc_get_attribute d e ''URI'')))"

definition cert_key :: "'v dsig_lib \<Rightarrow> bytes \<Rightarrow> 'v key option + unit" where
  "cert_key L cert_der =
     (case cert_from_der (kl_cert (dl_keys L)) cert_der of
        Inl _ \<Rightarrow> Inl None
      | Inr cert \<Rightarrow>
          (case cert_key_data L cert of
             None \<Rightarrow> Inl None
           | Some None \<Rightarrow> Inr ()
           | Some (Some data) \<Rightarrow> Inl (Some (Key_new data Usage_Verify\<lparr>key_x509_chain := [cert_der]\<rparr>))))"

definition try_resolve_retrieval_method ::
  "'v dsig_lib \<Rightarrow> document \<Rightarrow> node_id \<Rightarrow> string option \<Rightarrow> (string \<times> string) list \<Rightarrow> 'v key option" where
  "try_resolve_retrieval_method L d key_info_node base_dir url_maps =
     search
       (\<lambda>child. case retrieval_method d child of
          None \<Rightarrow> Inr ()
        | Some (type_attr, uri) \<Rightarrow>
            if type_attr \<noteq> ''http://www.w3.org/2000/09/xmldsig#rawX509Certificate'' then Inr ()
            else case resolve_retrieval_uri (dl_fs L) uri base_dir url_maps of
              None \<Rightarrow> Inl None
            | Some file_path \<Rightarrow>
                (case fs_read (dl_fs L) file_path of
                   Inl _ \<Rightarrow> Inl None
                 | Inr cert_der \<Rightarrow> cert_key L cert_der))
       (doc_children d key_info_node)"

definition try_resolve_retrieval_method_inline ::
  "'v dsig_lib \<Rightarrow> document \<Rightarrow> node_id \<Rightarrow> id_map \<Rightarrow> 'v key option" where
  "try_resolve_retrieval_method_inline L d key_info_node ids =
     search
       (\<lambda>child. case retrieval_method d child of
          None \<Rightarrow> Inr ()
        | Some (type_attr, uri) \<Rightarrow>
            if type_attr \<noteq> ''http://www.w3.org/2000/09/xmldsig#X509Data'' then Inr ()
            else case strip_prefix ''#'' uri of
              None \<Rightarrow> Inr ()
            | Some id_value \<Rightarrow>
                (case ids id_value of
                   None \<Rightarrow> Inl None
                 | Some target_node \<Rightarrow>
                     (case (if is_named d ns_DSIG ''X509Data'' target_node then Some target_node
                            else find_descendant_element d target_node ns_DSIG ''X509Data'') of
                        None \<Rightarrow> Inl None
                      | Some x509_data \<Rightarrow>
                          (case find_child_element d x509_data ns_DSIG ''X509Certificate'' of
                             None \<Rightarrow> Inl None
                           | Some cert_b64_node \<Rightarrow>
                               (case dl_base64 L (remove_ws (trimmed_text d cert_b64_node)) of
                                  Inl _ \<Rightarrow> Inl None
                                | Inr cert_der \<Rightarrow> cert_key L cert_der)))))
       (doc_children d key_info_node)"

end
