(* ===== verification/Dsig_XPath.thy ===== *)
theory Dsig_XPath
  imports Dsig_Dom Transforms
begin

text \<open>
  The XPath transform of \<open>verify.rs\<close>: a small parser for boolean XPath expressions, their evaluation on
  the nodes of a document and on its namespace nodes, and the patterns with \<open>here()\<close> that are
  recognised textually. Strings are UTF-8; every slice of the source is taken at an ASCII character,
  so only slices whose ends can cross are written with \<open>ascii_slice\<close>. The depth counters are \<open>i32\<close>, which
  strings below \<open>2 ^ 31\<close> bytes cannot overflow.
\<close>

section \<open>Expressions\<close>

datatype xpath_bool_expr =
    XP_True
  | XP_AncestorOrSelf string string
  | XP_SelfText
  | XP_HasAttributes
  | XP_SelfElement string string
  | XP_Not xpath_bool_expr
  | XP_And xpath_bool_expr xpath_bool_expr
  | XP_Or xpath_bool_expr xpath_bool_expr
  | XP_NameEq string
  | XP_NameNeq string
  | XP_NamespaceUriEq string
  | XP_NamespaceUriNeq string
  | XP_ParentIs string string
  | XP_StringSelfEqNsUriParent
  | XP_IsNotParentNsNode
  | XP_IsParentNsNode
  | XP_DepthOdd

section \<open>Parsing\<close>

definition paren_depth :: "int \<Rightarrow> char \<Rightarrow> int" where
  "paren_depth depth c =
     (if c = CHR ''('' then depth + 1 else if c = CHR '')'' then depth - 1 else depth)"

text \<open>The scan of \<open>split_top_level\<close>; \<open>pre\<close> is what was passed over, reversed.\<close>

fun split_top_level_from :: "string \<Rightarrow> int \<Rightarrow> string \<Rightarrow> string \<Rightarrow> (string \<times> string) option" where
  "split_top_level_from sep depth pre [] = None"
| "split_top_level_from sep depth pre (c # s) =
     (let depth' = paren_depth depth c;
          left = trim (rev pre);
          right = trim (drop (length sep) (c # s))
      in if depth' = 0 \<and> starts_with (c # s) sep \<and> left \<noteq> [] \<and> right \<noteq> [] then Some (left, right)
         else split_top_level_from sep depth' (c # pre) s)"

definition split_top_level :: "string \<Rightarrow> string \<Rightarrow> (string \<times> string) option" where
  "split_top_level expr sep = split_top_level_from sep 0 [] expr"

fun balanced :: "int \<Rightarrow> string \<Rightarrow> bool" where
  "balanced depth [] = (depth = 0)"
| "balanced depth (c # s) = (if paren_depth depth c < 0 then False else balanced (paren_depth depth c) s)"

definition strip_not :: "string \<Rightarrow> string option" where
  "strip_not expr0 =
     (let expr = trim expr0 in
      case (if starts_with expr ''not('' then Some 4
            else if starts_with expr ''not ('' then Some 5 else None) of
        None \<Rightarrow> None
      | Some prefix_len \<Rightarrow>
          if \<not> ends_with expr '')'' then None
          else let inner = take (length expr - 1 - prefix_len) (drop prefix_len expr)
               in if balanced 0 inner then Some (trim inner) else None)"

definition resolve_ns_prefix :: "node_id \<Rightarrow> document \<Rightarrow> string \<Rightarrow> string option" where
  "resolve_ns_prefix n d pre =
     find_map (\<lambda>m. case doc_element d m of
        Some e \<Rightarrow> map_of (el_namespace_declarations e) pre
      | None \<Rightarrow> None) (parent_chain d (Some n))"

definition resolve_prefixed_name :: "string \<Rightarrow> node_id \<Rightarrow> document \<Rightarrow> (string \<times> string) option" where
  "resolve_prefixed_name name xpath_node d =
     (case split_once_char CHR '':'' name of
        Some (pre, local_part) \<Rightarrow> map_option (\<lambda>uri. (uri, local_part)) (resolve_ns_prefix xpath_node d pre)
      | None \<Rightarrow> Some ([], name))"

text \<open>\<open>name() = "str"\<close> and the like: \<open>True\<close> stands for \<open>=\<close>, \<open>False\<close> for \<open>!=\<close>.\<close>

definition unquote :: "string \<Rightarrow> string" where
  "unquote v = trim_matches_char CHR 0x27 (trim_matches_char CHR 0x22 (trim v))"

definition parse_comparison :: "string \<Rightarrow> string \<Rightarrow> (bool \<times> string) option" where
  "parse_comparison fname expr =
     (case strip_prefix fname (normalize_ws expr) of
        None \<Rightarrow> None
      | Some rest0 \<Rightarrow>
          (let rest = trim rest0 in
           case strip_prefix ''!='' rest of
             Some v \<Rightarrow> Some (False, unquote v)
           | None \<Rightarrow> map_option (\<lambda>v. (True, unquote v)) (strip_prefix ''='' rest)))"

definition axis_name :: "string \<Rightarrow> string list \<Rightarrow> string \<Rightarrow> string option" where
  "axis_name axis node_tests expr =
     (case strip_prefix axis expr of
        None \<Rightarrow> None
      | Some name \<Rightarrow> if name \<in> set node_tests then None else Some name)"

definition parse_xpath_atom :: "document \<Rightarrow> node_id \<Rightarrow> string \<Rightarrow> xpath_bool_expr option" where
  "parse_xpath_atom d xpath_node expr =
     (let resolve = (\<lambda>mk name. map_option (\<lambda>(ns_uri, local_name). mk ns_uri local_name)
            (resolve_prefixed_name name xpath_node d));
          norm = normalize_ws expr
      in
      if expr = ''self::text()'' then Some XP_SelfText
      else if expr = ''@*'' then Some XP_HasAttributes
      else case axis_name ''self::'' [''text()'', ''node()''] expr of
        Some name \<Rightarrow> resolve XP_SelfElement name
      | None \<Rightarrow>
      (case axis_name ''ancestor-or-self::'' [] expr of
        Some name \<Rightarrow> resolve XP_AncestorOrSelf name
      | None \<Rightarrow>
      (case axis_name ''parent::'' [''node()''] expr of
        Some name \<Rightarrow> resolve XP_ParentIs name
      | None \<Rightarrow>
      (case parse_comparison ''name()'' expr of
        Some (eq, v) \<Rightarrow> Some (if eq then XP_NameEq v else XP_NameNeq v)
      | None \<Rightarrow>
      (case parse_comparison ''namespace-uri()'' expr of
        Some (eq, v) \<Rightarrow> Some (if eq then XP_NamespaceUriEq v else XP_NamespaceUriNeq v)
      | None \<Rightarrow>
        if norm = ''string(self::node()) = namespace-uri(parent::node())'' then Some XP_StringSelfEqNsUriParent
        else if norm =
          ''count(parent::node()/namespace::*) != count(parent::node()/namespace::* | self::node())'' then
          Some XP_IsNotParentNsNode
        else if norm =
          ''count(parent::node()/namespace::*) = count(parent::node()/namespace::* | self::node())'' then
          Some XP_IsParentNsNode
        else if norm = ''(count(ancestor-or-self::node()) mod 2) = 1'' then Some XP_DepthOdd
        else None)))))"

lemma split_top_level_from_shorter:
  "split_top_level_from sep depth pre s = Some (l, r) \<Longrightarrow>
   length l < length pre + length s \<and> length r < length pre + length s"
proof (induction sep depth pre s rule: split_top_level_from.induct)
  case (2 sep depth pre c s)
  show ?case
  proof (cases "paren_depth depth c = 0 \<and> starts_with (c # s) sep \<and> trim (rev pre) \<noteq> [] \<and>
      trim (drop (length sep) (c # s)) \<noteq> []")
    case True
    with "2.prems" have lr: "l = trim (rev pre)" "r = trim (drop (length sep) (c # s))"
      by (auto simp: Let_def)
    have "pre \<noteq> []" using True by (auto simp: trim_def trim_start_def trim_end_def)
    moreover have "length l \<le> length pre" "length r \<le> Suc (length s)"
      using length_trim [of "rev pre"] length_trim [of "drop (length sep) (c # s)"] lr by simp_all
    ultimately show ?thesis by (cases pre) auto
  next
    case False
    with 2 show ?thesis by (auto simp: Let_def split: if_splits)
  qed
qed simp

lemma split_top_level_shorter:
  "split_top_level e sep = Some (l, r) \<Longrightarrow> length l < length e \<and> length r < length e"
  unfolding split_top_level_def using split_top_level_from_shorter by fastforce

lemma strip_not_shorter:
  assumes "strip_not e = Some i"
  shows "length i < length e"
proof -
  have "\<exists>k. 0 < k \<and> ends_with (trim e) '')'' \<and>
    i = trim (take (length (trim e) - 1 - k) (drop k (trim e)))"
    using assms by (auto simp: strip_not_def Let_def intro: exI [of _ 4] exI [of _ 5] split: if_splits)
  then obtain k where "0 < k" "ends_with (trim e) '')''"
    "i = trim (take (length (trim e) - 1 - k) (drop k (trim e)))" by blast
  moreover from this(2) have "trim e \<noteq> []" by (auto simp: ends_with_def)
  ultimately show ?thesis
    using length_trim [of e] length_trim [of "take (length (trim e) - 1 - k) (drop k (trim e))"]
    by (cases "trim e") auto
qed

lemma inner_shorter: "trim e \<noteq> [] \<Longrightarrow> min (length (trim e) - Suc 0) (length (trim e) - 2) < length e"
  using length_trim [of e] by (cases "trim e") auto

function parse_xpath_bool_expr :: "document \<Rightarrow> node_id \<Rightarrow> string \<Rightarrow> xpath_bool_expr option" where
  "parse_xpath_bool_expr d xpath_node expr0 =
     (let expr = trim expr0 in
      if expr = [] then None
      else case parse_f64_nonzero expr of
        Some nonzero \<Rightarrow> Some (if nonzero then XP_True else XP_Not XP_True)
      | None \<Rightarrow>
      (case split_top_level expr '' and '' of
        Some (left, right) \<Rightarrow>
          (case parse_xpath_bool_expr d xpath_node left of
             None \<Rightarrow> None
           | Some l \<Rightarrow> (case parse_xpath_bool_expr d xpath_node right of None \<Rightarrow> None | Some r \<Rightarrow> Some (XP_And l r)))
      | None \<Rightarrow>
      (case split_top_level expr '' or '' of
        Some (left, right) \<Rightarrow>
          (case parse_xpath_bool_expr d xpath_node left of
             None \<Rightarrow> None
           | Some l \<Rightarrow> (case parse_xpath_bool_expr d xpath_node right of None \<Rightarrow> None | Some r \<Rightarrow> Some (XP_Or l r)))
      | None \<Rightarrow>
      (case strip_not expr of
        Some inner \<Rightarrow>
          (case parse_xpath_bool_expr d xpath_node inner of None \<Rightarrow> None | Some i \<Rightarrow> Some (XP_Not i))
      | None \<Rightarrow>
        if starts_with expr ''('' \<and> ends_with expr '')'' then
          parse_xpath_bool_expr d xpath_node (take (length expr - 2) (drop 1 expr))
        else parse_xpath_atom d xpath_node expr))))"
  by pat_completeness auto
termination
  by (relation "measure (\<lambda>(_, _, e). length e)")
    (auto dest!: split_top_level_shorter strip_not_shorter intro: less_le_trans [OF _ length_trim] inner_shorter)

declare parse_xpath_bool_expr.simps [simp del]

section \<open>Evaluation\<close>

definition name_matches :: "string \<Rightarrow> string \<Rightarrow> element \<Rightarrow> bool" where
  "name_matches ns_uri local_name e \<longleftrightarrow> elem_local e = local_name \<and> (ns_uri = [] \<or> elem_ns e = ns_uri)"

definition node_matches :: "document \<Rightarrow> string \<Rightarrow> string \<Rightarrow> node_id \<Rightarrow> bool" where
  "node_matches d ns_uri local_name n =
     (case doc_element d n of Some e \<Rightarrow> name_matches ns_uri local_name e | None \<Rightarrow> False)"

definition is_text :: "document \<Rightarrow> node_id \<Rightarrow> bool" where
  "is_text d n = (case doc_kind d n of Some (Text _) \<Rightarrow> True | _ \<Rightarrow> False)"

definition get_element_qname_from_elem :: "element \<Rightarrow> string" where
  "get_element_qname_from_elem e =
     (case qn_prefix (el_name e) of
        Some pre \<Rightarrow> if pre \<noteq> [] then pre @ '':'' @ elem_local e else elem_local e
      | None \<Rightarrow> elem_local e)"

primrec eval_xpath_bool :: "xpath_bool_expr \<Rightarrow> node_id \<Rightarrow> document \<Rightarrow> bool" where
  "eval_xpath_bool XP_True n d = True"
| "eval_xpath_bool (XP_AncestorOrSelf ns_uri local_name) n d =
     list_ex (node_matches d ns_uri local_name) (parent_chain d (Some n))"
| "eval_xpath_bool XP_SelfText n d = is_text d n"
| "eval_xpath_bool XP_HasAttributes n d =
     (case doc_element d n of Some e \<Rightarrow> el_attributes e \<noteq> [] | None \<Rightarrow> False)"
| "eval_xpath_bool (XP_SelfElement ns_uri local_name) n d = node_matches d ns_uri local_name n"
| "eval_xpath_bool (XP_Not inner) n d = (\<not> eval_xpath_bool inner n d)"
| "eval_xpath_bool (XP_And l r) n d = (eval_xpath_bool l n d \<and> eval_xpath_bool r n d)"
| "eval_xpath_bool (XP_Or l r) n d = (eval_xpath_bool l n d \<or> eval_xpath_bool r n d)"
| "eval_xpath_bool (XP_NameEq s) n d =
     (case doc_element d n of
        Some e \<Rightarrow> get_element_qname_from_elem e = s
      | None \<Rightarrow> if is_text d n then s = [] else False)"
| "eval_xpath_bool (XP_NameNeq s) n d =
     (case doc_element d n of
        Some e \<Rightarrow> get_element_qname_from_elem e \<noteq> s
      | None \<Rightarrow> if is_text d n then s \<noteq> [] else True)"
| "eval_xpath_bool (XP_NamespaceUriEq s) n d =
     (case doc_element d n of Some e \<Rightarrow> elem_ns e = s | None \<Rightarrow> s = [])"
| "eval_xpath_bool (XP_NamespaceUriNeq s) n d =
     (case doc_element d n of Some e \<Rightarrow> elem_ns e \<noteq> s | None \<Rightarrow> s \<noteq> [])"
| "eval_xpath_bool (XP_ParentIs ns_uri local_name) n d =
     (case doc_parent d n of Some p \<Rightarrow> node_matches d ns_uri local_name p | None \<Rightarrow> False)"
| "eval_xpath_bool XP_StringSelfEqNsUriParent n d = False"
| "eval_xpath_bool XP_IsNotParentNsNode n d = True"
| "eval_xpath_bool XP_IsParentNsNode n d = False"
| "eval_xpath_bool XP_DepthOdd n d = (length (parent_chain d (Some n)) mod 2 = 1)"

record ns_node =
  nsn_prefix :: string
  nsn_uri :: string
  nsn_parent :: node_id

primrec eval_xpath_bool_ns :: "xpath_bool_expr \<Rightarrow> ns_node \<Rightarrow> document \<Rightarrow> bool" where
  "eval_xpath_bool_ns XP_True v d = True"
| "eval_xpath_bool_ns (XP_AncestorOrSelf ns_uri local_name) v d =
     list_ex (node_matches d ns_uri local_name) (parent_chain d (Some (nsn_parent v)))"
| "eval_xpath_bool_ns XP_SelfText v d = False"
| "eval_xpath_bool_ns XP_HasAttributes v d = False"
| "eval_xpath_bool_ns (XP_SelfElement ns_uri local_name) v d = False"
| "eval_xpath_bool_ns (XP_Not inner) v d = (\<not> eval_xpath_bool_ns inner v d)"
| "eval_xpath_bool_ns (XP_And l r) v d = (eval_xpath_bool_ns l v d \<and> eval_xpath_bool_ns r v d)"
| "eval_xpath_bool_ns (XP_Or l r) v d = (eval_xpath_bool_ns l v d \<or> eval_xpath_bool_ns r v d)"
| "eval_xpath_bool_ns (XP_NameEq s) v d = (nsn_prefix v = s)"
| "eval_xpath_bool_ns (XP_NameNeq s) v d = (nsn_prefix v \<noteq> s)"
| "eval_xpath_bool_ns (XP_NamespaceUriEq s) v d = (s = [])"
| "eval_xpath_bool_ns (XP_NamespaceUriNeq s) v d = (s \<noteq> [])"
| "eval_xpath_bool_ns (XP_ParentIs ns_uri local_name) v d = node_matches d ns_uri local_name (nsn_parent v)"
| "eval_xpath_bool_ns XP_StringSelfEqNsUriParent v d =
     (nsn_uri v = (case doc_element d (nsn_parent v) of Some e \<Rightarrow> elem_ns e | None \<Rightarrow> []))"
| "eval_xpath_bool_ns XP_IsNotParentNsNode v d = False"
| "eval_xpath_bool_ns XP_IsParentNsNode v d = True"
| "eval_xpath_bool_ns XP_DepthOdd v d = (Suc (length (parent_chain d (Some (nsn_parent v)))) mod 2 = 1)"

primrec expr_references_ns_nodes :: "xpath_bool_expr \<Rightarrow> bool" where
  "expr_references_ns_nodes XP_True = False"
| "expr_references_ns_nodes (XP_AncestorOrSelf ns_uri local_name) = False"
| "expr_references_ns_nodes XP_SelfText = False"
| "expr_references_ns_nodes XP_HasAttributes = False"
| "expr_references_ns_nodes (XP_SelfElement ns_uri local_name) = False"
| "expr_references_ns_nodes (XP_Not inner) = expr_references_ns_nodes inner"
| "expr_references_ns_nodes (XP_And l r) = (expr_references_ns_nodes l \<or> expr_references_ns_nodes r)"
| "expr_references_ns_nodes (XP_Or l r) = (expr_references_ns_nodes l \<or> expr_references_ns_nodes r)"
| "expr_references_ns_nodes (XP_NameEq s) = True"
| "expr_references_ns_nodes (XP_NameNeq s) = True"
| "expr_references_ns_nodes (XP_NamespaceUriEq s) = True"
| "expr_references_ns_nodes (XP_NamespaceUriNeq s) = True"
| "expr_references_ns_nodes (XP_ParentIs ns_uri local_name) = False"
| "expr_references_ns_nodes XP_StringSelfEqNsUriParent = True"
| "expr_references_ns_nodes XP_IsNotParentNsNode = True"
| "expr_references_ns_nodes XP_IsParentNsNode = True"
| "expr_references_ns_nodes XP_DepthOdd = True"

section \<open>Filtering\<close>

text \<open>Unlike the canonicalizers, which keep an empty default namespace, this one drops every empty binding.\<close>

definition merge_ns_entry_raw :: "string \<times> string \<Rightarrow> ns_map \<Rightarrow> ns_map" where
  "merge_ns_entry_raw e result =
     (if snd e = [] then bt_remove (fst e) result else bt_insert (fst e) (snd e) result)"

definition collect_inscope_namespaces_raw :: "node_id \<Rightarrow> document \<Rightarrow> ns_map" where
  "collect_inscope_namespaces_raw n d = fold (fold merge_ns_entry_raw) (rev (ns_stack d n)) []"

text \<open>
  The input of a transform as XML text: octets are decoded, and the node set is then absent. The
  messages for malformed UTF-8 are modelled up to the detail the standard library appends.
\<close>

definition xml_input :: "string \<Rightarrow> transform_data \<Rightarrow> (string \<times> node_set option) result" where
  "xml_input who data =
     (case data of
        Xml xml_text node_set \<Rightarrow> Inr (xml_text, node_set)
      | Binary b \<Rightarrow> if valid_utf8 b then Inr (b, None) else Inl (Error_XmlParse (who @ '': invalid UTF-8: '')))"

definition selected_nodes :: "document \<Rightarrow> node_set option \<Rightarrow> (node_id \<Rightarrow> bool) \<Rightarrow> node_id set" where
  "selected_nodes d input_ns p =
     set (filter (\<lambda>n. (case input_ns of None \<Rightarrow> True | Some ns \<Rightarrow> contains_id ns n) \<and> p n)
       (doc_descendants d (doc_root d)))"

definition ns_visibility_map :: "xpath_bool_expr \<Rightarrow> document \<Rightarrow> ns_visibility" where
  "ns_visibility_map expr d =
     (\<lambda>(eid, pre).
        if eid \<in> set (doc_descendants d (doc_root d)) \<and> is_element d eid then
          map_option (\<lambda>uri. eval_xpath_bool_ns expr \<lparr>nsn_prefix = pre, nsn_uri = uri, nsn_parent = eid\<rparr> d)
            (bt_get (collect_inscope_namespaces_raw eid d) pre)
        else None)"

definition apply_parsed_xpath_filter ::
  "xml_parser \<Rightarrow> transform_data \<Rightarrow> xpath_bool_expr \<Rightarrow> transform_data result" where
  "apply_parsed_xpath_filter parse data expr =
     and_then (xml_input ''XPath transform'' data) (\<lambda>(xml_text, input_ns).
     and_then (map_err Error_XmlParse (parse xml_text)) (\<lambda>d.
     let result_ns = from_ids (selected_nodes d input_ns (\<lambda>n. eval_xpath_bool expr n d)) Normal;
         result_ns = (if expr = XP_HasAttributes then set_exclude_attrs result_ns True else result_ns);
         result_ns = (if expr_references_ns_nodes expr then set_ns_visible result_ns (ns_visibility_map expr d)
                      else result_ns)
     in Inr (Xml xml_text (Some result_ns))))"

section \<open>Enveloped-signature patterns\<close>

definition bound_to_dsig :: "document \<Rightarrow> node_id \<Rightarrow> string \<Rightarrow> bool" where
  "bound_to_dsig d n pre =
     list_ex (\<lambda>m. case doc_element d m of
        Some e \<Rightarrow> (pre, ns_DSIG) \<in> set (el_namespace_declarations e)
      | None \<Rightarrow> False) (parent_chain d (Some n))"

definition is_enveloped_xpath :: "string \<Rightarrow> node_id \<Rightarrow> document \<Rightarrow> bool outcome" where
  "is_enveloped_xpath expr0 xpath_node d =
     (let expr = trim expr0 in
      if \<not> starts_with expr ''not(ancestor-or-self::'' \<or> \<not> ends_with expr '':Signature)'' then Returns False
      else out_bind
        (ascii_slice (length ''not(ancestor-or-self::'') (length expr - length '':Signature)'') expr)
        (\<lambda>inner. Returns (bound_to_dsig d xpath_node inner)))"

definition is_enveloped_xpath_here :: "string \<Rightarrow> node_id \<Rightarrow> document \<Rightarrow> bool" where
  "is_enveloped_xpath_here expr xpath_node d =
     (case strip_prefix ''count(ancestor-or-self::'' (normalize_ws expr) of
        None \<Rightarrow> False
      | Some rest \<Rightarrow>
          (let sig_marker = '':Signature | here()/ancestor::'' in
           case find_str sig_marker rest of
             None \<Rightarrow> False
           | Some pos \<Rightarrow>
               let pfx = take pos rest; after_marker = drop (pos + length sig_marker) rest in
               after_marker = pfx @ '':Signature[1]) > count(ancestor-or-self::'' @ pfx @ '':Signature)'' \<and>
               bound_to_dsig d xpath_node pfx))"

section \<open>Compound expressions with \<open>here()\<close> and \<open>id()\<close>\<close>

definition parse_here_exclude_pattern :: "string \<Rightarrow> node_id \<Rightarrow> document \<Rightarrow> (string \<times> string) option" where
  "parse_here_exclude_pattern expr xpath_node d =
     (case strip_prefix ''count(ancestor-or-self::'' expr of
        None \<Rightarrow> None
      | Some rest \<Rightarrow>
          (let marker = '' | here()/ancestor::'' in
           case find_str marker rest of
             None \<Rightarrow> None
           | Some pos \<Rightarrow>
               let name_part = take pos rest; after = drop (pos + length marker) rest in
               if after \<noteq> name_part @ ''[1]) > count(ancestor-or-self::'' @ name_part @ '')'' then None
               else resolve_prefixed_name name_part xpath_node d))"

definition is_ancestor_or_self_match :: "node_id \<Rightarrow> document \<Rightarrow> string \<Rightarrow> string \<Rightarrow> bool" where
  "is_ancestor_or_self_match n d ns_uri local_name =
     list_ex (is_named d ns_uri local_name) (parent_chain d (Some n))"

definition is_descendant_of_index :: "node_id \<Rightarrow> document \<Rightarrow> nat \<Rightarrow> bool" where
  "is_descendant_of_index n d target_idx = list_ex (\<lambda>m. m = target_idx) (parent_chain d (Some n))"

definition find_ancestor_by_name_idx :: "node_id \<Rightarrow> document \<Rightarrow> string \<Rightarrow> string \<Rightarrow> nat option" where
  "find_ancestor_by_name_idx n d ns_uri local_name =
     find (is_named d ns_uri local_name) (parent_chain d (Some n))"

text \<open>The three parts of a compound expression: the names of \<open>A\<close> and \<open>B\<close> and the ID of \<open>C\<close>.\<close>

definition split_once_str :: "string \<Rightarrow> string \<Rightarrow> (string \<times> string) option" where
  "split_once_str sep s =
     (case find_str sep s of None \<Rightarrow> None | Some i \<Rightarrow> Some (take i s, drop (i + length sep) s))"

definition parse_compound ::
  "string \<Rightarrow> node_id \<Rightarrow> document \<Rightarrow> ((string \<times> string) \<times> (string \<times> string) \<times> string) option" where
  "parse_compound expr xpath_node d =
     (case split_once_str ('' or count(ancestor-or-self::node() | id('' @ [CHR 0x27]) expr of
        None \<Rightarrow> None
      | Some (left_part, right_part) \<Rightarrow>
      (case strip_suffix (CHR 0x27 # '')) = count(ancestor-or-self::node())'') right_part of
        None \<Rightarrow> None
      | Some id_value \<Rightarrow>
      (case split_once_str '' and '' left_part of
        None \<Rightarrow> None
      | Some (and_a, and_b) \<Rightarrow>
      (case strip_prefix ''ancestor-or-self::'' (trim and_a) of
        None \<Rightarrow> None
      | Some a_name \<Rightarrow>
      (case resolve_prefixed_name a_name xpath_node d of
        None \<Rightarrow> None
      | Some a \<Rightarrow>
          map_option (\<lambda>b. (a, b, id_value)) (parse_here_exclude_pattern (trim and_b) xpath_node d))))))"

definition try_compound_xpath_filter ::
  "xml_parser \<Rightarrow> string \<Rightarrow> node_id \<Rightarrow> document \<Rightarrow> transform_data \<Rightarrow> transform_data option result" where
  "try_compound_xpath_filter parse expr xpath_node outer_doc data =
     (case parse_compound expr xpath_node outer_doc of
        None \<Rightarrow> Inr None
      | Some ((a_ns_uri, a_local_name), (b_ns_uri, b_local_name), id_value) \<Rightarrow>
          and_then (xml_input ''XPath'' data) (\<lambda>(xml_text, input_ns).
          and_then (map_err Error_XmlParse (parse xml_text)) (\<lambda>inner_doc.
          let here_ancestor_idx = find_ancestor_by_name_idx xpath_node outer_doc b_ns_uri b_local_name in
          and_then (build_id_map inner_doc [''Id'', ''ID'', ''id'', ''AssertionID'']) (\<lambda>ids.
          let id_element_idx = ids id_value;
              keep = (\<lambda>n.
                (is_ancestor_or_self_match n inner_doc a_ns_uri a_local_name \<and>
                 (case here_ancestor_idx of
                    Some here_idx \<Rightarrow> \<not> is_descendant_of_index n inner_doc here_idx
                  | None \<Rightarrow> True)) \<or>
                (case id_element_idx of
                   Some id_idx \<Rightarrow> is_descendant_of_index n inner_doc id_idx
                 | None \<Rightarrow> False))
          in Inr (Some (Xml xml_text (Some (from_ids (selected_nodes inner_doc input_ns keep) Normal))))))))"

section \<open>The transform\<close>

definition apply_xpath_transform ::
  "xml_parser \<Rightarrow> transform_data \<Rightarrow> node_id \<Rightarrow> node_id \<Rightarrow> document \<Rightarrow> transform_data result outcome" where
  "apply_xpath_transform parse data transform_node sig_node outer_doc =
     out_then (Returns (ok_or (Error_MissingElement ''XPath expression element'')
       (find_child outer_doc transform_node (\<lambda>e. elem_local e = ''XPath'')))) (\<lambda>xpath_node.
     let xpath_expr = normalize_ws (trimmed_text outer_doc xpath_node) in
     out_bind (is_enveloped_xpath xpath_expr xpath_node outer_doc) (\<lambda>enveloped.
     if enveloped \<or> is_enveloped_xpath_here xpath_expr xpath_node outer_doc then
       Returns (EnvelopedSignatureTransform_execute parse sig_node data)
     else case parse_xpath_bool_expr outer_doc xpath_node xpath_expr of
       Some parsed \<Rightarrow> Returns (apply_parsed_xpath_filter parse data parsed)
     | None \<Rightarrow>
         Returns (and_then (try_compound_xpath_filter parse xpath_expr xpath_node outer_doc data) (\<lambda>r.
           ok_or (Error_UnsupportedAlgorithm (''XPath expression not supported: '' @ xpath_expr)) r))))"

end
