(* ===== verification/Dsig_XPath2.thy ===== *)
theory Dsig_XPath2
  imports Dsig_XPath
begin

text \<open>
  The XPath Filter 2.0 transform of \<open>verify.rs\<close>: location paths with predicates, unions of paths, and the
  three set operations applied in document order.
\<close>

section \<open>Splitting\<close>

fun split_xpath_union_from :: "int \<Rightarrow> int \<Rightarrow> string \<Rightarrow> string \<Rightarrow> (string \<times> string) option" where
  "split_xpath_union_from brackets parens pre [] = None"
| "split_xpath_union_from brackets parens pre (c # s) =
     (if c = CHR ''['' then split_xpath_union_from (brackets + 1) parens (c # pre) s
      else if c = CHR '']'' then split_xpath_union_from (brackets - 1) parens (c # pre) s
      else if c = CHR ''('' then split_xpath_union_from brackets (parens + 1) (c # pre) s
      else if c = CHR '')'' then split_xpath_union_from brackets (parens - 1) (c # pre) s
      else if c = CHR ''|'' \<and> brackets = 0 \<and> parens = 0 \<and> trim (rev pre) \<noteq> [] \<and> trim s \<noteq> [] then
        Some (trim (rev pre), trim s)
      else split_xpath_union_from brackets parens (c # pre) s)"

definition split_xpath_union :: "string \<Rightarrow> (string \<times> string) option" where
  "split_xpath_union expr = split_xpath_union_from 0 0 [] expr"

text \<open>The first \<open>/\<close> outside brackets.\<close>

fun slash_pos :: "int \<Rightarrow> string \<Rightarrow> nat option" where
  "slash_pos brackets [] = None"
| "slash_pos brackets (c # s) =
     (if c = CHR ''['' then map_option Suc (slash_pos (brackets + 1) s)
      else if c = CHR '']'' then map_option Suc (slash_pos (brackets - 1) s)
      else if c = CHR ''/'' \<and> brackets = 0 then Some 0
      else map_option Suc (slash_pos brackets s))"

text \<open>
  The loop of \<open>split_predicate_or\<close> at position \<open>i\<close>, with the start of the current part and the quote that is
  open. After an \<open> or \<close> the scan goes on at the next byte, not after the separator.
\<close>

fun split_predicate_or_from :: "string \<Rightarrow> nat \<Rightarrow> nat \<Rightarrow> char option \<Rightarrow> string \<Rightarrow> string list outcome" where
  "split_predicate_or_from pred i start quote [] =
     out_bind (ascii_slice start (length pred) pred) (\<lambda>p. Returns [p])"
| "split_predicate_or_from pred i start quote (c # s) =
     (if quote = None \<and> (c = CHR 0x22 \<or> c = CHR 0x27) then
        split_predicate_or_from pred (Suc i) start (Some c) s
      else if quote = Some c then split_predicate_or_from pred (Suc i) start None s
      else if quote = None \<and> starts_with (c # s) '' or '' then
        out_bind (ascii_slice start i pred) (\<lambda>p.
        out_bind (split_predicate_or_from pred (Suc i) (i + 4) quote s) (\<lambda>ps. Returns (p # ps)))
      else split_predicate_or_from pred (Suc i) start quote s)"

definition split_predicate_or :: "string \<Rightarrow> string list outcome" where
  "split_predicate_or pred = split_predicate_or_from pred 0 0 None pred"

section \<open>Predicates\<close>

definition is_attr_eq_predicate :: "string \<Rightarrow> bool" where
  "is_attr_eq_predicate part \<longleftrightarrow>
     starts_with part ''@'' \<and> (contains_str part [CHR ''='', CHR 0x22] \<or> contains_str part [CHR ''='', CHR 0x27])"

definition evaluate_attr_eq :: "node_id \<Rightarrow> document \<Rightarrow> string \<Rightarrow> bool" where
  "evaluate_attr_eq n d pred =
     (case strip_prefix ''@'' (trim pred) of
        None \<Rightarrow> False
      | Some attr_part \<Rightarrow>
          (case split_once_char CHR ''='' attr_part of
             None \<Rightarrow> False
           | Some (attr_name, quoted_value) \<Rightarrow>
               node_attribute d n attr_name = Some (trim_matches_chars [CHR 0x22, CHR 0x27] quoted_value)))"

definition negated_attr :: "string \<Rightarrow> string option" where
  "negated_attr pred =
     (if starts_with pred ''not('' \<and> ends_with pred '')'' then
        strip_prefix ''@'' (trim (take (length pred - 5) (drop 4 pred)))
      else None)"

definition evaluate_xpath_predicate :: "node_id \<Rightarrow> document \<Rightarrow> string \<Rightarrow> bool outcome" where
  "evaluate_xpath_predicate n d pred0 =
     (let pred = trim pred0 in
      case negated_attr pred of
        Some attr_name \<Rightarrow> Returns (node_attribute d n attr_name = None)
      | None \<Rightarrow>
          out_bind (split_predicate_or pred) (\<lambda>parts.
            Returns (list_all (\<lambda>p. is_attr_eq_predicate (trim p)) parts \<and>
              list_ex (\<lambda>p. evaluate_attr_eq n d (trim p)) parts)))"

section \<open>Paths\<close>

record path_step =
  ps_name :: string
  ps_ns_uri :: "string option"
  ps_predicate :: "string option"

definition parse_step :: "string \<Rightarrow> path_step result" where
  "parse_step step_str =
     and_then
       (case find_str ''['' step_str of
          Some bracket_start \<Rightarrow>
            if \<not> ends_with step_str '']'' then
              Inl (Error_XmlStructure (''XPath step with unclosed predicate: '' @ step_str))
            else Inr (take bracket_start step_str,
              Some (take (length step_str - 1 - (bracket_start + 1)) (drop (bracket_start + 1) step_str)))
        | None \<Rightarrow> Inr (step_str, None))
       (\<lambda>(name_part, predicate).
          let (ns_uri, local_name) =
            (if name_part = ''*'' then (None, ''*'')
             else case split_once_char CHR '':'' name_part of
               Some (pre, local_part) \<Rightarrow> (Some pre, local_part)
             | None \<Rightarrow> (None, name_part))
          in Inr \<lparr>ps_name = local_name, ps_ns_uri = ns_uri, ps_predicate = predicate\<rparr>)"

function parse_xpath_path_steps :: "string \<Rightarrow> path_step list result" where
  "parse_xpath_path_steps path =
     (if path = [] then Inr []
      else
        let (step_str, remaining) =
          (case slash_pos 0 path of
             Some pos \<Rightarrow> (take pos path, drop (pos + 1) path)
           | None \<Rightarrow> (path, []))
        in and_then (parse_step step_str) (\<lambda>step.
           and_then (parse_xpath_path_steps remaining) (\<lambda>steps. Inr (step # steps))))"
  by pat_completeness auto
termination
proof (relation "measure length", goal_cases)
  case (2 path step_remaining step_str remaining)
  then show ?case by (cases path) (auto split: option.splits)
qed simp

declare parse_xpath_path_steps.simps [simp del]

definition step_matches ::
  "document \<Rightarrow> string option \<Rightarrow> string \<Rightarrow> string option \<Rightarrow> node_id \<Rightarrow> bool outcome" where
  "step_matches d ns_uri local_name predicate n =
     (case doc_element d n of
        None \<Rightarrow> Returns False
      | Some e \<Rightarrow>
          if (local_name = ''*'' \<or> elem_local e = local_name) \<and>
            (case ns_uri of Some uri \<Rightarrow> elem_ns e = uri | None \<Rightarrow> True) then
            (case predicate of Some pred \<Rightarrow> evaluate_xpath_predicate n d pred | None \<Rightarrow> Returns True)
          else Returns False)"

text \<open>The first step applies to the element children of the root, each further step to those of the nodes found.\<close>

fun follow_steps ::
  "document \<Rightarrow> (string option \<times> string \<times> string option) list \<Rightarrow> node_id list \<Rightarrow> node_id list outcome" where
  "follow_steps d [] current = Returns current"
| "follow_steps d ((ns_uri, local_name, predicate) # steps) current =
     out_bind (out_filter (step_matches d ns_uri local_name predicate)
         (concat (map (\<lambda>n. filter (is_element d) (doc_children d n)) current)))
       (follow_steps d steps)"

definition resolve_step :: "node_id \<Rightarrow> document \<Rightarrow> path_step \<Rightarrow> string option \<times> string \<times> string option" where
  "resolve_step xpath_node outer_doc s =
     (case ps_ns_uri s of Some pre \<Rightarrow> resolve_ns_prefix xpath_node outer_doc pre | None \<Rightarrow> None,
      ps_name s, ps_predicate s)"

definition evaluate_path_steps :: "document \<Rightarrow> path_step list \<Rightarrow> node_id \<Rightarrow> document \<Rightarrow> node_id list outcome" where
  "evaluate_path_steps d steps xpath_node outer_doc =
     (if steps = [] then Returns []
      else follow_steps d (map (resolve_step xpath_node outer_doc) steps) [doc_root d])"

section \<open>Expressions\<close>

definition collect_subtree_ids :: "document \<Rightarrow> node_id \<Rightarrow> node_id set \<Rightarrow> node_id set" where
  "collect_subtree_ids d n ids = collect_subtree d True n ids"

definition subtrees :: "document \<Rightarrow> node_id list \<Rightarrow> node_set" where
  "subtrees d ns = from_ids (fold (collect_subtree_ids d) ns {}) Normal"

definition descendant_name :: "string \<Rightarrow> node_id \<Rightarrow> document \<Rightarrow> (string option \<times> string) result" where
  "descendant_name name_expr xpath_node outer_doc =
     (case split_once_char CHR '':'' name_expr of
        Some (pre, local_part) \<Rightarrow>
          and_then (ok_or (Error_InvalidUri
              (''XPath Filter 2.0: unresolved namespace prefix '' @ [CHR 0x27] @ pre @ [CHR 0x27]))
            (resolve_ns_prefix xpath_node outer_doc pre)) (\<lambda>uri. Inr (Some uri, local_part))
      | None \<Rightarrow> Inr (None, name_expr))"

definition select_descendants :: "document \<Rightarrow> string option \<Rightarrow> string \<Rightarrow> node_id list" where
  "select_descendants d ns_uri local_name =
     filter (\<lambda>n. case doc_element d n of
        None \<Rightarrow> False
      | Some e \<Rightarrow> elem_local e = local_name \<and> (case ns_uri of Some uri \<Rightarrow> elem_ns e = uri | None \<Rightarrow> True))
       (doc_descendants d (doc_root d))"

lemma split_xpath_union_shorter:
  "split_xpath_union e = Some (l, r) \<Longrightarrow> length (trim l) < length e \<and> length (trim r) < length e"
proof -
  have "split_xpath_union_from b p pre s = Some (l, r) \<Longrightarrow>
    length l < length pre + length s \<and> length r < length pre + length s" for b p pre s
  proof (induction b p pre s rule: split_xpath_union_from.induct)
    case (2 b p pre c s)
    have "length (trim (rev pre)) \<le> length pre" "length (trim s) \<le> length s"
      using length_trim [of "rev pre"] length_trim [of s] by simp_all
    with 2 show ?case by (auto split: if_splits)
  qed simp
  from this [of 0 0 "[]" e] show "split_xpath_union e = Some (l, r) \<Longrightarrow> ?thesis"
    using length_trim [of l] length_trim [of r] by (simp add: split_xpath_union_def)
qed

function evaluate_simple_xpath :: "document \<Rightarrow> string \<Rightarrow> node_id \<Rightarrow> document \<Rightarrow> node_set result outcome" where
  "evaluate_simple_xpath d expr xpath_node outer_doc =
     (if expr = ''/'' then Returns (Inr (NodeSet_all d))
      else case split_xpath_union expr of
        Some (left, right) \<Rightarrow>
          (case evaluate_simple_xpath d (trim left) xpath_node outer_doc of
             Panics \<Rightarrow> Panics
           | Returns (Inl e) \<Rightarrow> Returns (Inl e)
           | Returns (Inr left_ns) \<Rightarrow>
               out_then (evaluate_simple_xpath d (trim right) xpath_node outer_doc)
                 (\<lambda>right_ns. Returns (Inr (ns_union left_ns right_ns))))
      | None \<Rightarrow>
      (case strip_prefix ''//'' expr of
        Some name_expr \<Rightarrow>
          Returns (and_then (descendant_name name_expr xpath_node outer_doc) (\<lambda>(ns_uri, local_name).
            Inr (subtrees d (select_descendants d ns_uri local_name))))
      | None \<Rightarrow>
      (case strip_prefix ''/'' expr of
        Some stripped \<Rightarrow>
          out_then (Returns (parse_xpath_path_steps stripped)) (\<lambda>steps.
            out_bind (evaluate_path_steps d steps xpath_node outer_doc) (\<lambda>ns. Returns (Inr (subtrees d ns))))
      | None \<Rightarrow>
          Returns (Inl (Error_UnsupportedAlgorithm (''XPath Filter 2.0 expression not supported: '' @ expr))))))"
  by pat_completeness auto
termination
  by (relation "measure (\<lambda>(_, e, _). length e)") (auto dest!: split_xpath_union_shorter)

declare evaluate_simple_xpath.simps [simp del]

section \<open>The transform\<close>

definition apply_filter_child ::
  "document \<Rightarrow> document \<Rightarrow> node_set \<Rightarrow> node_id \<Rightarrow> node_set result outcome" where
  "apply_filter_child d outer_doc filter_ns child =
     (case doc_element outer_doc child of
        None \<Rightarrow> Returns (Inr filter_ns)
      | Some child_elem \<Rightarrow>
          if elem_local child_elem \<noteq> ''XPath'' then Returns (Inr filter_ns)
          else
            let filt = unwrap_or [] (doc_get_attribute outer_doc child_elem ''Filter'') in
            out_then (evaluate_simple_xpath d (trimmed_text outer_doc child) child outer_doc) (\<lambda>xpath_ns.
            Returns
              (if filt = ''intersect'' then Inr (ns_intersection filter_ns xpath_ns)
               else if filt = ''subtract'' then Inr (ns_subtract filter_ns xpath_ns)
               else if filt = ''union'' then Inr (ns_union filter_ns xpath_ns)
               else Inl (Error_UnsupportedAlgorithm (''XPath Filter 2.0 unknown filter: '' @ filt)))))"

definition apply_xpath_filter2_transform ::
  "xml_parser \<Rightarrow> transform_data \<Rightarrow> node_id \<Rightarrow> document \<Rightarrow> transform_data result outcome" where
  "apply_xpath_filter2_transform parse data transform_node outer_doc =
     (case data of
        Xml xml_text node_set \<Rightarrow>
          out_then (Returns (map_err Error_XmlParse (parse xml_text))) (\<lambda>d.
          let input_ns = unwrap_or (NodeSet_all d) node_set in
          out_then
            (out_try_fold (apply_filter_child d outer_doc) (NodeSet_all d) (doc_children outer_doc transform_node))
            (\<lambda>filter_ns. Returns (Inr (Xml xml_text (Some (ns_intersection input_ns filter_ns))))))
      | Binary b \<Rightarrow> Returns (Inr (Binary b)))"

end
