(* ===== verification/Dsig_XPath_Laws.thy ===== *)
theory Dsig_XPath_Laws
  imports Dsig_XPath2
begin

text \<open>
  Properties of the XPath transforms: the one expression that makes the XPath transform panic, a
  predicate that makes the Filter 2.0 transform panic, the precedence of the boolean operators, what a
  descendant path selects, and that filters only narrow the node set.
\<close>

section \<open>The pattern of the enveloped signature\<close>

lemma overlap:
  assumes "p @ x = y @ q" "length x < length q" "length q \<le> length p"
  shows "x = drop (length q - length x) q"
    and "drop (length p - (length q - length x)) p = take (length q - length x) q"
proof -
  have l: "length y = length p - (length q - length x)"
    using arg_cong [OF assms(1), of length] assms(2,3) by simp
  have "drop (length p) (p @ x) = drop (length p) (y @ q)" by (simp only: assms(1))
  then show "x = drop (length q - length x) q" using l assms(2,3) by simp
  have "drop (length y) (take (length p) (p @ x)) = drop (length y) (take (length p) (y @ q))"
    by (simp only: assms(1))
  then show "drop (length p - (length q - length x)) p = take (length q - length x) q"
    using l assms(2,3) by simp
qed

lemma pattern_overlap:
  fixes x y :: string
  assumes "''not(ancestor-or-self::'' @ x = y @ '':Signature)''" "length x < 11"
  shows "x = ''Signature)''"
proof -
  note h = overlap [OF assms(1)]
  have "length x \<in> {0, 1, 2, 3, 4, 5, 6, 7, 8, 9, 10}"
    using assms(2) by (simp only: insert_iff empty_iff) arith
  then show ?thesis using h by (elim insertE emptyE) simp_all
qed

lemma is_enveloped_xpath_panics:
  "is_enveloped_xpath e n d = Panics \<longleftrightarrow> trim e = ''not(ancestor-or-self::Signature)''"
proof
  assume p: "is_enveloped_xpath e n d = Panics"
  then have "starts_with (trim e) ''not(ancestor-or-self::''" "ends_with (trim e) '':Signature)''"
    and len: "length (trim e) < 33"
    by (auto simp: is_enveloped_xpath_def Let_def ascii_slice_def split: if_splits)
  then obtain x y where x: "trim e = ''not(ancestor-or-self::'' @ x" and y: "trim e = y @ '':Signature)''"
    unfolding starts_with_iff_prefix ends_with_iff_suffix prefix_def suffix_def by blast
  have "length x < 11" using len by (simp add: x)
  moreover have "''not(ancestor-or-self::'' @ x = y @ '':Signature)''" using x y by (simp only:)
  ultimately have "x = ''Signature)''" by (intro pattern_overlap)
  with x show "trim e = ''not(ancestor-or-self::Signature)''" by simp
next
  assume "trim e = ''not(ancestor-or-self::Signature)''"
  then show "is_enveloped_xpath e n d = Panics"
    by (simp add: is_enveloped_xpath_def Let_def ascii_slice_def ends_with_def)
qed

section \<open>Paths\<close>

lemma fold_collect_ids:
  "wf_doc d \<Longrightarrow> fold (collect_subtree_ids d) ns s = s \<union> (\<Union>n \<in> set ns. sub_nodes d True n)"
  by (induction ns arbitrary: s) (auto simp: collect_subtree_ids_def collect_subtree_eq)

lemma split_xpath_union_None: "CHR ''|'' \<notin> set s \<Longrightarrow> split_xpath_union s = None"
proof -
  have "CHR ''|'' \<notin> set s \<Longrightarrow> split_xpath_union_from b p pre s = None" for b p pre
    by (induction b p pre s rule: split_xpath_union_from.induct) auto
  then show "CHR ''|'' \<notin> set s \<Longrightarrow> ?thesis" by (simp add: split_xpath_union_def)
qed

lemma split_predicate_or_skip:
  "list_all (\<lambda>c. c \<notin> {CHR 0x20, CHR 0x22, CHR 0x27}) a \<Longrightarrow>
   split_predicate_or_from pred i start None (a @ s) = split_predicate_or_from pred (i + length a) start None s"
  by (induction a arbitrary: i) auto

section \<open>Narrowing\<close>

definition narrower :: "node_set \<Rightarrow> node_set \<Rightarrow> bool" where
  "narrower a b \<longleftrightarrow> set_type a = Normal \<and> set_type b = Normal \<and> nodes a \<subseteq> nodes b"

lemma narrower_intersection: "set_type ns = Normal \<Longrightarrow> narrower (ns_intersection ns x) ns"
  by (auto simp: narrower_def ns_intersection_def)

lemma narrower_selected:
  "set_type ns = Normal \<Longrightarrow> narrower (from_ids (selected_nodes d (Some ns) p) Normal) ns"
  by (auto simp: narrower_def from_ids_def selected_nodes_def contains_id_def)

lemma narrower_visibility:
  "narrower ns b \<Longrightarrow> narrower (set_exclude_attrs ns v) b"
  "narrower ns b \<Longrightarrow> narrower (set_ns_visible ns m) b"
  by (simp_all add: narrower_def set_exclude_attrs_def set_ns_visible_def)

lemma remove_subtree_narrower: "set_type ns = Normal \<Longrightarrow> narrower (remove_subtree n d ns) ns"
proof -
  have "set_type (remove_subtree_upto k d n ns) = set_type ns \<and> nodes (remove_subtree_upto k d n ns) \<subseteq> nodes ns"
    for k n ns
  proof (induction k arbitrary: n ns)
    case (Suc k)
    have "set_type (fold (remove_subtree_upto k d) cs ns) = set_type ns \<and>
      nodes (fold (remove_subtree_upto k d) cs ns) \<subseteq> nodes ns" for cs ns
    proof (induction cs arbitrary: ns)
      case (Cons c cs)
      then show ?case using Suc [of c ns] by fastforce
    qed simp
    from this [of "doc_children d n" "remove_id ns n"] show ?case by auto
  qed simp
  then show "set_type ns = Normal \<Longrightarrow> ?thesis" by (auto simp: narrower_def remove_subtree_def)
qed

lemma enveloped_narrows:
  "EnvelopedSignatureTransform_execute parse s (Xml t (Some ns)) = Inr out \<Longrightarrow> set_type ns = Normal \<Longrightarrow>
   \<exists>ns'. out = Xml t (Some ns') \<and> narrower ns' ns"
  by (auto simp: EnvelopedSignatureTransform_execute_def res_simps intro: remove_subtree_narrower)

lemma parsed_filter_narrows:
  "apply_parsed_xpath_filter parse (Xml t (Some ns)) e = Inr out \<Longrightarrow> set_type ns = Normal \<Longrightarrow>
   \<exists>ns'. out = Xml t (Some ns') \<and> narrower ns' ns"
  by (auto simp: apply_parsed_xpath_filter_def xml_input_def Let_def res_simps
      intro!: narrower_visibility narrower_selected)

lemma compound_filter_narrows:
  "try_compound_xpath_filter parse e x d (Xml t (Some ns)) = Inr (Some out) \<Longrightarrow> set_type ns = Normal \<Longrightarrow>
   \<exists>ns'. out = Xml t (Some ns') \<and> narrower ns' ns"
  by (auto simp: try_compound_xpath_filter_def xml_input_def Let_def res_simps
      intro!: narrower_selected split: option.splits)

lemma xpath_narrows:
  assumes "apply_xpath_transform parse (Xml t (Some ns)) tn sn d = Returns (Inr out)" "set_type ns = Normal"
  shows "\<exists>ns'. out = Xml t (Some ns') \<and> narrower ns' ns"
  using assms
  by (auto simp: apply_xpath_transform_def Let_def res_simps split: if_splits option.splits
      dest: enveloped_narrows parsed_filter_narrows compound_filter_narrows)

lemma filter2_narrows:
  "apply_xpath_filter2_transform parse (Xml t (Some ns)) tn d = Returns (Inr out) \<Longrightarrow> set_type ns = Normal \<Longrightarrow>
   \<exists>ns'. out = Xml t (Some ns') \<and> narrower ns' ns"
  by (auto simp: apply_xpath_filter2_transform_def Let_def res_simps intro: narrower_intersection)

section \<open>Properties\<close>

text \<open>
  C24: The XPath transform panics for exactly one expression, the unprefixed form
  \<open>not(ancestor-or-self::Signature)\<close> of the enveloped-signature pattern: the text that precedes the prefix
  and the text that follows it then overlap, and the slice between them is out of range. The
  expression comes from the document that is verified.
\<close>

theorem xpath_panics:
  "apply_xpath_transform parse data transform_node sig_node d = Panics \<longleftrightarrow>
   (\<exists>x. find_child d transform_node (\<lambda>e. elem_local e = ''XPath'') = Some x \<and>
     trim (normalize_ws (trimmed_text d x)) = ''not(ancestor-or-self::Signature)'')"
proof (cases "find_child d transform_node (\<lambda>e. elem_local e = ''XPath'')")
  case None
  then show ?thesis by (simp add: apply_xpath_transform_def)
next
  case (Some x)
  then show ?thesis
    using is_enveloped_xpath_panics [of "normalize_ws (trimmed_text d x)" x d]
    by (cases "is_enveloped_xpath (normalize_ws (trimmed_text d x)) x d")
      (auto simp: apply_xpath_transform_def Let_def split: option.splits)
qed

text \<open>
  A predicate in which two \<open>or\<close> follow each other makes the Filter 2.0 transform panic: the scan
  does not skip the separator it has found, so the second one starts inside the first.
\<close>

theorem predicate_or_or_panics:
  assumes "list_all (\<lambda>c. c \<notin> {CHR 0x20, CHR 0x22, CHR 0x27}) a"
  shows "split_predicate_or (a @ '' or or '' @ b) = Panics"
proof -
  have "split_predicate_or (a @ '' or or '' @ b) =
    split_predicate_or_from (a @ '' or or '' @ b) (length a) 0 None ('' or or '' @ b)"
    unfolding split_predicate_or_def
    using split_predicate_or_skip [OF assms, of "a @ '' or or '' @ b" 0 0 "'' or or '' @ b"] by simp
  also have "\<dots> = Panics" by (simp add: ascii_slice_def)
  finally show ?thesis .
qed

theorem predicate_or_or_panics_witness: "split_predicate_or ''@a=1 or or @b=2'' = Panics"
  using predicate_or_or_panics [of "''@a=1''" "''@b=2''"] by simp

text \<open>
  The operator \<open>and\<close> is split before \<open>or\<close>, so \<open>a or b and c\<close> is read as \<open>(a or b) and c\<close>. In XPath \<open>and\<close> binds
  tighter; the two readings differ, for instance on an element \<open>a\<close>.
\<close>

theorem xpath_precedence:
  "parse_xpath_bool_expr d n ''self::a or self::b and self::c'' =
     Some (XP_And (XP_Or (XP_SelfElement [] ''a'') (XP_SelfElement [] ''b'')) (XP_SelfElement [] ''c'')) \<and>
   (\<exists>d n. eval_xpath_bool (XP_Or (XP_SelfElement [] ''a'') (XP_And (XP_SelfElement [] ''b'') (XP_SelfElement [] ''c''))) n d \<and>
     \<not> eval_xpath_bool (XP_And (XP_Or (XP_SelfElement [] ''a'') (XP_SelfElement [] ''b'')) (XP_SelfElement [] ''c'')) n d)"
proof -
  let ?d = "arena_doc [(Document, None), (dsig_elem ''a'' [], Some 0)]"
  have "parse_xpath_bool_expr d n ''self::a or self::b and self::c'' =
     Some (XP_And (XP_Or (XP_SelfElement [] ''a'') (XP_SelfElement [] ''b'')) (XP_SelfElement [] ''c''))"
    by code_simp
  moreover have "node_matches ?d [] ''a'' 1" "\<not> node_matches ?d [] ''b'' 1" "\<not> node_matches ?d [] ''c'' 1"
    by code_simp+
  ultimately show ?thesis by (intro conjI exI [of _ ?d] exI [of _ 1]) simp_all
qed

text \<open>
  The path \<open>//name\<close> of XPath Filter 2.0, for a name without prefix, selects exactly the nodes that
  have an ancestor or are themselves an element of that local name, in any namespace.
\<close>

theorem descendant_path_selects:
  assumes "wf_doc d" "CHR '':'' \<notin> set name" "CHR ''|'' \<notin> set name"
  shows "\<exists>ns. evaluate_simple_xpath d (''//'' @ name) x od = Returns (Inr ns) \<and>
    (\<forall>n. contains_id ns n \<longleftrightarrow>
      (\<exists>a e. anc_self d (doc_root d) a \<and> doc_element d a = Some e \<and> elem_local e = name \<and> anc_self d a n))"
proof -
  let ?sel = "select_descendants d None name"
  have "strip_prefix ''//'' (''//'' @ name) = Some name" by (simp add: strip_prefix_Some_iff)
  moreover have "split_xpath_union (''//'' @ name) = None" using assms(3) by (intro split_xpath_union_None) simp
  moreover have "descendant_name name x od = Inr (None, name)"
    using find_str_char_None [THEN iffD2, OF assms(2)] by (simp add: descendant_name_def split_once_char_def)
  ultimately have "evaluate_simple_xpath d (''//'' @ name) x od = Returns (Inr (subtrees d ?sel))"
    by (simp add: evaluate_simple_xpath.simps)
  moreover have "contains_id (subtrees d ?sel) n \<longleftrightarrow>
      (\<exists>a e. anc_self d (doc_root d) a \<and> doc_element d a = Some e \<and> elem_local e = name \<and> anc_self d a n)" for n
  proof -
    have root: "doc_element d (doc_root d) = None" using wf_docD(5) [OF assms(1)] by (simp add: doc_element_def)
    have "a \<in> set ?sel \<longleftrightarrow> anc_self d (doc_root d) a \<and> (\<exists>e. doc_element d a = Some e \<and> elem_local e = name)" for a
      using descendants_iff [OF assms(1), of a "doc_root d"] root
      by (auto simp: select_descendants_def split: option.splits)
    then show ?thesis
      by (auto simp: subtrees_def fold_collect_ids [OF assms(1)] contains_id_def from_ids_def sub_nodes_def)
  qed
  ultimately show ?thesis by blast
qed

theorem descendant_path_selects_witness:
  "\<exists>ns. evaluate_simple_xpath (arena_doc sample_arena) ''//a'' 0 (arena_doc sample_arena) = Returns (Inr ns)"
  using descendant_path_selects [OF arena_wf [OF sample_arena_ok], of "''a''" 0 "arena_doc sample_arena"] by auto

end
