(* ===== verification/Dsig_Xslt.thy ===== *)
theory Dsig_Xslt
  imports Dsig_Dom Transforms
begin

text \<open>
  The relationship transform of OPC packages and the XSLT subset of \<open>verify.rs\<close>. The relationship
  transform writes with the writer of the XML crate, which is a function from the sequence of calls to
  the octets. The XSLT processor appends to a buffer; the model returns what is appended, \<open>None\<close> standing
  for a recursion deeper than the bound, which \<open>xslt_terminates\<close> excludes on well-formed documents.
\<close>

section \<open>Relationship transform\<close>

definition REL_NS :: string where
  "REL_NS = ''http://schemas.openxmlformats.org/package/2006/relationships''"

definition MDSSI_NS :: string where
  "MDSSI_NS = ''http://schemas.openxmlformats.org/package/2006/digital-signature''"

record rel_info =
  rel_id :: string
  rel_target :: string
  rel_type :: string
  rel_target_mode :: "string option"

text \<open>The values of one attribute on the children of the transform with a given name.\<close>

definition mdssi_values :: "document \<Rightarrow> node_id \<Rightarrow> string \<Rightarrow> string \<Rightarrow> string list" where
  "mdssi_values d transform_node name attr =
     List.map_filter (\<lambda>c. node_attribute d c attr)
       (filter (is_named d MDSSI_NS name) (doc_children d transform_node))"

definition relationship_of :: "document \<Rightarrow> element \<Rightarrow> rel_info" where
  "relationship_of d e =
     \<lparr>rel_id = unwrap_or [] (doc_get_attribute d e ''Id''),
      rel_target = unwrap_or [] (doc_get_attribute d e ''Target''),
      rel_type = unwrap_or [] (doc_get_attribute d e ''Type''),
      rel_target_mode = Some (unwrap_or ''Internal'' (doc_get_attribute d e ''TargetMode''))\<rparr>"

definition select_relationships :: "document \<Rightarrow> node_id \<Rightarrow> string list \<Rightarrow> string list \<Rightarrow> rel_info list" where
  "select_relationships d root source_ids source_types =
     filter (\<lambda>r. rel_id r \<in> set source_ids \<or> rel_type r \<in> set source_types)
       (map (relationship_of d)
         (List.map_filter (doc_element d) (filter (is_named d REL_NS ''Relationship'') (doc_children d root))))"

definition write_relationship :: "rel_info \<Rightarrow> writer_call" where
  "write_relationship r =
     Empty_Element_Expanded ''Relationship''
       ([(''Id'', rel_id r), (''Target'', rel_target r)] @
        (case rel_target_mode r of Some tm \<Rightarrow> [(''TargetMode'', tm)] | None \<Rightarrow> []) @
        [(''Type'', rel_type r)])"

definition utf8_text :: "string \<Rightarrow> transform_data \<Rightarrow> string result" where
  "utf8_text msg data =
     (case data of
        Xml xml_text _ \<Rightarrow> Inr xml_text
      | Binary b \<Rightarrow> if valid_utf8 b then Inr b else Inl (Error_Transform msg))"

definition apply_relationship_transform ::
  "xml_parser \<Rightarrow> xml_writer \<Rightarrow> transform_data \<Rightarrow> node_id \<Rightarrow> document \<Rightarrow> transform_data result outcome" where
  "apply_relationship_transform parse write data transform_node outer_doc =
     (let source_ids = mdssi_values outer_doc transform_node ''RelationshipReference'' ''SourceId'';
          source_types = mdssi_values outer_doc transform_node ''RelationshipsGroupReference'' ''SourceType''
      in
      out_then (Returns (utf8_text ''Relationship input not UTF-8: '' data)) (\<lambda>xml_text.
      out_then (Returns (map_err (\<lambda>e. Error_Transform (''Relationship XML parse: '' @ e)) (parse xml_text))) (\<lambda>d.
      case doc_document_element d of
        None \<Rightarrow> Panics
      | Some root \<Rightarrow>
          let rels = sort_by (\<lambda>a b. str_cmp (rel_id a) (rel_id b)) (select_relationships d root source_ids source_types)
          in Returns (Inr (Binary (write
               ([Start_Element ''Relationships'' [(''xmlns'', REL_NS)]] @ map write_relationship rels @
                [End_Element ''Relationships''])))))))"

section \<open>XSLT: escaping and selection\<close>

definition XSL_NS :: string where
  "XSL_NS = ''http://www.w3.org/1999/XSL/Transform''"

definition xml_escape_text :: "string \<Rightarrow> string" where
  "xml_escape_text s = concat (map (\<lambda>c.
     if c = CHR ''&'' then ''&amp;'' else if c = CHR ''<'' then ''&lt;'' else if c = CHR ''>'' then ''&gt;''
     else if c = CHR 0x0D then ''&#xD;'' else [c]) s)"

definition xml_escape_attr :: "string \<Rightarrow> string" where
  "xml_escape_attr s = concat (map (\<lambda>c.
     if c = CHR ''&'' then ''&amp;'' else if c = CHR ''<'' then ''&lt;'' else if c = CHR 0x22 then ''&quot;''
     else if c = CHR 0x09 then ''&#x9;'' else if c = CHR 0x0A then ''&#xA;''
     else if c = CHR 0x0D then ''&#xD;'' else [c]) s)"

definition is_xsl :: "document \<Rightarrow> string \<Rightarrow> node_id \<Rightarrow> bool" where
  "is_xsl d name n =
     (case doc_element d n of
        Some e \<Rightarrow> qn_namespace_uri (el_name e) = Some XSL_NS \<and> elem_local e = name
      | None \<Rightarrow> False)"

definition xslt_node_matches_select :: "node_id \<Rightarrow> string \<Rightarrow> document \<Rightarrow> bool" where
  "xslt_node_matches_select n select d =
     (select = ''@*|node()'' \<or> select = ''node()|@*'' \<or>
      (case doc_element d n of
         Some e \<Rightarrow> elem_local e = last (split_char CHR ''/'' select)
       | None \<Rightarrow> False))"

definition xslt_eval_value_of :: "node_id \<Rightarrow> string \<Rightarrow> document \<Rightarrow> string" where
  "xslt_eval_value_of n select d =
     (case find_child d n (\<lambda>e. elem_local e = select) of
        Some child \<Rightarrow> unwrap_or [] (element_text d child)
      | None \<Rightarrow> [])"

definition local_name_of :: "document \<Rightarrow> node_id option \<Rightarrow> string option" where
  "local_name_of d p = (case p of None \<Rightarrow> None | Some n \<Rightarrow> map_option elem_local (doc_element d n))"

definition template_matches :: "document \<Rightarrow> string option \<Rightarrow> string \<Rightarrow> node_id \<Rightarrow> bool" where
  "template_matches tmpl_doc parent_name local_name tmpl =
     (let match_attr = unwrap_or [] (node_attribute tmpl_doc tmpl ''match'') in
      if contains_str match_attr ''/'' then
        (case split_char CHR ''/'' match_attr of
           [a, b] \<Rightarrow> parent_name = Some a \<and> local_name = b
         | _ \<Rightarrow> False)
      else match_attr = local_name)"

definition find_matching_template :: "node_id \<Rightarrow> node_id list \<Rightarrow> document \<Rightarrow> document \<Rightarrow> node_id option" where
  "find_matching_template n templates tmpl_doc input_doc =
     (case doc_element input_doc n of
        None \<Rightarrow> None
      | Some e \<Rightarrow>
          find (template_matches tmpl_doc (local_name_of input_doc (doc_parent input_doc n)) (elem_local e)) templates)"

section \<open>XSLT: the processor\<close>

record xslt_env =
  xe_templates :: "node_id list"
  xe_tmpl_doc :: document
  xe_input_doc :: document
  xe_default_ns :: "string option"
  xe_strip_set :: "string list"

definition text_content :: "document \<Rightarrow> node_id \<Rightarrow> string option" where
  "text_content d n = (case doc_kind d n of Some (Text t) \<Rightarrow> Some t | Some (CData t) \<Rightarrow> Some t | _ \<Rightarrow> None)"

definition is_ascii_whitespace :: "char \<Rightarrow> bool" where
  "is_ascii_whitespace c = (c \<in> set [CHR 0x20, CHR 0x09, CHR 0x0A, CHR 0x0C, CHR 0x0D])"

definition write_attribute :: "attribute \<Rightarrow> string" where
  "write_attribute a = '' '' @ qn_local_name (at_name a) @ ''='' @ [CHR 0x22] @ xml_escape_attr (at_value a) @ [CHR 0x22]"

definition write_ns_declaration :: "string \<times> string \<Rightarrow> string" where
  "write_ns_declaration = (\<lambda>(pre, uri).
     '' xmlns'' @ (if pre \<noteq> [] then '':'' @ pre else []) @ ''='' @ [CHR 0x22] @ xml_escape_attr uri @ [CHR 0x22])"

definition wrap_element :: "string \<Rightarrow> string \<Rightarrow> string option \<Rightarrow> string option" where
  "wrap_element local_name attrs body =
     map_option (\<lambda>b. ''<'' @ local_name @ attrs @ ''>'' @ b @ ''</'' @ local_name @ ''>'') body"

text \<open>
  One child of a template body. \<open>body\<close> runs the children of an element of the stylesheet on the same
  context node, \<open>apply\<close> applies the templates to a node of the input.
\<close>

definition xslt_instruction ::
  "xslt_env \<Rightarrow> (node_id \<Rightarrow> string option) \<Rightarrow> (node_id \<Rightarrow> string option) \<Rightarrow> node_id \<Rightarrow> node_id \<Rightarrow> string option" where
  "xslt_instruction E body apply context_node child =
     (case text_content (xe_tmpl_doc E) child of
        Some t \<Rightarrow> Some (if trim t \<noteq> [] then xml_escape_text t else [])
      | None \<Rightarrow>
      (case doc_element (xe_tmpl_doc E) child of
        None \<Rightarrow> Some []
      | Some elem \<Rightarrow>
          let child_ns = qn_namespace_uri (el_name elem);
              name = elem_local elem;
              attribute = doc_get_attribute (xe_tmpl_doc E) elem;
              children = doc_children (xe_input_doc E) context_node
          in
          if child_ns = Some XSL_NS then
            if name = ''apply-templates'' then
              (case attribute ''select'' of
                 Some sel \<Rightarrow>
                   concat_opt (map apply (filter (\<lambda>c. is_element (xe_input_doc E) c \<and>
                     xslt_node_matches_select c sel (xe_input_doc E)) children))
               | None \<Rightarrow> concat_opt (map apply children))
            else if name = ''value-of'' then
              Some (case attribute ''select'' of
                 Some sel \<Rightarrow> xml_escape_text (xslt_eval_value_of context_node sel (xe_input_doc E))
               | None \<Rightarrow> [])
            else if name = ''copy'' then
              (case doc_element (xe_input_doc E) context_node of
                 Some ctx_elem \<Rightarrow>
                   wrap_element (elem_local ctx_elem)
                     (concat (map write_ns_declaration (el_namespace_declarations ctx_elem)) @
                      concat (map write_attribute (el_attributes ctx_elem))) (body child)
               | None \<Rightarrow>
                   Some (case text_content (xe_input_doc E) context_node of Some t \<Rightarrow> xml_escape_text t | None \<Rightarrow> []))
            else Some []
          else
            wrap_element name
              ((case xe_default_ns E of
                  Some dns \<Rightarrow>
                    if child_ns = None \<or> child_ns = Some dns then
                      '' xmlns='' @ [CHR 0x22] @ xml_escape_attr dns @ [CHR 0x22]
                    else []
                | None \<Rightarrow> []) @
               concat (map write_attribute (el_attributes elem))) (body child)))"

fun xslt_execute_body ::
  "nat \<Rightarrow> xslt_env \<Rightarrow> (node_id \<Rightarrow> string option) \<Rightarrow> node_id \<Rightarrow> node_id \<Rightarrow> string option" where
  "xslt_execute_body 0 E apply context_node body = None"
| "xslt_execute_body (Suc k) E apply context_node body =
     concat_opt (map (xslt_instruction E (xslt_execute_body k E apply context_node) apply context_node)
       (doc_children (xe_tmpl_doc E) body))"

definition xslt_default :: "xslt_env \<Rightarrow> (node_id \<Rightarrow> string option) \<Rightarrow> node_id \<Rightarrow> string option" where
  "xslt_default E apply n =
     (case text_content (xe_input_doc E) n of
        Some t \<Rightarrow>
          let parent_name = unwrap_or [] (local_name_of (xe_input_doc E) (doc_parent (xe_input_doc E) n)) in
          Some (if parent_name \<in> set (xe_strip_set E) \<and> list_all is_ascii_whitespace t then [] else xml_escape_text t)
      | None \<Rightarrow>
          if is_element (xe_input_doc E) n then concat_opt (map apply (doc_children (xe_input_doc E) n)) else Some [])"

fun xslt_apply_templates_to_node :: "nat \<Rightarrow> xslt_env \<Rightarrow> node_id \<Rightarrow> string option" where
  "xslt_apply_templates_to_node 0 E n = None"
| "xslt_apply_templates_to_node (Suc k) E n =
     (case find_matching_template n (xe_templates E) (xe_tmpl_doc E) (xe_input_doc E) of
        Some tmpl \<Rightarrow>
          xslt_execute_body (doc_bound (xe_tmpl_doc E)) E (xslt_apply_templates_to_node k E) n tmpl
      | None \<Rightarrow> xslt_default E (xslt_apply_templates_to_node k E) n)"

definition stylesheet_env :: "document \<Rightarrow> node_id \<Rightarrow> node_id list \<Rightarrow> document \<Rightarrow> xslt_env" where
  "stylesheet_env outer_doc stylesheet templates input_doc =
     \<lparr>xe_templates = templates, xe_tmpl_doc = outer_doc, xe_input_doc = input_doc,
      xe_default_ns = (case doc_element outer_doc stylesheet of
         Some e \<Rightarrow> map_of (el_namespace_declarations e) [] | None \<Rightarrow> None),
      xe_strip_set = concat (map split_whitespace
        (List.map_filter (\<lambda>n. node_attribute outer_doc n ''elements'')
          (filter (is_xsl outer_doc ''strip-space'') (doc_children outer_doc stylesheet))))\<rparr>"

definition apply_minimal_xslt ::
  "xml_parser \<Rightarrow> transform_data \<Rightarrow> node_id \<Rightarrow> node_id list \<Rightarrow> document \<Rightarrow> transform_data result outcome" where
  "apply_minimal_xslt parse data stylesheet templates outer_doc =
     out_then (Returns (utf8_text ''XSLT input not UTF-8: '' data)) (\<lambda>xml_text.
     out_then (Returns (map_err (\<lambda>e. Error_Transform (''XSLT input XML parse: '' @ e)) (parse xml_text))) (\<lambda>input_doc.
     case doc_document_element input_doc of
       None \<Rightarrow> Panics
     | Some root \<Rightarrow>
         (case xslt_apply_templates_to_node (doc_bound input_doc)
             (stylesheet_env outer_doc stylesheet templates input_doc) root of
            None \<Rightarrow> Panics
          | Some out \<Rightarrow> Returns (Inr (Binary out)))))"

definition is_identity_template :: "document \<Rightarrow> node_id \<Rightarrow> bool" where
  "is_identity_template d tmpl =
     (let match_attr = unwrap_or [] (node_attribute d tmpl ''match'') in
      (match_attr = ''@*|node()'' \<or> match_attr = ''node()|@*'') \<and>
      list_ex (is_xsl d ''copy'') (doc_children d tmpl))"

definition apply_xslt_transform ::
  "xml_parser \<Rightarrow> transform_data \<Rightarrow> node_id \<Rightarrow> document \<Rightarrow> transform_data result outcome" where
  "apply_xslt_transform parse data transform_node outer_doc =
     out_then (Returns (ok_or (Error_MissingElement ''xsl:stylesheet in XSLT transform'')
       (find (is_xsl outer_doc ''stylesheet'') (doc_children outer_doc transform_node)))) (\<lambda>stylesheet.
     let templates = filter (is_xsl outer_doc ''template'') (doc_children outer_doc stylesheet) in
     case templates of
       [tmpl] \<Rightarrow>
         if is_identity_template outer_doc tmpl then Returns (Inr data)
         else apply_minimal_xslt parse data stylesheet templates outer_doc
     | _ \<Rightarrow> apply_minimal_xslt parse data stylesheet templates outer_doc)"

section \<open>Lemmas\<close>

lemma xslt_instruction_total:
  assumes "\<And>c. c \<in> set (doc_children (xe_input_doc E) n) \<Longrightarrow> apply c \<noteq> None" "body child \<noteq> None"
  shows "xslt_instruction E body apply n child \<noteq> None"
proof -
  have "concat_opt (map apply (filter p (doc_children (xe_input_doc E) n))) \<noteq> None" for p
    by (rule concat_opt_map_total) (use assms(1) in auto)
  from this this [of "\<lambda>_. True"] show ?thesis
    using assms(2) by (auto simp: xslt_instruction_def wrap_element_def Let_def split: option.splits)
qed

lemma xslt_body_total:
  assumes "wf_doc (xe_tmpl_doc E)" "\<And>c. c \<in> set (doc_children (xe_input_doc E) n) \<Longrightarrow> apply c \<noteq> None"
  shows "xslt_execute_body (doc_bound (xe_tmpl_doc E)) E apply n body \<noteq> None"
proof -
  from wf_doc_budget [OF assms(1)] obtain h where h: "depth_budget (xe_tmpl_doc E) h" .
  have "h body \<le> k \<Longrightarrow> xslt_execute_body k E apply n body \<noteq> None" for k
  proof (induction k arbitrary: body)
    case 0
    then show ?case using h by (simp add: depth_budget_def) (metis less_numeral_extra(3))
  next
    case (Suc k)
    have "xslt_instruction E (xslt_execute_body k E apply n) apply n c \<noteq> None"
      if "c \<in> set (doc_children (xe_tmpl_doc E) body)" for c
    proof (rule xslt_instruction_total [OF assms(2)])
      have "h c < h body" using h that by (simp add: depth_budget_def)
      with Suc show "xslt_execute_body k E apply n c \<noteq> None" by simp
    qed
    then have "concat_opt (map (xslt_instruction E (xslt_execute_body k E apply n) apply n)
      (doc_children (xe_tmpl_doc E) body)) \<noteq> None" by (rule concat_opt_map_total)
    then show ?case by simp
  qed
  then show ?thesis using h by (simp add: depth_budget_def)
qed

lemma xslt_default_total:
  "(\<And>c. c \<in> set (doc_children (xe_input_doc E) n) \<Longrightarrow> apply c \<noteq> None) \<Longrightarrow> xslt_default E apply n \<noteq> None"
  using concat_opt_map_total [of "doc_children (xe_input_doc E) n" "apply"]
  by (auto simp: xslt_default_def Let_def split: option.splits)

lemma xslt_escape_eq: "xml_escape_text = escape_text" "xml_escape_attr = escape_attr"
  by (auto simp: fun_eq_iff xml_escape_text_def xml_escape_attr_def escape_text_def escape_attr_def
      escape_text_char_def escape_attr_char_def intro!: arg_cong [of _ _ concat])

section \<open>Properties\<close>

text \<open>
  C25: The XSLT processor ends: every template application goes down in the input, every nested body
  goes down in the stylesheet, so on well-formed documents an output is produced within the bounds
  used, whatever templates there are, recursive ones included.
\<close>

theorem xslt_terminates:
  assumes "wf_doc (xe_tmpl_doc E)" "wf_doc (xe_input_doc E)"
  shows "\<exists>out. xslt_apply_templates_to_node (doc_bound (xe_input_doc E)) E n = Some out"
proof -
  from wf_doc_budget [OF assms(2)] obtain h where h: "depth_budget (xe_input_doc E) h" .
  have "h n \<le> k \<Longrightarrow> xslt_apply_templates_to_node k E n \<noteq> None" for k
  proof (induction k arbitrary: n)
    case 0
    then show ?case using h by (simp add: depth_budget_def) (metis less_numeral_extra(3))
  next
    case (Suc k)
    have children: "xslt_apply_templates_to_node k E c \<noteq> None" if "c \<in> set (doc_children (xe_input_doc E) n)" for c
    proof -
      have "h c < h n" using h that by (simp add: depth_budget_def)
      with Suc show ?thesis by simp
    qed
    show ?case
      using xslt_body_total [OF assms(1) children, of n] xslt_default_total [OF children]
      by (auto split: option.splits)
  qed
  then show ?thesis using h by (simp add: depth_budget_def)
qed

theorem xslt_terminates_witness:
  "\<exists>out. xslt_apply_templates_to_node (doc_bound (arena_doc sample_arena))
     (stylesheet_env (arena_doc sample_arena) 0 [] (arena_doc sample_arena)) 1 = Some out"
  using xslt_terminates [of "stylesheet_env (arena_doc sample_arena) 0 [] (arena_doc sample_arena)" 1]
    arena_wf [OF sample_arena_ok] by (simp add: stylesheet_env_def)

end
