(* ===== verification/Dsig_Reference.thy ===== *)
theory Dsig_Reference
  imports Dsig_Keys Dsig_XPath_Laws Dsig_Xslt
begin

text \<open>
  References of a signature (\<open>verify.rs\<close>): resolving the URI, applying the transforms, comparing the
  digest.
\<close>

section \<open>Reference URIs\<close>

text \<open>Creation and verification look up external URIs in the same way, with different messages.\<close>

datatype resolved_uri =
    Resolved_Xml string "node_set option" "node_id option"
  | Resolved_Binary bytes

definition resolve_external_uri ::
  "file_system \<Rightarrow> string \<Rightarrow> string \<Rightarrow> (string \<times> string) list \<Rightarrow> string option \<Rightarrow> resolved_uri result" where
  "resolve_external_uri F msg uri url_maps base_dir =
     (case find (\<lambda>(map_url, _). uri = map_url \<or> starts_with uri map_url) url_maps of
        Some (_, file_path) \<Rightarrow>
          map_sum (\<lambda>e. Error_Other (''url-map '' @ file_path @ '': '' @ e)) Resolved_Binary (fs_read F file_path)
      | None \<Rightarrow>
          if contains_str uri ''://'' then
            Inl (Error_InvalidUri (msg @ uri))
          else
            let candidates = (case base_dir of None \<Rightarrow> [] | Some base \<Rightarrow> [fs_join F base uri]) @ [uri] in
            case find (fs_exists F) candidates of
              Some path \<Rightarrow>
                map_sum (\<lambda>e. Error_Other (path @ '': '' @ e)) Resolved_Binary (fs_read F path)
            | None \<Rightarrow> Inl (Error_InvalidUri (msg @ uri)))"

definition resolve_reference_uri ::
  "file_system \<Rightarrow> string \<Rightarrow> document \<Rightarrow> id_map \<Rightarrow> string \<Rightarrow> (string \<times> string) list \<Rightarrow> string option \<Rightarrow>
   resolved_uri result" where
  "resolve_reference_uri F uri d ids xml url_maps base_dir =
     (if uri = [] then Inr (Resolved_Xml xml (Some (all_without_comments d)) None)
      else case parse_same_document_ref uri of
        Some fragment \<Rightarrow>
          if fragment = ''xpointer(/)'' then Inr (Resolved_Xml xml None None)
          else
            let is_xpointer = (parse_xpointer_id fragment \<noteq> None);
                ident = unwrap_or fragment (parse_xpointer_id fragment)
            in and_then (resolve_id d ids ident) (\<lambda>n.
                 Inr (Resolved_Xml xml
                   (Some (if is_xpointer then tree_with_comments n d else tree_without_comments n d)) (Some n)))
      | None \<Rightarrow> resolve_external_uri F ''external URI not supported: '' uri url_maps base_dir)"

section \<open>Transforms\<close>

definition default_id_attrs :: "string list" where
  "default_id_attrs = [''Id'', ''ID'', ''id'', ''AssertionID'']"

definition apply_xpointer_transform ::
  "xml_parser \<Rightarrow> transform_data \<Rightarrow> node_id \<Rightarrow> document \<Rightarrow> transform_data result" where
  "apply_xpointer_transform parse data transform_node outer_doc =
     and_then (ok_or (Error_MissingElement ''XPointer expression element'')
       (find_child outer_doc transform_node (\<lambda>e. elem_local e = ''XPointer''))) (\<lambda>xpointer_node.
     let xpointer_expr = trimmed_text outer_doc xpointer_node in
     and_then (ok_or (Error_UnsupportedAlgorithm (''XPointer expression not supported: '' @ xpointer_expr))
       (parse_xpointer_id xpointer_expr)) (\<lambda>ident.
     case data of
       Xml xml_text node_set \<Rightarrow>
         and_then (map_err Error_XmlParse (parse xml_text)) (\<lambda>inner_doc.
         and_then (build_id_map inner_doc default_id_attrs) (\<lambda>ids.
         and_then (resolve_id inner_doc ids ident) (\<lambda>target.
         let subtree_ns = tree_with_comments target inner_doc;
             final_ns = (case node_set of Some existing \<Rightarrow> ns_intersection existing subtree_ns | None \<Rightarrow> subtree_ns)
         in Inr (Xml xml_text (Some final_ns)))))
     | Binary b \<Rightarrow> Inr (Binary b)))"

definition apply_transform ::
  "'v dsig_lib \<Rightarrow> string \<Rightarrow> transform_data \<Rightarrow> node_id \<Rightarrow> node_id \<Rightarrow> document \<Rightarrow>
   transform_data result outcome" where
  "apply_transform L uri data transform_node sig_node d =
     (if uri = alg_ENVELOPED_SIGNATURE then
        Returns (EnvelopedSignatureTransform_execute (dl_parse L) sig_node data)
      else if uri \<in> {alg_C14N, alg_C14N_WITH_COMMENTS, alg_C14N11, alg_C14N11_WITH_COMMENTS, alg_EXC_C14N,
          alg_EXC_C14N_WITH_COMMENTS} then
        Returns (and_then (ok_or (Error_UnsupportedAlgorithm (''C14N: '' @ uri)) (C14nMode_from_uri uri))
          (\<lambda>mode. C14nTransform_execute (dl_parse L) mode (read_inclusive_prefixes d transform_node) data))
      else if uri = alg_BASE64 then Returns (Base64DecodeTransform_execute (dl_parse L) (dl_base64 L) data)
      else if uri = alg_XPATH then apply_xpath_transform (dl_parse L) data transform_node sig_node d
      else if uri = alg_XPOINTER then Returns (apply_xpointer_transform (dl_parse L) data transform_node d)
      else if uri = alg_XPATH2 then apply_xpath_filter2_transform (dl_parse L) data transform_node d
      else if uri = alg_RELATIONSHIP then apply_relationship_transform (dl_parse L) (dl_writer L) data transform_node d
      else if uri = alg_XSLT then apply_xslt_transform (dl_parse L) data transform_node d
      else Returns (Inl (Error_UnsupportedAlgorithm (''transform: '' @ uri))))"

text \<open>The loop over the children of \<open>Transforms\<close>; children that are no \<open>Transform\<close> elements are skipped.\<close>

fun apply_transforms ::
  "'v dsig_lib \<Rightarrow> node_id \<Rightarrow> document \<Rightarrow> node_id list \<Rightarrow> transform_data \<Rightarrow>
   transform_data result outcome" where
  "apply_transforms L sig_node d [] data = Returns (Inr data)"
| "apply_transforms L sig_node d (t # ts) data =
     (case doc_element d t of
        Some e \<Rightarrow>
          if elem_local e = node_TRANSFORM then
            out_then (apply_transform L (unwrap_or [] (doc_get_attribute d e attr_ALGORITHM)) data t sig_node d)
              (apply_transforms L sig_node d ts)
          else apply_transforms L sig_node d ts data
      | None \<Rightarrow> apply_transforms L sig_node d ts data)"

section \<open>One reference\<close>

record verified_reference =
  vr_uri :: string
  vr_resolved_node :: "node_id option"
  vr_digest_verified :: bool

text \<open>The octets that are digested: resolve, transform, convert to binary.\<close>

definition initial_data :: "resolved_uri \<Rightarrow> transform_data \<times> node_id option" where
  "initial_data r =
     (case r of
        Resolved_Xml xml_text node_set n \<Rightarrow> (Xml xml_text node_set, n)
      | Resolved_Binary b \<Rightarrow> (Binary b, None))"

definition reference_octets ::
  "'v dsig_lib \<Rightarrow> node_id \<Rightarrow> document \<Rightarrow> node_id \<Rightarrow> transform_data \<Rightarrow> bytes result outcome" where
  "reference_octets L reference d sig_node data =
     out_then
       (case find_child_element d reference ns_DSIG node_TRANSFORMS of
          Some transforms \<Rightarrow> apply_transforms L sig_node d (doc_children d transforms) data
        | None \<Rightarrow> Returns (Inr data))
       (\<lambda>data. Returns (to_binary (dl_parse L) data))"

definition digest_parameters :: "'v dsig_lib \<Rightarrow> document \<Rightarrow> node_id \<Rightarrow> (string \<times> bytes) result" where
  "digest_parameters L d reference =
     and_then (ok_or (Error_MissingElement ''DigestMethod'')
       (find_child_element d reference ns_DSIG node_DIGEST_METHOD)) (\<lambda>digest_method_node.
     and_then (ok_or (Error_MissingAttribute ''Algorithm on DigestMethod'')
       (node_attribute d digest_method_node attr_ALGORITHM)) (\<lambda>digest_uri.
     and_then (ok_or (Error_MissingElement ''DigestValue'')
       (find_child_element d reference ns_DSIG node_DIGEST_VALUE)) (\<lambda>digest_value_node.
     and_then (map_err (\<lambda>e. Error_Base64 (''DigestValue: '' @ e))
       (dl_base64 L (remove_ws (trimmed_text d digest_value_node)))) (\<lambda>expected_digest.
     Inr (digest_uri, expected_digest)))))"

definition verify_reference ::
  "'v dsig_lib \<Rightarrow> node_id \<Rightarrow> document \<Rightarrow> id_map \<Rightarrow> string \<Rightarrow> node_id \<Rightarrow>
   (string \<times> string) list \<Rightarrow> string option \<Rightarrow> (string option \<times> verified_reference) result outcome" where
  "verify_reference L reference d ids xml sig_node url_maps base_dir =
     (let uri = unwrap_or [] (node_attribute d reference attr_URI) in
      if starts_with uri ''cid:'' then
        Returns (Inr (None, \<lparr>vr_uri = uri, vr_resolved_node = None, vr_digest_verified = False\<rparr>))
      else
        out_then (Returns (digest_parameters L d reference)) (\<lambda>(digest_uri, expected_digest).
        out_then (Returns (resolve_reference_uri (dl_fs L) uri d ids xml url_maps base_dir)) (\<lambda>resolved.
        let (data, resolved_node) = initial_data resolved;
            vref = \<lparr>vr_uri = uri, vr_resolved_node = resolved_node, vr_digest_verified = True\<rparr>
        in
        out_then (reference_octets L reference d sig_node data) (\<lambda>octets.
        out_then (Returns (digest (dl_legacy L) (dl_crypto L) digest_uri octets)) (\<lambda>computed.
        if computed = expected_digest then Returns (Inr (None, vref))
        else Returns (Inr (Some (''URI='' @ uri @ '': expected digest does not match computed digest''), vref)))))))"

section \<open>Lemmas\<close>

lemma xpointer_narrows:
  "apply_xpointer_transform parse (Xml t (Some ns)) tn d = Inr out \<Longrightarrow> set_type ns = Normal \<Longrightarrow>
   \<exists>ns'. out = Xml t (Some ns') \<and> narrower ns' ns"
  by (auto simp: apply_xpointer_transform_def Let_def res_simps intro: narrower_intersection)

lemma minimal_xslt_binary: "apply_minimal_xslt parse data st ts d = Returns (Inr out) \<Longrightarrow> \<exists>b. out = Binary b"
  unfolding apply_minimal_xslt_def out_then_Inr_iff by (auto split: option.split_asm)

lemma xslt_xml_output:
  assumes "apply_xslt_transform parse data tn d = Returns (Inr (Xml t ns))"
  shows "data = Xml t ns"
proof -
  obtain stylesheet where "(case filter (is_xsl d ''template'') (doc_children d stylesheet) of
      [tmpl] \<Rightarrow>
        if is_identity_template d tmpl then Returns (Inr data)
        else apply_minimal_xslt parse data stylesheet (filter (is_xsl d ''template'') (doc_children d stylesheet)) d
    | _ \<Rightarrow> apply_minimal_xslt parse data stylesheet (filter (is_xsl d ''template'') (doc_children d stylesheet)) d) =
      Returns (Inr (Xml t ns))"
    using assms unfolding apply_xslt_transform_def out_then_Inr_iff Let_def by blast
  then show ?thesis
    by (auto dest: minimal_xslt_binary split: list.split_asm if_split_asm)
qed

lemma transform_narrows_set:
  assumes "apply_transform L uri (Xml t (Some ns)) tn sn d = Returns (Inr (Xml t' ns'))" "set_type ns = Normal"
  shows "t' = t \<and> (\<exists>ns''. ns' = Some ns'' \<and> narrower ns'' ns)"
proof -
  have c14n: "C14nTransform_execute p m ps data \<noteq> Inr (Xml t' ns')" for p m ps data
    by (auto simp: C14nTransform_execute_def res_simps split: transform_data.splits if_splits)
  have b64: "Base64DecodeTransform_execute p b data \<noteq> Inr (Xml t' ns')" for p b data
    by (auto simp: Base64DecodeTransform_execute_def res_simps)
  have rel: "apply_relationship_transform p w data tn d \<noteq> Returns (Inr (Xml t' ns'))" for p w data
    by (auto simp: apply_relationship_transform_def Let_def res_simps split: option.splits)
  have self: "narrower ns ns" using assms(2) by (simp add: narrower_def)
  from assms c14n b64 rel show ?thesis
    by (auto simp: apply_transform_def res_simps split: if_splits
        dest!: enveloped_narrows xpath_narrows xpointer_narrows filter2_narrows xslt_xml_output intro: self)
qed

text \<open>
  What it means that a reference was checked: the digest of the octets it stands for is the declared
  one, and the recorded target is the node its URI resolves to.
\<close>

definition reference_holds ::
  "'v dsig_lib \<Rightarrow> document \<Rightarrow> id_map \<Rightarrow> string \<Rightarrow> node_id \<Rightarrow> (string \<times> string) list \<Rightarrow>
   string option \<Rightarrow> node_id \<Rightarrow> verified_reference \<Rightarrow> bool" where
  "reference_holds L d ids xml sig_node url_maps base_dir reference v \<longleftrightarrow>
     vr_uri v = unwrap_or [] (node_attribute d reference attr_URI) \<and>
     (\<exists>digest_uri expected resolved data octets.
        digest_parameters L d reference = Inr (digest_uri, expected) \<and>
        resolve_reference_uri (dl_fs L) (vr_uri v) d ids xml url_maps base_dir = Inr resolved \<and>
        initial_data resolved = (data, vr_resolved_node v) \<and>
        reference_octets L reference d sig_node data = Returns (Inr octets) \<and>
        digest (dl_legacy L) (dl_crypto L) digest_uri octets = Inr expected)"

lemma verify_reference_holds:
  assumes "verify_reference L reference d ids xml sig_node url_maps base_dir = Returns (Inr (None, v))"
  shows "vr_uri v = unwrap_or [] (node_attribute d reference attr_URI) \<and>
    (if starts_with (vr_uri v) ''cid:'' then \<not> vr_digest_verified v \<and> vr_resolved_node v = None
     else vr_digest_verified v \<and> reference_holds L d ids xml sig_node url_maps base_dir reference v)"
proof (cases "starts_with (unwrap_or [] (node_attribute d reference attr_URI)) ''cid:''")
  case True
  then show ?thesis using assms by (auto simp: verify_reference_def)
next
  case False
  then obtain digest_uri expected resolved octets where
    "digest_parameters L d reference = Inr (digest_uri, expected)"
    "resolve_reference_uri (dl_fs L) (unwrap_or [] (node_attribute d reference attr_URI)) d ids xml url_maps base_dir =
      Inr resolved"
    "reference_octets L reference d sig_node (fst (initial_data resolved)) = Returns (Inr octets)"
    "digest (dl_legacy L) (dl_crypto L) digest_uri octets = Inr expected"
    "v = \<lparr>vr_uri = unwrap_or [] (node_attribute d reference attr_URI), vr_resolved_node = snd (initial_data resolved),
      vr_digest_verified = True\<rparr>"
    using assms
    by (auto simp: verify_reference_def Let_def res_simps case_prod_beta split: if_splits)
  moreover have "initial_data resolved = (fst (initial_data resolved), snd (initial_data resolved))" by simp
  ultimately have "reference_holds L d ids xml sig_node url_maps base_dir reference v"
    unfolding reference_holds_def by (intro conjI exI) simp_all
  with False \<open>v = _\<close> show ?thesis by simp
qed

end
