(* ===== verification/Dsig_Verify.thy ===== *)
theory Dsig_Verify
  imports Dsig_Reference
begin

text \<open>
  \<open>verify\<close> of \<open>verify.rs\<close>, step by step in the order of the source, and what a \<open>Valid\<close> verdict means. The
  debug output is not modelled.
\<close>

record verified_key_info =
  vk_algorithm :: string
  vk_key_name :: "string option"
  vk_x509_chain :: "bytes list"

datatype verify_result =
    Valid node_id "verified_reference list" verified_key_info
  | Invalid string

fun is_valid :: "verify_result \<Rightarrow> bool" where
  "is_valid (Valid _ _ _) = True"
| "is_valid (Invalid _) = False"

type_synonym 'a vflow = "(error, verify_result, 'a) flow"

section \<open>Reading the signature\<close>

record signature_parts =
  sp_sig_node :: node_id
  sp_signed_info :: node_id
  sp_c14n_method_node :: node_id
  sp_c14n_mode :: c14n_mode
  sp_sig_method_node :: node_id
  sp_sig_method_uri :: string

definition read_signature :: "document \<Rightarrow> signature_parts result" where
  "read_signature d =
     and_then (ok_or (Error_MissingElement ''Signature'') (find_element d ns_DSIG node_SIGNATURE)) (\<lambda>sig_node.
     and_then (ok_or (Error_MissingElement ''SignedInfo'')
       (find_child_element d sig_node ns_DSIG node_SIGNED_INFO)) (\<lambda>signed_info.
     and_then (ok_or (Error_MissingElement ''CanonicalizationMethod'')
       (find_child_element d signed_info ns_DSIG node_CANONICALIZATION_METHOD)) (\<lambda>c14n_method_node.
     and_then (ok_or (Error_MissingAttribute ''Algorithm on CanonicalizationMethod'')
       (node_attribute d c14n_method_node attr_ALGORITHM)) (\<lambda>c14n_uri.
     and_then (ok_or (Error_UnsupportedAlgorithm (''C14N: '' @ c14n_uri)) (C14nMode_from_uri c14n_uri)) (\<lambda>c14n_mode.
     and_then (ok_or (Error_MissingElement ''SignatureMethod'')
       (find_child_element d signed_info ns_DSIG node_SIGNATURE_METHOD)) (\<lambda>sig_method_node.
     and_then (ok_or (Error_MissingAttribute ''Algorithm on SignatureMethod'')
       (node_attribute d sig_method_node attr_ALGORITHM)) (\<lambda>sig_method_uri.
     Inr \<lparr>sp_sig_node = sig_node, sp_signed_info = signed_info, sp_c14n_method_node = c14n_method_node,
          sp_c14n_mode = c14n_mode, sp_sig_method_node = sig_method_node, sp_sig_method_uri = sig_method_uri\<rparr>)))))))"

definition hmac_output_length :: "'v dsig_context \<Rightarrow> document \<Rightarrow> signature_parts \<Rightarrow> nat option vflow" where
  "hmac_output_length ctx d sp =
     (if is_hmac_algorithm (sp_sig_method_uri sp) then
        (case find_child_element d (sp_sig_method_node sp) ns_DSIG node_HMAC_OUTPUT_LENGTH of
           Some len_node \<Rightarrow>
             flow_bind (flow_of_result (ok_or (Error_XmlStructure ''invalid HMACOutputLength value'')
               (parse_usize (trimmed_text d len_node)))) (\<lambda>bits.
             if bits mod 8 \<noteq> 0 then Leave (Invalid ''HMACOutputLength must be a multiple of 8'')
             else if 0 < cx_hmac_min_out_len ctx \<and> bits < cx_hmac_min_out_len ctx then
               Leave (Invalid (''HMACOutputLength '' @ show_nat bits @ '' bits is below minimum '' @
                 show_nat (cx_hmac_min_out_len ctx) @ '' bits (CVE-2009-0217)''))
             else Continue (Some bits))
         | None \<Rightarrow> Continue None)
      else Continue None)"

definition pq_context :: "'v dsig_lib \<Rightarrow> document \<Rightarrow> signature_parts \<Rightarrow> bytes option result" where
  "pq_context L d sp =
     (if is_pq_algorithm (sp_sig_method_uri sp) then
        (case or_else (find_child_element d (sp_sig_method_node sp) ns_XMLSEC_PQ node_MLDSA_CONTEXT_STRING)
                (find_child_element d (sp_sig_method_node sp) ns_XMLSEC_PQ node_SLHDSA_CONTEXT_STRING) of
           Some cn \<Rightarrow>
             (let b64 = trimmed_text d cn in
              if b64 = [] then Inr None
              else and_then (map_err (\<lambda>e. Error_Base64 (''PQ context string: '' @ e)) (dl_base64 L b64))
                     (\<lambda>decoded. Inr (Some decoded)))
         | None \<Rightarrow> Inr None)
      else Inr None)"

section \<open>References\<close>

fun verify_references ::
  "'v dsig_lib \<Rightarrow> 'v dsig_context \<Rightarrow> document \<Rightarrow> id_map \<Rightarrow> string \<Rightarrow> node_id \<Rightarrow>
   node_id list \<Rightarrow> verified_reference list \<Rightarrow> verified_reference list vflow" where
  "verify_references L ctx d ids xml sig_node [] verified_refs = Continue verified_refs"
| "verify_references L ctx d ids xml sig_node (r # rs) verified_refs =
     flow_bind (flow_of_outcome (verify_reference L r d ids xml sig_node (cx_url_maps ctx) (cx_base_dir ctx)))
       (\<lambda>(mismatch, vref). case mismatch of
          Some reason \<Rightarrow> Leave (Invalid (''Reference digest failed: '' @ reason))
        | None \<Rightarrow> verify_references L ctx d ids xml sig_node rs (verified_refs @ [vref]))"

definition check_positions :: "'v dsig_context \<Rightarrow> document \<Rightarrow> node_id \<Rightarrow> verified_reference list \<Rightarrow> unit result" where
  "check_positions ctx d sig_node verified_refs =
     (if cx_strict_verification ctx then
        try_fold (\<lambda>_ vref. case vr_resolved_node vref of
                    Some target \<Rightarrow> validate_reference_position d sig_node target
                  | None \<Rightarrow> Inr ()) () verified_refs
      else Inr ())"

section \<open>The signed octets and the signature value\<close>

definition canonical_signed_info :: "document \<Rightarrow> signature_parts \<Rightarrow> bytes result" where
  "canonical_signed_info d sp =
     canonicalize_doc d (sp_c14n_mode sp) (Some (tree_without_comments (sp_signed_info sp) d))
       (read_inclusive_prefixes d (sp_c14n_method_node sp))"

definition read_signature_value :: "'v dsig_lib \<Rightarrow> document \<Rightarrow> signature_parts \<Rightarrow> bytes result" where
  "read_signature_value L d sp =
     and_then (ok_or (Error_MissingElement ''SignatureValue'')
       (find_child_element d (sp_sig_node sp) ns_DSIG node_SIGNATURE_VALUE))
       (\<lambda>n. map_err (\<lambda>e. Error_Base64 (''SignatureValue: '' @ e)) (dl_base64 L (remove_ws (trimmed_text d n))))"

definition check_hmac_length :: "nat option \<Rightarrow> bytes \<Rightarrow> unit vflow" where
  "check_hmac_length hmac_bits sig_value =
     (case hmac_bits of
        None \<Rightarrow> Continue ()
      | Some bits \<Rightarrow>
          if length sig_value \<noteq> bits div 8 then
            Leave (Invalid (''SignatureValue length '' @ show_nat (length sig_value) @
              '' bytes does not match HMACOutputLength '' @ show_nat bits @ '' bits ('' @ show_nat (bits div 8) @ '' bytes)''))
          else Continue ())"

section \<open>Deciding with an HSM\<close>

definition verify_with_hsm ::
  "'v dsig_lib \<Rightarrow> hsm_verifier \<Rightarrow> signature_parts \<Rightarrow> verified_reference list \<Rightarrow> bytes \<Rightarrow> bytes \<Rightarrow> verify_result vflow" where
  "verify_with_hsm L h sp verified_refs c14n_signed_info sig_value =
     (let verifier_uri = kryptering_algorithm_uri (dl_legacy L) (hv_algorithm h) in
      if verifier_uri \<noteq> Some (sp_sig_method_uri sp) then
        Leave (Invalid (''SignatureMethod '' @ sp_sig_method_uri sp @ '' does not match HSM verifier algorithm '' @
          dl_show_alg L (hv_algorithm h) @ '' (URI '' @ unwrap_or ''<unmapped>'' verifier_uri @ '')''))
      else
        flow_bind (flow_of_result (map_err map_kryptering_err (hv_verify h c14n_signed_info sig_value)))
          (\<lambda>valid.
             if valid then
               Leave (Valid (sp_sig_node sp) verified_refs
                 \<lparr>vk_algorithm = dl_show_alg L (hv_algorithm h), vk_key_name = None, vk_x509_chain = []\<rparr>)
             else Leave (Invalid ''signature value verification failed (HSM)'')))"

section \<open>Deciding with a key\<close>

datatype key_origin = Origin_Manager | Origin_X509 | Origin_Inline

definition inline_key ::
  "'v dsig_lib \<Rightarrow> 'v dsig_context \<Rightarrow> document \<Rightarrow> id_map \<Rightarrow> node_id \<Rightarrow> 'v key option outcome" where
  "inline_key L ctx d ids effective_ki =
     out_bind (extract_key_value (dl_keys L) d effective_ki) (\<lambda>r.
       Returns (or_else r
               (or_else (ok (try_unwrap_encrypted_key L d effective_ki (cx_keys_manager ctx)))
               (or_else (try_resolve_retrieval_method L d effective_ki (cx_base_dir ctx) (cx_url_maps ctx))
                 (try_resolve_retrieval_method_inline L d effective_ki ids)))))"

text \<open>
  The key and where it came from: \<open>key_from_manager\<close>, \<open>key_from_x509\<close> or neither. In trusted mode an
  error of \<open>resolve_key_info\<close> falls back to the first key of the store.
\<close>

definition select_key ::
  "'v dsig_lib \<Rightarrow> 'v dsig_context \<Rightarrow> document \<Rightarrow> id_map \<Rightarrow> node_id \<Rightarrow> ('v key \<times> key_origin) result outcome" where
  "select_key L ctx d ids sig_node =
     (let key_info_node = find_child_element d sig_node ns_DSIG node_KEY_INFO;
          manager = cx_keys_manager ctx
      in
      if cx_trusted_keys_only ctx then
        out_then
          (case key_info_node of
             Some ki \<Rightarrow>
               out_bind (resolve_key_info (dl_keys L) d (unwrap_or ki (resolve_key_info_reference d ki ids)) manager)
                 (\<lambda>r. Returns (case r of Inr k \<Rightarrow> Inr k | Inl _ \<Rightarrow> first_key manager))
           | None \<Rightarrow> Returns (first_key manager))
          (\<lambda>k. Returns (Inr (k, Origin_Manager)))
      else
        case key_info_node of
          Some ki \<Rightarrow>
            (let effective_ki = unwrap_or ki (resolve_key_info_reference d ki ids) in
             out_bind (inline_key L ctx d ids effective_ki) (\<lambda>extracted_key.
               case extracted_key of
                 Some ek \<Rightarrow> Returns (Inr (ek, if key_x509_chain ek \<noteq> [] then Origin_X509 else Origin_Inline))
               | None \<Rightarrow>
                   out_then (resolve_key_info (dl_keys L) d effective_ki manager)
                     (\<lambda>k. Returns (Inr (k, Origin_Manager)))))
        | None \<Rightarrow> out_then (Returns (first_key manager)) (\<lambda>k. Returns (Inr (k, Origin_Manager))))"

definition validation_config :: "'v dsig_context \<Rightarrow> cert_validation_config" where
  "validation_config ctx =
     \<lparr>cfg_trusted_certs = km_trusted_certs (cx_keys_manager ctx),
      cfg_untrusted_certs = km_untrusted_certs (cx_keys_manager ctx),
      cfg_crls = km_crls (cx_keys_manager ctx),
      cfg_verification_time = cx_verification_time ctx,
      cfg_skip_time_checks = cx_skip_time_checks ctx\<rparr>"

definition needs_x509_validation :: "'v dsig_context \<Rightarrow> 'v key \<Rightarrow> key_origin \<Rightarrow> bool" where
  "needs_x509_validation ctx k origin \<longleftrightarrow>
     (cx_enabled_key_data_x509 ctx \<and> origin = Origin_X509) \<or>
     (cx_verify_keys ctx \<and> origin = Origin_Manager \<and> key_x509_chain k \<noteq> [])"

definition check_certificates :: "'v dsig_lib \<Rightarrow> 'v dsig_context \<Rightarrow> 'v key \<Rightarrow> key_origin \<Rightarrow> unit result outcome" where
  "check_certificates L ctx k origin =
     (if cx_insecure ctx then Returns (Inr ())
      else if needs_x509_validation ctx k origin then
        (case key_x509_chain k of
           [] \<Rightarrow> Returns (Inr ())
         | leaf_der # _ \<Rightarrow>
             validate_cert_chain (dl_legacy L) (kl_cert (dl_keys L)) leaf_der (key_x509_chain k) (validation_config ctx))
      else Returns (Inr ()))"

definition check_signature ::
  "'v dsig_lib \<Rightarrow> sig_alg \<Rightarrow> 'v signing_key \<Rightarrow> nat option \<Rightarrow> bytes \<Rightarrow> bytes \<Rightarrow> bool result" where
  "check_signature L alg signing_key hmac_bits c14n_signed_info sig_value =
     (case hmac_bits of
        Some bits \<Rightarrow> sig_verify_truncated (dl_crypto L) alg signing_key c14n_signed_info sig_value (bits div 8)
      | None \<Rightarrow> sig_verify (dl_crypto L) alg signing_key c14n_signed_info sig_value)"

definition verify_with_key ::
  "'v dsig_lib \<Rightarrow> 'v dsig_context \<Rightarrow> document \<Rightarrow> id_map \<Rightarrow> signature_parts \<Rightarrow> nat option \<Rightarrow> bytes option \<Rightarrow>
   verified_reference list \<Rightarrow> bytes \<Rightarrow> bytes \<Rightarrow> verify_result vflow" where
  "verify_with_key L ctx d ids sp hmac_bits pq_ctx verified_refs c14n_signed_info sig_value =
     flow_bind (flow_of_outcome (select_key L ctx d ids (sp_sig_node sp))) (\<lambda>(k, origin).
     flow_bind (flow_of_outcome (check_certificates L ctx k origin)) (\<lambda>_.
     flow_bind (flow_of_result (ok_or (Error_Key ''no signing key available'') (to_signing_key k))) (\<lambda>signing_key.
     flow_bind (flow_of_result (from_uri_with_context (dl_legacy L) (sp_sig_method_uri sp) pq_ctx)) (\<lambda>alg.
     flow_bind (flow_of_result (check_signature L alg signing_key hmac_bits c14n_signed_info sig_value)) (\<lambda>valid.
     if valid then
       Continue (Valid (sp_sig_node sp) verified_refs
         \<lparr>vk_algorithm = KeyData_algorithm_name (key_data k), vk_key_name = key_name k,
          vk_x509_chain = key_x509_chain k\<rparr>)
     else Continue (Invalid ''signature value verification failed''))))))"

section \<open>\<open>verify\<close>\<close>

definition verify_parsed :: "'v dsig_lib \<Rightarrow> 'v dsig_context \<Rightarrow> string \<Rightarrow> document \<Rightarrow> verify_result vflow" where
  "verify_parsed L ctx xml d =
     flow_bind (flow_of_result (build_id_map d (default_id_attrs @ cx_id_attrs ctx))) (\<lambda>ids.
     flow_bind (flow_of_result (read_signature d)) (\<lambda>sp.
     flow_bind (hmac_output_length ctx d sp) (\<lambda>hmac_bits.
     flow_bind (flow_of_result (pq_context L d sp)) (\<lambda>pq_ctx.
     flow_bind (verify_references L ctx d ids xml (sp_sig_node sp)
       (find_child_elements d (sp_signed_info sp) ns_DSIG node_REFERENCE) []) (\<lambda>verified_refs.
     flow_bind (flow_of_result (check_positions ctx d (sp_sig_node sp) verified_refs)) (\<lambda>_.
     flow_bind (flow_of_result (canonical_signed_info d sp)) (\<lambda>c14n_signed_info.
     flow_bind (flow_of_result (read_signature_value L d sp)) (\<lambda>sig_value.
     flow_bind (check_hmac_length hmac_bits sig_value) (\<lambda>_.
     case cx_hsm_verifier ctx of
       Some h \<Rightarrow> verify_with_hsm L h sp verified_refs c14n_signed_info sig_value
     | None \<Rightarrow>
         verify_with_key L ctx d ids sp hmac_bits pq_ctx verified_refs c14n_signed_info sig_value)))))))))"

definition verify :: "'v dsig_lib \<Rightarrow> 'v dsig_context \<Rightarrow> string \<Rightarrow> verify_result result outcome" where
  "verify L ctx xml =
     run_flow (flow_bind (flow_of_result (map_err Error_XmlParse (dl_parse L xml))) (verify_parsed L ctx xml))"

section \<open>Lemmas\<close>

text \<open>The state in which the signature value is about to be checked.\<close>

definition before_check ::
  "'v dsig_lib \<Rightarrow> 'v dsig_context \<Rightarrow> string \<Rightarrow> document \<Rightarrow> id_map \<Rightarrow> signature_parts \<Rightarrow>
   nat option \<Rightarrow> bytes option \<Rightarrow> verified_reference list \<Rightarrow> bytes \<Rightarrow> bytes \<Rightarrow> bool" where
  "before_check L ctx xml d ids sp bits pq refs c14n sv \<longleftrightarrow>
     dl_parse L xml = Inr d \<and> build_id_map d (default_id_attrs @ cx_id_attrs ctx) = Inr ids \<and>
     read_signature d = Inr sp \<and> hmac_output_length ctx d sp = Continue bits \<and> pq_context L d sp = Inr pq \<and>
     verify_references L ctx d ids xml (sp_sig_node sp)
       (find_child_elements d (sp_signed_info sp) ns_DSIG node_REFERENCE) [] = Continue refs \<and>
     check_positions ctx d (sp_sig_node sp) refs = Inr () \<and> canonical_signed_info d sp = Inr c14n \<and>
     read_signature_value L d sp = Inr sv \<and> check_hmac_length bits sv = Continue ()"

lemma hmac_output_length_Leave: "hmac_output_length ctx d sp = Leave r \<Longrightarrow> \<not> is_valid r"
  by (auto simp: hmac_output_length_def res_simps split: if_splits option.splits)

lemma verify_references_Leave:
  "verify_references L ctx d ids xml s rs vs = Leave r \<Longrightarrow> \<not> is_valid r"
  by (induction rs arbitrary: vs) (auto simp: res_simps split: option.splits)

lemma check_hmac_length_Leave: "check_hmac_length bits sv = Leave r \<Longrightarrow> \<not> is_valid r"
  by (auto simp: check_hmac_length_def split: option.splits if_splits)

lemma verify_with_key_Leave: "verify_with_key L ctx d ids sp bits pq refs c14n sv \<noteq> Leave r"
  by (auto simp: verify_with_key_def res_simps split: if_splits)

lemma verify_with_hsm_Continue: "verify_with_hsm L h sp refs c14n sv \<noteq> Continue r"
  by (auto simp: verify_with_hsm_def Let_def res_simps split: if_splits)

lemma valid_run:
  assumes "verify L ctx xml = Returns (Inr (Valid s refs ki))"
  obtains d ids sp bits pq c14n sv where
    "before_check L ctx xml d ids sp bits pq refs c14n sv"
    "case cx_hsm_verifier ctx of
       Some h \<Rightarrow> verify_with_hsm L h sp refs c14n sv = Leave (Valid s refs ki)
     | None \<Rightarrow> verify_with_key L ctx d ids sp bits pq refs c14n sv = Continue (Valid s refs ki)"
proof -
  from assms obtain d where d: "dl_parse L xml = Inr d" and
    run: "verify_parsed L ctx xml d = Leave (Valid s refs ki) \<or> verify_parsed L ctx xml d = Continue (Valid s refs ki)"
    by (auto simp: verify_def res_simps)
  have inv: "hmac_output_length ctx d sp \<noteq> Leave (Valid s refs ki)"
    "verify_references L ctx d ids xml n rs vs \<noteq> Leave (Valid s refs ki)"
    "check_hmac_length bits sv \<noteq> Leave (Valid s refs ki)" for sp ids n rs vs bits sv
    using hmac_output_length_Leave verify_references_Leave check_hmac_length_Leave by fastforce+
  let ?fin = "\<lambda>ids sp bits pq refs' c14n sv. case cx_hsm_verifier ctx of
       Some h \<Rightarrow> verify_with_hsm L h sp refs' c14n sv
     | None \<Rightarrow> verify_with_key L ctx d ids sp bits pq refs' c14n sv"
  from run have "\<exists>ids sp bits pq refs' u c14n sv w.
     build_id_map d (default_id_attrs @ cx_id_attrs ctx) = Inr ids \<and>
     read_signature d = Inr sp \<and> hmac_output_length ctx d sp = Continue bits \<and> pq_context L d sp = Inr pq \<and>
     verify_references L ctx d ids xml (sp_sig_node sp)
       (find_child_elements d (sp_signed_info sp) ns_DSIG node_REFERENCE) [] = Continue refs' \<and>
     check_positions ctx d (sp_sig_node sp) refs' = Inr u \<and> canonical_signed_info d sp = Inr c14n \<and>
     read_signature_value L d sp = Inr sv \<and> check_hmac_length bits sv = Continue w \<and>
     (?fin ids sp bits pq refs' c14n sv = Leave (Valid s refs ki) \<or>
      ?fin ids sp bits pq refs' c14n sv = Continue (Valid s refs ki))"
    unfolding verify_parsed_def by (elim disjE) (simp only: res_simps inv simp_thms, blast)+
  then obtain ids sp bits pq refs' c14n sv where
    b: "before_check L ctx xml d ids sp bits pq refs' c14n sv" and
    e: "?fin ids sp bits pq refs' c14n sv = Leave (Valid s refs ki) \<or>
      ?fin ids sp bits pq refs' c14n sv = Continue (Valid s refs ki)"
    unfolding before_check_def using d by (metis (full_types) old.unit.exhaust)
  have "refs' = refs"
    using e by (auto simp: verify_with_key_def verify_with_hsm_def Let_def res_simps split: option.splits if_splits)
  moreover have "case cx_hsm_verifier ctx of
       Some h \<Rightarrow> verify_with_hsm L h sp refs' c14n sv = Leave (Valid s refs ki)
     | None \<Rightarrow> verify_with_key L ctx d ids sp bits pq refs' c14n sv = Continue (Valid s refs ki)"
    using e verify_with_key_Leave [of L ctx d ids sp bits pq refs' c14n sv] verify_with_hsm_Continue [of L _ sp refs' c14n sv]
    by (auto split: option.splits)
  ultimately show thesis using that b by blast
qed

text \<open>Once everything before the signature value has been read, the key decides.\<close>

lemma verify_before_check:
  assumes "before_check L ctx xml d ids sp bits pq refs c14n sv" "cx_hsm_verifier ctx = None"
  shows "verify L ctx xml = run_flow (verify_with_key L ctx d ids sp bits pq refs c14n sv)"
  using assms by (simp add: before_check_def verify_def verify_parsed_def flow_of_result_def)

lemma verify_references_append:
  "verify_references L ctx d ids xml s rs vs = Continue vs' \<Longrightarrow>
   \<exists>ws. vs' = vs @ ws \<and>
     list_all2 (\<lambda>r v. verify_reference L r d ids xml s (cx_url_maps ctx) (cx_base_dir ctx) = Returns (Inr (None, v))) rs ws"
proof (induction rs arbitrary: vs)
  case (Cons r rs)
  then obtain v where "verify_reference L r d ids xml s (cx_url_maps ctx) (cx_base_dir ctx) = Returns (Inr (None, v))"
    "verify_references L ctx d ids xml s rs (vs @ [v]) = Continue vs'"
    by (auto simp: res_simps split: option.splits)
  with Cons.IH [of "vs @ [v]"] show ?case by fastforce
qed simp

text \<open>What the references are known to satisfy when the signature value is about to be checked.\<close>

lemma before_check_references:
  assumes "before_check L ctx xml d ids sp bits pq refs c14n sv"
  shows "list_all2 (\<lambda>r v. vr_uri v = unwrap_or [] (node_attribute d r attr_URI) \<and>
      (if starts_with (vr_uri v) ''cid:'' then \<not> vr_digest_verified v \<and> vr_resolved_node v = None
       else vr_digest_verified v \<and>
         reference_holds L d ids xml (sp_sig_node sp) (cx_url_maps ctx) (cx_base_dir ctx) r v))
    (find_child_elements d (sp_signed_info sp) ns_DSIG node_REFERENCE) refs"
proof -
  have "list_all2 (\<lambda>r v. verify_reference L r d ids xml (sp_sig_node sp) (cx_url_maps ctx) (cx_base_dir ctx) =
      Returns (Inr (None, v))) (find_child_elements d (sp_signed_info sp) ns_DSIG node_REFERENCE) refs"
    using assms verify_references_append [of L ctx d ids xml "sp_sig_node sp" _ "[]" refs] by (auto simp: before_check_def)
  then show ?thesis by (rule list_all2_mono) (rule verify_reference_holds)
qed

lemma check_positions_strict:
  assumes "check_positions ctx d s refs = Inr ()" "cx_strict_verification ctx" "v \<in> set refs"
    "vr_resolved_node v = Some t"
  shows "validate_reference_position d s t = Inr ()"
proof -
  have "try_fold (\<lambda>_ vref. case vr_resolved_node vref of
      Some target \<Rightarrow> validate_reference_position d s target | None \<Rightarrow> Inr ()) u refs = Inr () \<Longrightarrow> ?thesis" for u
    using assms(3,4) by (induction refs arbitrary: u) (auto simp: res_simps)
  with assms(1,2) show ?thesis by (simp add: check_positions_def)
qed

lemma select_key_trusted:
  assumes "select_key L ctx d ids s = Returns (Inr (k, origin))" "cx_trusted_keys_only ctx"
  shows "k \<in> set (km_keys (cx_keys_manager ctx)) \<and> origin = Origin_Manager"
proof -
  have stored: "k' \<in> set (km_keys m)" if "resolve_key_info K d n m = Returns (Inr k')" for K d n m k'
    using that by (auto simp: resolve_key_info_def res_simps split: option.splits
        dest!: find_map_SomeD key_by_name_member key_by_x509_member first_key_member)
  have fallback: "(case r of Inr k \<Rightarrow> Inr k | Inl _ \<Rightarrow> first_key m) = Inr k' \<longleftrightarrow>
      r = Inr k' \<or> (\<exists>e. r = Inl e \<and> first_key m = Inr k')" for r :: "'a key result" and m k'
    by (cases r) auto
  show ?thesis
    using assms by (auto simp: select_key_def Let_def res_simps fallback first_key_member split: option.splits dest: stored)
qed

lemma verify_with_key_valid:
  assumes "verify_with_key L ctx d ids sp bits pq refs c14n sv = Continue (Valid s refs ki)"
  obtains k origin sk alg where
    "select_key L ctx d ids (sp_sig_node sp) = Returns (Inr (k, origin))"
    "check_certificates L ctx k origin = Returns (Inr ())"
    "to_signing_key k = Some sk" "from_uri_with_context (dl_legacy L) (sp_sig_method_uri sp) pq = Inr alg"
    "check_signature L alg sk bits c14n sv = Inr True" "s = sp_sig_node sp"
    "ki = \<lparr>vk_algorithm = KeyData_algorithm_name (key_data k), vk_key_name = key_name k,
      vk_x509_chain = key_x509_chain k\<rparr>"
  using assms that by (auto simp: verify_with_key_def res_simps split: if_splits)

lemma verify_with_hsm_valid:
  assumes "verify_with_hsm L h sp refs c14n sv = Leave (Valid s refs ki)"
  shows "s = sp_sig_node sp \<and> kryptering_algorithm_uri (dl_legacy L) (hv_algorithm h) = Some (sp_sig_method_uri sp) \<and>
    hv_verify h c14n sv = Inr True"
  using assms by (auto simp: verify_with_hsm_def Let_def res_simps split: if_splits)

lemma valid_key_run:
  assumes "verify L ctx xml = Returns (Inr (Valid s refs ki))" "cx_hsm_verifier ctx = None"
  obtains d ids sp bits pq c14n sv where
    "before_check L ctx xml d ids sp bits pq refs c14n sv"
    "verify_with_key L ctx d ids sp bits pq refs c14n sv = Continue (Valid s refs ki)"
  by (rule valid_run [OF assms(1)]) (simp add: assms(2) that)

lemma valid_sig_node:
  assumes "case cx_hsm_verifier ctx of
       Some h \<Rightarrow> verify_with_hsm L h sp refs c14n sv = Leave (Valid s refs ki)
     | None \<Rightarrow> verify_with_key L ctx d ids sp bits pq refs c14n sv = Continue (Valid s refs ki)"
  shows "s = sp_sig_node sp"
  using assms by (auto split: option.splits elim: verify_with_key_valid dest: verify_with_hsm_valid)

end
