(* ===== verification/Key_Xml.thy ===== *)
theory Key_Xml
  imports Dsig_Dom
begin

text \<open>
  Writing public keys (\<open>key.rs\<close>): the SPKI form and the \<open>KeyValue\<close> element; writing certificates into
  \<open>KeyInfo\<close> (\<open>keyinfo.rs\<close>). The encoders of the key crates
  and base64 are the fields of \<open>key_enc\<close>.
\<close>

record 'v key_enc =
  ke_encode :: "bytes \<Rightarrow> string"
  ke_rsa_n :: "'v \<Rightarrow> bytes"
  ke_rsa_e :: "'v \<Rightarrow> bytes"
  ke_ec_point :: "ec_curve \<Rightarrow> 'v \<Rightarrow> bytes"
  ke_dsa_p :: "'v \<Rightarrow> bytes"
  ke_dsa_q :: "'v \<Rightarrow> bytes"
  ke_dsa_g :: "'v \<Rightarrow> bytes"
  ke_dsa_y :: "'v \<Rightarrow> bytes"
  ke_rsa_spki_der :: "'v \<Rightarrow> bytes option"
  ke_ec_spki_der :: "ec_curve \<Rightarrow> 'v \<Rightarrow> bytes option"
  ke_p521_from_sec1 :: "bytes \<Rightarrow> 'v option"
  ke_ed25519_spki_der :: "'v \<Rightarrow> bytes option"
  ke_write :: xml_writer

fun to_spki_der :: "'v key_enc \<Rightarrow> 'v key_data \<Rightarrow> bytes option" where
  "to_spki_der E (Key_Rsa _ public) = ke_rsa_spki_der E public"
| "to_spki_der E (Key_EcP256 _ public) = ke_ec_spki_der E P256 public"
| "to_spki_der E (Key_EcP384 _ public) = ke_ec_spki_der E P384 public"
| "to_spki_der E (Key_EcP521 _ public) =
     (case ke_p521_from_sec1 E (ke_ec_point E P521 public) of
        None \<Rightarrow> None
      | Some pk \<Rightarrow> ke_ec_spki_der E P521 pk)"
| "to_spki_der E (Key_PostQuantum _ _ public_der) = Some public_der"
| "to_spki_der E (Key_Ed25519 _ public) = ke_ed25519_spki_der E public"
| "to_spki_der E _ = None"

definition pname :: "string \<Rightarrow> string \<Rightarrow> string" where
  "pname pre local_name = (if pre = [] then local_name else pre @ '':'' @ local_name)"

definition text_element :: "string \<Rightarrow> string \<Rightarrow> writer_call list" where
  "text_element tag content = [Start_Element tag [], Write_Text content, End_Element tag]"

definition build_ec_key_value_xml :: "string \<Rightarrow> string \<Rightarrow> writer_call list" where
  "build_ec_key_value_xml pub_b64 curve_uri =
     [Start_Element node_EC_KEY_VALUE [(''xmlns'', ns_DSIG11)],
      Empty_Element node_NAMED_CURVE [(''URI'', curve_uri)]] @
     text_element node_PUBLIC_KEY pub_b64 @ [End_Element node_EC_KEY_VALUE]"

text \<open>The calls made on the writer for each kind of key.\<close>

fun key_value_calls :: "'v key_enc \<Rightarrow> 'v key_data \<Rightarrow> string \<Rightarrow> writer_call list option" where
  "key_value_calls E (Key_Rsa _ public) pre =
     Some ([Start_Element (pname pre node_RSA_KEY_VALUE) []] @
       text_element (pname pre node_RSA_MODULUS) (ke_encode E (ke_rsa_n E public)) @
       text_element (pname pre node_RSA_EXPONENT) (ke_encode E (ke_rsa_e E public)) @
       [End_Element (pname pre node_RSA_KEY_VALUE)])"
| "key_value_calls E (Key_EcP256 _ public) pre =
     Some (build_ec_key_value_xml (ke_encode E (ke_ec_point E P256 public)) ''urn:oid:1.2.840.10045.3.1.7'')"
| "key_value_calls E (Key_EcP384 _ public) pre =
     Some (build_ec_key_value_xml (ke_encode E (ke_ec_point E P384 public)) ''urn:oid:1.3.132.0.34'')"
| "key_value_calls E (Key_EcP521 _ public) pre =
     Some (build_ec_key_value_xml (ke_encode E (ke_ec_point E P521 public)) ''urn:oid:1.3.132.0.35'')"
| "key_value_calls E (Key_Dsa _ public) pre =
     Some ([Start_Element (pname pre node_DSA_KEY_VALUE) []] @
       text_element (pname pre node_DSA_P) (ke_encode E (ke_dsa_p E public)) @
       text_element (pname pre node_DSA_Q) (ke_encode E (ke_dsa_q E public)) @
       text_element (pname pre node_DSA_G) (ke_encode E (ke_dsa_g E public)) @
       text_element (pname pre node_DSA_Y) (ke_encode E (ke_dsa_y E public)) @
       [End_Element (pname pre node_DSA_KEY_VALUE)])"
| "key_value_calls E (Key_Dh p g q _ public_key) pre =
     Some ([Start_Element ''xenc:DHKeyValue'' [(''xmlns:xenc'', ns_ENC)]] @
       text_element ''xenc:P'' (ke_encode E p) @
       (case q of Some q_bytes \<Rightarrow> text_element ''xenc:Q'' (ke_encode E q_bytes) | None \<Rightarrow> []) @
       text_element ''xenc:Generator'' (ke_encode E g) @
       text_element ''xenc:Public'' (ke_encode E public_key) @
       [End_Element ''xenc:DHKeyValue''])"
| "key_value_calls E (Key_X25519 _ public) pre =
     Some (build_ec_key_value_xml (ke_encode E public) ''urn:ietf:params:xml:ns:keyprov:curve:x25519'')"
| "key_value_calls E _ pre = None"

definition to_key_value_xml :: "'v key_enc \<Rightarrow> 'v key_data \<Rightarrow> string \<Rightarrow> string option" where
  "to_key_value_xml E d dsig_prefix = map_option (ke_write E) (key_value_calls E d dsig_prefix)"

fun ec_public_key_bytes_data :: "'v key_enc \<Rightarrow> 'v key_data \<Rightarrow> bytes option" where
  "ec_public_key_bytes_data E (Key_EcP256 _ public) = Some (ke_ec_point E P256 public)"
| "ec_public_key_bytes_data E (Key_EcP384 _ public) = Some (ke_ec_point E P384 public)"
| "ec_public_key_bytes_data E (Key_EcP521 _ public) = Some (ke_ec_point E P521 public)"
| "ec_public_key_bytes_data E _ = None"

definition ec_public_key_bytes :: "'v key_enc \<Rightarrow> 'v key \<Rightarrow> bytes option" where
  "ec_public_key_bytes E k = ec_public_key_bytes_data E (key_data k)"

section \<open>\<open>KeyInfo\<close> with certificates (\<open>keyinfo.rs\<close>)\<close>

definition build_x509_calls :: "string list \<Rightarrow> writer_call list" where
  "build_x509_calls certs_b64 =
     [Start_Element ''ds:KeyInfo'' [(''xmlns:ds'', ns_DSIG)], Start_Element ''ds:X509Data'' []] @
     concat (map (text_element ''ds:X509Certificate'') certs_b64) @
     [End_Element ''ds:X509Data'', End_Element ''ds:KeyInfo'']"

definition build_x509_key_info :: "'v key_enc \<Rightarrow> string list \<Rightarrow> string" where
  "build_x509_key_info E certs_b64 = ke_write E (build_x509_calls certs_b64)"

definition build_x509_key_info_from_der :: "'v key_enc \<Rightarrow> bytes list \<Rightarrow> string" where
  "build_x509_key_info_from_der E certs_der = build_x509_key_info E (map (ke_encode E) certs_der)"

section \<open>Nesting\<close>

text \<open>The elements that are open after the calls, innermost first; \<open>None\<close> when an end tag does not match.\<close>

fun open_elements :: "string list \<Rightarrow> writer_call list \<Rightarrow> string list option" where
  "open_elements st [] = Some st"
| "open_elements st (Start_Element n _ # cs) = open_elements (n # st) cs"
| "open_elements st (End_Element n # cs) =
     (case st of [] \<Rightarrow> None | m # st' \<Rightarrow> if m = n then open_elements st' cs else None)"
| "open_elements st (_ # cs) = open_elements st cs"

lemma open_elements_text [simp]: "open_elements st (text_element n t @ cs) = open_elements st cs"
  by (simp add: text_element_def)

lemma open_elements_texts [simp]: "open_elements st (concat (map (text_element n) ts) @ cs) = open_elements st cs"
  by (induction ts) simp_all

text \<open>Every end tag written closes the innermost open element, and no element stays open.\<close>

lemma key_value_calls_nested: "key_value_calls E k pre = Some cs \<Longrightarrow> open_elements st cs = Some st"
  by (cases "(E, k, pre)" rule: key_value_calls.cases)
    (auto simp: build_ec_key_value_xml_def split: option.splits)

lemma build_x509_calls_nested: "open_elements st (build_x509_calls certs) = Some st"
  by (simp add: build_x509_calls_def)

section \<open>The writer of \<open>bergshamra-xml\<close> (\<open>writer.rs\<close>)\<close>

text \<open>
  A wrapper around the writer of the parser crate for building templates: its state is the calls made so far,
  and every method reports success.
\<close>

definition XmlWriter_new :: "writer_call list" where
  "XmlWriter_new = []"

definition xml_write_declaration :: "writer_call list \<Rightarrow> unit result \<times> writer_call list" where
  "xml_write_declaration w = (Inr (), w @ [Write_Declaration])"

definition xml_start_element ::
  "writer_call list \<Rightarrow> string \<Rightarrow> (string \<times> string) list \<Rightarrow> unit result \<times> writer_call list" where
  "xml_start_element w n attrs = (Inr (), w @ [Start_Element n attrs])"

definition xml_empty_element ::
  "writer_call list \<Rightarrow> string \<Rightarrow> (string \<times> string) list \<Rightarrow> unit result \<times> writer_call list" where
  "xml_empty_element w n attrs = (Inr (), w @ [Empty_Element n attrs])"

definition xml_end_element :: "writer_call list \<Rightarrow> string \<Rightarrow> unit result \<times> writer_call list" where
  "xml_end_element w n = (Inr (), w @ [End_Element n])"

definition xml_write_text :: "writer_call list \<Rightarrow> string \<Rightarrow> unit result \<times> writer_call list" where
  "xml_write_text w txt = (Inr (), w @ [Write_Text txt])"

definition xml_into_bytes :: "xml_writer \<Rightarrow> writer_call list \<Rightarrow> bytes" where
  "xml_into_bytes W w = W w"

definition xml_into_string :: "xml_writer \<Rightarrow> writer_call list \<Rightarrow> string result" where
  "xml_into_string W w = Inr (W w)"

lemma open_elements_append:
  "open_elements st (cs @ ds) = (case open_elements st cs of None \<Rightarrow> None | Some st' \<Rightarrow> open_elements st' ds)"
  by (induction st cs rule: open_elements.induct) (simp_all split: list.splits)

text \<open>
  The wrapper does not check the nesting: \<open>end_element\<close> succeeds with any name, and what it leaves is
  well nested exactly when the name is that of the innermost open element.
\<close>

lemma end_element_nesting:
  assumes "open_elements [] w = Some st"
  shows "open_elements [] (snd (xml_end_element w n)) =
    (case st of [] \<Rightarrow> None | m # st' \<Rightarrow> if m = n then Some st' else None)"
  using assms by (simp add: xml_end_element_def open_elements_append split: list.splits)

end
