(* ===== verification/Dsig_Sign.thy ===== *)
theory Dsig_Sign
  imports Dsig_Verify Key_Xml
begin

text \<open>
  Signature creation (\<open>sign.rs\<close>). The template is text; each step parses it, computes a value and puts it
  in place of an empty element, whose byte range the parser gives. The helpers \<open>find_element\<close>,
  \<open>find_child_element\<close>, \<open>find_child_elements\<close> and \<open>read_inclusive_prefixes\<close> of the source are copies of those of
  \<open>verify.rs\<close> and are not repeated.
\<close>

text \<open>
  The parts of third-party code that only signing uses: byte ranges of nodes, attribute lookup by
  namespace, the names in a certificate as lists of attribute types and values, and the decoders of
  ASN.1 strings.
\<close>

record 'v sign_lib =
  sl_keys :: "'v key_enc"
  sl_range :: "document \<Rightarrow> node_id \<Rightarrow> (nat \<times> nat) option"
  sl_attribute_ns :: "element \<Rightarrow> string \<Rightarrow> string \<Rightarrow> string option"
  sl_subject :: "certificate \<Rightarrow> (string \<times> bytes) list list"
  sl_issuer :: "certificate \<Rightarrow> (string \<times> bytes) list list"
  sl_utf8_string :: "bytes \<Rightarrow> string option"
  sl_printable_string :: "bytes \<Rightarrow> string option"
  sl_ia5_string :: "bytes \<Rightarrow> string option"
  sl_utf8_lossy :: "bytes \<Rightarrow> string"
  sl_octet_string :: "bytes \<Rightarrow> bytes option"

abbreviation sl_encode :: "'v sign_lib \<Rightarrow> bytes \<Rightarrow> string" where
  "sl_encode S \<equiv> ke_encode (sl_keys S)"

abbreviation sl_write :: "'v sign_lib \<Rightarrow> xml_writer" where
  "sl_write S \<equiv> ke_write (sl_keys S)"

section \<open>Replacing text\<close>

definition splice :: "string \<Rightarrow> nat \<times> nat \<Rightarrow> string \<Rightarrow> string outcome" where
  "splice xml = (\<lambda>(a, b) replacement.
     out_bind (str_slice 0 a xml) (\<lambda>before.
     out_bind (str_slice b (length xml) xml) (\<lambda>after.
     Returns (before @ replacement @ after))))"

definition node_range :: "'v sign_lib \<Rightarrow> document \<Rightarrow> node_id \<Rightarrow> (nat \<times> nat) outcome" where
  "node_range S d n = (case sl_range S d n of Some r \<Rightarrow> Returns r | None \<Rightarrow> Panics)"

definition extract_tag_prefix :: "string \<Rightarrow> string \<Rightarrow> string" where
  "extract_tag_prefix xml_fragment local_name =
     (let trimmed = dropWhile (\<lambda>c. c = CHR ''<'') xml_fragment in
      case find_str '':'' trimmed of
        Some colon_pos \<Rightarrow>
          if starts_with (drop (colon_pos + 1) trimmed) local_name then take colon_pos trimmed else []
      | None \<Rightarrow> [])"

definition extract_open_tag :: "string \<Rightarrow> string" where
  "extract_open_tag raw_xml =
     (case find_str ''/>'' raw_xml of
        Some slash_gt \<Rightarrow> take slash_gt raw_xml @ ''>''
      | None \<Rightarrow>
          (case find_str ''>'' raw_xml of
             Some gt \<Rightarrow> take (gt + 1) raw_xml
           | None \<Rightarrow> raw_xml))"

definition is_empty_target :: "document \<Rightarrow> string \<Rightarrow> node_id \<Rightarrow> bool" where
  "is_empty_target d local_name n =
     (case doc_element d n of
        None \<Rightarrow> False
      | Some e \<Rightarrow>
          elem_local e = local_name \<and> (elem_ns e = [] \<or> elem_ns e = ns_DSIG) \<and> trim (doc_text_deep d n) = [])"

definition replace_first_empty_element ::
  "'v dsig_lib \<Rightarrow> 'v sign_lib \<Rightarrow> string \<Rightarrow> string \<Rightarrow> string \<Rightarrow> string outcome" where
  "replace_first_empty_element L S xml local_name new_content =
     (case dl_parse L xml of
        Inl _ \<Rightarrow> Returns xml
      | Inr d \<Rightarrow>
          (case find (is_empty_target d local_name) (doc_descendants d (doc_root d)) of
             None \<Rightarrow> Returns xml
           | Some n \<Rightarrow>
               out_bind (node_range S d n) (\<lambda>(a, b).
               out_bind (str_slice a b xml) (\<lambda>original.
               splice xml (a, b)
                 (sl_write S (text_element (pname (extract_tag_prefix original local_name) local_name) new_content))))))"

section \<open>Digests of the references\<close>

definition element_ids_ns :: "'v sign_lib \<Rightarrow> document \<Rightarrow> string list \<Rightarrow> element \<Rightarrow> string list" where
  "element_ids_ns S d attr_names e =
     List.map_filter (doc_get_attribute d e) attr_names @
     (case sl_attribute_ns S e ''http://www.w3.org/XML/1998/namespace'' ''id'' of Some v \<Rightarrow> [v] | None \<Rightarrow> [])"

definition sign_build_id_map :: "'v sign_lib \<Rightarrow> document \<Rightarrow> string list \<Rightarrow> id_map result" where
  "sign_build_id_map S d attr_names =
     try_fold
       (\<lambda>m n. case doc_element d n of
          None \<Rightarrow> Inr m
        | Some e \<Rightarrow> try_fold (insert_unique_id n) m (element_ids_ns S d attr_names e))
       Map.empty (doc_descendants d (doc_root d))"

definition resolve_for_signing ::
  "'v dsig_lib \<Rightarrow> 'v dsig_context \<Rightarrow> string \<Rightarrow> document \<Rightarrow> id_map \<Rightarrow> string \<Rightarrow> transform_data result" where
  "resolve_for_signing L ctx uri d ids xml =
     (if uri = [] then Inr (Xml xml (Some (all_without_comments d)))
      else case parse_same_document_ref uri of
        Some fragment \<Rightarrow>
          if fragment = ''xpointer(/)'' then Inr (Xml xml None)
          else
            let is_xpointer = (parse_xpointer_id fragment \<noteq> None);
                frag_id = unwrap_or fragment (parse_xpointer_id fragment)
            in and_then (resolve_id d ids frag_id) (\<lambda>n.
                 Inr (Xml xml (Some (if is_xpointer then tree_with_comments n d else tree_without_comments n d))))
      | None \<Rightarrow>
          map_sum (\<lambda>e. e) (\<lambda>r. fst (initial_data r))
            (resolve_external_uri (dl_fs L) ''unsupported URI: '' uri (cx_url_maps ctx) (cx_base_dir ctx)))"

text \<open>The digest of one reference, and its algorithm.\<close>

definition reference_digest ::
  "'v dsig_lib \<Rightarrow> 'v dsig_context \<Rightarrow> document \<Rightarrow> id_map \<Rightarrow> string \<Rightarrow> node_id \<Rightarrow> node_id \<Rightarrow> string \<Rightarrow>
   bytes result outcome" where
  "reference_digest L ctx d ids xml sig_node reference uri =
     out_then (Returns (ok_or (Error_MissingElement ''DigestMethod'')
       (find_child_element d reference ns_DSIG node_DIGEST_METHOD))) (\<lambda>digest_method.
     out_then (Returns (ok_or (Error_MissingAttribute ''Algorithm on DigestMethod'')
       (node_attribute d digest_method attr_ALGORITHM))) (\<lambda>digest_uri.
     out_then (Returns (resolve_for_signing L ctx uri d ids xml)) (\<lambda>data.
     out_then (reference_octets L reference d sig_node data) (\<lambda>octets.
     Returns (digest (dl_legacy L) (dl_crypto L) digest_uri octets)))))"

text \<open>One round of the loop: the template is parsed again, so that it sees the digests already filled in.\<close>

definition sign_reference ::
  "'v dsig_lib \<Rightarrow> 'v sign_lib \<Rightarrow> 'v dsig_context \<Rightarrow> string \<Rightarrow> nat \<Rightarrow> string result outcome" where
  "sign_reference L S ctx result_xml ref_idx =
     out_then (Returns (map_err Error_XmlParse (dl_parse L result_xml))) (\<lambda>d.
     out_then (Returns (sign_build_id_map S d (default_id_attrs @ cx_id_attrs ctx))) (\<lambda>ids.
     out_then (Returns (ok_or (Error_MissingElement ''Signature'') (find_element d ns_DSIG node_SIGNATURE))) (\<lambda>sig_node.
     out_then (Returns (ok_or (Error_MissingElement ''SignedInfo'')
       (find_child_element d sig_node ns_DSIG node_SIGNED_INFO))) (\<lambda>signed_info.
     let refs = find_child_elements d signed_info ns_DSIG node_REFERENCE in
     if \<not> ref_idx < length refs then Panics
     else
       let reference = refs ! ref_idx;
           uri = unwrap_or [] (node_attribute d reference attr_URI)
       in
       if starts_with uri ''cid:'' then Returns (Inr result_xml)
       else
         out_then (reference_digest L ctx d ids result_xml sig_node reference uri) (\<lambda>computed.
         let digest_value_text =
           (case find_child_element d reference ns_DSIG node_DIGEST_VALUE of
              Some n \<Rightarrow> doc_text_deep d n
            | None \<Rightarrow> [])
         in
         if trim digest_value_text = [] then
           out_bind (replace_first_empty_element L S result_xml ''DigestValue'' (sl_encode S computed))
             (\<lambda>x. Returns (Inr x))
         else Returns (Inr result_xml))))))"

section \<open>The signature value\<close>

definition sign_pq_context :: "'v dsig_lib \<Rightarrow> document \<Rightarrow> node_id \<Rightarrow> string \<Rightarrow> bytes option result" where
  "sign_pq_context L d sig_method sig_method_uri =
     (if is_pq_algorithm sig_method_uri then
        (case or_else (find_child_element d sig_method ns_XMLSEC_PQ node_MLDSA_CONTEXT_STRING)
                (find_child_element d sig_method ns_XMLSEC_PQ node_SLHDSA_CONTEXT_STRING) of
           Some cn \<Rightarrow>
             (let b64 = trim (doc_text_deep d cn) in
              if b64 = [] then Inr None
              else and_then (map_err (\<lambda>e. Error_Base64 (''PQ context string: '' @ e)) (dl_base64 L b64))
                     (\<lambda>decoded. Inr (Some decoded)))
         | None \<Rightarrow> Inr None)
      else Inr None)"

definition truncate_hmac :: "document \<Rightarrow> node_id \<Rightarrow> string \<Rightarrow> bytes \<Rightarrow> bytes" where
  "truncate_hmac d sig_method sig_method_uri sig =
     (if is_hmac_algorithm sig_method_uri then
        (case find_child_element d sig_method ns_DSIG node_HMAC_OUTPUT_LENGTH of
           Some n \<Rightarrow>
             (case parse_usize (trim (doc_text_deep d n)) of
                Some bits \<Rightarrow> if bits mod 8 = 0 \<and> bits div 8 < length sig then take (bits div 8) sig else sig
              | None \<Rightarrow> sig)
         | None \<Rightarrow> sig)
      else sig)"

definition sign_with_hsm :: "'v dsig_lib \<Rightarrow> hsm_signer \<Rightarrow> string \<Rightarrow> bytes \<Rightarrow> bytes result" where
  "sign_with_hsm L h sig_method_uri c14n_signed_info =
     (let signer_uri = kryptering_algorithm_uri (dl_legacy L) (hs_algorithm h) in
      if signer_uri \<noteq> Some sig_method_uri then
        Inl (Error_UnsupportedAlgorithm (''HSM signer algorithm '' @ dl_show_alg L (hs_algorithm h) @ '' (URI '' @
          unwrap_or ''<unmapped>'' signer_uri @ '') does not match the template'' @ [CHR 0x27] @ ''s SignatureMethod '' @
          sig_method_uri))
      else map_err map_kryptering_err (hs_sign h c14n_signed_info))"

definition sign_with_key ::
  "'v dsig_lib \<Rightarrow> 'v dsig_context \<Rightarrow> document \<Rightarrow> node_id \<Rightarrow> string \<Rightarrow> bytes \<Rightarrow> bytes result" where
  "sign_with_key L ctx d signed_info sig_method_uri c14n_signed_info =
     and_then (first_key (cx_keys_manager ctx)) (\<lambda>k.
     and_then (ok_or (Error_Key ''no signing key'') (to_signing_key k)) (\<lambda>signing_key.
     and_then (ok_or (Error_MissingElement ''SignatureMethod'')
       (find_child_element d signed_info ns_DSIG node_SIGNATURE_METHOD)) (\<lambda>sig_method.
     and_then (sign_pq_context L d sig_method sig_method_uri) (\<lambda>pq_ctx.
     and_then (from_uri_with_context (dl_legacy L) sig_method_uri pq_ctx) (\<lambda>alg.
     and_then (sig_sign (dl_crypto L) alg signing_key c14n_signed_info) (\<lambda>sig.
     Inr (truncate_hmac d sig_method sig_method_uri sig)))))))"

definition compute_signature ::
  "'v dsig_lib \<Rightarrow> 'v dsig_context \<Rightarrow> document \<Rightarrow> node_id \<Rightarrow> string \<Rightarrow> bytes \<Rightarrow> bytes result" where
  "compute_signature L ctx d signed_info sig_method_uri c14n_signed_info =
     (case cx_hsm_signer ctx of
        Some h \<Rightarrow> sign_with_hsm L h sig_method_uri c14n_signed_info
      | None \<Rightarrow> sign_with_key L ctx d signed_info sig_method_uri c14n_signed_info)"

section \<open>Certificate data\<close>

definition decode_atv_value :: "'v sign_lib \<Rightarrow> bytes \<Rightarrow> string" where
  "decode_atv_value S v =
     (case or_else (sl_utf8_string S v) (or_else (sl_printable_string S v) (sl_ia5_string S v)) of
        Some s \<Rightarrow> s
      | None \<Rightarrow> sl_utf8_lossy S v)"

definition rdn_prefixes :: "(string \<times> string) list" where
  "rdn_prefixes =
     [(''2.5.4.3'', ''CN''), (''2.5.4.10'', ''O''), (''2.5.4.11'', ''OU''), (''2.5.4.6'', ''C''),
      (''2.5.4.8'', ''ST''), (''2.5.4.7'', ''L''), (''2.5.4.5'', ''serialNumber'')]"

definition format_atv :: "'v sign_lib \<Rightarrow> string \<times> bytes \<Rightarrow> string" where
  "format_atv S = (\<lambda>(oid, v).
     case map_of rdn_prefixes oid of
       Some pre \<Rightarrow> pre @ ''='' @ decode_atv_value S v
     | None \<Rightarrow> oid)"

definition format_rdn_sequence :: "'v sign_lib \<Rightarrow> (string \<times> bytes) list list \<Rightarrow> string" where
  "format_rdn_sequence S name = join_str '','' (rev (map (format_atv S) (concat name)))"

definition extract_ski :: "'v sign_lib \<Rightarrow> certificate \<Rightarrow> string option" where
  "extract_ski S cert =
     (case cert_extensions cert of
        None \<Rightarrow> None
      | Some extensions \<Rightarrow>
          (case find (\<lambda>(oid, _). oid = ''2.5.29.14'') extensions of
             None \<Rightarrow> None
           | Some (_, v) \<Rightarrow> map_option (sl_encode S) (sl_octet_string S v)))"

record x509_info =
  xi_subject_name :: "string option"
  xi_issuer_name :: "string option"
  xi_serial_number :: "string option"
  xi_ski_b64 :: "string option"

definition extract_x509_info :: "'v dsig_lib \<Rightarrow> 'v sign_lib \<Rightarrow> bytes \<Rightarrow> x509_info" where
  "extract_x509_info L S cert_der =
     (case cert_from_der (kl_cert (dl_keys L)) cert_der of
        Inl _ \<Rightarrow> \<lparr>xi_subject_name = None, xi_issuer_name = None, xi_serial_number = None, xi_ski_b64 = None\<rparr>
      | Inr cert \<Rightarrow>
          \<lparr>xi_subject_name = Some (format_rdn_sequence S (sl_subject S cert)),
           xi_issuer_name = Some (format_rdn_sequence S (sl_issuer S cert)),
           xi_serial_number = Some (format_serial (cert_serial cert)),
           xi_ski_b64 = extract_ski S cert\<rparr>)"

section \<open>Filling in \<open>KeyInfo\<close>\<close>

definition x509_child_calls ::
  "'v sign_lib \<Rightarrow> bytes \<Rightarrow> x509_info \<Rightarrow> string \<Rightarrow> string \<Rightarrow> writer_call list option" where
  "x509_child_calls S first_cert_der info name pre =
     (if name = ''X509Certificate'' then
        Some (text_element (pname pre ''X509Certificate'') (sl_encode S first_cert_der))
      else if name = ''X509SubjectName'' then
        map_option (text_element (pname pre ''X509SubjectName'')) (xi_subject_name info)
      else if name = ''X509IssuerSerial'' then
        (case (xi_issuer_name info, xi_serial_number info) of
           (Some issuer, Some serial) \<Rightarrow>
             Some ([Start_Element (pname pre ''X509IssuerSerial'') []] @
               text_element (pname pre ''X509IssuerName'') issuer @
               text_element (pname pre ''X509SerialNumber'') serial @
               [End_Element (pname pre ''X509IssuerSerial'')])
         | _ \<Rightarrow> None)
      else if name = ''X509SKI'' then map_option (text_element (pname pre ''X509SKI'')) (xi_ski_b64 info)
      else None)"

definition fill_x509_child ::
  "'v sign_lib \<Rightarrow> document \<Rightarrow> bytes \<Rightarrow> x509_info \<Rightarrow> string outcome \<Rightarrow> node_id \<Rightarrow> string outcome" where
  "fill_x509_child S d first_cert_der info acc child =
     out_bind acc (\<lambda>result.
     case doc_element d child of
       None \<Rightarrow> Panics
     | Some e \<Rightarrow>
         if trim (doc_text_deep d child) \<noteq> [] then Returns result
         else
           out_bind (node_range S d child) (\<lambda>(a, b).
           out_bind (str_slice a b result) (\<lambda>raw.
           case x509_child_calls S first_cert_der info (elem_local e) (extract_tag_prefix raw (elem_local e)) of
             None \<Rightarrow> Returns result
           | Some calls \<Rightarrow> splice result (a, b) (sl_write S calls))))"

definition range_start :: "'v sign_lib \<Rightarrow> document \<Rightarrow> node_id \<Rightarrow> nat" where
  "range_start S d n = (case sl_range S d n of Some r \<Rightarrow> fst r | None \<Rightarrow> 0)"

definition nat_cmp :: "nat \<Rightarrow> nat \<Rightarrow> ordering" where
  "nat_cmp a b = (if a < b then Less else if a = b then Equal else Greater)"

text \<open>Sorting compares every element when there are at least two, and then needs all ranges.\<close>

definition sort_by_range_desc :: "'v sign_lib \<Rightarrow> document \<Rightarrow> node_id list \<Rightarrow> node_id list outcome" where
  "sort_by_range_desc S d ns =
     (if 2 \<le> length ns \<and> list_ex (\<lambda>n. sl_range S d n = None) ns then Panics
      else Returns (sort_by (\<lambda>a b. nat_cmp (range_start S d b) (range_start S d a)) ns))"

definition fill_empty_x509_data ::
  "'v sign_lib \<Rightarrow> document \<Rightarrow> string \<Rightarrow> node_id \<Rightarrow> bytes list \<Rightarrow> string outcome" where
  "fill_empty_x509_data S d xml x509_data_id x509_chain =
     out_bind (node_range S d x509_data_id) (\<lambda>(a, b).
     out_bind (str_slice a b xml) (\<lambda>orig.
     let pre = extract_tag_prefix orig ''X509Data'';
         certs_xml = sl_write S (concat (map (\<lambda>c. text_element (pname pre ''X509Certificate'') (sl_encode S c)) x509_chain));
         data_tag =
           (if pre \<noteq> [] then
              if contains_str orig (''xmlns:'' @ pre @ ''='') then ''X509Data'' else pname pre ''X509Data''
            else ''X509Data'')
     in splice xml (a, b) (sl_write S [Start_Element data_tag [], Write_Raw certs_xml, End_Element data_tag])))"

definition populate_x509_data ::
  "'v dsig_lib \<Rightarrow> 'v sign_lib \<Rightarrow> string \<Rightarrow> bytes list \<Rightarrow> string result outcome" where
  "populate_x509_data L S xml x509_chain =
     out_then (Returns (map_err Error_XmlParse (dl_parse L xml))) (\<lambda>d.
     case find_element d ns_DSIG node_X509_DATA of
       None \<Rightarrow> Returns (Inr xml)
     | Some x509_data_id \<Rightarrow>
         let children = filter (is_element d) (doc_children d x509_data_id) in
         if children = [] then
           out_bind (fill_empty_x509_data S d xml x509_data_id x509_chain) (\<lambda>r. Returns (Inr r))
         else case x509_chain of
           [] \<Rightarrow> Returns (Inr xml)
         | first_cert_der # _ \<Rightarrow>
             out_bind (sort_by_range_desc S d children) (\<lambda>sorted.
             out_bind (fold (\<lambda>c acc. fill_x509_child S d first_cert_der (extract_x509_info L S first_cert_der) acc c)
                 sorted (Returns xml))
               (\<lambda>r. Returns (Inr r))))"

definition is_blank_element :: "document \<Rightarrow> node_id \<Rightarrow> bool" where
  "is_blank_element d n \<longleftrightarrow> \<not> list_ex (is_element d) (doc_children d n) \<and> trim (doc_text_deep d n) = []"

definition populate_key_value :: "'v dsig_lib \<Rightarrow> 'v sign_lib \<Rightarrow> string \<Rightarrow> 'v key_data \<Rightarrow> string result outcome" where
  "populate_key_value L S xml data =
     out_then (Returns (map_err Error_XmlParse (dl_parse L xml))) (\<lambda>d.
     case find_element d ns_DSIG node_KEY_VALUE of
       None \<Rightarrow> Returns (Inr xml)
     | Some kv_id \<Rightarrow>
         if \<not> is_blank_element d kv_id then Returns (Inr xml)
         else
           out_bind (node_range S d kv_id) (\<lambda>(a, b).
           out_bind (str_slice a b xml) (\<lambda>orig.
           let pre = extract_tag_prefix orig ''KeyValue''; tag = pname pre ''KeyValue'' in
           case to_key_value_xml (sl_keys S) data pre of
             None \<Rightarrow> Returns (Inr xml)
           | Some inner_xml \<Rightarrow>
               out_bind (splice xml (a, b)
                   (sl_write S [Start_Element tag [], Write_Raw inner_xml, End_Element tag]))
                 (\<lambda>r. Returns (Inr r)))))"

definition closing_tag :: "string \<Rightarrow> string \<Rightarrow> string" where
  "closing_tag pre local_name = ''</'' @ pname pre local_name @ ''>''"

definition populate_der_encoded_key_value ::
  "'v dsig_lib \<Rightarrow> 'v sign_lib \<Rightarrow> string \<Rightarrow> 'v key_data \<Rightarrow> string result outcome" where
  "populate_der_encoded_key_value L S xml data =
     out_then (Returns (map_err Error_XmlParse (dl_parse L xml))) (\<lambda>d.
     case find_element d ns_DSIG11 node_DER_ENCODED_KEY_VALUE of
       None \<Rightarrow> Returns (Inr xml)
     | Some dek_id \<Rightarrow>
         if \<not> is_blank_element d dek_id then Returns (Inr xml)
         else case to_spki_der (sl_keys S) data of
           None \<Rightarrow> Returns (Inr xml)
         | Some spki_der \<Rightarrow>
             out_bind (node_range S d dek_id) (\<lambda>(a, b).
             out_bind (str_slice a b xml) (\<lambda>raw_tag.
             out_bind (splice xml (a, b)
                 (extract_open_tag raw_tag @ sl_encode S spki_der @
                  closing_tag (extract_tag_prefix raw_tag node_DER_ENCODED_KEY_VALUE) ''DEREncodedKeyValue''))
               (\<lambda>r. Returns (Inr r)))))"

section \<open>The session key\<close>

definition find_descendant_element_by_local :: "document \<Rightarrow> node_id \<Rightarrow> string \<Rightarrow> node_id option" where
  "find_descendant_element_by_local d n local_name =
     find (\<lambda>m. case doc_element d m of Some e \<Rightarrow> elem_local e = local_name | None \<Rightarrow> False) (doc_descendants d n)"

definition format_cipher_value_element_range :: "string \<Rightarrow> nat \<times> nat \<Rightarrow> string \<Rightarrow> string outcome" where
  "format_cipher_value_element_range xml = (\<lambda>(a, b) b64_content.
     out_bind (str_slice a b xml) (\<lambda>raw_tag.
     Returns (extract_open_tag raw_tag @ CHR 0x0A # ''          '' @ b64_content @ CHR 0x0A # ''        '' @
       closing_tag (extract_tag_prefix raw_tag ''CipherValue'') ''CipherValue'')))"

text \<open>
  What an \<open>EncryptedKey\<close> to be filled in needs: its empty \<open>CipherValue\<close>, the algorithm and the wrapping key.
\<close>

definition session_key_target ::
  "document \<Rightarrow> 'v keys_manager \<Rightarrow> node_id \<Rightarrow> (node_id \<times> string \<times> bytes) option" where
  "session_key_target d manager n =
     (case doc_element d n of
        None \<Rightarrow> None
      | Some e \<Rightarrow>
      if elem_local e \<noteq> ''EncryptedKey'' \<or> (elem_ns e \<noteq> ns_ENC \<and> elem_ns e \<noteq> []) then None
      else case find_descendant_element_by_local d n ''CipherValue'' of
        None \<Rightarrow> None
      | Some cv_id \<Rightarrow>
      if trim (doc_text_deep d cv_id) \<noteq> [] then None
      else case find_child_element d n ns_ENC ''EncryptionMethod'' of
        None \<Rightarrow> None
      | Some enc_method \<Rightarrow>
      (case node_attribute d enc_method attr_ALGORITHM of
        None \<Rightarrow> None
      | Some alg_uri \<Rightarrow>
      (case find_child_element d n ns_DSIG node_KEY_INFO of
        None \<Rightarrow> None
      | Some ki_id \<Rightarrow>
      (case find_child_element d ki_id ns_DSIG node_KEY_NAME of
        None \<Rightarrow> None
      | Some kn_id \<Rightarrow>
          let name = trim (doc_text_deep d kn_id) in
          if name = [] then None
          else case find_by_name manager name of
            None \<Rightarrow> None
          | Some wrap_key \<Rightarrow> map_option (\<lambda>kek. (cv_id, alg_uri, kek)) (symmetric_key_bytes wrap_key)))))"

definition session_key_replacement ::
  "'v dsig_lib \<Rightarrow> 'v sign_lib \<Rightarrow> document \<Rightarrow> string \<Rightarrow> 'v keys_manager \<Rightarrow> bytes \<Rightarrow>
   ((nat \<times> nat) \<times> string) list \<Rightarrow> node_id \<Rightarrow> ((nat \<times> nat) \<times> string) list result outcome" where
  "session_key_replacement L S d xml manager session_bytes replacements n =
     (case session_key_target d manager n of
        None \<Rightarrow> Returns (Inr replacements)
      | Some (cv_id, alg_uri, kek_bytes) \<Rightarrow>
          out_then (Returns (keywrap_from_uri alg_uri)) (\<lambda>kw.
          out_then (Returns (keywrap_wrap (dl_enc L) kw kek_bytes session_bytes)) (\<lambda>wrapped.
          out_bind (node_range S d cv_id) (\<lambda>cv_range.
          out_bind (format_cipher_value_element_range xml cv_range (sl_encode S wrapped)) (\<lambda>replacement.
          Returns (Inr (replacements @ [(cv_range, replacement)])))))))"

text \<open>The replacements are applied from the last to the first, so that the offsets stay valid.\<close>

definition apply_replacements :: "string \<Rightarrow> ((nat \<times> nat) \<times> string) list \<Rightarrow> string outcome" where
  "apply_replacements xml replacements =
     fold (\<lambda>(range, replacement) acc. out_bind acc (\<lambda>r. splice r range replacement))
       (sort_by (\<lambda>a b. nat_cmp (fst (fst b)) (fst (fst a))) replacements) (Returns xml)"

definition encrypt_session_key_in_template ::
  "'v dsig_lib \<Rightarrow> 'v sign_lib \<Rightarrow> string \<Rightarrow> 'v key \<Rightarrow> 'v keys_manager \<Rightarrow> string result outcome" where
  "encrypt_session_key_in_template L S xml signing_key manager =
     (case symmetric_key_bytes signing_key of
        None \<Rightarrow> Returns (Inr xml)
      | Some session_bytes \<Rightarrow>
          out_then (Returns (map_err Error_XmlParse (dl_parse L xml))) (\<lambda>d.
          out_then (out_try_fold (session_key_replacement L S d xml manager session_bytes) []
            (doc_descendants d (doc_root d))) (\<lambda>replacements.
          out_bind (apply_replacements xml replacements) (\<lambda>r. Returns (Inr r)))))"

section \<open>\<open>sign\<close>\<close>

definition populate_key_info ::
  "'v dsig_lib \<Rightarrow> 'v sign_lib \<Rightarrow> 'v dsig_context \<Rightarrow> string \<Rightarrow> string result outcome" where
  "populate_key_info L S ctx xml =
     out_then (Returns (first_key (cx_keys_manager ctx))) (\<lambda>k.
     out_then (if key_x509_chain k \<noteq> [] then populate_x509_data L S xml (key_x509_chain k) else Returns (Inr xml)) (\<lambda>xml1.
     out_then (populate_key_value L S xml1 (key_data k)) (\<lambda>xml2.
     out_then (populate_der_encoded_key_value L S xml2 (key_data k)) (\<lambda>xml3.
     encrypt_session_key_in_template L S xml3 k (cx_keys_manager ctx)))))"

definition sign :: "'v dsig_lib \<Rightarrow> 'v sign_lib \<Rightarrow> 'v dsig_context \<Rightarrow> string \<Rightarrow> string result outcome" where
  "sign L S ctx template_xml =
     out_then (Returns (map_err Error_XmlParse (dl_parse L template_xml))) (\<lambda>d.
     out_then (Returns (sign_build_id_map S d (default_id_attrs @ cx_id_attrs ctx))) (\<lambda>_.
     out_then (Returns (read_signature d)) (\<lambda>sp.
     let inclusive_prefixes = read_inclusive_prefixes d (sp_c14n_method_node sp);
         ref_count = length (find_child_elements d (sp_signed_info sp) ns_DSIG node_REFERENCE)
     in
     out_then (out_try_fold (sign_reference L S ctx) template_xml [0..<ref_count]) (\<lambda>result_xml.
     out_then (Returns (map_err Error_XmlParse (dl_parse L result_xml))) (\<lambda>updated.
     out_then (Returns (ok_or (Error_MissingElement ''Signature'')
       (find_element updated ns_DSIG node_SIGNATURE))) (\<lambda>updated_sig.
     out_then (Returns (ok_or (Error_MissingElement ''SignedInfo'')
       (find_child_element updated updated_sig ns_DSIG node_SIGNED_INFO))) (\<lambda>updated_signed_info.
     out_then (Returns (canonicalize_doc updated (sp_c14n_mode sp)
       (Some (tree_without_comments updated_signed_info updated)) inclusive_prefixes)) (\<lambda>c14n_signed_info.
     out_then (Returns (compute_signature L ctx updated updated_signed_info (sp_sig_method_uri sp) c14n_signed_info))
       (\<lambda>signature.
     out_bind (replace_first_empty_element L S result_xml ''SignatureValue'' (sl_encode S signature)) (\<lambda>signed_xml.
     if cx_hsm_signer ctx = None then populate_key_info L S ctx signed_xml
     else Returns (Inr signed_xml)))))))))))"

end
