(* ===== verification/Samples.thy ===== *)
theory Samples
  imports KeyInfo
begin

text \<open>Documents on which the definitions are evaluated: signed ones, one with encrypted data, and a file of keys.\<close>

definition alg_attr :: "string \<Rightarrow> string \<Rightarrow> attribute" where
  "alg_attr name v = \<lparr>at_name = \<lparr>qn_local_name = name, qn_prefix = None, qn_namespace_uri = None\<rparr>, at_value = v\<rparr>"

definition signed_arena :: "string \<Rightarrow> arena \<Rightarrow> string \<Rightarrow> arena" where
  "signed_arena method key_info sig_value =
     [(Document, None), (dsig_elem ''Root'' [], Some 0), (dsig_elem ''Data'' [alg_attr ''Id'' ''o''], Some 1),
      (dsig_elem ''Signature'' [], Some 1), (dsig_elem ''SignedInfo'' [], Some 3),
      (dsig_elem ''CanonicalizationMethod'' [alg_attr ''Algorithm'' alg_EXC_C14N], Some 4),
      (dsig_elem ''SignatureMethod'' [alg_attr ''Algorithm'' method], Some 4),
      (dsig_elem ''Reference'' [alg_attr ''URI'' ''#o''], Some 4),
      (dsig_elem ''DigestMethod'' [alg_attr ''Algorithm'' alg_SHA256], Some 7),
      (dsig_elem ''DigestValue'' [], Some 7), (Text ''D'', Some 9),
      (dsig_elem ''SignatureValue'' [], Some 3), (Text sig_value, Some 11)] @ key_info"

text \<open>
  An \<open>EncryptedData\<close> with a named key (1), one with a \<open>DerivedKey\<close> without method and a key name (8), and an
  \<open>EncryptedKey\<close> with ECDH-ES (13).
\<close>

definition enc_elem :: "string \<Rightarrow> string \<Rightarrow> attribute list \<Rightarrow> node_kind" where
  "enc_elem ns local attrs =
     Element \<lparr>el_name = \<lparr>qn_local_name = local, qn_prefix = None, qn_namespace_uri = Some ns\<rparr>,
       el_attributes = attrs, el_namespace_declarations = []\<rparr>"

definition enc_nodes :: arena where
  "enc_nodes =
     [(Document, None), (enc_elem ns_ENC ''EncryptedData'' [], Some 0),
      (enc_elem ns_ENC ''EncryptionMethod'' [alg_attr ''Algorithm'' alg_AES128_CBC], Some 1),
      (dsig_elem ''KeyInfo'' [], Some 1), (dsig_elem ''KeyName'' [], Some 3), (Text ''k1'', Some 4),
      (enc_elem ns_ENC ''CipherData'' [], Some 1), (enc_elem ns_ENC ''CipherValue'' [], Some 6),
      (enc_elem ns_ENC ''EncryptedData'' [], Some 1), (dsig_elem ''KeyInfo'' [], Some 8),
      (enc_elem ns_ENC11 ''DerivedKey'' [], Some 9), (dsig_elem ''KeyName'' [], Some 9), (Text ''k1'', Some 11),
      (enc_elem ns_ENC ''EncryptedKey'' [], Some 1), (dsig_elem ''KeyInfo'' [], Some 13),
      (enc_elem ns_ENC ''AgreementMethod'' [alg_attr ''Algorithm'' alg_ECDH_ES], Some 14),
      (enc_elem ns_ENC ''OriginatorKeyInfo'' [], Some 15), (dsig_elem ''KeyName'' [], Some 16), (Text ''a'', Some 17),
      (dsig_elem ''KeyValue'' [], Some 16), (enc_elem ns_DSIG11 ''ECKeyValue'' [], Some 19),
      (enc_elem ns_DSIG11 ''PublicKey'' [], Some 20), (Text ''41'', Some 21),
      (enc_elem ns_ENC ''RecipientKeyInfo'' [], Some 15), (dsig_elem ''KeyName'' [], Some 23), (Text ''b'', Some 24)]"

text \<open>A \<open>keys.xml\<close> with one AES key.\<close>

definition keys_nodes :: arena where
  "keys_nodes =
     [(Document, None), (enc_elem ''http://www.aleksey.com/xmlsec/2002'' ''Keys'' [], Some 0),
      (dsig_elem ''KeyInfo'' [], Some 1), (dsig_elem ''KeyName'' [], Some 2), (Text ''k1'', Some 3),
      (dsig_elem ''KeyValue'' [], Some 2), (enc_elem ''http://www.aleksey.com/xmlsec/2002'' ''AESKeyValue'' [], Some 5),
      (Text ''0123456789abcdef'', Some 6)]"

text \<open>
  The sample documents, each named by a constructor, so that evaluation handles the accessors without
  expanding the document. \<open>sample_doc_arena\<close> shows that they are the documents of their arenas.
\<close>

datatype sample = Signed_Hmac | Signed_Truncated | Signed_Two_Certificates | Encrypted | Keys_File

fun sample_nodes :: "sample \<Rightarrow> arena" where
  "sample_nodes Signed_Hmac = signed_arena alg_HMAC_SHA256 [] ''secret''"
| "sample_nodes Signed_Truncated =
     signed_arena alg_HMAC_SHA256 [(dsig_elem ''HMACOutputLength'' [], Some 6), (Text ''160'', Some 13)]
       ''secretsecretsecretab''"
| "sample_nodes Signed_Two_Certificates =
     signed_arena alg_RSA_SHA256
       [(dsig_elem ''KeyInfo'' [], Some 3), (dsig_elem ''X509Data'' [], Some 13),
        (dsig_elem ''X509Certificate'' [], Some 14), (Text ''AAAA'', Some 15),
        (dsig_elem ''X509Certificate'' [], Some 14), (Text ''BBBB'', Some 17)]
       ''BBBB''"
| "sample_nodes Encrypted = enc_nodes"
| "sample_nodes Keys_File = keys_nodes"

definition sample_kind :: "sample \<Rightarrow> node_id \<Rightarrow> node_kind option" where
  "sample_kind a n = arena_kind (sample_nodes a) n"

definition sample_children :: "sample \<Rightarrow> node_id \<Rightarrow> node_id list" where
  "sample_children a n = arena_children (sample_nodes a) n"

definition sample_parent :: "sample \<Rightarrow> node_id \<Rightarrow> node_id option" where
  "sample_parent a n = arena_parent (sample_nodes a) n"

definition sample_prev :: "sample \<Rightarrow> node_id \<Rightarrow> node_id option" where
  "sample_prev a n = doc_prev_sibling (arena_doc (sample_nodes a)) n"

definition sample_next :: "sample \<Rightarrow> node_id \<Rightarrow> node_id option" where
  "sample_next a n = doc_next_sibling (arena_doc (sample_nodes a)) n"

definition sample_descendants :: "sample \<Rightarrow> node_id \<Rightarrow> node_id list" where
  "sample_descendants a n = arena_descendants (sample_nodes a) n"

definition sample_text :: "sample \<Rightarrow> node_id \<Rightarrow> string" where
  "sample_text a n = doc_text_deep (arena_doc (sample_nodes a)) n"

definition sample_attribute :: "element \<Rightarrow> string \<Rightarrow> string option" where
  "sample_attribute e name = map_option at_value (find (\<lambda>a. qname_str (at_name a) = name) (el_attributes e))"

definition sample_doc :: "sample \<Rightarrow> document" where
  "sample_doc a =
     \<lparr>doc_root = 0, doc_kind = sample_kind a, doc_children = sample_children a, doc_parent = sample_parent a,
      doc_prev_sibling = sample_prev a, doc_next_sibling = sample_next a, doc_descendants = sample_descendants a,
      doc_document_element = Some 1, doc_get_attribute = sample_attribute, doc_text_deep = sample_text a,
      doc_bound = Suc (length (sample_nodes a))\<rparr>"

lemma sample_root: "doc_document_element (arena_doc (sample_nodes a)) = Some 1"
  by (induction a) code_simp+

lemma sample_doc_arena: "sample_doc a = arena_doc (sample_nodes a)"
proof -
  have "doc_document_element (arena_doc (sample_nodes a)) = Some 1" by (rule sample_root)
  then show ?thesis
    by (simp add: sample_doc_def arena_doc_def sample_kind_def sample_children_def sample_parent_def sample_prev_def
        sample_next_def sample_descendants_def sample_text_def sample_attribute_def fun_eq_iff)
qed

lemma sample_doc_wf: "wf_doc (sample_doc a)"
proof -
  have "arena_ok (sample_nodes a)" by (induction a) code_simp+
  then show ?thesis unfolding sample_doc_arena by (rule arena_wf)
qed

end
