(* ===== verification/Dsig_Verify_Laws.thy ===== *)
theory Dsig_Verify_Laws
  imports Dsig_Verify Samples
begin

text \<open>
  What the verdict of \<open>verify\<close> means, and a concrete signed document on which \<open>verify\<close> is evaluated.
\<close>

section \<open>Sample libraries\<close>

text \<open>
  Concrete libraries: the digest of anything is \<open>D\<close>, the MAC of anything is the key, an RSA signature is
  the public key itself, base64 is the identity. They only serve to evaluate \<open>verify\<close>.
\<close>

definition sample_fs :: file_system where
  "sample_fs = \<lparr>fs_read = (\<lambda>_. Inl []), fs_exists = (\<lambda>_. False), fs_join = (\<lambda>a b. a @ b), fs_parent = (\<lambda>_. None)\<rparr>"

definition verify_key_lib :: "bytes key_lib" where
  "verify_key_lib = sample_key_lib\<lparr>kl_base64 := Inr,
     kl_cert := sample_cert_lib\<lparr>build_chain_from_pool := (\<lambda>_ _ _ _. Inl ''no path to a trust anchor'')\<rparr>\<rparr>"

definition verify_crypto :: "bytes crypto_lib" where
  "verify_crypto = sample_lib\<lparr>lib_digest := (\<lambda>_ _. ''D''), lib_hmac := (\<lambda>_ k _. k),
     lib_hmac_verify_truncated := (\<lambda>_ k _ s n. length s = n \<and> take 6 s = k),
     pkcs1_verify := (\<lambda>_ k _ s. k = s)\<rparr>"

definition sample_enc_lib :: "bytes enc_lib" where
  "sample_enc_lib =
     \<lparr>k_aes_cbc_encrypt = (\<lambda>_ _ _ d. Inr d), k_aes_cbc_decrypt = (\<lambda>_ _ d. Inr d),
      k_cipher_encrypt = (\<lambda>_ _ _ d. Inr d), k_cipher_decrypt = (\<lambda>_ _ d. Inr d), k_cipher_key_size = (\<lambda>_. 16),
      k_wrap = (\<lambda>_ _ d. Inr d), k_unwrap = (\<lambda>_ _ d. Inr d), k_kek_size = (\<lambda>_. 16),
      k_kt_encrypt = (\<lambda>_ _ _ d _. Inr d), k_kt_decrypt = (\<lambda>_ _ d _. Inr d),
      k_concat_kdf = (\<lambda>z _ _ _. Inr z), k_pbkdf2 = (\<lambda>p _ _. Inr p), k_hkdf = (\<lambda>z _ _ _. Inr z),
      k_ecdh = (\<lambda>_ p _. Inr p), k_x25519 = (\<lambda>p _. Inr p), k_dh_compute = (\<lambda>p _ _ _. Inr p)\<rparr>"

definition sample_dsig_lib :: "sample \<Rightarrow> bytes dsig_lib" where
  "sample_dsig_lib a =
     \<lparr>dl_legacy = False, dl_parse = (\<lambda>_. Inr (sample_doc a)), dl_keys = verify_key_lib, dl_crypto = verify_crypto,
      dl_enc = sample_enc_lib, dl_fs = sample_fs, dl_rsa_pkcs1_der = Some, dl_ed25519_bytes = Some,
      dl_ec_sec1 = (\<lambda>_ b. Some b), dl_read_uint = (\<lambda>_. None), dl_uint_from_der = Some,
      dl_decode_oid = (\<lambda>_. None), dl_show_alg = (\<lambda>_. []), dl_writer = (\<lambda>_. [])\<rparr>"

definition sample_ctx :: "bytes dsig_context" where
  "sample_ctx = DsigContext_new (add_key KeysManager_new sample_key)"

definition sample_refs :: "verified_reference list" where
  "sample_refs = [\<lparr>vr_uri = ''#o'', vr_resolved_node = Some 2, vr_digest_verified = True\<rparr>]"

definition sample_ki :: verified_key_info where
  "sample_ki = \<lparr>vk_algorithm = ''HMAC'', vk_key_name = Some ''k1'', vk_x509_chain = []\<rparr>"

lemma sample_valid:
  "verify (sample_dsig_lib Signed_Hmac) sample_ctx [] = Returns (Inr (Valid 3 sample_refs sample_ki))"
  by code_simp

lemma sample_valid_truncated:
  "verify (sample_dsig_lib Signed_Truncated) sample_ctx [] = Returns (Inr (Valid 3 sample_refs sample_ki))"
  by code_simp

text \<open>The context of the two-certificate document: certificates are to be validated, and only \<open>AAAA\<close> is trusted.\<close>

definition x509_ctx :: "bytes dsig_context" where
  "x509_ctx = with_strict_verification (with_verify_keys (with_enabled_key_data_x509
     (DsigContext_new_permissive (add_trusted_cert KeysManager_new ''AAAA'')) True) True) True"

definition two_cert_ki :: verified_key_info where
  "two_cert_ki = \<lparr>vk_algorithm = ''RSA'', vk_key_name = None, vk_x509_chain = [''AAAA'', ''BBBB'']\<rparr>"

lemma sample_valid_two_certificates:
  "verify (sample_dsig_lib Signed_Two_Certificates) x509_ctx [] =
     Returns (Inr (Valid 3 sample_refs two_cert_ki))"
  by code_simp

section \<open>Properties\<close>

text \<open>
  C1: A \<open>Valid\<close> verdict means that every reference was checked. There is one entry in the result for each
  \<open>Reference\<close> child of \<open>SignedInfo\<close>, in order; for each of them the digest of the octets that the URI and
  the transforms give equals the decoded \<open>DigestValue\<close>, and the recorded target is the node the URI
  resolves to. The only exception are \<open>cid:\<close> URIs, and they are marked as not verified.
\<close>

theorem valid_references:
  assumes "verify L ctx xml = Returns (Inr (Valid s refs ki))"
  shows "\<exists>d ids sp. dl_parse L xml = Inr d \<and> build_id_map d (default_id_attrs @ cx_id_attrs ctx) = Inr ids \<and>
    read_signature d = Inr sp \<and> s = sp_sig_node sp \<and>
    list_all2 (\<lambda>r v. vr_uri v = unwrap_or [] (node_attribute d r attr_URI) \<and>
        (if starts_with (vr_uri v) ''cid:'' then \<not> vr_digest_verified v \<and> vr_resolved_node v = None
         else vr_digest_verified v \<and>
           reference_holds L d ids xml s (cx_url_maps ctx) (cx_base_dir ctx) r v))
      (find_child_elements d (sp_signed_info sp) ns_DSIG node_REFERENCE) refs"
proof -
  obtain d ids sp bits pq c14n sv where
    b: "before_check L ctx xml d ids sp bits pq refs c14n sv" and
    e: "case cx_hsm_verifier ctx of
       Some h \<Rightarrow> verify_with_hsm L h sp refs c14n sv = Leave (Valid s refs ki)
     | None \<Rightarrow> verify_with_key L ctx d ids sp bits pq refs c14n sv = Continue (Valid s refs ki)"
    using valid_run [OF assms] .
  have s: "s = sp_sig_node sp"
    using e by (rule valid_sig_node)
  from before_check_references [OF b] b show ?thesis unfolding before_check_def s by blast
qed

theorem valid_references_witness:
  "\<exists>ids. build_id_map (sample_doc Signed_Hmac) default_id_attrs = Inr ids \<and>
     reference_holds (sample_dsig_lib Signed_Hmac) (sample_doc Signed_Hmac) ids [] 3 [] None 7 (hd sample_refs)"
proof -
  have sp: "read_signature (sample_doc Signed_Hmac) = Inr \<lparr>sp_sig_node = 3, sp_signed_info = 4, sp_c14n_method_node = 5,
      sp_c14n_mode = Exclusive, sp_sig_method_node = 6, sp_sig_method_uri = alg_HMAC_SHA256\<rparr>" by code_simp
  have refs: "find_child_elements (sample_doc Signed_Hmac) 4 ns_DSIG node_REFERENCE = [7]" by code_simp
  from valid_references [OF sample_valid] show ?thesis
    by (auto simp: sample_dsig_lib_def sp refs sample_ctx_def DsigContext_new_def DsigContext_new_permissive_def
        sample_refs_def)
qed

text \<open>
  C2: A \<open>Valid\<close> verdict means that the signature value was verified over the canonical form of \<open>SignedInfo\<close>
  with the algorithm the document declares: by the configured HSM, whose algorithm must be the
  declared one, or with the selected key, whose certificates passed the configured check.
\<close>

theorem valid_signature:
  assumes "verify L ctx xml = Returns (Inr (Valid s refs ki))"
  shows "\<exists>d ids sp c14n sv. dl_parse L xml = Inr d \<and>
    build_id_map d (default_id_attrs @ cx_id_attrs ctx) = Inr ids \<and> read_signature d = Inr sp \<and>
    canonical_signed_info d sp = Inr c14n \<and> read_signature_value L d sp = Inr sv \<and>
    (case cx_hsm_verifier ctx of
       Some h \<Rightarrow> kryptering_algorithm_uri (dl_legacy L) (hv_algorithm h) = Some (sp_sig_method_uri sp) \<and>
         hv_verify h c14n sv = Inr True
     | None \<Rightarrow> \<exists>k origin sk pq alg bits.
         select_key L ctx d ids s = Returns (Inr (k, origin)) \<and>
         check_certificates L ctx k origin = Returns (Inr ()) \<and>
         to_signing_key k = Some sk \<and> hmac_output_length ctx d sp = Continue bits \<and> pq_context L d sp = Inr pq \<and>
         from_uri_with_context (dl_legacy L) (sp_sig_method_uri sp) pq = Inr alg \<and>
         check_signature L alg sk bits c14n sv = Inr True)"
proof -
  obtain d ids sp bits pq c14n sv where
    b: "before_check L ctx xml d ids sp bits pq refs c14n sv" and
    e: "case cx_hsm_verifier ctx of
       Some h \<Rightarrow> verify_with_hsm L h sp refs c14n sv = Leave (Valid s refs ki)
     | None \<Rightarrow> verify_with_key L ctx d ids sp bits pq refs c14n sv = Continue (Valid s refs ki)"
    using valid_run [OF assms] .
  have "case cx_hsm_verifier ctx of
       Some h \<Rightarrow> kryptering_algorithm_uri (dl_legacy L) (hv_algorithm h) = Some (sp_sig_method_uri sp) \<and>
         hv_verify h c14n sv = Inr True
     | None \<Rightarrow> \<exists>k origin sk pq alg bits.
         select_key L ctx d ids s = Returns (Inr (k, origin)) \<and>
         check_certificates L ctx k origin = Returns (Inr ()) \<and>
         to_signing_key k = Some sk \<and> hmac_output_length ctx d sp = Continue bits \<and> pq_context L d sp = Inr pq \<and>
         from_uri_with_context (dl_legacy L) (sp_sig_method_uri sp) pq = Inr alg \<and>
         check_signature L alg sk bits c14n sv = Inr True"
  proof (cases "cx_hsm_verifier ctx")
    case None
    with e have "verify_with_key L ctx d ids sp bits pq refs c14n sv = Continue (Valid s refs ki)" by simp
    then show ?thesis
      by (rule verify_with_key_valid) (use None b in \<open>auto simp: before_check_def\<close>)
  next
    case (Some h)
    with e show ?thesis using verify_with_hsm_valid [of L h sp refs c14n sv s ki] by simp
  qed
  with b show ?thesis unfolding before_check_def by blast
qed

theorem valid_signature_witness:
  "\<exists>k origin. (\<exists>ids. select_key (sample_dsig_lib Signed_Hmac) sample_ctx (sample_doc Signed_Hmac) ids 3 =
     Returns (Inr (k, origin))) \<and> (\<exists>sk alg c14n sv bits. to_signing_key k = Some sk \<and>
     check_signature (sample_dsig_lib Signed_Hmac) alg sk bits c14n sv = Inr True)"
proof -
  have "cx_hsm_verifier sample_ctx = None"
    by (simp add: sample_ctx_def DsigContext_new_def DsigContext_new_permissive_def)
  moreover have "dl_parse (sample_dsig_lib Signed_Hmac) [] = Inr (sample_doc Signed_Hmac)"
    by (simp add: sample_dsig_lib_def)
  ultimately show ?thesis using valid_signature [OF sample_valid] by (simp del: split_paired_Ex) blast
qed

text \<open>
  C3: In strict mode (the default of \<open>DsigContext::new\<close>) every reference of a \<open>Valid\<close> signature that resolved
  to an element resolved to the document element, to the signature or one of its ancestors, or to an
  element with the same parent as the signature.
\<close>

theorem valid_strict_positions:
  assumes "verify L ctx xml = Returns (Inr (Valid s refs ki))" "cx_strict_verification ctx"
    "dl_parse L xml = Inr d" "wf_doc d" "v \<in> set refs" "vr_resolved_node v = Some t"
  shows "doc_document_element d = Some t \<or> anc_self d t s \<or>
    (\<exists>p. t \<in> set (doc_children d p) \<and> s \<in> set (doc_children d p))"
proof -
  obtain d' ids sp bits pq c14n sv where
    b: "before_check L ctx xml d' ids sp bits pq refs c14n sv" and
    e: "case cx_hsm_verifier ctx of
       Some h \<Rightarrow> verify_with_hsm L h sp refs c14n sv = Leave (Valid s refs ki)
     | None \<Rightarrow> verify_with_key L ctx d' ids sp bits pq refs c14n sv = Continue (Valid s refs ki)"
    using valid_run [OF assms(1)] .
  have "s = sp_sig_node sp"
    using e by (rule valid_sig_node)
  with b assms(3) have "check_positions ctx d s refs = Inr ()" by (simp add: before_check_def)
  from check_positions_strict [OF this assms(2,5,6)] have "validate_reference_position d s t = Inr ()" .
  then show ?thesis
    using is_ancestor_or_self_iff [OF assms(4)] is_sibling_iff [OF assms(4)]
    by (auto simp: validate_reference_position_def split: if_splits)
qed

theorem valid_strict_positions_witness:
  "doc_document_element (sample_doc Signed_Hmac) = Some 2 \<or> anc_self (sample_doc Signed_Hmac) 2 3 \<or>
    (\<exists>p. 2 \<in> set (doc_children (sample_doc Signed_Hmac) p) \<and> 3 \<in> set (doc_children (sample_doc Signed_Hmac) p))"
  by (rule valid_strict_positions [OF sample_valid _ _ sample_doc_wf, where v = "hd sample_refs"])
    (simp_all add: sample_ctx_def DsigContext_new_def sample_dsig_lib_def sample_refs_def)

text \<open>
  C5: Truncated HMACs: when the document asks for a shorter output, a \<open>Valid\<close> signature has a value of
  exactly that many bits, a multiple of eight and not below the configured minimum (160 bits in
  \<open>DsigContext::new\<close>).
\<close>

theorem valid_hmac_length:
  assumes "verify L ctx xml = Returns (Inr (Valid s refs ki))" "dl_parse L xml = Inr d"
    "read_signature d = Inr sp" "is_hmac_algorithm (sp_sig_method_uri sp)"
    "find_child_element d (sp_sig_method_node sp) ns_DSIG node_HMAC_OUTPUT_LENGTH = Some n"
  shows "\<exists>sv. read_signature_value L d sp = Inr sv \<and> parse_usize (trimmed_text d n) = Some (8 * length sv) \<and>
    cx_hmac_min_out_len ctx \<le> 8 * length sv"
proof -
  obtain d' ids sp' bits pq c14n sv where "before_check L ctx xml d' ids sp' bits pq refs c14n sv"
    using valid_run [OF assms(1)] .
  with assms(2,3) have "hmac_output_length ctx d sp = Continue bits" "read_signature_value L d sp = Inr sv"
    "check_hmac_length bits sv = Continue ()" by (simp_all add: before_check_def)
  with assms(4,5) show ?thesis
    by (auto simp: hmac_output_length_def check_hmac_length_def res_simps split: if_splits)
qed

theorem valid_hmac_length_witness:
  "\<exists>sv. parse_usize (trimmed_text (sample_doc Signed_Truncated) 13) = Some (8 * length (sv :: bytes)) \<and>
     160 \<le> 8 * length sv"
proof -
  have "read_signature (sample_doc Signed_Truncated) = Inr \<lparr>sp_sig_node = 3, sp_signed_info = 4, sp_c14n_method_node = 5,
      sp_c14n_mode = Exclusive, sp_sig_method_node = 6, sp_sig_method_uri = alg_HMAC_SHA256\<rparr>"
    "find_child_element (sample_doc Signed_Truncated) 6 ns_DSIG node_HMAC_OUTPUT_LENGTH = Some 13"
    "is_hmac_algorithm alg_HMAC_SHA256" by code_simp+
  then show ?thesis
    using valid_hmac_length [OF sample_valid_truncated, where d = "sample_doc Signed_Truncated" and n = 13]
    by (auto simp: sample_dsig_lib_def sample_ctx_def DsigContext_new_def)
qed

text \<open>
  C4: With \<open>trusted_keys_only\<close> (the default of \<open>DsigContext::new\<close>) a \<open>Valid\<close> signature was verified with a key of
  the key store, or by the HSM verifier if one is configured, bound to the declared algorithm: no key
  from the document is ever used.
\<close>

theorem valid_trusted_key:
  assumes "verify L ctx xml = Returns (Inr (Valid s refs ki))" "cx_trusted_keys_only ctx"
  shows "\<exists>d sp c14n sv.
    dl_parse L xml = Inr d \<and> read_signature d = Inr sp \<and> canonical_signed_info d sp = Inr c14n \<and>
    read_signature_value L d sp = Inr sv \<and>
    (case cx_hsm_verifier ctx of
       Some h \<Rightarrow> kryptering_algorithm_uri (dl_legacy L) (hv_algorithm h) = Some (sp_sig_method_uri sp) \<and>
         hv_verify h c14n sv = Inr True
     | None \<Rightarrow> \<exists>k \<in> set (km_keys (cx_keys_manager ctx)). \<exists>sk pq alg bits.
         hmac_output_length ctx d sp = Continue bits \<and> pq_context L d sp = Inr pq \<and>
         from_uri_with_context (dl_legacy L) (sp_sig_method_uri sp) pq = Inr alg \<and>
         ki = \<lparr>vk_algorithm = KeyData_algorithm_name (key_data k), vk_key_name = key_name k,
           vk_x509_chain = key_x509_chain k\<rparr> \<and>
         to_signing_key k = Some sk \<and> check_signature L alg sk bits c14n sv = Inr True)"
proof -
  obtain d ids sp bits pq c14n sv where b: "before_check L ctx xml d ids sp bits pq refs c14n sv" and
    e: "case cx_hsm_verifier ctx of
       Some h \<Rightarrow> verify_with_hsm L h sp refs c14n sv = Leave (Valid s refs ki)
     | None \<Rightarrow> verify_with_key L ctx d ids sp bits pq refs c14n sv = Continue (Valid s refs ki)"
    using valid_run [OF assms(1)] .
  note parts = b [unfolded before_check_def]
  show ?thesis
  proof (cases "cx_hsm_verifier ctx")
    case (Some h)
    then have "kryptering_algorithm_uri (dl_legacy L) (hv_algorithm h) = Some (sp_sig_method_uri sp) \<and>
        hv_verify h c14n sv = Inr True"
      using e verify_with_hsm_valid [of L h sp refs c14n sv s ki] by simp
    with parts Some show ?thesis by (intro exI [of _ d] exI [of _ sp] exI [of _ c14n] exI [of _ sv]) simp
  next
    case None
    with e have "verify_with_key L ctx d ids sp bits pq refs c14n sv = Continue (Valid s refs ki)" by simp
    then obtain k origin sk alg where sel: "select_key L ctx d ids (sp_sig_node sp) = Returns (Inr (k, origin))" and
      key: "to_signing_key k = Some sk" "from_uri_with_context (dl_legacy L) (sp_sig_method_uri sp) pq = Inr alg"
      "check_signature L alg sk bits c14n sv = Inr True"
      "ki = \<lparr>vk_algorithm = KeyData_algorithm_name (key_data k), vk_key_name = key_name k,
        vk_x509_chain = key_x509_chain k\<rparr>"
      by (rule verify_with_key_valid)
    have "k \<in> set (km_keys (cx_keys_manager ctx))" using select_key_trusted [OF sel assms(2)] ..
    with key parts have "\<exists>k \<in> set (km_keys (cx_keys_manager ctx)). \<exists>sk pq alg bits.
         hmac_output_length ctx d sp = Continue bits \<and> pq_context L d sp = Inr pq \<and>
         from_uri_with_context (dl_legacy L) (sp_sig_method_uri sp) pq = Inr alg \<and>
         ki = \<lparr>vk_algorithm = KeyData_algorithm_name (key_data k), vk_key_name = key_name k,
           vk_x509_chain = key_x509_chain k\<rparr> \<and>
         to_signing_key k = Some sk \<and> check_signature L alg sk bits c14n sv = Inr True" by blast
    with parts None show ?thesis by (intro exI [of _ d] exI [of _ sp] exI [of _ c14n] exI [of _ sv]) simp
  qed
qed

theorem valid_trusted_key_witness:
  "\<exists>k \<in> set (km_keys (cx_keys_manager sample_ctx)). key_name k = vk_key_name sample_ki"
proof -
  have "cx_trusted_keys_only sample_ctx" "cx_hsm_verifier sample_ctx = None"
    by (simp_all add: sample_ctx_def DsigContext_new_def DsigContext_new_permissive_def)
  with valid_trusted_key [OF sample_valid this(1)] obtain k where
    "k \<in> set (km_keys (cx_keys_manager sample_ctx))"
    "sample_ki = \<lparr>vk_algorithm = KeyData_algorithm_name (key_data k), vk_key_name = key_name k,
      vk_x509_chain = key_x509_chain k\<rparr>" by auto
  then show ?thesis by (metis verified_key_info.select_convs(2))
qed

text \<open>
  C6: When both \<open>enabled_key_data_x509\<close> and \<open>verify_keys\<close> are set and validation is not switched off, the
  first certificate of the chain reported with a \<open>Valid\<close> signature passed chain validation.
\<close>

theorem valid_first_certificate:
  assumes "verify L ctx xml = Returns (Inr (Valid s refs ki))" "cx_hsm_verifier ctx = None" "\<not> cx_insecure ctx"
    "cx_enabled_key_data_x509 ctx" "cx_verify_keys ctx" "vk_x509_chain ki = leaf # rest"
  shows "validate_cert_chain (dl_legacy L) (kl_cert (dl_keys L)) leaf (leaf # rest) (validation_config ctx) =
    Returns (Inr ())"
proof -
  obtain d ids sp bits pq c14n sv where
    "verify_with_key L ctx d ids sp bits pq refs c14n sv = Continue (Valid s refs ki)"
    using valid_key_run [OF assms(1,2)] .
  then obtain k origin where sel: "select_key L ctx d ids (sp_sig_node sp) = Returns (Inr (k, origin))" and
    cert: "check_certificates L ctx k origin = Returns (Inr ())" and chain: "key_x509_chain k = leaf # rest"
    using assms(6) by (auto elim!: verify_with_key_valid)
  have "origin \<noteq> Origin_Inline"
    using sel chain by (auto simp: select_key_def Let_def res_simps split: if_splits option.splits)
  then have "needs_x509_validation ctx k origin"
    using assms(4,5) chain by (cases origin) (simp_all add: needs_x509_validation_def)
  then show ?thesis using cert assms(3) chain by (simp add: check_certificates_def)
qed

theorem valid_first_certificate_witness:
  "validate_cert_chain False (kl_cert verify_key_lib) ''AAAA'' [''AAAA'', ''BBBB''] (validation_config x509_ctx) =
     Returns (Inr ())"
  using valid_first_certificate [OF sample_valid_two_certificates, of "''AAAA''" "[''BBBB'']"]
  by (simp add: x509_ctx_def with_strict_verification_def with_verify_keys_def with_enabled_key_data_x509_def
      DsigContext_new_permissive_def two_cert_ki_def sample_dsig_lib_def)

text \<open>
  C7: Only the first certificate is validated, and the key need not be its key. Let everything up to the
  signature value be in order, and let the keys of the document count and its certificates be checked.
  When the first key element of \<open>KeyInfo\<close> is an \<open>X509Data\<close> with two certificates \<open>a\<close> and \<open>b\<close>, neither of
  which is a CA or issued by the other, then the verdict is \<open>Valid\<close> exactly when the chain validates
  for \<open>a\<close> and the signature verifies with the key of \<open>b\<close>. Whether \<open>b\<close> itself is trusted plays no role: a
  trusted certificate put in front makes a signature with the key of any other one acceptable.
\<close>

theorem untrusted_certificate_accepted:
  assumes before: "before_check L ctx xml d ids sp bits pq refs c14n sv"
    and ctx: "cx_hsm_verifier ctx = None" "\<not> cx_trusted_keys_only ctx" "\<not> cx_insecure ctx" "cx_enabled_key_data_x509 ctx"
    and key_info: "find_child_element d (sp_sig_node sp) ns_DSIG node_KEY_INFO = Some ki"
      "doc_children d (unwrap_or ki (resolve_key_info_reference d ki ids)) = pre @ x # post"
      "\<And>n. n \<in> set pre \<Longrightarrow> doc_element d n = None" "is_named d ns_DSIG node_X509_DATA x"
    and certs: "x509_certificates (dl_keys L) d x = [a, b]" "load_x509_cert_der (dl_keys L) (pc_der b) = Inr kb"
      "\<not> is_ca (kl_cert (dl_keys L)) (pc_cert a)" "\<not> is_ca (kl_cert (dl_keys L)) (pc_cert b)"
      "cert_subject_der (pc_cert a) \<noteq> cert_issuer_der (pc_cert b)"
      "cert_subject_der (pc_cert b) \<noteq> cert_issuer_der (pc_cert a)"
  shows "verify L ctx xml = Returns (Inr (Valid (sp_sig_node sp) refs
      \<lparr>vk_algorithm = KeyData_algorithm_name (key_data kb), vk_key_name = key_name kb,
       vk_x509_chain = [pc_der a, pc_der b]\<rparr>)) \<longleftrightarrow>
    validate_cert_chain (dl_legacy L) (kl_cert (dl_keys L)) (pc_der a) [pc_der a, pc_der b] (validation_config ctx) =
      Returns (Inr ()) \<and>
    (\<exists>sk alg. to_signing_key kb = Some sk \<and> from_uri_with_context (dl_legacy L) (sp_sig_method_uri sp) pq = Inr alg \<and>
      check_signature L alg sk bits c14n sv = Inr True)"
proof -
  let ?k = "kb\<lparr>key_x509_chain := [pc_der a, pc_der b]\<rparr>"
  obtain e where e: "doc_element d x = Some e" "elem_local e = node_X509_DATA" "elem_ns e = ns_DSIG"
    using key_info(4) by (auto simp: is_named_def split: option.splits)
  have "extract_x509_certificate (dl_keys L) d x = Some ?k"
    by (rule x509_key_not_of_first_certificate [OF certs(1,3-6,2)])
  then have x: "(case doc_element d x of
          None \<Rightarrow> Returns None
        | Some e \<Rightarrow>
            if elem_local e = node_KEY_VALUE \<and> dsig_or_none e then key_value_child (dl_keys L) d x
            else if elem_local e = node_X509_DATA \<and> dsig_or_none e then
              Returns (extract_x509_certificate (dl_keys L) d x)
            else if elem_local e = node_DER_ENCODED_KEY_VALUE \<and> elem_ns e = ns_DSIG11 then
              Returns (parse_der_encoded_key_value (dl_keys L) d x)
            else Returns None) = Returns (Some ?k)"
    using e by (simp add: dsig_or_none_def uri_defs)
  have "extract_key_value (dl_keys L) d (unwrap_or ki (resolve_key_info_reference d ki ids)) = Returns (Some ?k)"
    unfolding extract_key_value_def key_info(2) using key_info(3) x by (induction pre) simp_all
  then have "select_key L ctx d ids (sp_sig_node sp) = Returns (Inr (?k, Origin_X509))"
    using ctx(2) key_info(1) by (simp add: select_key_def inline_key_def or_else_def)
  moreover have "check_certificates L ctx ?k Origin_X509 =
      validate_cert_chain (dl_legacy L) (kl_cert (dl_keys L)) (pc_der a) [pc_der a, pc_der b] (validation_config ctx)"
    using ctx(3,4) by (simp add: check_certificates_def needs_x509_validation_def)
  moreover have "to_signing_key ?k = to_signing_key kb" by (simp add: to_signing_key_def)
  ultimately show ?thesis
    unfolding verify_before_check [OF before ctx(1)] verify_with_key_def by (auto simp: res_simps split: if_splits)
qed

text \<open>
  A document whose signature was made with the key of \<open>BBBB\<close>, with \<open>AAAA\<close> in front: only \<open>AAAA\<close> is trusted,
  validating \<open>BBBB\<close> fails, the verdict is \<open>Valid\<close>.
\<close>

theorem untrusted_certificate_accepted_witness:
  "verify (sample_dsig_lib Signed_Two_Certificates) x509_ctx [] = Returns (Inr (Valid 3 sample_refs two_cert_ki)) \<and>
   validate_cert_chain False (kl_cert verify_key_lib) ''AAAA'' [''AAAA'', ''BBBB''] (validation_config x509_ctx) =
     Returns (Inr ()) \<and>
   (\<exists>e. validate_cert_chain False (kl_cert verify_key_lib) ''BBBB'' [''AAAA'', ''BBBB''] (validation_config x509_ctx) =
     Returns (Inl e))"
proof -
  let ?L = "sample_dsig_lib Signed_Two_Certificates" and ?d = "sample_doc Signed_Two_Certificates"
  let ?sp = "\<lparr>sp_sig_node = 3, sp_signed_info = 4, sp_c14n_method_node = 5,
      sp_c14n_mode = Exclusive, sp_sig_method_node = 6, sp_sig_method_uri = alg_RSA_SHA256\<rparr>"
  let ?c = "\<lambda>der. \<lparr>pc_cert = \<lparr>cert_serial = der, cert_subject_der = der, cert_issuer_der = ''I'' @ der,
         cert_extensions = None, cert_spki_der = Inr der, cert_alg_oid = [], cert_alg_params = None, cert_public_key = der, cert_not_before = 0, cert_not_after = 9\<rparr>, pc_der = der\<rparr>"
  let ?kb = "Key_new (Key_Rsa None ''BBBB'') Usage_Verify\<lparr>key_x509_chain := [''BBBB'']\<rparr>"
  have ctx: "cx_hsm_verifier x509_ctx = None" "\<not> cx_trusted_keys_only x509_ctx" "\<not> cx_insecure x509_ctx"
    "cx_enabled_key_data_x509 x509_ctx"
    by (simp_all add: x509_ctx_def with_strict_verification_def with_verify_keys_def with_enabled_key_data_x509_def
      DsigContext_new_permissive_def)
  have lib: "dl_keys ?L = verify_key_lib" "dl_legacy ?L = False" "dl_parse ?L [] = Inr ?d"
    by (simp_all add: sample_dsig_lib_def)
  have "read_signature ?d = Inr ?sp" by code_simp
  then obtain ids bits pq c14n sv where
    before: "before_check ?L x509_ctx [] ?d ids ?sp bits pq sample_refs c14n sv"
    using valid_run [OF sample_valid_two_certificates] unfolding before_check_def lib(3) by (metis sum.inject(2))
  have key_info: "find_child_element ?d 3 ns_DSIG node_KEY_INFO = Some 13"
    "resolve_key_info_reference ?d 13 ids = None" "doc_children ?d 13 = [14]" "is_named ?d ns_DSIG node_X509_DATA 14"
    by code_simp+
  have certs: "x509_certificates verify_key_lib ?d 14 = [?c ''AAAA'', ?c ''BBBB'']"
    "load_x509_cert_der verify_key_lib ''BBBB'' = Inr ?kb" by code_simp+
  have ki: "two_cert_ki = \<lparr>vk_algorithm = KeyData_algorithm_name (key_data ?kb), vk_key_name = key_name ?kb,
      vk_x509_chain = [''AAAA'', ''BBBB'']\<rparr>" by code_simp
  have "validate_cert_chain False (kl_cert verify_key_lib) ''AAAA'' [''AAAA'', ''BBBB''] (validation_config x509_ctx) =
      Returns (Inr ())"
    using untrusted_certificate_accepted [OF before ctx, of 13 "[]" 14 "[]" "?c ''AAAA''" "?c ''BBBB''" ?kb]
      sample_valid_two_certificates
    by (simp add: lib key_info certs is_ca_def ki)
  moreover have "validate_cert_chain False (kl_cert verify_key_lib) ''BBBB'' [''AAAA'', ''BBBB''] (validation_config x509_ctx) =
      Returns (Inl (Error_Certificate ''cannot build certificate chain: no path to a trust anchor''))"
    by code_simp
  ultimately show ?thesis using sample_valid_two_certificates by simp
qed

text \<open>
  C8: A document in which an ID value occurs twice is never \<open>Valid\<close> nor \<open>Invalid\<close>: verification fails with
  the structure error, before any reference is resolved.
\<close>

theorem duplicate_ids_rejected:
  assumes "dl_parse L xml = Inr d" "\<not> distinct (map fst (id_occurrences d (default_id_attrs @ cx_id_attrs ctx)))"
  shows "\<exists>e. verify L ctx xml = Returns (Inl e)"
proof -
  obtain e where "build_id_map d (default_id_attrs @ cx_id_attrs ctx) = Inl e"
    using assms(2) by (cases "build_id_map d (default_id_attrs @ cx_id_attrs ctx)")
      (auto simp: build_id_map_occurrences try_fold_insert_occurrence)
  then show ?thesis
    using assms(1) by (simp add: verify_def verify_parsed_def flow_of_result_def run_flow_def)
qed

theorem duplicate_ids_rejected_witness:
  "\<exists>e. verify (sample_dsig_lib Signed_Hmac) (add_id_attr sample_ctx ''Id'') [] = Returns (Inl e)"
proof -
  have "\<not> distinct (map fst (id_occurrences (sample_doc Signed_Hmac) (default_id_attrs @ [''Id''])))" by code_simp
  moreover have "cx_id_attrs (add_id_attr sample_ctx ''Id'') = [''Id'']" by code_simp
  ultimately show ?thesis by (intro duplicate_ids_rejected) (simp_all add: sample_dsig_lib_def)
qed

text \<open>
  C9: Transforms only narrow. When a transform of a reference turns an XML selection into an XML
  selection again, whatever its algorithm and its parameters, the document text is the same and the
  nodes are among those selected before: no transform brings in nodes that the reference URI did not
  select.
\<close>

theorem transform_narrows:
  assumes "apply_transform L uri (Xml t (Some ns)) transform_node sig_node d = Returns (Inr (Xml t' ns'))"
    "set_type ns = Normal"
  shows "t' = t \<and> (\<exists>ns''. ns' = Some ns'' \<and> set_type ns'' = Normal \<and> nodes ns'' \<subseteq> nodes ns)"
  using transform_narrows_set [OF assms] by (auto simp: narrower_def)

theorem transform_narrows_witness:
  "\<exists>ns'. apply_transform (sample_dsig_lib Signed_Hmac) alg_ENVELOPED_SIGNATURE
       (Xml [] (Some (NodeSet_all (sample_doc Signed_Hmac)))) 0 3 (sample_doc Signed_Hmac) = Returns (Inr (Xml [] (Some ns'))) \<and>
     nodes ns' \<subseteq> nodes (NodeSet_all (sample_doc Signed_Hmac))"
proof -
  let ?ns = "NodeSet_all (sample_doc Signed_Hmac)"
  let ?out = "remove_subtree 3 (sample_doc Signed_Hmac) ?ns"
  have "apply_transform (sample_dsig_lib Signed_Hmac) alg_ENVELOPED_SIGNATURE (Xml [] (Some ?ns)) 0 3
      (sample_doc Signed_Hmac) = Returns (Inr (Xml [] (Some ?out)))"
    by (simp add: apply_transform_def EnvelopedSignatureTransform_execute_def sample_dsig_lib_def)
  moreover from transform_narrows [OF this] have "nodes ?out \<subseteq> nodes ?ns"
    by (simp add: NodeSet_all_def)
  ultimately show ?thesis by blast
qed

end
