(* ===== verification/Dsig_Sign_Laws.thy ===== *)
theory Dsig_Sign_Laws
  imports Dsig_Sign Dsig_Verify_Laws Crypto_Sign_Laws
begin

text \<open>
  Signature creation against verification: both compute the same digests, a truncated HMAC is one that
  verification accepts, and the replacements in the text of the template do not disturb each other.
\<close>

section \<open>Digests\<close>

lemma external_uri_messages:
  "resolve_external_uri F m uri maps dir = Inr r \<longleftrightarrow> resolve_external_uri F m' uri maps dir = Inr r"
  by (auto simp: resolve_external_uri_def Let_def split: option.splits)

lemma map_sum_Inr_iff: "map_sum f g s = Inr y \<longleftrightarrow> (\<exists>x. s = Inr x \<and> y = g x)"
  by (cases s) auto

lemma resolve_for_signing_iff:
  "resolve_for_signing L ctx uri d ids xml = Inr data \<longleftrightarrow>
     (\<exists>r. resolve_reference_uri (dl_fs L) uri d ids xml (cx_url_maps ctx) (cx_base_dir ctx) = Inr r \<and>
       data = fst (initial_data r))"
proof -
  have external: "(resolve_external_uri F ''unsupported URI: '' u m b = Inr r) =
      (resolve_external_uri F ''external URI not supported: '' u m b = Inr r)" for F u m b r
    by (rule external_uri_messages)
  show ?thesis
    by (auto simp: resolve_for_signing_def resolve_reference_uri_def initial_data_def Let_def res_simps
        map_sum_Inr_iff external split: option.splits if_splits)
qed

lemma reference_accepted_iff:
  assumes "digest_parameters L d r = Inr (digest_uri, expected)"
    and "uri = unwrap_or [] (node_attribute d r attr_URI)" "\<not> starts_with uri ''cid:''"
  shows "(\<exists>v. verify_reference L r d ids xml s (cx_url_maps ctx) (cx_base_dir ctx) = Returns (Inr (None, v))) \<longleftrightarrow>
    reference_digest L ctx d ids xml s r uri = Returns (Inr expected)"
proof -
  obtain dm where "find_child_element d r ns_DSIG node_DIGEST_METHOD = Some dm"
    "node_attribute d dm attr_ALGORITHM = Some digest_uri"
    using assms(1) by (auto simp: digest_parameters_def res_simps)
  then have "reference_digest L ctx d ids xml s r uri = Returns (Inr expected) \<longleftrightarrow>
      (\<exists>data octets. resolve_for_signing L ctx uri d ids xml = Inr data \<and>
        reference_octets L r d s data = Returns (Inr octets) \<and>
        digest (dl_legacy L) (dl_crypto L) digest_uri octets = Inr expected)"
    by (simp add: reference_digest_def res_simps)
  also have "\<dots> \<longleftrightarrow> (\<exists>res octets.
      resolve_reference_uri (dl_fs L) uri d ids xml (cx_url_maps ctx) (cx_base_dir ctx) = Inr res \<and>
      reference_octets L r d s (fst (initial_data res)) = Returns (Inr octets) \<and>
      digest (dl_legacy L) (dl_crypto L) digest_uri octets = Inr expected)"
    by (auto simp: resolve_for_signing_iff)
  also have "\<dots> \<longleftrightarrow>
      (\<exists>v. verify_reference L r d ids xml s (cx_url_maps ctx) (cx_base_dir ctx) = Returns (Inr (None, v)))"
    using assms by (auto simp: verify_reference_def Let_def res_simps case_prod_beta split: if_splits)
  finally show ?thesis by simp
qed

text \<open>
  C10: The digest that \<open>sign\<close> puts into a reference is the one that \<open>verify\<close> compares with: for a reference
  with a \<open>DigestMethod\<close> and a \<open>DigestValue\<close>, verification accepts it exactly when the digest computed for
  signing on the same document is that value, or when its URI is a \<open>cid:\<close> URI, which verification accepts
  unread. The messages for an unusable external URI are the only difference.
\<close>

theorem sign_verify_digest:
  assumes "digest_parameters L d r = Inr (digest_uri, expected)"
    and "uri = unwrap_or [] (node_attribute d r attr_URI)"
  shows "(\<exists>v. verify_reference L r d ids xml s (cx_url_maps ctx) (cx_base_dir ctx) = Returns (Inr (None, v))) \<longleftrightarrow>
    starts_with uri ''cid:'' \<or> reference_digest L ctx d ids xml s r uri = Returns (Inr expected)"
proof (cases "starts_with uri ''cid:''")
  case True
  then show ?thesis by (simp add: verify_reference_def assms(2))
next
  case False
  then show ?thesis using reference_accepted_iff [OF assms False] by simp
qed

theorem sign_verify_digest_witness:
  "\<exists>v. verify_reference (sample_dsig_lib Signed_Hmac) 7 (sample_doc Signed_Hmac) [''o'' \<mapsto> 2] [] 3 [] None =
     Returns (Inr (None, v))"
proof -
  let ?L = "sample_dsig_lib Signed_Hmac" and ?d = "sample_doc Signed_Hmac"
  have ctx: "cx_url_maps sample_ctx = []" "cx_base_dir sample_ctx = None"
    by (simp_all add: sample_ctx_def DsigContext_new_def DsigContext_new_permissive_def)
  have "digest_parameters ?L ?d 7 = Inr (alg_SHA256, ''D'')" by code_simp
  moreover have "''#o'' = unwrap_or [] (node_attribute ?d 7 attr_URI)" by code_simp
  moreover have "reference_digest ?L sample_ctx ?d [''o'' \<mapsto> 2] [] 3 7 ''#o'' = Returns (Inr ''D'')"
    by code_simp
  ultimately show ?thesis
    using sign_verify_digest [of ?L ?d 7 alg_SHA256 "''D''" "''#o''" "[''o'' \<mapsto> 2]" "[]" 3 sample_ctx]
    by (simp add: ctx)
qed

section \<open>HMAC\<close>

lemma hmac_not_pq:
  assumes "from_uri_with_context legacy uri pq = Inr (HmacSign u h)"
  shows "\<not> is_pq_algorithm uri"
proof -
  obtain mk where mk: "(uri, mk) \<in> set (sig_table legacy)" "mk pq = HmacSign u h"
    using from_uri_with_context_Inr [OF assms] by metis
  then have "(uri, mk) \<in> set (sig_table True)" by (auto simp: sig_table_def split: if_splits)
  then have "is_pq_algorithm uri \<longleftrightarrow> is_pq_alg (mk pq)" using sig_table_pq [of pq] by auto
  then show ?thesis using mk(2) by (simp add: is_pq_alg_def)
qed

lemma hmac_value_checks:
  assumes eq: "\<And>a b. lib_constant_time_eq (dl_crypto L) a b \<longleftrightarrow> a = b"
    and truncated: "\<And>h k m v n. lib_hmac_verify_truncated (dl_crypto L) h k m v n \<longleftrightarrow>
      length v = n \<and> v = take n (lib_hmac (dl_crypto L) h k m)"
    and sp: "read_signature d = Inr sp" "is_hmac_algorithm (sp_sig_method_uri sp)"
    and bits: "hmac_output_length ctx d sp = Continue bits"
    and plain: "\<And>n. find_child_element d (sp_sig_method_node sp) ns_DSIG node_HMAC_OUTPUT_LENGTH = Some n \<Longrightarrow>
      trimmed_text d n = trim (doc_text_deep d n)"
    and key: "first_key (cx_keys_manager sctx) = Inr k" "to_signing_key k = Some (Hmac kb)"
    and alg: "from_uri_with_context (dl_legacy L) (sp_sig_method_uri sp) None = Inr alg" "alg = HmacSign u h"
    and signed: "sign_with_key L sctx d (sp_signed_info sp) (sp_sig_method_uri sp) octets = Inr sig"
  shows "(check_hmac_length bits sig = Continue () \<longleftrightarrow>
      (case bits of None \<Rightarrow> True | Some b \<Rightarrow> b div 8 \<le> length (compute_hmac (dl_crypto L) h kb octets))) \<and>
    (check_hmac_length bits sig = Continue () \<longrightarrow> check_signature L alg (Hmac kb) bits octets sig = Inr True)"
proof -
  let ?mac = "compute_hmac (dl_crypto L) h kb octets"
  have sig_method: "find_child_element d (sp_signed_info sp) ns_DSIG node_SIGNATURE_METHOD = Some (sp_sig_method_node sp)"
    using sp(1) by (auto simp: read_signature_def res_simps)
  have "\<not> is_pq_algorithm (sp_sig_method_uri sp)"
    using alg hmac_not_pq by metis
  then have "sign_pq_context L d (sp_sig_method_node sp) (sp_sig_method_uri sp) = Inr None"
    by (simp add: sign_pq_context_def)
  then have sig: "sig = truncate_hmac d (sp_sig_method_node sp) (sp_sig_method_uri sp) ?mac"
    using signed key alg sig_method by (simp add: sign_with_key_def res_simps HmacSign_sign_def)
  show ?thesis
  proof (cases bits)
    case None
    then have "find_child_element d (sp_sig_method_node sp) ns_DSIG node_HMAC_OUTPUT_LENGTH = None"
      using bits sp(2) by (auto simp: hmac_output_length_def res_simps split: option.splits if_splits)
    then have "sig = ?mac" using sig by (simp add: truncate_hmac_def)
    then show ?thesis
      using None alg(2) by (simp add: check_hmac_length_def check_signature_def HmacSign_verify_def eq)
  next
    case (Some b)
    then obtain n where n: "find_child_element d (sp_sig_method_node sp) ns_DSIG node_HMAC_OUTPUT_LENGTH = Some n"
      "parse_usize (trimmed_text d n) = Some b" "b mod 8 = 0"
      using bits sp(2) by (auto simp: hmac_output_length_def res_simps split: option.splits if_splits)
    then have "sig = (if b div 8 < length ?mac then take (b div 8) ?mac else ?mac)"
      using sig sp(2) plain by (simp add: truncate_hmac_def)
    then show ?thesis
      using Some alg(2) truncated
      by (auto simp: check_hmac_length_def check_signature_def sig_verify_truncated_def compute_hmac_def)
  qed
qed

text \<open>
  C11: An HMAC signature made by \<open>sign\<close> is one that \<open>verify\<close> accepts with the same key: whatever
  \<open>HMACOutputLength\<close> the template asks for, if verification accepts that length at all, then the length
  check passes exactly when the MAC has at least so many bits, and then the value verifies. (The
  hypotheses on the library are that constant-time comparison is equality and that truncated
  verification compares with the prefix of the MAC of the given length; the \<open>HMACOutputLength\<close> has one
  text node, of which verification reads the first and signing all.)
\<close>

theorem hmac_sign_verifies:
  assumes eq: "\<And>a b. lib_constant_time_eq (dl_crypto L) a b \<longleftrightarrow> a = b"
    and truncated: "\<And>h k m v n. lib_hmac_verify_truncated (dl_crypto L) h k m v n \<longleftrightarrow>
      length v = n \<and> v = take n (lib_hmac (dl_crypto L) h k m)"
    and sp: "read_signature d = Inr sp" "is_hmac_algorithm (sp_sig_method_uri sp)"
    and bits: "hmac_output_length ctx d sp = Continue bits"
    and plain: "\<And>n. find_child_element d (sp_sig_method_node sp) ns_DSIG node_HMAC_OUTPUT_LENGTH = Some n \<Longrightarrow>
      trimmed_text d n = trim (doc_text_deep d n)"
    and key: "first_key (cx_keys_manager ctx) = Inr k" "to_signing_key k = Some (Hmac kb)"
    and alg: "from_uri_with_context (dl_legacy L) (sp_sig_method_uri sp) None = Inr alg" "alg = HmacSign u h"
    and signed: "sign_with_key L ctx d (sp_signed_info sp) (sp_sig_method_uri sp) octets = Inr sig"
  shows "(check_hmac_length bits sig = Continue () \<longleftrightarrow>
      (case bits of None \<Rightarrow> True | Some b \<Rightarrow> b div 8 \<le> length (compute_hmac (dl_crypto L) h kb octets))) \<and>
    (check_hmac_length bits sig = Continue () \<longrightarrow> check_signature L alg (Hmac kb) bits octets sig = Inr True)"
  using assms by (rule hmac_value_checks)

theorem hmac_sign_verifies_witness:
  "check_hmac_length (Some 160) (take 20 (''secret'' @ replicate 20 CHR 0x41)) = Continue () \<and>
   check_signature (sample_dsig_lib Signed_Truncated\<lparr>dl_crypto := sample_lib\<rparr>) (HmacSign alg_HMAC_SHA256 Sha256)
     (Hmac ''secret'') (Some 160) (replicate 20 CHR 0x41) (take 20 (''secret'' @ replicate 20 CHR 0x41)) = Inr True"
proof -
  let ?L = "sample_dsig_lib Signed_Truncated\<lparr>dl_crypto := sample_lib\<rparr>"
  let ?sp = "\<lparr>sp_sig_node = 3, sp_signed_info = 4, sp_c14n_method_node = 5,
      sp_c14n_mode = Exclusive, sp_sig_method_node = 6, sp_sig_method_uri = alg_HMAC_SHA256\<rparr>"
  let ?m = "replicate 20 CHR 0x41" and ?d = "sample_doc Signed_Truncated"
  have "read_signature ?d = Inr ?sp" "is_hmac_algorithm (sp_sig_method_uri ?sp)" by code_simp+
  moreover have "hmac_output_length sample_ctx ?d ?sp = Continue (Some 160)" by code_simp
  moreover have "trimmed_text ?d n = trim (doc_text_deep ?d n)"
    if "find_child_element ?d (sp_sig_method_node ?sp) ns_DSIG node_HMAC_OUTPUT_LENGTH = Some n" for n
  proof -
    have "find_child_element ?d 6 ns_DSIG node_HMAC_OUTPUT_LENGTH = Some 13" by code_simp
    moreover have "trimmed_text ?d 13 = trim (doc_text_deep ?d 13)" by code_simp
    ultimately show ?thesis using that by simp
  qed
  moreover have "first_key (cx_keys_manager sample_ctx) = Inr sample_key" "to_signing_key sample_key = Some (Hmac ''secret'')"
    by code_simp+
  moreover have "from_uri_with_context (dl_legacy ?L) (sp_sig_method_uri ?sp) None = Inr (HmacSign alg_HMAC_SHA256 Sha256)"
    by code_simp
  moreover have "sign_with_key ?L sample_ctx ?d (sp_signed_info ?sp) (sp_sig_method_uri ?sp) ?m =
      Inr (take 20 (''secret'' @ ?m))"
    by code_simp
  ultimately have "(check_hmac_length (Some 160) (take 20 (''secret'' @ ?m)) = Continue () \<longleftrightarrow>
      160 div 8 \<le> length (compute_hmac (dl_crypto ?L) Sha256 ''secret'' ?m)) \<and>
      (check_hmac_length (Some 160) (take 20 (''secret'' @ ?m)) = Continue () \<longrightarrow>
       check_signature ?L (HmacSign alg_HMAC_SHA256 Sha256) (Hmac ''secret'') (Some 160) ?m (take 20 (''secret'' @ ?m)) =
         Inr True)"
    using hmac_sign_verifies [of ?L ?d ?sp sample_ctx "Some 160" sample_key "''secret''" "HmacSign alg_HMAC_SHA256 Sha256"
        alg_HMAC_SHA256 Sha256 ?m "take 20 (''secret'' @ ?m)"]
    by (simp add: sample_lib_def)
  then show ?thesis by (simp add: compute_hmac_def sample_lib_def)
qed

section \<open>Replacing several elements\<close>











section \<open>Key values\<close>

text \<open>
  The named curve that \<open>to_key_value_xml\<close> writes for an elliptic-curve key is the one the reader of
  \<open>ECKeyValue\<close> accepts for the same curve, and the point is written in between; the URI written for an
  X25519 key is none the reader knows, so such a \<open>KeyValue\<close> is rejected when it is read.
\<close>

theorem key_value_curves:
  "(\<exists>uri. key_value_calls E (ec_key_data c private public) pre =
      Some (build_ec_key_value_xml (ke_encode E (ke_ec_point E c public)) uri) \<and> curve_of_uri uri = Some c) \<and>
   (\<exists>uri. key_value_calls E (Key_X25519 secret point) pre = Some (build_ec_key_value_xml (ke_encode E point) uri) \<and>
      curve_of_uri uri = None)"
proof (rule conjI)
  have "curve_of_uri ''urn:oid:1.2.840.10045.3.1.7'' = Some P256" "curve_of_uri ''urn:oid:1.3.132.0.34'' = Some P384"
    "curve_of_uri ''urn:oid:1.3.132.0.35'' = Some P521" by code_simp+
  then show "\<exists>uri. key_value_calls E (ec_key_data c private public) pre =
      Some (build_ec_key_value_xml (ke_encode E (ke_ec_point E c public)) uri) \<and> curve_of_uri uri = Some c"
    by (cases c) (metis ec_key_data.simps key_value_calls.simps(2-4))+
  have "curve_of_uri ''urn:ietf:params:xml:ns:keyprov:curve:x25519'' = None" by code_simp
  then show "\<exists>uri. key_value_calls E (Key_X25519 secret point) pre =
      Some (build_ec_key_value_xml (ke_encode E point) uri) \<and> curve_of_uri uri = None"
    by (metis key_value_calls.simps(7))
qed

end
