(* ===== verification/Dsig_Complete.thy ===== *)
theory Dsig_Complete
  imports Dsig_Sign_Laws
begin

text \<open>
  The other direction of the laws of \<open>verify\<close>: a document with the digests and the HMAC that signing computes is
  accepted. Rejecting everything would satisfy the laws about \<open>Valid\<close> verdicts; this one excludes it.
\<close>

section \<open>From the checks to the verdict\<close>

text \<open>When each reference on its own is accepted, the loop goes through and collects one entry for each.\<close>

lemma verify_references_all:
  assumes "\<And>r. r \<in> set rs \<Longrightarrow> \<exists>v. verify_reference L r d ids xml s (cx_url_maps ctx) (cx_base_dir ctx) = Returns (Inr (None, v))"
  shows "\<exists>ws. verify_references L ctx d ids xml s rs vs = Continue (vs @ ws) \<and>
    list_all2 (\<lambda>r v. verify_reference L r d ids xml s (cx_url_maps ctx) (cx_base_dir ctx) = Returns (Inr (None, v))) rs ws"
  using assms
proof (induction rs arbitrary: vs)
  case (Cons r rs)
  obtain v where v: "verify_reference L r d ids xml s (cx_url_maps ctx) (cx_base_dir ctx) = Returns (Inr (None, v))"
    using Cons.prems by force
  obtain ws where "verify_references L ctx d ids xml s rs (vs @ [v]) = Continue ((vs @ [v]) @ ws)"
    "list_all2 (\<lambda>r v. verify_reference L r d ids xml s (cx_url_maps ctx) (cx_base_dir ctx) = Returns (Inr (None, v))) rs ws"
    using Cons.IH [of "vs @ [v]"] Cons.prems by force
  with v show ?case by (intro exI [of _ "v # ws"]) (simp add: flow_of_outcome_def flow_of_result_def)
qed simp

lemma check_positions_all:
  assumes "\<And>v t. v \<in> set refs \<Longrightarrow> vr_resolved_node v = Some t \<Longrightarrow> validate_reference_position d s t = Inr ()"
  shows "check_positions ctx d s refs = Inr ()"
proof -
  have "try_fold (\<lambda>_ vref. case vr_resolved_node vref of
      Some target \<Rightarrow> validate_reference_position d s target | None \<Rightarrow> Inr ()) () refs = Inr ()"
    using assms by (induction refs) (force split: option.splits)+
  then show ?thesis by (simp add: check_positions_def)
qed

text \<open>The converse of \<open>valid_run\<close>: what is checked before the signature value, and the key, decide.\<close>

lemma verify_accepts:
  assumes "before_check L ctx xml d ids sp bits pq refs c14n sv" "cx_hsm_verifier ctx = None"
    "select_key L ctx d ids (sp_sig_node sp) = Returns (Inr (k, origin))"
    "check_certificates L ctx k origin = Returns (Inr ())" "to_signing_key k = Some sk"
    "from_uri_with_context (dl_legacy L) (sp_sig_method_uri sp) pq = Inr alg"
    "check_signature L alg sk bits c14n sv = Inr True"
  shows "verify L ctx xml = Returns (Inr (Valid (sp_sig_node sp) refs
    \<lparr>vk_algorithm = KeyData_algorithm_name (key_data k), vk_key_name = key_name k, vk_x509_chain = key_x509_chain k\<rparr>))"
  using assms
  by (simp add: before_check_def verify_def verify_parsed_def verify_with_key_def flow_of_result_def flow_of_outcome_def run_flow_def)

section \<open>Honest signatures\<close>

text \<open>
  C13: A signed document is accepted. Let each reference have as its \<open>DigestValue\<close> the digest that signing computes
  for it, let the \<open>SignatureValue\<close> be what signing computes over the canonical \<open>SignedInfo\<close> with an HMAC key,
  in full or truncated as the document asks, and let verification select the same secret. Then
  \<open>verify\<close> returns, neither with an error nor with a panic, the verdict \<open>Valid\<close> with that key and with every
  reference marked as verified. The laws of the library are those of HMACs; in strict mode the
  references have to be in the positions it allows.
\<close>

theorem signed_document_accepted:
  assumes library: "\<And>a b. lib_constant_time_eq (dl_crypto L) a b \<longleftrightarrow> a = b"
      "\<And>h k m v n. lib_hmac_verify_truncated (dl_crypto L) h k m v n \<longleftrightarrow>
        length v = n \<and> v = take n (lib_hmac (dl_crypto L) h k m)"
    and parsed: "dl_parse L xml = Inr d" "build_id_map d (default_id_attrs @ cx_id_attrs ctx) = Inr ids"
      "read_signature d = Inr sp" "is_hmac_algorithm (sp_sig_method_uri sp)"
      "from_uri_with_context (dl_legacy L) (sp_sig_method_uri sp) None = Inr (HmacSign u h)"
    and bits: "hmac_output_length ctx d sp = Continue bits"
      "\<And>n. find_child_element d (sp_sig_method_node sp) ns_DSIG node_HMAC_OUTPUT_LENGTH = Some n \<Longrightarrow>
        trimmed_text d n = trim (doc_text_deep d n)"
      "\<And>b. bits = Some b \<Longrightarrow> b div 8 \<le> length (compute_hmac (dl_crypto L) h kb c14n)"
    and contexts: "cx_url_maps sctx = cx_url_maps ctx" "cx_base_dir sctx = cx_base_dir ctx" "cx_hsm_verifier ctx = None"
    and digests: "\<And>r. r \<in> set (find_child_elements d (sp_signed_info sp) ns_DSIG node_REFERENCE) \<Longrightarrow>
        \<not> starts_with (unwrap_or [] (node_attribute d r attr_URI)) ''cid:'' \<and>
        (\<exists>digest_uri expected. digest_parameters L d r = Inr (digest_uri, expected) \<and>
          reference_digest L sctx d ids xml (sp_sig_node sp) r (unwrap_or [] (node_attribute d r attr_URI)) =
            Returns (Inr expected))"
    and positions: "\<And>r res t. cx_strict_verification ctx \<Longrightarrow>
        r \<in> set (find_child_elements d (sp_signed_info sp) ns_DSIG node_REFERENCE) \<Longrightarrow>
        resolve_reference_uri (dl_fs L) (unwrap_or [] (node_attribute d r attr_URI)) d ids xml (cx_url_maps ctx)
          (cx_base_dir ctx) = Inr res \<Longrightarrow> snd (initial_data res) = Some t \<Longrightarrow>
        validate_reference_position d (sp_sig_node sp) t = Inr ()"
    and signed: "canonical_signed_info d sp = Inr c14n"
      "sign_with_key L sctx d (sp_signed_info sp) (sp_sig_method_uri sp) c14n = Inr sig"
      "read_signature_value L d sp = Inr sig"
    and keys: "first_key (cx_keys_manager sctx) = Inr ks" "to_signing_key ks = Some (Hmac kb)"
      "select_key L ctx d ids (sp_sig_node sp) = Returns (Inr (k, origin))" "to_signing_key k = Some (Hmac kb)"
      "check_certificates L ctx k origin = Returns (Inr ())"
  shows "\<exists>refs. verify L ctx xml = Returns (Inr (Valid (sp_sig_node sp) refs
      \<lparr>vk_algorithm = KeyData_algorithm_name (key_data k), vk_key_name = key_name k,
       vk_x509_chain = key_x509_chain k\<rparr>)) \<and>
    list_all2 (\<lambda>r v. vr_uri v = unwrap_or [] (node_attribute d r attr_URI) \<and> vr_digest_verified v)
      (find_child_elements d (sp_signed_info sp) ns_DSIG node_REFERENCE) refs"
proof -
  let ?rs = "find_child_elements d (sp_signed_info sp) ns_DSIG node_REFERENCE"
  have "\<exists>v. verify_reference L r d ids xml (sp_sig_node sp) (cx_url_maps ctx) (cx_base_dir ctx) = Returns (Inr (None, v))"
    if "r \<in> set ?rs" for r
    using digests [OF that] reference_accepted_iff [of L d r, OF _ refl, of _ _ ids xml "sp_sig_node sp" sctx]
    by (auto simp: contexts)
  from verify_references_all [of ?rs, OF this, of "[]"] obtain refs where
    run: "verify_references L ctx d ids xml (sp_sig_node sp) ?rs [] = Continue refs" and
    accepted: "list_all2 (\<lambda>r v. verify_reference L r d ids xml (sp_sig_node sp) (cx_url_maps ctx) (cx_base_dir ctx) =
      Returns (Inr (None, v))) ?rs refs" by auto
  have holds: "list_all2 (\<lambda>r v. r \<in> set ?rs \<and> vr_digest_verified v \<and>
      reference_holds L d ids xml (sp_sig_node sp) (cx_url_maps ctx) (cx_base_dir ctx) r v) ?rs refs"
    by (rule list.rel_mono_strong [OF accepted]) (use digests verify_reference_holds in fastforce)
  have "check_positions ctx d (sp_sig_node sp) refs = Inr ()"
  proof (cases "cx_strict_verification ctx")
    case True
    have "validate_reference_position d (sp_sig_node sp) t = Inr ()"
      if v: "v \<in> set refs" "vr_resolved_node v = Some t" for v t
    proof -
      from v(1) obtain i where i: "i < length refs" "refs ! i = v" by (auto simp: in_set_conv_nth)
      have "?rs ! i \<in> set ?rs \<and> reference_holds L d ids xml (sp_sig_node sp) (cx_url_maps ctx) (cx_base_dir ctx) (?rs ! i) v"
        using list_all2_nthD2 [OF holds i(1)] i(2) by simp
      then show ?thesis using positions [OF True, of "?rs ! i" _ t] v(2) by (auto simp: reference_holds_def)
    qed
    then show ?thesis by (rule check_positions_all)
  qed (simp add: check_positions_def)
  moreover have "pq_context L d sp = Inr None"
    using hmac_not_pq [OF parsed(5)] by (simp add: pq_context_def)
  moreover have "check_hmac_length bits sig = Continue ()" "check_signature L (HmacSign u h) (Hmac kb) bits c14n sig = Inr True"
    using hmac_value_checks [OF library parsed(3,4) bits(1,2) keys(1,2) parsed(5) refl signed(2)] bits(3)
    by (auto split: option.splits)
  ultimately have "before_check L ctx xml d ids sp bits None refs c14n sig"
    using parsed bits(1) run signed by (simp add: before_check_def)
  from verify_accepts [OF this contexts(3) keys(3,5,4) parsed(5)] \<open>check_signature L (HmacSign u h) (Hmac kb) bits c14n sig = Inr True\<close>
  have "verify L ctx xml = Returns (Inr (Valid (sp_sig_node sp) refs
      \<lparr>vk_algorithm = KeyData_algorithm_name (key_data k), vk_key_name = key_name k,
       vk_x509_chain = key_x509_chain k\<rparr>))" by simp
  moreover have "list_all2 (\<lambda>r v. vr_uri v = unwrap_or [] (node_attribute d r attr_URI) \<and> vr_digest_verified v) ?rs refs"
    by (rule list_all2_mono [OF holds]) (simp add: reference_holds_def)
  ultimately show ?thesis by blast
qed

section \<open>Witness\<close>

text \<open>The sample library, with truncated verification as the law says.\<close>

definition complete_lib :: "bytes dsig_lib" where
  "complete_lib = (sample_dsig_lib Signed_Hmac)\<lparr>dl_crypto := verify_crypto\<lparr>
     lib_hmac_verify_truncated := (\<lambda>_ k _ s n. length s = n \<and> s = take n k)\<rparr>\<rparr>"

definition complete_sp :: signature_parts where
  "complete_sp = \<lparr>sp_sig_node = 3, sp_signed_info = 4, sp_c14n_method_node = 5,
      sp_c14n_mode = Exclusive, sp_sig_method_node = 6, sp_sig_method_uri = alg_HMAC_SHA256\<rparr>"

theorem signed_document_accepted_witness:
  "\<exists>refs. verify complete_lib sample_ctx [] = Returns (Inr (Valid 3 refs sample_ki)) \<and> length refs = 1"
proof -
  let ?d = "sample_doc Signed_Hmac"
  obtain c14n where c14n: "canonical_signed_info ?d complete_sp = Inr c14n"
  proof (rule valid_run [OF sample_valid])
    fix d ids sp bits pq c14n sv
    assume "before_check (sample_dsig_lib Signed_Hmac) sample_ctx [] d ids sp bits pq sample_refs c14n sv"
    moreover have "read_signature ?d = Inr complete_sp" by code_simp
    ultimately show thesis using that by (simp add: before_check_def sample_dsig_lib_def)
  qed
  have "case build_id_map ?d (default_id_attrs @ cx_id_attrs sample_ctx) of
      Inr ids \<Rightarrow> reference_digest complete_lib sample_ctx ?d ids [] 3 7 ''#o'' = Returns (Inr ''D'') \<and>
        select_key complete_lib sample_ctx ?d ids 3 = Returns (Inr (sample_key, Origin_Manager)) \<and>
        map_sum (\<lambda>_. ()) (\<lambda>r. snd (initial_data r)) (resolve_reference_uri (dl_fs complete_lib) ''#o'' ?d ids [] [] None) =
          Inr (Some 2)
    | Inl _ \<Rightarrow> False" by code_simp
  then obtain ids where ids: "build_id_map ?d (default_id_attrs @ cx_id_attrs sample_ctx) = Inr ids"
    "reference_digest complete_lib sample_ctx ?d ids [] 3 7 ''#o'' = Returns (Inr ''D'')"
    "select_key complete_lib sample_ctx ?d ids 3 = Returns (Inr (sample_key, Origin_Manager))"
    "map_sum (\<lambda>_. ()) (\<lambda>r. snd (initial_data r)) (resolve_reference_uri (dl_fs complete_lib) ''#o'' ?d ids [] [] None) =
      Inr (Some 2)"
    by (cases "build_id_map ?d (default_id_attrs @ cx_id_attrs sample_ctx)") auto
  have refs: "find_child_elements ?d 4 ns_DSIG node_REFERENCE = [7]" by code_simp
  have uri: "unwrap_or [] (node_attribute ?d 7 attr_URI) = ''#o''" by code_simp
  have params: "digest_parameters complete_lib ?d 7 = Inr (alg_SHA256, ''D'')" by code_simp
  have cid: "\<not> starts_with ''#o'' ''cid:''" by code_simp
  have pos: "validate_reference_position ?d 3 2 = Inr ()" by code_simp
  have nolen: "find_child_element ?d 6 ns_DSIG node_HMAC_OUTPUT_LENGTH = None" by code_simp
  have bits: "hmac_output_length sample_ctx ?d complete_sp = Continue None" by code_simp
  have cert: "check_certificates complete_lib sample_ctx sample_key Origin_Manager = Returns (Inr ())" by code_simp
  have sv: "read_signature_value complete_lib ?d complete_sp = Inr ''secret''" by code_simp
  have alg: "from_uri_with_context (dl_legacy complete_lib) alg_HMAC_SHA256 None = Inr (HmacSign alg_HMAC_SHA256 Sha256)"
    by code_simp
  have sp: "read_signature ?d = Inr complete_sp" by code_simp
  have key: "first_key (cx_keys_manager sample_ctx) = Inr sample_key" by code_simp
  have skey: "to_signing_key sample_key = Some (Hmac ''secret'')" by code_simp
  have hm: "is_hmac_algorithm alg_HMAC_SHA256" by code_simp
  have sig: "sign_with_key complete_lib sample_ctx ?d 4 alg_HMAC_SHA256 c = Inr ''secret''" for c by code_simp
  have ctx: "cx_url_maps sample_ctx = []" "cx_base_dir sample_ctx = None" "cx_hsm_verifier sample_ctx = None"
    by (simp_all add: sample_ctx_def DsigContext_new_def DsigContext_new_permissive_def)
  have lib: "lib_constant_time_eq (dl_crypto complete_lib) a b \<longleftrightarrow> a = b"
    "lib_hmac_verify_truncated (dl_crypto complete_lib) h k m v n \<longleftrightarrow>
      length v = n \<and> v = take n (lib_hmac (dl_crypto complete_lib) h k m)"
    "dl_parse complete_lib [] = Inr ?d" for a b h k m v n
    by (simp_all add: complete_lib_def verify_crypto_def sample_dsig_lib_def sample_lib_def)
  have sps: "sp_sig_node complete_sp = 3" "sp_signed_info complete_sp = 4" "sp_sig_method_node complete_sp = 6"
    "sp_sig_method_uri complete_sp = alg_HMAC_SHA256"
    by (simp_all add: complete_sp_def)
  have "\<exists>refs. verify complete_lib sample_ctx [] = Returns (Inr (Valid (sp_sig_node complete_sp) refs
      \<lparr>vk_algorithm = KeyData_algorithm_name (key_data sample_key), vk_key_name = key_name sample_key,
       vk_x509_chain = key_x509_chain sample_key\<rparr>)) \<and>
    list_all2 (\<lambda>r v. vr_uri v = unwrap_or [] (node_attribute ?d r attr_URI) \<and> vr_digest_verified v)
      (find_child_elements ?d (sp_signed_info complete_sp) ns_DSIG node_REFERENCE) refs"
    by (rule signed_document_accepted [where sctx = sample_ctx and c14n = c14n and sig = "''secret''" and bits = None
          and ids = ids and origin = Origin_Manager and ks = sample_key and kb = "''secret''" and u = alg_HMAC_SHA256 and h = Sha256])
      (use lib ids refs uri params cid pos nolen bits cert sv alg sp key skey hm sig ctx c14n in
        \<open>force simp: sps map_sum_Inr_iff\<close>)+
  moreover have "\<lparr>vk_algorithm = KeyData_algorithm_name (key_data sample_key), vk_key_name = key_name sample_key,
       vk_x509_chain = key_x509_chain sample_key\<rparr> = sample_ki" by code_simp
  ultimately show ?thesis by (auto simp: sps refs dest!: list_all2_lengthD)
qed
end
