(* ===== verification/Enc_Context.thy ===== *)
theory Enc_Context
  imports Keys Crypto_Enc
begin

text \<open>
  \<open>EncContext\<close> (\<open>bergshamra-enc/src/context.rs\<close>): keys and settings of an encryption operation. The HSM
  objects implement traits of the crate \<open>kryptering\<close>; each is a record of its methods (encryption draws
  randomness, its first argument). A configured HSM object only serves the algorithms it is bound to.
\<close>

record hsm_decryptor =
  hd_decrypt :: "bytes \<Rightarrow> bytes k_result"

record hsm_encryptor =
  he_encrypt :: "bytes \<Rightarrow> bytes \<Rightarrow> bytes k_result"

record hsm_key_wrapper =
  hw_wrap :: "bytes \<Rightarrow> bytes k_result"
  hw_unwrap :: "bytes \<Rightarrow> bytes k_result"

record 'v enc_context =
  xc_keys_manager :: "'v keys_manager"
  xc_id_attrs :: "string list"
  xc_disable_cipher_reference :: bool
  xc_hsm_decryptor :: "hsm_decryptor option"
  xc_hsm_decryptor_algorithms :: "string list"
  xc_hsm_key_unwrapper :: "hsm_key_wrapper option"
  xc_hsm_key_unwrapper_algorithms :: "string list"
  xc_hsm_encryptor :: "hsm_encryptor option"
  xc_hsm_encryptor_algorithms :: "string list"
  xc_hsm_key_wrapper :: "hsm_key_wrapper option"
  xc_hsm_key_wrapper_algorithms :: "string list"

definition EncContext_new :: "'v keys_manager \<Rightarrow> 'v enc_context" where
  "EncContext_new m =
     \<lparr>xc_keys_manager = m, xc_id_attrs = [], xc_disable_cipher_reference = False, xc_hsm_decryptor = None,
      xc_hsm_decryptor_algorithms = [], xc_hsm_key_unwrapper = None, xc_hsm_key_unwrapper_algorithms = [],
      xc_hsm_encryptor = None, xc_hsm_encryptor_algorithms = [], xc_hsm_key_wrapper = None,
      xc_hsm_key_wrapper_algorithms = []\<rparr>"

definition enc_add_id_attr :: "'v enc_context \<Rightarrow> string \<Rightarrow> 'v enc_context" where
  "enc_add_id_attr c name = c\<lparr>xc_id_attrs := xc_id_attrs c @ [name]\<rparr>"

definition with_disable_cipher_reference :: "'v enc_context \<Rightarrow> bool \<Rightarrow> 'v enc_context" where
  "with_disable_cipher_reference c disable = c\<lparr>xc_disable_cipher_reference := disable\<rparr>"

definition with_hsm_decryptor :: "'v enc_context \<Rightarrow> hsm_decryptor \<Rightarrow> string list \<Rightarrow> 'v enc_context" where
  "with_hsm_decryptor c h algs = c\<lparr>xc_hsm_decryptor := Some h, xc_hsm_decryptor_algorithms := algs\<rparr>"

definition with_hsm_key_unwrapper :: "'v enc_context \<Rightarrow> hsm_key_wrapper \<Rightarrow> string list \<Rightarrow> 'v enc_context" where
  "with_hsm_key_unwrapper c h algs = c\<lparr>xc_hsm_key_unwrapper := Some h, xc_hsm_key_unwrapper_algorithms := algs\<rparr>"

definition with_hsm_encryptor :: "'v enc_context \<Rightarrow> hsm_encryptor \<Rightarrow> string list \<Rightarrow> 'v enc_context" where
  "with_hsm_encryptor c h algs = c\<lparr>xc_hsm_encryptor := Some h, xc_hsm_encryptor_algorithms := algs\<rparr>"

definition with_hsm_key_wrapper :: "'v enc_context \<Rightarrow> hsm_key_wrapper \<Rightarrow> string list \<Rightarrow> 'v enc_context" where
  "with_hsm_key_wrapper c h algs = c\<lparr>xc_hsm_key_wrapper := Some h, xc_hsm_key_wrapper_algorithms := algs\<rparr>"

definition ensure_hsm_binding :: "bool \<Rightarrow> string list \<Rightarrow> string \<Rightarrow> string \<Rightarrow> unit result" where
  "ensure_hsm_binding is_configured allowed_algorithms enc_uri binding_name =
     (if \<not> is_configured then Inr ()
      else if list_ex (\<lambda>allowed. allowed = enc_uri) allowed_algorithms then Inr ()
      else
        let allowed = (if allowed_algorithms = [] then ''<none>'' else join_str '', '' allowed_algorithms) in
        Inl (Error_UnsupportedAlgorithm
          (binding_name @ '' is not bound to EncryptionMethod '' @ enc_uri @ '' (allowed: '' @ allowed @ '')'')))"

definition ensure_hsm_decryptor_matches :: "'v enc_context \<Rightarrow> string \<Rightarrow> unit result" where
  "ensure_hsm_decryptor_matches c enc_uri =
     ensure_hsm_binding (xc_hsm_decryptor c \<noteq> None) (xc_hsm_decryptor_algorithms c) enc_uri ''HSM decryptor''"

definition ensure_hsm_key_unwrapper_matches :: "'v enc_context \<Rightarrow> string \<Rightarrow> unit result" where
  "ensure_hsm_key_unwrapper_matches c enc_uri =
     ensure_hsm_binding (xc_hsm_key_unwrapper c \<noteq> None) (xc_hsm_key_unwrapper_algorithms c) enc_uri
       ''HSM key unwrapper''"

definition ensure_hsm_encryptor_matches :: "'v enc_context \<Rightarrow> string \<Rightarrow> unit result" where
  "ensure_hsm_encryptor_matches c enc_uri =
     ensure_hsm_binding (xc_hsm_encryptor c \<noteq> None) (xc_hsm_encryptor_algorithms c) enc_uri ''HSM encryptor''"

definition ensure_hsm_key_wrapper_matches :: "'v enc_context \<Rightarrow> string \<Rightarrow> unit result" where
  "ensure_hsm_key_wrapper_matches c enc_uri =
     ensure_hsm_binding (xc_hsm_key_wrapper c \<noteq> None) (xc_hsm_key_wrapper_algorithms c) enc_uri ''HSM key wrapper''"

lemma ensure_hsm_binding_ok [res_simps]:
  "ensure_hsm_binding conf allowed uri name = Inr u \<longleftrightarrow> (conf \<longrightarrow> uri \<in> set allowed)"
  by (auto simp: ensure_hsm_binding_def Let_def list_ex_iff)

lemmas hsm_bindings = ensure_hsm_decryptor_matches_def ensure_hsm_key_unwrapper_matches_def
  ensure_hsm_encryptor_matches_def ensure_hsm_key_wrapper_matches_def

end
