(* ===== verification/Enc_Text.thy ===== *)
theory Enc_Text
  imports Rust_Str
begin

text \<open>
  The text functions of \<open>decrypt.rs\<close>: line ends, empty elements and self-closing tags of the decrypted
  XML, the XML prolog, and the conversion of the output to ISO-8859-1.
\<close>

section \<open>Line ends\<close>

fun normalize_line_endings :: "bytes \<Rightarrow> bytes" where
  "normalize_line_endings [] = []"
| "normalize_line_endings (c # s) =
     (if c = CHR 0x0D then
        CHR 0x0A #
          (case s of
             [] \<Rightarrow> []
           | c' # s' \<Rightarrow> if c' = CHR 0x0A then normalize_line_endings s' else normalize_line_endings s)
      else c # normalize_line_endings s)"

section \<open>Empty elements\<close>

text \<open>
  The scan at position \<open>i\<close>: \<open>before\<close> holds the bytes left of \<open>i\<close> in reverse order, the second argument those
  from \<open>i\<close> on. \<open>open_name\<close> is the name after the last \<open><\<close> to the left, if that starts a tag.
\<close>

definition is_name_end :: "char \<Rightarrow> bool" where
  "is_name_end c \<longleftrightarrow> c \<in> {CHR '' '', CHR 0x09, CHR 0x0A, CHR 0x0D, CHR ''>''}"

definition open_name :: "bytes \<Rightarrow> bytes option" where
  "open_name before =
     (if CHR ''<'' \<notin> set before then None
      else
        let inner = rev (takeWhile (\<lambda>c. c \<noteq> CHR ''<'') before) in
        if inner \<noteq> [] \<and> hd inner \<in> {CHR ''/'', CHR ''!'', CHR ''?''} then None
        else Some (takeWhile (\<lambda>c. \<not> is_name_end c) inner))"

definition close_name_ok :: "bytes \<Rightarrow> bool" where
  "close_name_ok n \<longleftrightarrow> n \<noteq> [] \<and> \<not> list_ex (\<lambda>b. b \<in> {CHR '' '', CHR ''<'', CHR ''>''}) n"

text \<open>The closing tag directly after position \<open>i\<close>, when the element it closes was opened right before.\<close>

definition empty_element_end :: "bytes \<Rightarrow> bytes \<Rightarrow> (bytes \<times> bytes) option" where
  "empty_element_end before s =
     (case strip_prefix ''></'' s of
        None \<Rightarrow> None
      | Some r \<Rightarrow>
          let close_name = takeWhile (\<lambda>c. c \<noteq> CHR ''>'') r; rest = dropWhile (\<lambda>c. c \<noteq> CHR ''>'') r in
          if rest \<noteq> [] \<and> close_name_ok close_name \<and> open_name before = Some close_name
          then Some (close_name, tl rest) else None)"

lemma empty_element_end_shorter:
  "empty_element_end before s = Some (n, rest) \<Longrightarrow> length rest < length s"
proof -
  assume "empty_element_end before s = Some (n, rest)"
  then obtain r where r: "strip_prefix ''></'' s = Some r" "rest = tl (dropWhile (\<lambda>c. c \<noteq> CHR ''>'') r)"
    by (auto simp: empty_element_end_def Let_def split: option.splits if_splits)
  have "length (dropWhile (\<lambda>c. c \<noteq> CHR ''>'') r) \<le> length r" by (rule length_dropWhile_le)
  then have "length rest \<le> length r" using r(2) by simp
  moreover have "length s = length r + 3" using r(1) by (auto simp: strip_prefix_Some_iff)
  ultimately show ?thesis by simp
qed

function empty_elements_from :: "bytes \<Rightarrow> bytes \<Rightarrow> bytes" where
  "empty_elements_from before [] = []"
| "empty_elements_from before (c # s) =
     (case empty_element_end before (c # s) of
        Some (name, rest) \<Rightarrow> ''/>'' @ empty_elements_from (rev (''></'' @ name @ ''>'') @ before) rest
      | None \<Rightarrow> c # empty_elements_from (c # before) s)"
  by pat_completeness auto
termination
  by (relation "measure (\<lambda>(_, s). length s)") (auto dest: empty_element_end_shorter)

definition normalize_empty_elements :: "bytes \<Rightarrow> bytes" where
  "normalize_empty_elements data = (if valid_utf8 data then empty_elements_from [] data else data)"

section \<open>Self-closing tags\<close>

text \<open>The flags \<open>in_tag\<close>, \<open>in_attr_dq\<close> and \<open>in_attr_sq\<close>; the latter two are only set inside a tag.\<close>

datatype scan_mode = In_Text | In_Tag | In_Attr_Dq | In_Attr_Sq

fun self_closing_from :: "scan_mode \<Rightarrow> bytes \<Rightarrow> bytes" where
  "self_closing_from m [] = []"
| "self_closing_from In_Attr_Dq (c # s) =
     c # self_closing_from (if c = CHR 0x22 then In_Tag else In_Attr_Dq) s"
| "self_closing_from In_Attr_Sq (c # s) =
     c # self_closing_from (if c = CHR 0x27 then In_Tag else In_Attr_Sq) s"
| "self_closing_from In_Tag (c # s) =
     (if c = CHR 0x22 then c # self_closing_from In_Attr_Dq s
      else if c = CHR 0x27 then c # self_closing_from In_Attr_Sq s
      else if c = CHR ''>'' then c # self_closing_from In_Text s
      else if c = CHR '' '' \<and> starts_with s ''/>'' then self_closing_from In_Tag s
      else c # self_closing_from In_Tag s)"
| "self_closing_from In_Text (c # s) =
     c # self_closing_from (if c = CHR ''<'' then In_Tag else In_Text) s"

definition normalize_self_closing_space :: "bytes \<Rightarrow> bytes" where
  "normalize_self_closing_space data = (if valid_utf8 data then self_closing_from In_Text data else data)"

section \<open>The XML prolog\<close>

definition skip_xml_decl :: "string \<Rightarrow> string option" where
  "skip_xml_decl rest =
     (if starts_with rest ''<?xml'' then
        map_option (\<lambda>e. trim (drop (e + 2) rest)) (find_str ''?>'' rest)
      else Some rest)"

definition skip_doctype :: "string \<Rightarrow> string option" where
  "skip_doctype rest =
     (if starts_with rest ''<!DOCTYPE'' then
        (case find_str ''['' rest of
           Some bracket_pos \<Rightarrow>
             map_option (\<lambda>close_pos. trim (drop (bracket_pos + close_pos + 2) rest))
               (find_str '']>'' (drop bracket_pos rest))
         | None \<Rightarrow> map_option (\<lambda>close_pos. trim (drop (close_pos + 1) rest)) (find_str ''>'' rest))
      else Some rest)"

definition is_xml_prolog :: "string \<Rightarrow> bool" where
  "is_xml_prolog s =
     (case skip_xml_decl s of
        None \<Rightarrow> False
      | Some rest \<Rightarrow> (case skip_doctype rest of None \<Rightarrow> False | Some rest \<Rightarrow> rest = []))"

section \<open>ISO-8859-1 output\<close>

text \<open>
  The loop over the characters of a valid UTF-8 string: those up to \<open>U+00FF\<close> are one octet, or two with
  the lead octet \<open>C2\<close> or \<open>C3\<close>; the octets of the others are copied.
\<close>

fun latin1_chars :: "bytes \<Rightarrow> bytes" where
  "latin1_chars [] = []"
| "latin1_chars [a] = [a]"
| "latin1_chars (a # b # s) =
     (if a = CHR 0xC2 then b # latin1_chars s
      else if a = CHR 0xC3 then char_of (of_char b + 64 :: nat) # latin1_chars s
      else a # latin1_chars (b # s))"

definition utf8_to_latin1 :: "bytes \<Rightarrow> bytes" where
  "utf8_to_latin1 data = (if valid_utf8 data then latin1_chars data else data)"

text \<open>
  \<open>to_lowercase\<close> followed by a search for ASCII text without the letter k: no other character has a
  lower case that contains one of the letters searched for next to the following one, so the ASCII letters
  decide.
\<close>

definition declares_latin1 :: "bytes \<Rightarrow> bool" where
  "declares_latin1 header =
     (let header_lower = map ascii_lower header in
      contains_str header_lower (''encoding='' @ [CHR 0x22] @ ''iso-8859-1'' @ [CHR 0x22]) \<or>
      contains_str header_lower (''encoding='' @ [CHR 0x27] @ ''iso-8859-1'' @ [CHR 0x27]))"

definition maybe_convert_encoding :: "bytes \<Rightarrow> bytes" where
  "maybe_convert_encoding data =
     (let header = take 200 data in
      if \<not> valid_utf8 header then data
      else if \<not> declares_latin1 header then data
      else utf8_to_latin1 data)"

end
