(* ===== verification/Enc_Keys.thy ===== *)
theory Enc_Keys
  imports Enc_Context Enc_Text Key_Xml
begin

text \<open>
  Decryption (\<open>bergshamra-enc/src/decrypt.rs\<close>), first part: the parameters of key derivation and key
  transport, derived keys, key agreement, and the cipher data. The helpers \<open>find_element\<close> and \<open>find_child_element\<close> are copies of those of
  \<open>verify.rs\<close>.
\<close>

text \<open>Everything outside the repository that the crate calls.\<close>

record 'v xenc_lib =
  el_legacy :: bool
  el_parse :: "string \<Rightarrow> string + document"
  el_base64 :: "string \<Rightarrow> string + bytes"
  el_enc :: "'v enc_lib"
  el_keys :: "'v key_enc"
  el_range :: "document \<Rightarrow> node_id \<Rightarrow> (nat \<times> nat) option"
  el_text_content :: "document \<Rightarrow> node_id \<Rightarrow> string option"
  el_secret_key :: "ec_curve \<Rightarrow> 'v \<Rightarrow> string + 'v"
  el_utf8_lossy :: "bytes \<Rightarrow> string"

text \<open>The copy of \<open>map_kryptering_err\<close> in this crate; the variant that is not one of the four is \<open>Pkcs11\<close>.\<close>

fun enc_map_kryptering_err :: "kryptering_error \<Rightarrow> error" where
  "enc_map_kryptering_err (KErr_Crypto s) = Error_Crypto s"
| "enc_map_kryptering_err (KErr_UnsupportedAlgorithm s) = Error_UnsupportedAlgorithm s"
| "enc_map_kryptering_err (KErr_Key s) = Error_Key s"
| "enc_map_kryptering_err (KErr_Io s) = Error_Io s"
| "enc_map_kryptering_err (KErr_Other s) = Error_Crypto (''PKCS#11: '' @ s)"

definition deep_trimmed :: "document \<Rightarrow> node_id \<Rightarrow> string" where
  "deep_trimmed d n = trim (doc_text_deep d n)"

definition find_child_element_any_ns :: "document \<Rightarrow> node_id \<Rightarrow> string \<Rightarrow> node_id option" where
  "find_child_element_any_ns d n local_name = find_child d n (\<lambda>e. elem_local e = local_name)"

definition enc_build_id_map :: "document \<Rightarrow> string list \<Rightarrow> id_map" where
  "enc_build_id_map d attr_names =
     fold (\<lambda>n m. case doc_element d n of
             None \<Rightarrow> m
           | Some e \<Rightarrow>
               fold (\<lambda>a m. case doc_get_attribute d e a of None \<Rightarrow> m | Some v \<Rightarrow> m(v \<mapsto> n)) attr_names m)
       (doc_descendants d (doc_root d)) Map.empty"

section \<open>Parameters\<close>

text \<open>\<open>u8::from_str_radix(t, 16)\<close>, which allows a leading plus sign.\<close>

definition u8_from_hex :: "string \<Rightarrow> char option" where
  "u8_from_hex t =
     (let ds = (case t of c # c' # r \<Rightarrow> if c = CHR ''+'' then c' # r else t | _ \<Rightarrow> t) in
      if ds = [] \<or> \<not> list_all is_ascii_hexdigit ds then None
      else
        let v = foldl (\<lambda>n c. 16 * n + the (hexdigit_val c)) 0 ds in
        if v < 256 then Some (char_of v) else None)"

definition hex_decode :: "string \<Rightarrow> bytes result outcome" where
  "hex_decode s =
     (let t = trim s;
          h = unwrap_or t (strip_prefix ''0x'' t);
          hex_str = (if length h mod 2 \<noteq> 0 then CHR ''0'' # h else h)
      in out_try_fold
           (\<lambda>acc i. out_bind (str_slice i (i + 2) hex_str) (\<lambda>pair.
              Returns (case u8_from_hex pair of
                 Some b \<Rightarrow> Inr (acc @ [b])
               | None \<Rightarrow> Inl (Error_Other (''invalid hex: '' @ t)))))
           [] (map ((*) 2) [0..<length hex_str div 2]))"

definition hex_decode_strip_pad :: "string \<Rightarrow> bytes result outcome" where
  "hex_decode_strip_pad s =
     out_then (hex_decode s) (\<lambda>b. Returns (Inr (if 1 < length b then tl b else b)))"

text \<open>One attribute of \<open>ConcatKDFParams\<close>: \<open>hex_decode_strip_pad(..).ok()\<close> when it is present.\<close>

definition kdf_attribute :: "document \<Rightarrow> node_id \<Rightarrow> string \<Rightarrow> bytes option outcome" where
  "kdf_attribute d n name =
     (case node_attribute d n name of
        None \<Rightarrow> Returns None
      | Some v \<Rightarrow> out_bind (hex_decode_strip_pad v) (\<lambda>r. Returns (ok r)))"

definition ConcatKdfParams_default :: concat_kdf_params where
  "ConcatKdfParams_default =
     \<lparr>ck_digest_uri = None, ck_algorithm_id = None, ck_party_u_info = None, ck_party_v_info = None\<rparr>"

definition parse_concat_kdf_params :: "document \<Rightarrow> node_id \<Rightarrow> concat_kdf_params result outcome" where
  "parse_concat_kdf_params d kd_method =
     (case find_child_element d kd_method ns_ENC11 node_CONCAT_KDF_PARAMS of
        None \<Rightarrow> Returns (Inr ConcatKdfParams_default)
      | Some cp \<Rightarrow>
          out_bind (kdf_attribute d cp ''AlgorithmID'') (\<lambda>alg_id.
          out_bind (kdf_attribute d cp ''PartyUInfo'') (\<lambda>party_u.
          out_bind (kdf_attribute d cp ''PartyVInfo'') (\<lambda>party_v.
          Returns (Inr
            \<lparr>ck_digest_uri =
               (case find_child_element d cp ns_DSIG node_DIGEST_METHOD of
                  Some dm \<Rightarrow> node_attribute d dm attr_ALGORITHM
                | None \<Rightarrow> None),
             ck_algorithm_id = alg_id, ck_party_u_info = party_u, ck_party_v_info = party_v\<rparr>)))))"

definition parse_pbkdf2_params :: "'v xenc_lib \<Rightarrow> document \<Rightarrow> node_id \<Rightarrow> nat \<Rightarrow> pbkdf2_params result" where
  "parse_pbkdf2_params L d kd_method default_key_len =
     and_then (ok_or (Error_MissingElement ''PBKDF2-params'')
       (find_child_element d kd_method ns_ENC11 node_PBKDF2_PARAMS)) (\<lambda>params.
     and_then (ok_or (Error_MissingElement ''Salt in PBKDF2-params'')
       (find_child_element d params ns_ENC11 node_PBKDF2_SALT)) (\<lambda>salt_node.
     and_then (ok_or (Error_MissingElement ''Specified in Salt'')
       (find_child_element d salt_node ns_ENC11 node_PBKDF2_SALT_SPECIFIED)) (\<lambda>specified.
     and_then (map_err (\<lambda>e. Error_Base64 (''PBKDF2 salt: '' @ e))
       (el_base64 L (remove_ws (deep_trimmed d specified)))) (\<lambda>salt.
     and_then (ok_or (Error_MissingElement ''IterationCount in PBKDF2-params'')
       (find_child_element d params ns_ENC11 node_PBKDF2_ITERATION_COUNT)) (\<lambda>iter_node.
     and_then (ok_or (Error_XmlStructure ''invalid IterationCount'')
       (parse_uint (2 ^ 32 - 1) (deep_trimmed d iter_node))) (\<lambda>iteration_count.
     let key_length =
       (case find_child_element d params ns_ENC11 node_PBKDF2_KEY_LENGTH of
          Some kl \<Rightarrow> unwrap_or default_key_len (parse_usize (deep_trimmed d kl))
        | None \<Rightarrow> default_key_len)
     in
     and_then (ok_or (Error_MissingElement ''PRF in PBKDF2-params'')
       (find_child_element d params ns_ENC11 node_PBKDF2_PRF)) (\<lambda>prf.
     and_then (ok_or (Error_MissingAttribute ''Algorithm on PRF'') (node_attribute d prf attr_ALGORITHM)) (\<lambda>prf_uri.
     Inr \<lparr>pb_prf_uri = prf_uri, pb_salt = salt, pb_iteration_count = iteration_count,
          pb_key_length = key_length\<rparr>))))))))"

definition find_hkdf_child :: "document \<Rightarrow> node_id \<Rightarrow> string \<Rightarrow> node_id option" where
  "find_hkdf_child d n local_name =
     or_else (find_child_element d n ns_DSIG_MORE local_name) (find_child_element_any_ns d n local_name)"

definition optional_base64 :: "'v xenc_lib \<Rightarrow> document \<Rightarrow> node_id \<Rightarrow> bytes option" where
  "optional_base64 L d n =
     (let b64 = deep_trimmed d n in if b64 = [] then None else ok (el_base64 L (remove_ws b64)))"

definition parse_hkdf_params :: "'v xenc_lib \<Rightarrow> document \<Rightarrow> node_id \<Rightarrow> nat \<Rightarrow> hkdf_params result" where
  "parse_hkdf_params L d kd_method default_key_len =
     and_then (ok_or (Error_MissingElement ''HKDFParams'') (find_hkdf_child d kd_method node_HKDF_PARAMS)) (\<lambda>params.
     let prf_uri = unwrap_or alg_HMAC_SHA256
           (case find_hkdf_child d params node_HKDF_PRF of
              Some prf \<Rightarrow> node_attribute d prf attr_ALGORITHM
            | None \<Rightarrow> None);
         salt =
           (case find_hkdf_child d params node_HKDF_SALT of
              None \<Rightarrow> None
            | Some salt_node \<Rightarrow>
                (case find_hkdf_child d salt_node node_HKDF_SALT_SPECIFIED of
                   None \<Rightarrow> None
                 | Some specified \<Rightarrow> optional_base64 L d specified));
         info =
           (case find_hkdf_child d params node_HKDF_INFO of
              None \<Rightarrow> None
            | Some info_node \<Rightarrow> optional_base64 L d info_node);
         key_length_bits = unwrap_or ((default_key_len * 8) mod 2 ^ 32)
           (case find_hkdf_child d params node_HKDF_KEY_LENGTH of
              None \<Rightarrow> None
            | Some kl \<Rightarrow> parse_uint (2 ^ 32 - 1) (deep_trimmed d kl))
     in Inr \<lparr>hk_prf_uri = Some prf_uri, hk_salt = salt, hk_info = info, hk_key_length_bits = key_length_bits\<rparr>)"

definition key_length_for_algorithm :: "string \<Rightarrow> nat" where
  "key_length_for_algorithm uri =
     (if uri = alg_AES128_CBC \<or> uri = alg_AES128_GCM then 16
      else if uri = alg_AES192_CBC \<or> uri = alg_AES192_GCM then 24
      else if uri = alg_AES256_CBC \<or> uri = alg_AES256_GCM then 32
      else if uri = alg_TRIPLEDES_CBC then 24
      else 32)"

definition enc_read_oaep_child :: "'v xenc_lib \<Rightarrow> document \<Rightarrow> node_id \<Rightarrow> oaep_params \<Rightarrow> oaep_params" where
  "enc_read_oaep_child L d child params =
     (case doc_element d child of
        None \<Rightarrow> params
      | Some e \<Rightarrow>
          let local = elem_local e; child_ns = elem_ns e;
              params = (if local = node_DIGEST_METHOD \<and> (child_ns = ns_DSIG \<or> child_ns = ns_ENC) then
                  (case doc_get_attribute d e attr_ALGORITHM of
                     Some alg \<Rightarrow> params\<lparr>op_digest_uri := Some alg\<rparr> | None \<Rightarrow> params)
                else params);
              params = (if local = node_RSA_MGF \<and> (child_ns = ns_ENC11 \<or> child_ns = ns_ENC) then
                  (case doc_get_attribute d e attr_ALGORITHM of
                     Some alg \<Rightarrow> params\<lparr>op_mgf_uri := Some alg\<rparr> | None \<Rightarrow> params)
                else params)
          in if local = node_RSA_OAEP_PARAMS then
               (let clean = remove_ws (deep_trimmed d child) in
                if clean = [] then params
                else case el_base64 L clean of
                  Inr b \<Rightarrow> params\<lparr>op_oaep_params := Some b\<rparr>
                | Inl _ \<Rightarrow> params)
             else params)"

definition enc_read_oaep_params :: "'v xenc_lib \<Rightarrow> document \<Rightarrow> node_id \<Rightarrow> oaep_params" where
  "enc_read_oaep_params L d enc_method =
     fold (enc_read_oaep_child L d) (doc_children d enc_method) OaepParams_default"

section \<open>Derived keys\<close>

definition master_key_bytes :: "'v enc_context \<Rightarrow> string \<Rightarrow> bytes result" where
  "master_key_bytes ctx master_key_name =
     (if master_key_name \<noteq> [] then
        (case find_by_name (xc_keys_manager ctx) master_key_name of
           Some k \<Rightarrow>
             ok_or (Error_Key (''master key '' @ [CHR 0x27] @ master_key_name @ [CHR 0x27] @ '' has no symmetric data''))
               (symmetric_key_bytes k)
         | None \<Rightarrow>
             Inl (Error_KeyNotFound (''master key '' @ [CHR 0x27] @ master_key_name @ [CHR 0x27] @ '' not found'')))
      else
        and_then (first_key (xc_keys_manager ctx)) (\<lambda>k.
        ok_or (Error_Key ''no master key for DerivedKey'') (symmetric_key_bytes k)))"

definition resolve_derived_key ::
  "'v xenc_lib \<Rightarrow> 'v enc_context \<Rightarrow> document \<Rightarrow> node_id \<Rightarrow> string \<Rightarrow> bytes result outcome" where
  "resolve_derived_key L ctx d derived_key enc_uri =
     (let master_key_name =
        (case find_child_element d derived_key ns_ENC11 node_MASTER_KEY_NAME of
           Some n \<Rightarrow> deep_trimmed d n
         | None \<Rightarrow> [])
      in
      out_then (Returns (master_key_bytes ctx master_key_name)) (\<lambda>master.
      out_then (Returns (ok_or (Error_MissingElement ''KeyDerivationMethod'')
        (find_child_element d derived_key ns_ENC11 node_KEY_DERIVATION_METHOD))) (\<lambda>kd_method.
      out_then (Returns (ok_or (Error_MissingAttribute ''Algorithm on KeyDerivationMethod'')
        (node_attribute d kd_method attr_ALGORITHM))) (\<lambda>kd_alg.
      let key_len = key_length_for_algorithm enc_uri in
      if kd_alg = alg_CONCAT_KDF then
        out_then (parse_concat_kdf_params d kd_method) (\<lambda>params.
        Returns (concat_kdf (el_enc L) master key_len params))
      else if kd_alg = alg_PBKDF2 then
        Returns (and_then (parse_pbkdf2_params L d kd_method key_len) (pbkdf2_derive (el_enc L) master))
      else Returns (Inl (Error_UnsupportedAlgorithm (''key derivation method: '' @ kd_alg)))))))"

section \<open>Key agreement\<close>

definition strip_line_ws :: "string \<Rightarrow> string" where
  "strip_line_ws s = filter (\<lambda>c. c \<noteq> CHR 0x0A \<and> c \<noteq> CHR 0x0D \<and> c \<noteq> CHR '' '') s"

definition extract_ec_public_key_bytes :: "'v xenc_lib \<Rightarrow> document \<Rightarrow> node_id \<Rightarrow> bytes result" where
  "extract_ec_public_key_bytes L d key_info =
     and_then (ok_or (Error_MissingElement ''KeyValue in OriginatorKeyInfo'')
       (find_child_element d key_info ns_DSIG node_KEY_VALUE)) (\<lambda>key_value.
     and_then (ok_or (Error_MissingElement ''ECKeyValue'')
       (find_child d key_value (\<lambda>e. elem_local e = node_EC_KEY_VALUE \<and> (elem_ns e = ns_DSIG11 \<or> elem_ns e = ns_DSIG)))) (\<lambda>ec_kv.
     and_then (ok_or (Error_MissingElement ''PublicKey in ECKeyValue'')
       (find_child d ec_kv (\<lambda>e. elem_local e = node_PUBLIC_KEY))) (\<lambda>public_key.
     if deep_trimmed d public_key = [] then Inl (Error_MissingElement ''PublicKey in ECKeyValue'')
     else map_err (\<lambda>e. Error_Base64 (''EC PublicKey: '' @ e)) (el_base64 L (strip_line_ws (deep_trimmed d public_key))))))"

definition extract_dh_public_key_from_xml :: "'v xenc_lib \<Rightarrow> document \<Rightarrow> node_id \<Rightarrow> bytes result" where
  "extract_dh_public_key_from_xml L d key_info =
     and_then (ok_or (Error_MissingElement ''KeyValue in OriginatorKeyInfo'')
       (find_child_element d key_info ns_DSIG node_KEY_VALUE)) (\<lambda>key_value.
     and_then (ok_or (Error_MissingElement ''DHKeyValue'')
       (find_child d key_value (\<lambda>e. elem_local e = node_DH_KEY_VALUE \<and> (elem_ns e = ns_ENC \<or> elem_ns e = ns_DSIG)))) (\<lambda>dh_kv.
     and_then (ok_or (Error_MissingElement ''Public in DHKeyValue'')
       (find_child d dh_kv (\<lambda>e. elem_local e = ''Public''))) (\<lambda>public.
     if deep_trimmed d public = [] then Inl (Error_MissingElement ''Public in DHKeyValue'')
     else map_err (\<lambda>e. Error_Base64 (''DH Public: '' @ e)) (el_base64 L (strip_line_ws (deep_trimmed d public))))))"

text \<open>The key named by the \<open>KeyName\<close> child of a \<open>KeyInfo\<close>-like element of \<open>AgreementMethod\<close>.\<close>

definition named_agreement_key :: "'v enc_context \<Rightarrow> document \<Rightarrow> node_id \<Rightarrow> string \<Rightarrow> 'v key option" where
  "named_agreement_key ctx d agreement info_name =
     (case find_child_element d agreement ns_ENC info_name of
        None \<Rightarrow> None
      | Some info \<Rightarrow>
          (case find_child_element d info ns_DSIG node_KEY_NAME of
             None \<Rightarrow> None
           | Some key_name_node \<Rightarrow>
               let name = deep_trimmed d key_name_node in
               if name = [] then None else find_by_name (xc_keys_manager ctx) name))"

fun has_dh_private :: "'v key_data \<Rightarrow> bool" where
  "has_dh_private (Key_Dh _ _ _ private_key _) = (private_key \<noteq> None)"
| "has_dh_private _ = False"

fun has_x25519_private :: "'v key_data \<Rightarrow> bool" where
  "has_x25519_private (Key_X25519 private _) = (private \<noteq> None)"
| "has_x25519_private _ = False"

fun has_ec_private :: "'v key_data \<Rightarrow> bool" where
  "has_ec_private (Key_EcP256 private _) = (private \<noteq> None)"
| "has_ec_private (Key_EcP384 private _) = (private \<noteq> None)"
| "has_ec_private (Key_EcP521 private _) = (private \<noteq> None)"
| "has_ec_private _ = False"

definition filter_key :: "('v key_data \<Rightarrow> bool) \<Rightarrow> 'v key option \<Rightarrow> 'v key option" where
  "filter_key p k = (case k of Some key \<Rightarrow> if p (key_data key) then Some key else None | None \<Rightarrow> None)"

definition find_ec_private :: "'v keys_manager \<Rightarrow> 'v key option" where
  "find_ec_private m =
     or_else (filter_key has_ec_private (find_ec_p256 m))
    (or_else (filter_key has_ec_private (find_ec_p384 m))
      (filter_key has_ec_private (find_ec_p521 m)))"

definition resolve_recipient_key :: "'v enc_context \<Rightarrow> document \<Rightarrow> node_id \<Rightarrow> 'v key result" where
  "resolve_recipient_key ctx d agreement =
     (let m = xc_keys_manager ctx in
      ok_or (Error_Key ''no private key for key agreement'')
        (or_else (named_agreement_key ctx d agreement node_RECIPIENT_KEY_INFO)
        (or_else (filter_key has_dh_private (find_dh m))
        (or_else (filter_key has_x25519_private (find_x25519 m))
          (find_ec_private m)))))"

text \<open>ECDH with the private key of one side and the encoded public point of the other.\<close>

definition ecdh_curve :: "'v xenc_lib \<Rightarrow> ec_curve \<Rightarrow> bytes \<Rightarrow> 'v \<Rightarrow> bytes result" where
  "ecdh_curve L c public sk =
     and_then (map_err (\<lambda>e. Error_Key (curve_label c @ '' secret key: '' @ e)) (el_secret_key L c sk)) (\<lambda>secret.
     case c of
       P256 \<Rightarrow> ecdh_p256 (el_enc L) public secret
     | P384 \<Rightarrow> ecdh_p384 (el_enc L) public secret
     | P521 \<Rightarrow> ecdh_p521 (el_enc L) public secret)"

definition ecdh_shared :: "'v xenc_lib \<Rightarrow> string \<Rightarrow> bytes \<Rightarrow> 'v key_data \<Rightarrow> bytes result" where
  "ecdh_shared L side public data =
     (case data of
        Key_EcP256 (Some sk) _ \<Rightarrow> ecdh_curve L P256 public sk
      | Key_EcP384 (Some sk) _ \<Rightarrow> ecdh_curve L P384 public sk
      | Key_EcP521 (Some sk) _ \<Rightarrow> ecdh_curve L P521 public sk
      | _ \<Rightarrow> Inl (Error_Key (side @ '' key is not an EC private key'')))"

definition q_required :: "bytes option \<Rightarrow> bytes result" where
  "q_required q = ok_or (Error_Key ''DH subgroup order q is required for DH-ES'') q"

definition agreement_secret ::
  "'v xenc_lib \<Rightarrow> 'v enc_context \<Rightarrow> document \<Rightarrow> node_id \<Rightarrow> node_id \<Rightarrow> string \<Rightarrow> bytes result" where
  "agreement_secret L ctx d agreement originator_ki agreement_alg =
     (if agreement_alg = alg_ECDH_ES then
        and_then (extract_ec_public_key_bytes L d originator_ki) (\<lambda>public.
        and_then (resolve_recipient_key ctx d agreement) (\<lambda>recipient.
        ecdh_shared L ''recipient'' public (key_data recipient)))
      else if agreement_alg = alg_DH_ES then
        and_then (extract_dh_public_key_from_xml L d originator_ki) (\<lambda>public.
        and_then (resolve_recipient_key ctx d agreement) (\<lambda>recipient.
        case key_data recipient of
          Key_Dh p _ q (Some x) _ \<Rightarrow>
            and_then (q_required q) (\<lambda>q_bytes. dh_compute (el_enc L) public x p (Some q_bytes))
        | _ \<Rightarrow> Inl (Error_Key ''recipient key is not a DH private key'')))
      else if agreement_alg = alg_X25519 then
        and_then (extract_ec_public_key_bytes L d originator_ki) (\<lambda>public.
        if length public \<noteq> 32 then
          Inl (Error_Key (''X25519 public key must be 32 bytes, got '' @ show_nat (length public)))
        else
          and_then (resolve_recipient_key ctx d agreement) (\<lambda>recipient.
          case key_data recipient of
            Key_X25519 (Some priv_bytes) _ \<Rightarrow> ecdh_x25519 (el_enc L) public priv_bytes
          | _ \<Rightarrow> Inl (Error_Key ''recipient key is not an X25519 private key'')))
      else Inl (Error_UnsupportedAlgorithm (''key agreement: '' @ agreement_alg)))"

definition derive_kek ::
  "'v xenc_lib \<Rightarrow> document \<Rightarrow> node_id \<Rightarrow> bytes \<Rightarrow> nat \<Rightarrow> bytes result outcome" where
  "derive_kek L d agreement shared_secret kek_len =
     (case find_child_element d agreement ns_ENC11 node_KEY_DERIVATION_METHOD of
        Some kdm \<Rightarrow>
          let kdf_uri = unwrap_or [] (node_attribute d kdm attr_ALGORITHM) in
          if kdf_uri = alg_CONCAT_KDF then
            out_then (parse_concat_kdf_params d kdm) (\<lambda>params.
            Returns (concat_kdf (el_enc L) shared_secret kek_len params))
          else if kdf_uri = alg_PBKDF2 then
            Returns (and_then (parse_pbkdf2_params L d kdm kek_len) (pbkdf2_derive (el_enc L) shared_secret))
          else if kdf_uri = alg_HKDF then
            Returns (and_then (parse_hkdf_params L d kdm kek_len) (hkdf_derive (el_enc L) shared_secret kek_len))
          else Returns (Inl (Error_UnsupportedAlgorithm (''key derivation: '' @ kdf_uri)))
      | None \<Rightarrow> Returns (Inr (take (min kek_len (length shared_secret)) shared_secret)))"

text \<open>The \<open>AgreementMethod\<close> of an \<open>EncryptedKey\<close>.\<close>

definition find_agreement_method :: "document \<Rightarrow> node_id \<Rightarrow> node_id option" where
  "find_agreement_method d enc_key =
     (case find_child_element d enc_key ns_DSIG node_KEY_INFO of
        None \<Rightarrow> None
      | Some ki \<Rightarrow> find_child_element d ki ns_ENC node_AGREEMENT_METHOD)"

definition resolve_agreement_method_kek ::
  "'v xenc_lib \<Rightarrow> 'v enc_context \<Rightarrow> document \<Rightarrow> node_id \<Rightarrow> nat \<Rightarrow> bytes option result outcome" where
  "resolve_agreement_method_kek L ctx d enc_key kek_len =
     (case find_agreement_method d enc_key of
        None \<Rightarrow> Returns (Inr None)
      | Some agreement \<Rightarrow>
          let agreement_alg = unwrap_or [] (node_attribute d agreement attr_ALGORITHM) in
          out_then (Returns (ok_or (Error_MissingElement ''OriginatorKeyInfo'')
            (find_child_element d agreement ns_ENC node_ORIGINATOR_KEY_INFO))) (\<lambda>originator_ki.
          out_then (Returns (agreement_secret L ctx d agreement originator_ki agreement_alg)) (\<lambda>shared_secret.
          out_then (derive_kek L d agreement shared_secret kek_len) (\<lambda>kek. Returns (Inr (Some kek))))))"

section \<open>Cipher data\<close>

definition resolve_prefix_on_element :: "document \<Rightarrow> node_id \<Rightarrow> string \<Rightarrow> string option" where
  "resolve_prefix_on_element d n pre =
     find_map
       (\<lambda>m. case doc_element d m of
          None \<Rightarrow> None
        | Some e \<Rightarrow> map_option snd (find (\<lambda>(p, _). p = pre) (el_namespace_declarations e)))
       (parent_chain d (Some n))"

definition strip_quotes :: "char \<Rightarrow> string \<Rightarrow> string option" where
  "strip_quotes q s = (case strip_prefix [q] s of None \<Rightarrow> None | Some t \<Rightarrow> strip_suffix [q] t)"

definition parse_attr_predicate :: "string \<Rightarrow> string \<Rightarrow> string option" where
  "parse_attr_predicate pred attr_name =
     (case strip_prefix ''[@'' pred of None \<Rightarrow> None | Some t \<Rightarrow>
     (case strip_suffix '']'' t of None \<Rightarrow> None | Some inner \<Rightarrow>
     (case strip_prefix attr_name inner of None \<Rightarrow> None | Some t \<Rightarrow>
     (case strip_prefix ''='' t of None \<Rightarrow> None | Some rest \<Rightarrow>
      or_else (strip_quotes (CHR 0x22) rest) (strip_quotes (CHR 0x27) rest)))))"

text \<open>The element selected by \<open>self::text()[parent::PREFIX:ELEM[...]]\<close>: by ID first, then by scanning.\<close>

definition xpath_target ::
  "document \<Rightarrow> id_map \<Rightarrow> string \<Rightarrow> string \<Rightarrow> string option \<Rightarrow> node_id option" where
  "xpath_target d ids ns_uri local_name id_value =
     or_else
       (case id_value of
          None \<Rightarrow> None
        | Some v \<Rightarrow>
            (case ids v of
               None \<Rightarrow> None
             | Some n \<Rightarrow> if is_named d ns_uri local_name n then Some n else None))
       (find (\<lambda>n. is_named d ns_uri local_name n \<and>
            (case id_value of None \<Rightarrow> True | Some v \<Rightarrow> unwrap_or [] (node_attribute d n ''Id'') = v))
         (doc_descendants d (doc_root d)))"

definition apply_cipher_ref_xpath :: "document \<Rightarrow> id_map \<Rightarrow> node_id \<Rightarrow> bytes result" where
  "apply_cipher_ref_xpath d ids transform =
     and_then (ok_or (Error_MissingElement ''XPath in CipherReference transform'')
       (find_child d transform (\<lambda>e. elem_local e = ''XPath''))) (\<lambda>xpath_node.
     let xpath_text = deep_trimmed d xpath_node;
         unsupported = Inl (Error_UnsupportedAlgorithm (''CipherReference XPath expression not supported: '' @ xpath_text))
     in
     case strip_prefix ''self::text()[parent::'' xpath_text of None \<Rightarrow> unsupported | Some r \<Rightarrow>
     (case strip_suffix '']'' r of None \<Rightarrow> unsupported | Some rest \<Rightarrow>
     (case find_str ''['' rest of None \<Rightarrow> unsupported | Some bracket_pos \<Rightarrow>
        let name_part = take bracket_pos rest; pred_part = drop bracket_pos rest;
            (pre, local_name) =
              (case find_str '':'' name_part of
                 Some colon_pos \<Rightarrow> (take colon_pos name_part, drop (colon_pos + 1) name_part)
               | None \<Rightarrow> ([], name_part));
            ns_uri = (if pre = [] then [] else unwrap_or [] (resolve_prefix_on_element d xpath_node pre))
        in case xpath_target d ids ns_uri local_name (parse_attr_predicate pred_part ''Id'') of
             Some n \<Rightarrow> Inr (doc_text_deep d n)
           | None \<Rightarrow> Inl (Error_Transform (''CipherReference XPath: no matching element for '' @ xpath_text)))))"

definition cipher_ref_transform ::
  "'v xenc_lib \<Rightarrow> document \<Rightarrow> id_map \<Rightarrow> bytes \<Rightarrow> node_id \<Rightarrow> bytes result" where
  "cipher_ref_transform L d ids data child =
     (case doc_element d child of
        None \<Rightarrow> Inr data
      | Some e \<Rightarrow>
          if elem_local e \<noteq> node_TRANSFORM then Inr data
          else
            let alg = unwrap_or [] (doc_get_attribute d e attr_ALGORITHM) in
            if alg = alg_BASE64 then
              map_err (\<lambda>e. Error_Base64 (''CipherReference base64 transform: '' @ e))
                (el_base64 L (remove_ws (el_utf8_lossy L data)))
            else if alg = alg_XPATH then apply_cipher_ref_xpath d ids child
            else Inl (Error_UnsupportedAlgorithm (''CipherReference transform: '' @ alg)))"

definition resolve_cipher_reference :: "'v xenc_lib \<Rightarrow> document \<Rightarrow> node_id \<Rightarrow> id_map \<Rightarrow> bytes result" where
  "resolve_cipher_reference L d cipher_ref ids =
     and_then (ok_or (Error_MissingAttribute ''URI on CipherReference'') (node_attribute d cipher_ref attr_URI)) (\<lambda>uri.
     and_then
       (if uri = [] then
          Inr (concat (List.map_filter (el_text_content L d) (doc_descendants d (doc_root d))))
        else case strip_prefix ''#'' uri of
          Some ident \<Rightarrow>
            and_then (ok_or (Error_InvalidUri (''cannot resolve CipherReference #'' @ ident)) (ids ident)) (\<lambda>target.
            if doc_kind d target = None then Inl (Error_InvalidUri (''cannot resolve CipherReference #'' @ ident))
            else Inr (doc_text_deep d target))
        | None \<Rightarrow>
            Inl (Error_UnsupportedAlgorithm (''CipherReference with non-fragment URI not supported: '' @ uri)))
       (\<lambda>data.
     case or_else (find_child_element d cipher_ref ns_ENC node_TRANSFORMS)
            (find_child_element d cipher_ref ns_DSIG node_TRANSFORMS) of
       None \<Rightarrow> Inr data
     | Some transforms \<Rightarrow> try_fold (cipher_ref_transform L d ids) data (doc_children d transforms)))"

definition read_cipher_data ::
  "'v xenc_lib \<Rightarrow> 'v enc_context \<Rightarrow> document \<Rightarrow> node_id \<Rightarrow> id_map \<Rightarrow> bytes result" where
  "read_cipher_data L ctx d cipher_data ids =
     (case find_child_element d cipher_data ns_ENC node_CIPHER_VALUE of
        Some cipher_value \<Rightarrow>
          map_err (\<lambda>e. Error_Base64 (''CipherValue: '' @ e)) (el_base64 L (remove_ws (deep_trimmed d cipher_value)))
      | None \<Rightarrow>
          (case find_child_element d cipher_data ns_ENC node_CIPHER_REFERENCE of
             Some cipher_ref \<Rightarrow>
               if xc_disable_cipher_reference ctx then Inl (Error_Other ''CipherReference resolution is disabled'')
               else resolve_cipher_reference L d cipher_ref ids
           | None \<Rightarrow> Inl (Error_MissingElement ''CipherValue or CipherReference'')))"

end
