(* ===== verification/Enc_Decrypt.thy ===== *)
theory Enc_Decrypt
  imports Enc_Keys
begin

text \<open>
  Decryption (\<open>bergshamra-enc/src/decrypt.rs\<close>), second part: the key of an \<open>EncryptedData\<close> (wrapped keys,
  derived keys, named keys), decrypting, and putting the plaintext in place of the element.
\<close>

section \<open>Wrapped keys\<close>

definition kw_kek_size :: "string \<Rightarrow> nat" where
  "kw_kek_size enc_uri =
     (if enc_uri = alg_KW_AES128 then 16 else if enc_uri = alg_KW_AES192 then 24
      else if enc_uri = alg_KW_AES256 then 32 else 0)"

definition named_symmetric_key :: "'v enc_context \<Rightarrow> document \<Rightarrow> node_id \<Rightarrow> bytes option" where
  "named_symmetric_key ctx d key_name_node =
     (let name = deep_trimmed d key_name_node in
      if name = [] then None
      else case find_by_name (xc_keys_manager ctx) name of
        Some k \<Rightarrow> symmetric_key_bytes k
      | None \<Rightarrow> None)"

definition resolve_encrypted_key_kek :: "'v enc_context \<Rightarrow> document \<Rightarrow> node_id \<Rightarrow> bytes result" where
  "resolve_encrypted_key_kek ctx d enc_key =
     (case (case find_child_element d enc_key ns_DSIG node_KEY_INFO of
              None \<Rightarrow> None
            | Some ki \<Rightarrow>
                (case find_child_element d ki ns_DSIG node_KEY_NAME of
                   None \<Rightarrow> None
                 | Some key_name_node \<Rightarrow> named_symmetric_key ctx d key_name_node)) of
        Some b \<Rightarrow> Inr b
      | None \<Rightarrow>
          and_then (first_key (xc_keys_manager ctx)) (\<lambda>k.
          ok_or (Error_Key ''no symmetric key for EncryptedKey cipher decryption'') (symmetric_key_bytes k)))"

definition decrypt_key_transport ::
  "'v xenc_lib \<Rightarrow> 'v enc_context \<Rightarrow> document \<Rightarrow> node_id \<Rightarrow> string \<Rightarrow> bytes \<Rightarrow> bytes result" where
  "decrypt_key_transport L ctx d enc_method enc_uri cipher_bytes =
     (case xc_hsm_decryptor ctx of
        Some h \<Rightarrow>
          and_then (ensure_hsm_decryptor_matches ctx enc_uri) (\<lambda>_.
          map_err enc_map_kryptering_err (hd_decrypt h cipher_bytes))
      | None \<Rightarrow>
          let m = xc_keys_manager ctx in
          and_then (keytransport_from_uri_with_params (el_legacy L) enc_uri (enc_read_oaep_params L d enc_method)) (\<lambda>transport.
          and_then (ok_or (Error_Key ''no RSA key for EncryptedKey decryption'')
            (or_else (find_rsa_private m) (find_rsa m))) (\<lambda>rsa_key.
          and_then (ok_or (Error_Key ''RSA private key required for key transport'') (rsa_private_key rsa_key)) (\<lambda>private_key.
          keytransport_decrypt (el_enc L) transport private_key cipher_bytes))))"

definition decrypt_aes_kw ::
  "'v xenc_lib \<Rightarrow> 'v enc_context \<Rightarrow> document \<Rightarrow> node_id \<Rightarrow> string \<Rightarrow> bytes \<Rightarrow> bytes result outcome" where
  "decrypt_aes_kw L ctx d enc_key enc_uri cipher_bytes =
     (case xc_hsm_key_unwrapper ctx of
        Some h \<Rightarrow>
          Returns (and_then (ensure_hsm_key_unwrapper_matches ctx enc_uri) (\<lambda>_.
            map_err enc_map_kryptering_err (hw_unwrap h cipher_bytes)))
      | None \<Rightarrow>
          let m = xc_keys_manager ctx; size = kw_kek_size enc_uri in
          out_then (Returns (keywrap_from_uri enc_uri)) (\<lambda>kw.
          out_then (resolve_agreement_method_kek L ctx d enc_key size) (\<lambda>agreed.
          Returns (case agreed of
             Some kek \<Rightarrow> keywrap_unwrap (el_enc L) kw kek cipher_bytes
           | None \<Rightarrow>
               and_then (ok_or (Error_Key ''no AES key for key unwrap'') (or_else (find_aes_by_size m size) (find_aes m))) (\<lambda>aes_key.
               and_then (ok_or (Error_Key ''AES key has no bytes'') (symmetric_key_bytes aes_key)) (\<lambda>kek_bytes.
               keywrap_unwrap (el_enc L) kw kek_bytes cipher_bytes))))))"

definition decrypt_des3_kw :: "'v xenc_lib \<Rightarrow> 'v enc_context \<Rightarrow> string \<Rightarrow> bytes \<Rightarrow> bytes result" where
  "decrypt_des3_kw L ctx enc_uri cipher_bytes =
     (let m = xc_keys_manager ctx in
      and_then (keywrap_from_uri enc_uri) (\<lambda>kw.
      and_then (ok_or (Error_Key ''no symmetric key for 3DES key unwrap'') (or_else (find_des3 m) (ok (first_key m)))) (\<lambda>des_key.
      and_then (ok_or (Error_Key ''no symmetric key for 3DES key unwrap'') (symmetric_key_bytes des_key)) (\<lambda>kek_bytes.
      keywrap_unwrap (el_enc L) kw kek_bytes cipher_bytes))))"

definition key_transport_uris :: "string list" where
  "key_transport_uris = [alg_RSA_PKCS1, alg_RSA_OAEP, alg_RSA_OAEP_ENC11]"

definition aes_kw_uris :: "string list" where
  "aes_kw_uris = [alg_KW_AES128, alg_KW_AES192, alg_KW_AES256]"

definition cipher_uris :: "string list" where
  "cipher_uris =
     [alg_AES128_CBC, alg_AES192_CBC, alg_AES256_CBC, alg_AES128_GCM, alg_AES192_GCM, alg_AES256_GCM,
      alg_TRIPLEDES_CBC]"

text \<open>The \<open>match\<close> on the algorithm of the \<open>EncryptedKey\<close>.\<close>

definition unwrap_key ::
  "'v xenc_lib \<Rightarrow> 'v enc_context \<Rightarrow> document \<Rightarrow> node_id \<Rightarrow> node_id \<Rightarrow> string \<Rightarrow> bytes \<Rightarrow> bytes result outcome" where
  "unwrap_key L ctx d enc_key enc_method enc_uri cipher_bytes =
     (if enc_uri \<in> set key_transport_uris then
        Returns (decrypt_key_transport L ctx d enc_method enc_uri cipher_bytes)
      else if enc_uri \<in> set aes_kw_uris then decrypt_aes_kw L ctx d enc_key enc_uri cipher_bytes
      else if enc_uri = alg_KW_TRIPLEDES then Returns (decrypt_des3_kw L ctx enc_uri cipher_bytes)
      else if enc_uri \<in> set cipher_uris then
        Returns (and_then (cipher_from_uri enc_uri) (\<lambda>cipher.
          and_then (resolve_encrypted_key_kek ctx d enc_key) (\<lambda>kek_bytes.
          cipher_decrypt (el_enc L) cipher kek_bytes cipher_bytes)))
      else Returns (Inl (Error_UnsupportedAlgorithm (''EncryptedKey method: '' @ enc_uri))))"

definition decrypt_encrypted_key ::
  "'v xenc_lib \<Rightarrow> 'v enc_context \<Rightarrow> document \<Rightarrow> node_id \<Rightarrow> id_map \<Rightarrow> bytes result outcome" where
  "decrypt_encrypted_key L ctx d enc_key ids =
     out_then (Returns (ok_or (Error_MissingElement ''EncryptionMethod on EncryptedKey'')
       (find_child_element d enc_key ns_ENC node_ENCRYPTION_METHOD))) (\<lambda>enc_method.
     out_then (Returns (ok_or (Error_MissingAttribute ''Algorithm on EncryptedKey EncryptionMethod'')
       (node_attribute d enc_method attr_ALGORITHM))) (\<lambda>enc_uri.
     out_then (Returns (ok_or (Error_MissingElement ''CipherData on EncryptedKey'')
       (find_child_element d enc_key ns_ENC node_CIPHER_DATA))) (\<lambda>cipher_data.
     out_then (Returns (read_cipher_data L ctx d cipher_data ids)) (\<lambda>cipher_bytes.
     unwrap_key L ctx d enc_key enc_method enc_uri cipher_bytes))))"

section \<open>The key of the data\<close>

text \<open>
  The two loops over the children of \<open>KeyInfo\<close>. In both an \<open>Inl\<close> is the value the function returns; the
  first keeps the last error of an \<open>EncryptedKey\<close> and of a \<open>DerivedKey\<close>.
\<close>

definition key_element_step ::
  "'v xenc_lib \<Rightarrow> 'v enc_context \<Rightarrow> document \<Rightarrow> id_map \<Rightarrow> string \<Rightarrow> error option \<times> error option \<Rightarrow> node_id \<Rightarrow>
   (bytes result + error option \<times> error option) outcome" where
  "key_element_step L ctx d ids enc_uri = (\<lambda>(last_ek_error, last_derived_error) child.
     if is_named d ns_ENC node_ENCRYPTED_KEY child then
       out_bind (decrypt_encrypted_key L ctx d child ids) (\<lambda>r.
       Returns (case r of
          Inr k \<Rightarrow> Inl (Inr k)
        | Inl e \<Rightarrow> Inr (Some e, last_derived_error)))
     else if is_named d ns_ENC11 node_DERIVED_KEY child then
       out_bind (resolve_derived_key L ctx d child enc_uri) (\<lambda>r.
       Returns (case r of
          Inr k \<Rightarrow> Inl (Inr k)
        | Inl e \<Rightarrow> Inr (last_ek_error, Some e)))
     else Returns (Inr (last_ek_error, last_derived_error)))"

definition retrieved_key_node :: "document \<Rightarrow> id_map \<Rightarrow> element \<Rightarrow> (string \<times> node_id) option" where
  "retrieved_key_node d ids e =
     (case (doc_get_attribute d e attr_URI, doc_get_attribute d e attr_TYPE) of
        (Some uri, Some t) \<Rightarrow>
          if contains_str t ''EncryptedKey'' then
            (case strip_prefix ''#'' uri of
               None \<Rightarrow> None
             | Some ident \<Rightarrow> map_option (\<lambda>n. (ident, n)) (ids ident))
          else None
      | _ \<Rightarrow> None)"

definition key_name_step ::
  "'v xenc_lib \<Rightarrow> 'v enc_context \<Rightarrow> document \<Rightarrow> id_map \<Rightarrow> unit \<Rightarrow> node_id \<Rightarrow> (bytes result + unit) outcome" where
  "key_name_step L ctx d ids = (\<lambda>_ child.
     case doc_element d child of
       None \<Rightarrow> Returns (Inr ())
     | Some e \<Rightarrow>
         if elem_ns e = ns_DSIG \<and> elem_local e = node_KEY_NAME then
           Returns (case named_symmetric_key ctx d child of
              Some b \<Rightarrow> Inl (Inr b)
            | None \<Rightarrow> Inr ())
         else if elem_ns e = ns_DSIG \<and> elem_local e = node_RETRIEVAL_METHOD then
           (case retrieved_key_node d ids e of
              None \<Rightarrow> Returns (Inr ())
            | Some (ident, target) \<Rightarrow>
                if is_element d target then
                  out_bind (decrypt_encrypted_key L ctx d target ids) (\<lambda>r. Returns (Inl r))
                else Returns (Inl (Inl (Error_InvalidUri (''cannot resolve #'' @ ident)))))
         else Returns (Inr ()))"

definition fallback_key :: "'v enc_context \<Rightarrow> bytes result" where
  "fallback_key ctx =
     and_then (first_key (xc_keys_manager ctx)) (\<lambda>k.
     ok_or (Error_Key ''no suitable decryption key found'') (symmetric_key_bytes k))"

definition resolve_decryption_key ::
  "'v xenc_lib \<Rightarrow> 'v enc_context \<Rightarrow> document \<Rightarrow> node_id \<Rightarrow> id_map \<Rightarrow> string \<Rightarrow> bytes result outcome" where
  "resolve_decryption_key L ctx d enc_data ids enc_uri =
     (case find_child_element d enc_data ns_DSIG node_KEY_INFO of
        None \<Rightarrow> Returns (fallback_key ctx)
      | Some ki \<Rightarrow>
          out_bind (out_try_fold (key_element_step L ctx d ids enc_uri) (None, None) (doc_children d ki)) (\<lambda>r1.
          case r1 of
            Inl r \<Rightarrow> Returns r
          | Inr (last_ek_error, last_derived_error) \<Rightarrow>
              out_bind (out_try_fold (key_name_step L ctx d ids) () (doc_children d ki)) (\<lambda>r2.
              Returns (case r2 of
                 Inl r \<Rightarrow> r
               | Inr _ \<Rightarrow>
                   (case last_ek_error of
                      Some e \<Rightarrow> Inl e
                    | None \<Rightarrow> (case last_derived_error of Some e \<Rightarrow> Inl e | None \<Rightarrow> fallback_key ctx))))))"

section \<open>Putting the plaintext in place\<close>

definition is_opaque :: "document \<Rightarrow> node_id \<Rightarrow> string \<Rightarrow> bool" where
  "is_opaque d enc_data enc_type \<longleftrightarrow>
     \<not> (enc_type = [] \<or> ends_with enc_type ''#Element'' \<or> ends_with enc_type ''#Content'') \<or>
     (enc_type = [] \<and>
       (let mime = unwrap_or [] (node_attribute d enc_data ''MimeType'') in
        mime \<noteq> [] \<and> \<not> contains_str mime ''xml''))"

definition xml_decl_line :: string where
  "xml_decl_line = ''<?xml version='' @ [CHR 0x22] @ ''1.0'' @ [CHR 0x22] @ ''?>''"

definition replace_encrypted_data_bytes ::
  "'v xenc_lib \<Rightarrow> string \<Rightarrow> document \<Rightarrow> node_id \<Rightarrow> string \<Rightarrow> bytes \<Rightarrow> bytes outcome" where
  "replace_encrypted_data_bytes L xml d enc_data enc_type plaintext =
     (if is_opaque d enc_data enc_type then Returns plaintext
      else case el_range L d enc_data of
        None \<Rightarrow> Panics
      | Some (a, b) \<Rightarrow>
          let plaintext_trimmed = (if valid_utf8 plaintext then trim_start plaintext else []);
              plaintext_is_xml = starts_with plaintext_trimmed ''<'';
              plaintext_has_decl = starts_with plaintext_trimmed ''<?xml'';
              output_bytes =
                (if plaintext_is_xml then
                   normalize_self_closing_space (normalize_empty_elements (normalize_line_endings plaintext))
                 else plaintext)
          in
          out_bind (str_slice 0 a xml) (\<lambda>xml_before.
          out_bind (str_slice b (length xml) xml) (\<lambda>xml_after.
          let before = trim xml_before; after = trim xml_after;
              before_is_decl = (before = [] \<or> is_xml_prolog before)
          in
          Returns
            (if before_is_decl \<and> after = [] then
               (if plaintext_is_xml \<and> \<not> plaintext_has_decl then
                  (if starts_with before ''<?xml'' then before else xml_decl_line) @ [CHR 0x0A] @ output_bytes @
                  (if ends_with output_bytes [CHR 0x0A] then [] else [CHR 0x0A])
                else output_bytes)
             else
               normalize_self_closing_space (normalize_empty_elements (xml_before @ output_bytes @ xml_after))))))"

section \<open>\<open>decrypt\<close>\<close>

definition effective_key :: "string \<Rightarrow> bytes \<Rightarrow> bytes" where
  "effective_key enc_uri key_bytes =
     (let expected_key_size = key_length_for_algorithm enc_uri in
      if expected_key_size < length key_bytes \<and> 0 < expected_key_size then take expected_key_size key_bytes
      else key_bytes)"

definition default_enc_id_attrs :: "string list" where
  "default_enc_id_attrs = [''Id'', ''ID'', ''id'', ''AssertionID'']"

text \<open>The plaintext of an \<open>EncryptedData\<close>.\<close>

definition decrypt_data ::
  "'v xenc_lib \<Rightarrow> 'v enc_context \<Rightarrow> document \<Rightarrow> node_id \<Rightarrow> bytes result outcome" where
  "decrypt_data L ctx d enc_data =
     (let ids = enc_build_id_map d (default_enc_id_attrs @ xc_id_attrs ctx) in
      out_then (Returns (ok_or (Error_MissingElement ''EncryptionMethod'')
        (find_child_element d enc_data ns_ENC node_ENCRYPTION_METHOD))) (\<lambda>enc_method.
      out_then (Returns (ok_or (Error_MissingAttribute ''Algorithm on EncryptionMethod'')
        (node_attribute d enc_method attr_ALGORITHM))) (\<lambda>enc_uri.
      out_then (resolve_decryption_key L ctx d enc_data ids enc_uri) (\<lambda>key_bytes.
      out_then (Returns (ok_or (Error_MissingElement ''CipherData'')
        (find_child_element d enc_data ns_ENC node_CIPHER_DATA))) (\<lambda>cipher_data.
      out_then (Returns (read_cipher_data L ctx d cipher_data ids)) (\<lambda>cipher_bytes.
      out_then (Returns (cipher_from_uri enc_uri)) (\<lambda>cipher_alg.
      Returns (cipher_decrypt (el_enc L) cipher_alg (effective_key enc_uri key_bytes) cipher_bytes))))))))"

definition decrypt_to_bytes :: "'v xenc_lib \<Rightarrow> 'v enc_context \<Rightarrow> string \<Rightarrow> bytes result outcome" where
  "decrypt_to_bytes L ctx xml =
     out_then (Returns (map_err Error_XmlParse (el_parse L xml))) (\<lambda>d.
     out_then (Returns (ok_or (Error_MissingElement ''EncryptedData'')
       (find_element d ns_ENC node_ENCRYPTED_DATA))) (\<lambda>enc_data.
     let enc_type = unwrap_or [] (node_attribute d enc_data attr_TYPE) in
     out_then (decrypt_data L ctx d enc_data) (\<lambda>plaintext.
     out_bind (replace_encrypted_data_bytes L xml d enc_data enc_type plaintext) (\<lambda>r.
     Returns (Inr (maybe_convert_encoding r))))))"

text \<open>The message of the UTF-8 error is left open (\<open>utf8_msg\<close>).\<close>

definition decrypt :: "(bytes \<Rightarrow> string) \<Rightarrow> 'v xenc_lib \<Rightarrow> 'v enc_context \<Rightarrow> string \<Rightarrow> string result outcome" where
  "decrypt utf8_msg L ctx xml =
     out_then (decrypt_to_bytes L ctx xml) (\<lambda>b.
     Returns (if valid_utf8 b then Inr b
              else Inl (Error_Decryption (''plaintext is not valid UTF-8: '' @ utf8_msg b))))"

end
