(* ===== verification/Enc_Encrypt.thy ===== *)
theory Enc_Encrypt
  imports Enc_Decrypt
begin

text \<open>
  Encryption (\<open>bergshamra-enc/src/encrypt.rs\<close>): the template is text; the \<open>CipherValue\<close> of its \<open>EncryptedData\<close> and
  those of its \<open>EncryptedKey\<close> elements are replaced. The helpers \<open>find_element\<close>, \<open>find_child_element\<close>,
  \<open>read_oaep_params\<close>, \<open>pname\<close> and \<open>map_kryptering_err\<close> are copies of those modelled for \<open>decrypt.rs\<close> and \<open>sign.rs\<close>.

  Randomness is a parameter: the bytes of a session key of a given length, and what encrypting the
  data and each \<open>EncryptedKey\<close> draws.
\<close>

record randomness =
  rn_session :: "nat \<Rightarrow> bytes"
  rn_data :: bytes
  rn_key :: "node_id \<Rightarrow> bytes"

definition extract_prefix :: "string \<Rightarrow> string \<Rightarrow> string" where
  "extract_prefix xml_fragment local_name =
     (let trimmed = dropWhile (\<lambda>c. c = CHR ''<'') xml_fragment in
      case find_str '':'' trimmed of
        Some colon_pos \<Rightarrow>
          if starts_with (drop (colon_pos + 1) trimmed) local_name then take colon_pos trimmed else []
      | None \<Rightarrow> [])"

section \<open>The key of the data\<close>

definition session_key_size :: "string \<Rightarrow> nat option" where
  "session_key_size enc_uri =
     (if enc_uri = alg_AES128_CBC \<or> enc_uri = alg_AES128_GCM then Some 16
      else if enc_uri = alg_AES192_CBC \<or> enc_uri = alg_AES192_GCM then Some 24
      else if enc_uri = alg_AES256_CBC \<or> enc_uri = alg_AES256_GCM then Some 32
      else if enc_uri = alg_TRIPLEDES_CBC then Some 24
      else None)"

definition generate_session_key :: "randomness \<Rightarrow> string \<Rightarrow> bytes result" where
  "generate_session_key R enc_uri =
     (case session_key_size enc_uri of
        Some n \<Rightarrow> Inr (rn_session R n)
      | None \<Rightarrow> Inl (Error_UnsupportedAlgorithm (''cannot determine key size for: '' @ enc_uri)))"

text \<open>One child of \<open>KeyInfo\<close>: an \<open>Inl\<close> is the value returned, the state is the last error of a \<open>DerivedKey\<close>.\<close>

definition encryption_key_step ::
  "'v xenc_lib \<Rightarrow> randomness \<Rightarrow> 'v enc_context \<Rightarrow> document \<Rightarrow> string \<Rightarrow> error option \<Rightarrow> node_id \<Rightarrow>
   (bytes result + error option) outcome" where
  "encryption_key_step L R ctx d enc_uri last_derived_error child =
     (if is_named d ns_DSIG node_KEY_NAME child then
        Returns (case named_symmetric_key ctx d child of
           Some b \<Rightarrow> Inl (Inr b)
         | None \<Rightarrow> Inr last_derived_error)
      else if is_named d ns_ENC node_ENCRYPTED_KEY child then Returns (Inl (generate_session_key R enc_uri))
      else if is_named d ns_ENC11 node_DERIVED_KEY child then
        out_bind (resolve_derived_key L ctx d child enc_uri) (\<lambda>r.
        Returns (case r of Inr k \<Rightarrow> Inl (Inr k) | Inl e \<Rightarrow> Inr (Some e)))
      else Returns (Inr last_derived_error))"

definition fallback_encryption_key :: "randomness \<Rightarrow> 'v enc_context \<Rightarrow> string \<Rightarrow> bytes result" where
  "fallback_encryption_key R ctx enc_uri =
     and_then (first_key (xc_keys_manager ctx)) (\<lambda>k.
     case symmetric_key_bytes k of
       Some b \<Rightarrow> Inr b
     | None \<Rightarrow> generate_session_key R enc_uri)"

definition resolve_encryption_key ::
  "'v xenc_lib \<Rightarrow> randomness \<Rightarrow> 'v enc_context \<Rightarrow> document \<Rightarrow> node_id \<Rightarrow> string \<Rightarrow> bytes result outcome" where
  "resolve_encryption_key L R ctx d enc_data enc_uri =
     (case find_child_element d enc_data ns_DSIG node_KEY_INFO of
        None \<Rightarrow> Returns (fallback_encryption_key R ctx enc_uri)
      | Some ki \<Rightarrow>
          out_bind (out_try_fold (encryption_key_step L R ctx d enc_uri) None (doc_children d ki)) (\<lambda>r.
          Returns (case r of
             Inl v \<Rightarrow> v
           | Inr (Some e) \<Rightarrow> Inl e
           | Inr None \<Rightarrow> fallback_encryption_key R ctx enc_uri)))"

section \<open>Key agreement\<close>

definition resolve_originator_key :: "'v enc_context \<Rightarrow> document \<Rightarrow> node_id \<Rightarrow> 'v key result" where
  "resolve_originator_key ctx d agreement =
     (let m = xc_keys_manager ctx in
      ok_or (Error_Key ''no private key for key agreement originator'')
        (or_else (named_agreement_key ctx d agreement node_ORIGINATOR_KEY_INFO)
        (or_else (filter_key has_dh_private (find_dh m))
          (find_ec_private m))))"

definition resolve_recipient_public_key :: "'v enc_context \<Rightarrow> document \<Rightarrow> node_id \<Rightarrow> 'v key result" where
  "resolve_recipient_public_key ctx d agreement =
     ok_or (Error_Key ''no public key for key agreement recipient'')
       (named_agreement_key ctx d agreement node_RECIPIENT_KEY_INFO)"

definition agreement_secret_encrypt ::
  "'v xenc_lib \<Rightarrow> 'v key \<Rightarrow> 'v key \<Rightarrow> string \<Rightarrow> bytes result" where
  "agreement_secret_encrypt L originator recipient agreement_alg =
     (if agreement_alg = alg_ECDH_ES then
        and_then (ok_or (Error_Key ''recipient key has no EC public key bytes'')
          (ec_public_key_bytes (el_keys L) recipient)) (\<lambda>public.
        ecdh_shared L ''originator'' public (key_data originator))
      else if agreement_alg = alg_DH_ES then
        (case (key_data originator, key_data recipient) of
           (Key_Dh p _ q (Some x) _, Key_Dh _ _ _ _ recipient_pub) \<Rightarrow>
             and_then (q_required q) (\<lambda>q_bytes. dh_compute (el_enc L) recipient_pub x p (Some q_bytes))
         | _ \<Rightarrow> Inl (Error_Key ''originator must be DH private key and recipient DH public key''))
      else Inl (Error_UnsupportedAlgorithm (''key agreement: '' @ agreement_alg)))"

definition derive_kek_encrypt ::
  "'v xenc_lib \<Rightarrow> document \<Rightarrow> node_id \<Rightarrow> bytes \<Rightarrow> nat \<Rightarrow> bytes result outcome" where
  "derive_kek_encrypt L d agreement shared_secret kek_len =
     (case find_child_element d agreement ns_ENC11 node_KEY_DERIVATION_METHOD of
        Some kdm \<Rightarrow>
          let kdf_uri = unwrap_or [] (node_attribute d kdm attr_ALGORITHM) in
          if kdf_uri = alg_CONCAT_KDF then
            out_then (parse_concat_kdf_params d kdm) (\<lambda>params.
            Returns (concat_kdf (el_enc L) shared_secret kek_len params))
          else if kdf_uri = alg_PBKDF2 then
            Returns (and_then (parse_pbkdf2_params L d kdm kek_len) (pbkdf2_derive (el_enc L) shared_secret))
          else Returns (Inl (Error_UnsupportedAlgorithm (''key derivation: '' @ kdf_uri)))
      | None \<Rightarrow> Returns (Inr (take (min kek_len (length shared_secret)) shared_secret)))"

definition resolve_agreement_method_encrypt ::
  "'v xenc_lib \<Rightarrow> 'v enc_context \<Rightarrow> document \<Rightarrow> node_id \<Rightarrow> nat \<Rightarrow> bytes option result outcome" where
  "resolve_agreement_method_encrypt L ctx d enc_key kek_len =
     (case find_agreement_method d enc_key of
        None \<Rightarrow> Returns (Inr None)
      | Some agreement \<Rightarrow>
          let agreement_alg = unwrap_or [] (node_attribute d agreement attr_ALGORITHM) in
          out_then (Returns (resolve_originator_key ctx d agreement)) (\<lambda>originator.
          out_then (Returns (resolve_recipient_public_key ctx d agreement)) (\<lambda>recipient.
          out_then (Returns (agreement_secret_encrypt L originator recipient agreement_alg)) (\<lambda>shared_secret.
          out_then (derive_kek_encrypt L d agreement shared_secret kek_len) (\<lambda>kek. Returns (Inr (Some kek)))))))"

text \<open>
  \<open>fill_originator_key_value\<close> slices the text \<open>xml\<close> that the previous rounds have changed with the range of
  the document as it was parsed before.
\<close>

definition originator_key_value :: "document \<Rightarrow> node_id \<Rightarrow> (node_id \<times> node_id) option" where
  "originator_key_value d enc_key =
     (case find_agreement_method d enc_key of
        None \<Rightarrow> None
      | Some agreement \<Rightarrow>
          (case find_child_element d agreement ns_ENC node_ORIGINATOR_KEY_INFO of
             None \<Rightarrow> None
           | Some oki \<Rightarrow> map_option (\<lambda>kv. (agreement, kv)) (find_child_element d oki ns_DSIG node_KEY_VALUE)))"

definition fill_originator_key_value ::
  "'v xenc_lib \<Rightarrow> 'v enc_context \<Rightarrow> document \<Rightarrow> node_id \<Rightarrow> string \<Rightarrow> string result outcome" where
  "fill_originator_key_value L ctx d enc_key xml =
     (case originator_key_value d enc_key of
        None \<Rightarrow> Returns (Inr xml)
      | Some (agreement, key_value) \<Rightarrow>
          out_then (Returns (resolve_originator_key ctx d agreement)) (\<lambda>originator.
          out_then (Returns (ok_or (Error_Key ''originator key has no KeyValue XML representation'')
            (to_key_value_xml (el_keys L) (key_data originator) []))) (\<lambda>kv_xml_content.
          case el_range L d key_value of
            None \<Rightarrow> Panics
          | Some (a, b) \<Rightarrow>
              out_bind (str_slice a b xml) (\<lambda>kv_xml.
              let tag = pname (extract_prefix kv_xml ''KeyValue'') ''KeyValue'';
                  replacement = ke_write (el_keys L) [Start_Element tag [], Write_Raw kv_xml_content, End_Element tag]
              in Returns (Inr (replace_first kv_xml replacement xml))))))"

section \<open>The wrapped keys\<close>

definition resolve_encrypted_key_rsa :: "'v enc_context \<Rightarrow> document \<Rightarrow> node_id \<Rightarrow> 'v key result" where
  "resolve_encrypted_key_rsa ctx d enc_key =
     (let m = xc_keys_manager ctx;
          named =
            (case find_child_element d enc_key ns_DSIG node_KEY_INFO of
               None \<Rightarrow> None
             | Some ki \<Rightarrow>
                 (case find_child_element d ki ns_DSIG node_KEY_NAME of
                    None \<Rightarrow> None
                  | Some key_name_node \<Rightarrow>
                      let name = deep_trimmed d key_name_node in
                      if name = [] then None
                      else case find_by_name m name of
                        Some k \<Rightarrow> if rsa_public_key k \<noteq> None then Some k else None
                      | None \<Rightarrow> None))
      in ok_or (Error_Key ''no RSA key for EncryptedKey'') (or_else named (find_rsa m)))"

definition enc_resolve_encrypted_key_kek :: "'v enc_context \<Rightarrow> document \<Rightarrow> node_id \<Rightarrow> bytes result" where
  "enc_resolve_encrypted_key_kek ctx d enc_key =
     (case (case find_child_element d enc_key ns_DSIG node_KEY_INFO of
              None \<Rightarrow> None
            | Some ki \<Rightarrow>
                (case find_child_element d ki ns_DSIG node_KEY_NAME of
                   None \<Rightarrow> None
                 | Some key_name_node \<Rightarrow> named_symmetric_key ctx d key_name_node)) of
        Some b \<Rightarrow> Inr b
      | None \<Rightarrow>
          and_then (first_key (xc_keys_manager ctx)) (\<lambda>k.
          ok_or (Error_Key ''no symmetric key for EncryptedKey cipher encryption'') (symmetric_key_bytes k)))"

definition encrypt_key_transport ::
  "'v xenc_lib \<Rightarrow> bytes \<Rightarrow> 'v enc_context \<Rightarrow> document \<Rightarrow> node_id \<Rightarrow> node_id \<Rightarrow> string \<Rightarrow> bytes \<Rightarrow> bytes result" where
  "encrypt_key_transport L rnd ctx d enc_key enc_method enc_uri session_key =
     (case xc_hsm_encryptor ctx of
        Some h \<Rightarrow>
          and_then (ensure_hsm_encryptor_matches ctx enc_uri) (\<lambda>_.
          map_err enc_map_kryptering_err (he_encrypt h rnd session_key))
      | None \<Rightarrow>
          and_then (keytransport_from_uri_with_params (el_legacy L) enc_uri (enc_read_oaep_params L d enc_method)) (\<lambda>transport.
          and_then (resolve_encrypted_key_rsa ctx d enc_key) (\<lambda>rsa_key.
          and_then (ok_or (Error_Key ''RSA public key required'') (rsa_public_key rsa_key)) (\<lambda>public_key.
          keytransport_encrypt (el_enc L) rnd transport public_key session_key))))"

text \<open>The wrapped key, and the text of the document, which key agreement changes.\<close>

definition encrypt_aes_kw ::
  "'v xenc_lib \<Rightarrow> 'v enc_context \<Rightarrow> document \<Rightarrow> node_id \<Rightarrow> string \<Rightarrow> bytes \<Rightarrow> string \<Rightarrow> (string \<times> bytes) result outcome" where
  "encrypt_aes_kw L ctx d enc_key enc_uri session_key result =
     (case xc_hsm_key_wrapper ctx of
        Some h \<Rightarrow>
          Returns (and_then (ensure_hsm_key_wrapper_matches ctx enc_uri) (\<lambda>_.
            map_sum enc_map_kryptering_err (Pair result) (hw_wrap h session_key)))
      | None \<Rightarrow>
          let m = xc_keys_manager ctx; size = kw_kek_size enc_uri in
          out_then (Returns (keywrap_from_uri enc_uri)) (\<lambda>kw.
          out_then (resolve_agreement_method_encrypt L ctx d enc_key size) (\<lambda>agreed.
          case agreed of
            Some kek \<Rightarrow>
              out_then (fill_originator_key_value L ctx d enc_key result) (\<lambda>result'.
              Returns (map_sum (\<lambda>e. e) (Pair result') (keywrap_wrap (el_enc L) kw kek session_key)))
          | None \<Rightarrow>
              Returns (and_then (ok_or (Error_Key ''no AES key for key wrap'') (or_else (find_aes_by_size m size) (find_aes m))) (\<lambda>aes_key.
                and_then (ok_or (Error_Key ''AES key has no bytes'') (symmetric_key_bytes aes_key)) (\<lambda>kek_bytes.
                map_sum (\<lambda>e. e) (Pair result) (keywrap_wrap (el_enc L) kw kek_bytes session_key)))))))"

definition encrypt_des3_kw :: "'v xenc_lib \<Rightarrow> 'v enc_context \<Rightarrow> string \<Rightarrow> bytes \<Rightarrow> bytes result" where
  "encrypt_des3_kw L ctx enc_uri session_key =
     (let m = xc_keys_manager ctx in
      and_then (keywrap_from_uri enc_uri) (\<lambda>kw.
      and_then (ok_or (Error_Key ''no key for 3DES key wrap'') (or_else (find_des3 m) (ok (first_key m)))) (\<lambda>des_key.
      and_then (ok_or (Error_Key ''no symmetric key for 3DES key wrap'') (symmetric_key_bytes des_key)) (\<lambda>kek_bytes.
      keywrap_wrap (el_enc L) kw kek_bytes session_key))))"

definition wrap_session_key ::
  "'v xenc_lib \<Rightarrow> randomness \<Rightarrow> 'v enc_context \<Rightarrow> document \<Rightarrow> node_id \<Rightarrow> node_id \<Rightarrow> string \<Rightarrow> bytes \<Rightarrow> string \<Rightarrow>
   (string \<times> bytes) result outcome" where
  "wrap_session_key L R ctx d enc_key enc_method enc_uri session_key result =
     (if enc_uri \<in> set key_transport_uris then
        Returns (map_sum (\<lambda>e. e) (Pair result)
          (encrypt_key_transport L (rn_key R enc_key) ctx d enc_key enc_method enc_uri session_key))
      else if enc_uri \<in> set aes_kw_uris then encrypt_aes_kw L ctx d enc_key enc_uri session_key result
      else if enc_uri = alg_KW_TRIPLEDES then
        Returns (map_sum (\<lambda>e. e) (Pair result) (encrypt_des3_kw L ctx enc_uri session_key))
      else if enc_uri \<in> set cipher_uris then
        Returns (and_then (cipher_from_uri enc_uri) (\<lambda>cipher.
          and_then (enc_resolve_encrypted_key_kek ctx d enc_key) (\<lambda>kek_bytes.
          map_sum (\<lambda>e. e) (Pair result) (cipher_encrypt (el_enc L) (rn_key R enc_key) cipher kek_bytes session_key))))
      else Returns (Inl (Error_UnsupportedAlgorithm (''EncryptedKey method: '' @ enc_uri))))"

text \<open>The start and end tags written around a cipher value.\<close>

definition cipher_value_element :: "'v xenc_lib \<Rightarrow> string \<Rightarrow> string \<Rightarrow> string" where
  "cipher_value_element L cv_xml b64 =
     (let pre = extract_prefix cv_xml ''CipherValue'';
          effective_prefix =
            (if pre \<noteq> [] then if contains_str cv_xml (''xmlns:'' @ pre @ ''='') then [] else pre else [])
      in ke_write (el_keys L) (text_element (pname effective_prefix ''CipherValue'') b64))"

text \<open>The parts of an \<open>EncryptedKey\<close> that is to be filled in; all others are skipped.\<close>

definition encrypted_key_parts :: "document \<Rightarrow> node_id \<Rightarrow> (node_id \<times> string \<times> node_id) option" where
  "encrypted_key_parts d n =
     (if \<not> is_named d ns_ENC node_ENCRYPTED_KEY n then None
      else case find_child_element d n ns_ENC node_ENCRYPTION_METHOD of
        None \<Rightarrow> None
      | Some enc_method \<Rightarrow>
      (case node_attribute d enc_method attr_ALGORITHM of
        None \<Rightarrow> None
      | Some enc_uri \<Rightarrow>
      (case find_child_element d n ns_ENC node_CIPHER_DATA of
        None \<Rightarrow> None
      | Some cipher_data \<Rightarrow>
      (case find_child_element d cipher_data ns_ENC node_CIPHER_VALUE of
        None \<Rightarrow> None
      | Some cipher_value \<Rightarrow>
          if deep_trimmed d cipher_value \<noteq> [] then None else Some (enc_method, enc_uri, cipher_value)))))"

definition fill_encrypted_key ::
  "'v xenc_lib \<Rightarrow> randomness \<Rightarrow> 'v enc_context \<Rightarrow> document \<Rightarrow> string \<Rightarrow> bytes \<Rightarrow> string \<Rightarrow> node_id \<Rightarrow> string result outcome" where
  "fill_encrypted_key L R ctx d xml session_key result n =
     (case encrypted_key_parts d n of
        None \<Rightarrow> Returns (Inr result)
      | Some (enc_method, enc_uri, cipher_value) \<Rightarrow>
          out_then (wrap_session_key L R ctx d n enc_method enc_uri session_key result) (\<lambda>(result', wrapped).
          case el_range L d cipher_value of
            None \<Rightarrow> Panics
          | Some (a, b) \<Rightarrow>
              out_bind (str_slice a b xml) (\<lambda>cv_xml.
              Returns (Inr (replace_first cv_xml
                (cipher_value_element L cv_xml (ke_encode (el_keys L) wrapped)) result')))))"

definition encrypt_session_key ::
  "'v xenc_lib \<Rightarrow> randomness \<Rightarrow> 'v enc_context \<Rightarrow> string \<Rightarrow> bytes \<Rightarrow> string result outcome" where
  "encrypt_session_key L R ctx xml session_key =
     out_then (Returns (map_err Error_XmlParse (el_parse L xml))) (\<lambda>d.
     out_try_fold (fill_encrypted_key L R ctx d xml session_key) xml (doc_descendants d (doc_root d)))"

section \<open>\<open>encrypt\<close>\<close>

definition encrypt :: "'v xenc_lib \<Rightarrow> randomness \<Rightarrow> 'v enc_context \<Rightarrow> string \<Rightarrow> bytes \<Rightarrow> string result outcome" where
  "encrypt L R ctx template_xml data =
     out_then (Returns (map_err Error_XmlParse (el_parse L template_xml))) (\<lambda>d.
     out_then (Returns (ok_or (Error_MissingElement ''EncryptedData'')
       (find_element d ns_ENC node_ENCRYPTED_DATA))) (\<lambda>enc_data.
     out_then (Returns (ok_or (Error_MissingElement ''EncryptionMethod'')
       (find_child_element d enc_data ns_ENC node_ENCRYPTION_METHOD))) (\<lambda>enc_method.
     out_then (Returns (ok_or (Error_MissingAttribute ''Algorithm on EncryptionMethod'')
       (node_attribute d enc_method attr_ALGORITHM))) (\<lambda>enc_uri.
     out_then (resolve_encryption_key L R ctx d enc_data enc_uri) (\<lambda>key_bytes.
     out_then (Returns (cipher_from_uri enc_uri)) (\<lambda>cipher_alg.
     out_then (Returns (cipher_encrypt (el_enc L) (rn_data R) cipher_alg key_bytes data)) (\<lambda>ciphertext.
     out_then (Returns (ok_or (Error_MissingElement ''CipherData'')
       (find_child_element d enc_data ns_ENC node_CIPHER_DATA))) (\<lambda>cipher_data.
     out_then (Returns (ok_or (Error_MissingElement ''CipherValue'')
       (find_child_element d cipher_data ns_ENC node_CIPHER_VALUE))) (\<lambda>cipher_value.
     case el_range L d cipher_value of
       None \<Rightarrow> Panics
     | Some (a, b) \<Rightarrow>
         out_bind (str_slice a b template_xml) (\<lambda>cv_xml.
         out_bind (str_slice 0 a template_xml) (\<lambda>before.
         out_bind (str_slice b (length template_xml) template_xml) (\<lambda>after.
         encrypt_session_key L R ctx
           (before @ cipher_value_element L cv_xml (ke_encode (el_keys L) ciphertext) @ after) key_bytes))))))))))))"

end
