(* ===== verification/Enc_Text_Laws.thy ===== *)
theory Enc_Text_Laws
  imports Enc_Text Bytes
begin

text \<open>What the text functions of \<open>decrypt.rs\<close> keep of their input, and where they change its meaning.\<close>

section \<open>Self-closing tags and line ends\<close>

lemma filter_self_closing: "filter (\<lambda>c. c \<noteq> CHR '' '') (self_closing_from m s) = filter (\<lambda>c. c \<noteq> CHR '' '') s"
  by (induction m s rule: self_closing_from.induct) auto

lemma self_closing_subseq: "subseq (self_closing_from m s) s"
  by (induction m s rule: self_closing_from.induct) auto

lemma filter_line_endings: "CHR 0x0D \<notin> set (normalize_line_endings s)"
  by (induction s rule: normalize_line_endings.induct) (auto split: list.splits)

lemma line_endings_id: "CHR 0x0D \<notin> set s \<Longrightarrow> normalize_line_endings s = s"
  by (induction s rule: normalize_line_endings.induct) auto

text \<open>
  Removing the space of a self-closing tag never touches anything but spaces: the output is what is
  left of the input after deleting some of its spaces, and with all spaces deleted both are equal.
\<close>

theorem self_closing_only_spaces:
  "subseq (normalize_self_closing_space data) data \<and>
   filter (\<lambda>c. c \<noteq> CHR '' '') (normalize_self_closing_space data) = filter (\<lambda>c. c \<noteq> CHR '' '') data"
  by (simp add: normalize_self_closing_space_def filter_self_closing self_closing_subseq)

section \<open>Empty elements\<close>

lemma strip_prefix_close: "strip_prefix ''></'' (c # s) = Some r \<longleftrightarrow> c = CHR ''>'' \<and> s = CHR ''<'' # CHR ''/'' # r"
  by (auto simp: strip_prefix_Some_iff)

lemma empty_elements_skip:
  assumes "CHR ''<'' \<notin> set t"
  shows "empty_elements_from before (t @ CHR ''>'' # s) = t @ empty_elements_from (rev t @ before) (CHR ''>'' # s)"
  using assms
proof (induction t arbitrary: before)
  case (Cons c t)
  have "strip_prefix ''></'' (c # t @ CHR ''>'' # s) = None"
  proof (cases "strip_prefix ''></'' (c # t @ CHR ''>'' # s)")
    case (Some r)
    then have "t @ CHR ''>'' # s = CHR ''<'' # CHR ''/'' # r" by (simp add: strip_prefix_close)
    with Cons.prems show ?thesis by (cases t) auto
  qed
  then have "empty_elements_from before ((c # t) @ CHR ''>'' # s) = c # empty_elements_from (c # before) (t @ CHR ''>'' # s)"
    by (simp add: empty_element_end_def)
  with Cons show ?case by simp
qed simp

text \<open>
  A start tag \<open><n t>\<close>, where \<open>t\<close> may also hold text of the element: the name is not that of an end tag, a
  declaration or a processing instruction, and no further \<open><\<close> follows.
\<close>

definition opens_element :: "bytes \<Rightarrow> bytes \<Rightarrow> bool" where
  "opens_element n t \<longleftrightarrow>
     n \<noteq> [] \<and> \<not> list_ex (\<lambda>c. is_name_end c \<or> c = CHR ''<'') n \<and> hd n \<notin> {CHR ''/'', CHR ''!'', CHR ''?''} \<and>
     CHR ''<'' \<notin> set t \<and> (t = [] \<or> is_name_end (hd t))"

definition mergeable :: "bytes \<Rightarrow> bytes \<Rightarrow> bytes" where
  "mergeable n t = ''<'' @ n @ t @ ''></'' @ n @ ''>''"

lemma opens_element_chars:
  assumes "opens_element n t"
  shows "CHR ''<'' \<notin> set n" "CHR ''>'' \<notin> set n" "CHR ''<'' \<notin> set t" "close_name_ok n"
    "takeWhile (\<lambda>c. \<not> is_name_end c) (n @ t) = n"
proof -
  have n: "c \<in> set n \<Longrightarrow> \<not> is_name_end c \<and> c \<noteq> CHR ''<''" for c
    using assms by (auto simp: opens_element_def list_ex_iff)
  then show "CHR ''<'' \<notin> set n" "CHR ''>'' \<notin> set n" "CHR ''<'' \<notin> set t" "close_name_ok n"
    using assms by (auto simp: opens_element_def close_name_ok_def list_ex_iff is_name_end_def)
  show "takeWhile (\<lambda>c. \<not> is_name_end c) (n @ t) = n"
    using n assms by (cases t) (auto simp: opens_element_def takeWhile_append2)
qed

lemma open_name_last:
  assumes "CHR ''<'' \<notin> set s"
  shows "open_name (rev s @ CHR ''<'' # b) =
    (if s \<noteq> [] \<and> hd s \<in> {CHR ''/'', CHR ''!'', CHR ''?''} then None else Some (takeWhile (\<lambda>c. \<not> is_name_end c) s))"
proof -
  have "takeWhile (\<lambda>c. c \<noteq> CHR ''<'') (rev s @ CHR ''<'' # b) = rev s"
    using assms by (subst takeWhile_append2) auto
  then show ?thesis by (simp add: open_name_def)
qed

lemma merge_step:
  assumes "opens_element n t"
  shows "empty_elements_from b (mergeable n t @ y) =
    ''<'' @ n @ t @ ''/>'' @ empty_elements_from (rev (''></'' @ n @ ''>'') @ rev (n @ t) @ CHR ''<'' # b) y"
proof -
  let ?before = "rev (n @ t) @ CHR ''<'' # b"
  note n = opens_element_chars [OF assms]
  have "open_name ?before = Some n"
    using assms n by (subst open_name_last) (auto simp: opens_element_def)
  moreover have "takeWhile (\<lambda>c. c \<noteq> CHR ''>'') (n @ CHR ''>'' # y) = n" using n(2) by (subst takeWhile_append2) auto
  moreover have "dropWhile (\<lambda>c. c \<noteq> CHR ''>'') (n @ CHR ''>'' # y) = CHR ''>'' # y"
    using n(2) by (subst dropWhile_append2) auto
  ultimately have "empty_element_end ?before (''></'' @ n @ CHR ''>'' # y) = Some (n, y)"
    using n(4) by (simp add: empty_element_end_def strip_prefix_def)
  then have "empty_elements_from ?before (''></'' @ n @ CHR ''>'' # y) =
      ''/>'' @ empty_elements_from (rev (''></'' @ n @ ''>'') @ ?before) y" by simp
  moreover have "empty_elements_from b (mergeable n t @ y) =
      CHR ''<'' # empty_elements_from (CHR ''<'' # b) ((n @ t) @ CHR ''>'' # CHR ''<'' # CHR ''/'' # n @ CHR ''>'' # y)"
    by (simp add: mergeable_def empty_element_end_def strip_prefix_def)
  moreover have "CHR ''<'' \<notin> set (n @ t)" using n by simp
  ultimately show ?thesis using empty_elements_skip [of "n @ t" "CHR ''<'' # b"] by simp
qed

lemma empty_element_end_split:
  assumes "empty_element_end b s = Some (n, rest)"
  shows "s = ''></'' @ n @ ''>'' @ rest" "close_name_ok n" "open_name b = Some n"
proof -
  obtain r where r: "strip_prefix ''></'' s = Some r" "n = takeWhile (\<lambda>c. c \<noteq> CHR ''>'') r"
    "dropWhile (\<lambda>c. c \<noteq> CHR ''>'') r \<noteq> []" "rest = tl (dropWhile (\<lambda>c. c \<noteq> CHR ''>'') r)"
    and ok: "close_name_ok n" "open_name b = Some n"
    using assms by (auto simp: empty_element_end_def Let_def split: option.splits if_splits)
  have "hd (dropWhile (\<lambda>c. c \<noteq> CHR ''>'') r) = CHR ''>''" using hd_dropWhile [OF r(3)] by simp
  then have "dropWhile (\<lambda>c. c \<noteq> CHR ''>'') r = CHR ''>'' # rest" using r(3,4) by (metis list.collapse)
  then have "r = n @ CHR ''>'' # rest" by (metis r(2) takeWhile_dropWhile_id)
  then show "s = ''></'' @ n @ ''>'' @ rest" using r(1) by (simp add: strip_prefix_Some_iff)
  show "close_name_ok n" "open_name b = Some n" by fact+
qed

text \<open>The text before a start tag is treated as if nothing followed.\<close>

lemma empty_element_end_prefix:
  assumes "w = [] \<or> hd w \<noteq> CHR ''/''" "u \<noteq> []"
  shows "empty_element_end b (u @ CHR ''<'' # w) =
    map_option (\<lambda>(n, rest). (n, rest @ CHR ''<'' # w)) (empty_element_end b u)"
proof (cases "strip_prefix ''></'' u")
  case (Some r)
  then have u: "u = ''></'' @ r" by (simp add: strip_prefix_Some_iff)
  show ?thesis
  proof (cases "CHR ''>'' \<in> set r")
    case True
    have "takeWhile (\<lambda>c. c \<noteq> CHR ''>'') (r @ CHR ''<'' # w) = takeWhile (\<lambda>c. c \<noteq> CHR ''>'') r"
      "dropWhile (\<lambda>c. c \<noteq> CHR ''>'') (r @ CHR ''<'' # w) = dropWhile (\<lambda>c. c \<noteq> CHR ''>'') r @ CHR ''<'' # w"
      "dropWhile (\<lambda>c. c \<noteq> CHR ''>'') r \<noteq> []"
      using True by (auto intro: takeWhile_append1 dropWhile_append1 simp: dropWhile_eq_Nil_conv)
    then show ?thesis by (simp add: u empty_element_end_def strip_prefix_def Let_def)
  next
    case False
    then have "takeWhile (\<lambda>c. c \<noteq> CHR ''>'') (r @ CHR ''<'' # w) = r @ CHR ''<'' # takeWhile (\<lambda>c. c \<noteq> CHR ''>'') w"
      by (subst takeWhile_append2) auto
    then have "\<not> close_name_ok (takeWhile (\<lambda>c. c \<noteq> CHR ''>'') (r @ CHR ''<'' # w))" by (simp add: close_name_ok_def)
    moreover have "dropWhile (\<lambda>c. c \<noteq> CHR ''>'') r = []" using False by (auto simp: dropWhile_eq_Nil_conv)
    ultimately show ?thesis by (simp add: u empty_element_end_def strip_prefix_def Let_def)
  qed
next
  case None
  have "strip_prefix ''></'' (u @ CHR ''<'' # w) = None"
  proof (cases "strip_prefix ''></'' (u @ CHR ''<'' # w)")
    case (Some r)
    then have eq: "u @ CHR ''<'' # w = CHR ''>'' # CHR ''<'' # CHR ''/'' # r" by (simp add: strip_prefix_Some_iff)
    obtain c1 u1 where u: "u = c1 # u1" using assms(2) by (cases u) auto
    show ?thesis
    proof (cases u1)
      case Nil
      then show ?thesis using eq assms(1) u by auto
    next
      case (Cons c2 u2)
      then show ?thesis using eq None u by (cases u2) (auto simp: strip_prefix_def)
    qed
  qed
  with None show ?thesis by (simp add: empty_element_end_def)
qed

lemma empty_elements_prefix:
  assumes "w = [] \<or> hd w \<noteq> CHR ''/''"
  shows "empty_elements_from b (u @ CHR ''<'' # w) = empty_elements_from b u @ empty_elements_from (rev u @ b) (CHR ''<'' # w)"
proof (induction b u rule: empty_elements_from.induct)
  case (2 b c s)
  have e: "empty_element_end b (c # s @ CHR ''<'' # w) =
      map_option (\<lambda>(n, rest). (n, rest @ CHR ''<'' # w)) (empty_element_end b (c # s))"
    using empty_element_end_prefix [OF assms, of "c # s" b] by simp
  show ?case
  proof (cases "empty_element_end b (c # s)")
    case (Some x)
    obtain n rest where x: "x = (n, rest)" by (cases x)
    have split: "c # s = ''></'' @ n @ ''>'' @ rest"
      using Some unfolding x by (rule empty_element_end_split)
    show ?thesis using 2(2) [OF Some x [symmetric]] e Some x split by simp
  next
    case None
    then show ?thesis using 2(1) e by simp
  qed
qed simp

text \<open>After an end tag, what came before no longer matters.\<close>

lemma empty_elements_context:
  "(\<And>s. open_name (s @ b1) = open_name (s @ b2)) \<Longrightarrow> empty_elements_from b1 y = empty_elements_from b2 y"
proof (induction b1 y arbitrary: b2 rule: empty_elements_from.induct)
  case (2 b1 c s)
  have "open_name b1 = open_name b2" using 2(3) [of "[]"] by simp
  then have same: "empty_element_end b1 (c # s) = empty_element_end b2 (c # s)"
    unfolding empty_element_end_def by (rule arg_cong)
  show ?case
  proof (cases "empty_element_end b1 (c # s)")
    case (Some x)
    obtain n rest where x: "x = (n, rest)" by (cases x)
    have "empty_elements_from (rev (''></'' @ n @ ''>'') @ b1) rest = empty_elements_from (rev (''></'' @ n @ ''>'') @ b2) rest"
      by (rule 2(2) [OF Some x [symmetric]]) (metis 2(3) append_assoc)
    then show ?thesis using Some same x by simp
  next
    case None
    have "empty_elements_from (c # b1) s = empty_elements_from (c # b2) s"
      by (rule 2(1) [OF None]) (metis 2(3) append_assoc append_Cons append_Nil)
    then show ?thesis using None same by simp
  qed
qed simp

lemma empty_elements_after_end_tag:
  assumes "CHR ''<'' \<notin> set n"
  shows "empty_elements_from (rev (''></'' @ n @ ''>'') @ b) y = empty_elements_from [] y"
proof (rule empty_elements_context)
  fix s
  show "open_name (s @ rev (''></'' @ n @ ''>'') @ b) = open_name (s @ [])"
  proof (cases "CHR ''<'' \<in> set s")
    case True
    then have "takeWhile (\<lambda>c. c \<noteq> CHR ''<'') (s @ z) = takeWhile (\<lambda>c. c \<noteq> CHR ''<'') s" for z
      by (auto intro: takeWhile_append1)
    with True show ?thesis by (simp add: open_name_def)
  next
    case False
    then have "open_name (rev (CHR ''/'' # n @ CHR ''>'' # rev s) @ CHR ''<'' # CHR ''>'' # b) = None"
      using assms by (subst open_name_last) auto
    with False show ?thesis by (simp add: open_name_def)
  qed
qed

text \<open>Where something is merged, there is a start tag with its end tag.\<close>

lemma open_name_SomeD:
  assumes "open_name (rev p) = Some n" "close_name_ok n"
  shows "\<exists>u t. p = u @ CHR ''<'' # n @ t \<and> opens_element n t"
proof -
  have "CHR ''<'' \<in> set p" using assms(1) by (auto simp: open_name_def split: if_splits)
  then obtain u inner where p: "p = u @ CHR ''<'' # inner" "CHR ''<'' \<notin> set inner" by (metis split_list_last)
  have rev_p: "rev p = rev inner @ CHR ''<'' # rev u" using p(1) by simp
  have hd: "inner = [] \<or> hd inner \<notin> {CHR ''/'', CHR ''!'', CHR ''?''}" and n: "n = takeWhile (\<lambda>c. \<not> is_name_end c) inner"
    using assms(1) unfolding rev_p open_name_last [OF p(2)] by (auto split: if_splits)
  define t where "t = dropWhile (\<lambda>c. \<not> is_name_end c) inner"
  have split: "inner = n @ t" by (simp add: n t_def)
  have "n \<noteq> []" using assms(2) by (simp add: close_name_ok_def)
  moreover have "\<not> list_ex (\<lambda>c. is_name_end c \<or> c = CHR ''<'') n"
    using p(2) by (auto simp: n list_ex_iff dest: set_takeWhileD)
  moreover have "hd n \<notin> {CHR ''/'', CHR ''!'', CHR ''?''}" using hd \<open>n \<noteq> []\<close> split by auto
  moreover have "CHR ''<'' \<notin> set t" using p(2) split by simp
  moreover have "t = [] \<or> is_name_end (hd t)"
    unfolding t_def using hd_dropWhile [of "\<lambda>c. \<not> is_name_end c" inner] by blast
  ultimately have "opens_element n t" by (simp add: opens_element_def)
  then show ?thesis using p(1) split by blast
qed

lemma nothing_to_merge:
  assumes "\<And>u n t y. p @ s = u @ mergeable n t @ y \<Longrightarrow> \<not> opens_element n t"
  shows "empty_elements_from (rev p) s = s"
  using assms
proof (induction s arbitrary: p)
  case (Cons c s)
  have "empty_element_end (rev p) (c # s) = None"
  proof (cases "empty_element_end (rev p) (c # s)")
    case (Some x)
    obtain n rest where x: "x = (n, rest)" by (cases x)
    have split: "c # s = ''></'' @ n @ ''>'' @ rest" and name: "close_name_ok n" "open_name (rev p) = Some n"
      using Some unfolding x by (rule empty_element_end_split)+
    obtain u t where "p = u @ CHR ''<'' # n @ t" "opens_element n t" using open_name_SomeD [OF name(2,1)] by blast
    with Cons.prems [of u n t rest] split show ?thesis by (simp add: mergeable_def)
  qed
  moreover have "empty_elements_from (rev (p @ [c])) s = s" using Cons.IH [of "p @ [c]"] Cons.prems by simp
  ultimately show ?case by simp
qed simp

text \<open>
  C40: What the normalisation of empty elements does to any text in UTF-8. Let \<open><n t></n>\<close> occur in it, where \<open>t\<close> has no \<open><\<close>:
  attributes, or the end of the start tag and text of the element that ends in \<open>>\<close>. Then it becomes
  \<open><n t/>\<close>, and what stands before and after is normalised on its own; and a text in which nothing of
  this form occurs is left as it is. So an element with text that ends in \<open>>\<close> loses its end tag.
\<close>

theorem empty_elements_merged:
  "(opens_element n t \<and> valid_utf8 (u @ mergeable n t @ y) \<longrightarrow>
      normalize_empty_elements (u @ mergeable n t @ y) =
        empty_elements_from [] u @ ''<'' @ n @ t @ ''/>'' @ empty_elements_from [] y) \<and>
   ((\<forall>u n t y. data = u @ mergeable n t @ y \<longrightarrow> \<not> opens_element n t) \<longrightarrow> normalize_empty_elements data = data)"
proof (intro conjI impI)
  assume a: "opens_element n t \<and> valid_utf8 (u @ mergeable n t @ y)"
  then have n: "opens_element n t" ..
  let ?w = "n @ t @ ''></'' @ n @ ''>'' @ y"
  have w: "mergeable n t @ y = CHR ''<'' # ?w" "?w = [] \<or> hd ?w \<noteq> CHR ''/''"
    using n by (auto simp: mergeable_def opens_element_def)
  have "empty_elements_from [] (u @ mergeable n t @ y) =
      empty_elements_from [] u @ empty_elements_from (rev u) (mergeable n t @ y)"
    unfolding w(1) using empty_elements_prefix [OF w(2), of "[]" u] by simp
  with a show "normalize_empty_elements (u @ mergeable n t @ y) =
      empty_elements_from [] u @ ''<'' @ n @ t @ ''/>'' @ empty_elements_from [] y"
    by (simp add: normalize_empty_elements_def merge_step [OF n]
        empty_elements_after_end_tag [OF opens_element_chars(1) [OF n], simplified])
next
  assume "\<forall>u n t y. data = u @ mergeable n t @ y \<longrightarrow> \<not> opens_element n t"
  then show "normalize_empty_elements data = data"
    using nothing_to_merge [of "[]" data] unfolding normalize_empty_elements_def by simp blast
qed

theorem empty_elements_merged_witness:
  "normalize_empty_elements ''<r><a>5>3></a>x</r>'' = ''<r><a>5>3/>x</r>'' \<and> normalize_empty_elements ''a>b'' = ''a>b''"
proof -
  have "opens_element ''a'' ''>5>3''" "valid_utf8 (''<r>'' @ mergeable ''a'' ''>5>3'' @ ''x</r>'')"
    by code_simp+
  moreover have "empty_elements_from [] ''<r>'' = ''<r>''" "empty_elements_from [] ''x</r>'' = ''x</r>''"
    "''<r>'' @ mergeable ''a'' ''>5>3'' @ ''x</r>'' = ''<r><a>5>3></a>x</r>''" by code_simp+
  ultimately have "normalize_empty_elements ''<r><a>5>3></a>x</r>'' = ''<r><a>5>3/>x</r>''"
    using empty_elements_merged [of "''a''" "''>5>3''" "''<r>''" "''x</r>''"] by simp
  moreover have "\<forall>u n t y. ''a>b'' = u @ mergeable n t @ y \<longrightarrow> \<not> opens_element n t"
  proof (intro allI impI)
    fix u n t y
    assume "''a>b'' = u @ mergeable n t @ y"
    then have "CHR ''<'' \<in> set ''a>b''" by (simp only: mergeable_def) simp
    then show "\<not> opens_element n t" by simp
  qed
  ultimately show ?thesis using empty_elements_merged [where data = "''a>b''"] by blast
qed

section \<open>ISO-8859-1\<close>

text \<open>The UTF-8 form of a character up to \<open>U+00FF\<close>.\<close>

definition latin1_utf8 :: "char \<Rightarrow> bytes" where
  "latin1_utf8 c =
     (if byte_val c < 128 then [c]
      else if byte_val c < 192 then [CHR 0xC2, c]
      else [CHR 0xC3, char_of (byte_val c - 64)])"

lemma byte_le_iff: "c \<le> c' \<longleftrightarrow> byte_val c \<le> byte_val c'"
  by (simp add: byte_val_def less_eq_char_def)

lemma valid_utf8_pair:
  "CHR 0xC2 \<le> a \<Longrightarrow> a \<le> CHR 0xDF \<Longrightarrow> cont_byte b \<Longrightarrow> valid_utf8 (a # b # s) = valid_utf8 s"
  by (simp add: byte_le_iff) (simp add: byte_val_def)

lemma valid_utf8_latin1_Cons: "valid_utf8 (latin1_utf8 c @ s) = valid_utf8 s"
proof (cases "byte_val c < 128")
  case True
  then have "c \<le> CHR 0x7F" by (simp add: byte_le_iff) (simp add: byte_val_def)
  with True show ?thesis by (simp add: latin1_utf8_def)
next
  case False
  have "byte_val c < 256" by (rule byte_val_less)
  moreover have "byte_val (CHR 0x80) = 128" "byte_val (CHR 0xBF) = 191" by (simp_all add: byte_val_def)
  ultimately have "cont_byte c \<or> \<not> byte_val c < 192" "byte_val c < 192 \<or> cont_byte (char_of (byte_val c - 64))"
    using False by (auto simp: cont_byte_def byte_le_iff byte_val_char_of)
  moreover have "CHR 0xC2 \<le> CHR 0xC3" "CHR 0xC3 \<le> CHR 0xDF" "CHR 0xC2 \<le> CHR 0xDF" by code_simp+
  ultimately show ?thesis
    using False by (auto simp: latin1_utf8_def valid_utf8_pair simp del: valid_utf8.simps)
qed

lemma latin1_chars_Cons: "latin1_chars (latin1_utf8 c @ s) = c # latin1_chars s"
proof (cases "byte_val c < 128")
  case True
  then have "c \<noteq> CHR 0xC2" "c \<noteq> CHR 0xC3" by (auto simp: byte_val_def)
  with True show ?thesis by (cases s) (simp_all add: latin1_utf8_def)
next
  case False
  have "byte_val c < 256" by (rule byte_val_less)
  then have "(byte_val c - 64) mod 256 + 64 = byte_val c" using False by simp
  moreover have "char_of (byte_val c) = c" by (simp add: byte_val_def)
  ultimately show ?thesis
    using False by (simp add: latin1_utf8_def byte_val_def)
qed

lemma valid_utf8_latin1: "valid_utf8 (concat (map latin1_utf8 b))"
  by (induction b) (simp_all add: valid_utf8_latin1_Cons del: valid_utf8.simps(2))

lemma latin1_chars_utf8: "latin1_chars (concat (map latin1_utf8 b)) = b"
  by (induction b) (simp_all add: latin1_chars_Cons)

text \<open>
  Converting the UTF-8 form of a text with characters up to \<open>U+00FF\<close> to ISO-8859-1 gives exactly one
  octet for each character, the one that stands for it.
\<close>

theorem latin1_roundtrip: "utf8_to_latin1 (concat (map latin1_utf8 b)) = b"
  by (simp add: utf8_to_latin1_def valid_utf8_latin1 latin1_chars_utf8)

text \<open>
  The declaration is looked for in the first 200 octets only if these are valid UTF-8: a document that
  declares ISO-8859-1 is not converted when a character happens to lie across octet 200.
\<close>

definition cut_document :: bytes where
  "cut_document = ''<?xml encoding='' @ [CHR 0x22] @ ''ISO-8859-1'' @ [CHR 0x22] @ ''?><a>'' @ replicate 167 CHR ''x'' @
     [CHR 0xC3, CHR 0xA9] @ ''</a>''"

lemma latin1_header_cut:
  "valid_utf8 cut_document \<and> declares_latin1 (take 100 cut_document) \<and> utf8_to_latin1 cut_document \<noteq> cut_document \<and>
   maybe_convert_encoding cut_document = cut_document"
proof -
  have "\<not> valid_utf8 (take 200 cut_document)" by code_simp
  then have "maybe_convert_encoding cut_document = cut_document" by (simp add: maybe_convert_encoding_def)
  moreover have "valid_utf8 cut_document" "declares_latin1 (take 100 cut_document)"
    "utf8_to_latin1 cut_document \<noteq> cut_document" by code_simp+
  ultimately show ?thesis by simp
qed

end
