(* ===== verification/Enc_Laws.thy ===== *)
theory Enc_Laws
  imports Enc_Encrypt Enc_Text_Laws Dsig_Verify_Laws
begin

text \<open>
  Encryption against decryption: what was encrypted is decrypted, session keys and agreed keys are the same
  on both sides, hardware modules are only used for what they are bound to; and where the two sides
  do not fit together.
\<close>

section \<open>Lemmas\<close>

lemma disjoint_uris:
  "uri \<in> set key_transport_uris \<Longrightarrow> uri \<notin> set aes_kw_uris"
  "uri \<in> set aes_kw_uris \<Longrightarrow> uri \<notin> set key_transport_uris"
  by (auto simp: key_transport_uris_def aes_kw_uris_def uri_defs)

lemma map_sum_Inr_pair: "map_sum f (Pair a) s = Inr (b, y) \<longleftrightarrow> s = Inr y \<and> a = b"
  by (cases s) auto

text \<open>What is relied on of a cipher and a key wrap: decrypting undoes encrypting.\<close>

definition invertible_ciphers :: "'v enc_lib \<Rightarrow> bool" where
  "invertible_ciphers E \<longleftrightarrow>
     (\<forall>rnd sz k m c. k_aes_cbc_encrypt E rnd sz k m = Inr c \<longrightarrow> k_aes_cbc_decrypt E sz k c = Inr m) \<and>
     (\<forall>rnd a k m c. k_cipher_encrypt E rnd a k m = Inr c \<longrightarrow> k_cipher_decrypt E a k c = Inr m) \<and>
     (\<forall>w k m c. k_wrap E w k m = Inr c \<longrightarrow> k_unwrap E w k c = Inr m)"

lemma cipher_inverse:
  "invertible_ciphers E \<Longrightarrow> cipher_encrypt E rnd a k m = Inr c \<Longrightarrow> cipher_decrypt E a k c = Inr m"
  by (auto simp: invertible_ciphers_def cipher_encrypt_def cipher_decrypt_def res_simps split: k_cipher.splits)

lemma wrap_inverse:
  "invertible_ciphers E \<Longrightarrow> keywrap_wrap E w k m = Inr c \<Longrightarrow> keywrap_unwrap E w k c = Inr m"
  by (auto simp: invertible_ciphers_def keywrap_wrap_def keywrap_unwrap_def res_simps)

lemma sample_invertible: "invertible_ciphers sample_enc_lib"
  by (simp add: invertible_ciphers_def sample_enc_lib_def)

lemma same_kek: "resolve_encrypted_key_kek ctx d n = Inr k \<longleftrightarrow> enc_resolve_encrypted_key_kek ctx d n = Inr k"
  by (simp add: resolve_encrypted_key_kek_def enc_resolve_encrypted_key_kek_def res_simps split: option.splits)

section \<open>Hardware modules\<close>

text \<open>
  C20: A configured hardware module is never bypassed and fails closed: when an RSA or AES key-wrap session
  key is unwrapped or wrapped and a module is configured for that operation, the algorithm is one the
  module is bound to and the result is the module's; no software key is used.
\<close>

theorem hsm_fails_closed:
  "(unwrap_key L ctx d n enc_method uri c = Returns (Inr k) \<longrightarrow>
     (\<forall>h. uri \<in> set key_transport_uris \<longrightarrow> xc_hsm_decryptor ctx = Some h \<longrightarrow>
        uri \<in> set (xc_hsm_decryptor_algorithms ctx) \<and> hd_decrypt h c = Inr k) \<and>
     (\<forall>h. uri \<in> set aes_kw_uris \<longrightarrow> xc_hsm_key_unwrapper ctx = Some h \<longrightarrow>
        uri \<in> set (xc_hsm_key_unwrapper_algorithms ctx) \<and> hw_unwrap h c = Inr k)) \<and>
   (wrap_session_key L R ctx d n enc_method uri k result = Returns (Inr (result', c)) \<longrightarrow>
     (\<forall>h. uri \<in> set key_transport_uris \<longrightarrow> xc_hsm_encryptor ctx = Some h \<longrightarrow>
        uri \<in> set (xc_hsm_encryptor_algorithms ctx) \<and> he_encrypt h (rn_key R n) k = Inr c) \<and>
     (\<forall>h. uri \<in> set aes_kw_uris \<longrightarrow> xc_hsm_key_wrapper ctx = Some h \<longrightarrow>
        uri \<in> set (xc_hsm_key_wrapper_algorithms ctx) \<and> hw_wrap h k = Inr c))"
  by (auto simp: unwrap_key_def wrap_session_key_def disjoint_uris decrypt_key_transport_def decrypt_aes_kw_def
      encrypt_key_transport_def encrypt_aes_kw_def hsm_bindings res_simps map_sum_Inr_pair)

section \<open>Session keys\<close>

text \<open>
  C19: A session key wrapped for an \<open>EncryptedKey\<close> with a symmetric key is unwrapped again from the result:
  both sides select the same key-encryption key, for AES key wrap, triple-DES key wrap and ciphers,
  when no hardware module and no key agreement is involved.
\<close>

theorem session_key_roundtrip:
  assumes "invertible_ciphers (el_enc L)"
    and "xc_hsm_key_wrapper ctx = None" "xc_hsm_key_unwrapper ctx = None" "find_agreement_method d n = None"
    and "uri \<notin> set key_transport_uris"
    and "wrap_session_key L R ctx d n enc_method uri session_key result = Returns (Inr (result', wrapped))"
  shows "unwrap_key L ctx d n enc_method uri wrapped = Returns (Inr session_key) \<and> result' = result"
proof -
  note inverse = wrap_inverse [OF assms(1)] cipher_inverse [OF assms(1)]
  consider "uri \<in> set aes_kw_uris" | "uri \<notin> set aes_kw_uris" "uri = alg_KW_TRIPLEDES"
    | "uri \<notin> set aes_kw_uris" "uri \<noteq> alg_KW_TRIPLEDES" "uri \<in> set cipher_uris"
    using assms(5,6) by (auto simp: wrap_session_key_def split: if_splits)
  then show ?thesis
  proof cases
    case 1
    then show ?thesis
      using assms(2-6) by (auto simp: wrap_session_key_def unwrap_key_def encrypt_aes_kw_def decrypt_aes_kw_def Let_def
          resolve_agreement_method_encrypt_def resolve_agreement_method_kek_def res_simps map_sum_Inr_pair dest: inverse(1))
  next
    case 2
    then show ?thesis
      using assms(5,6) by (auto simp: wrap_session_key_def unwrap_key_def encrypt_des3_kw_def decrypt_des3_kw_def Let_def
          res_simps map_sum_Inr_pair dest: inverse(1))
  next
    case 3
    then show ?thesis
      using assms(5,6) by (auto simp: wrap_session_key_def unwrap_key_def res_simps map_sum_Inr_pair
          same_kek [symmetric] dest: inverse(2))
  qed
qed

section \<open>The key of the data\<close>

text \<open>The named key among the children of \<open>KeyInfo\<close>, if they hold no other key elements.\<close>

definition named_child_key :: "'v enc_context \<Rightarrow> document \<Rightarrow> node_id list \<Rightarrow> bytes option" where
  "named_child_key ctx d cs =
     find_map (\<lambda>c. if is_named d ns_DSIG node_KEY_NAME c then named_symmetric_key ctx d c else None) cs"

definition only_key_names :: "document \<Rightarrow> node_id \<Rightarrow> bool" where
  "only_key_names d enc_data =
     (case find_child_element d enc_data ns_DSIG node_KEY_INFO of
        None \<Rightarrow> True
      | Some ki \<Rightarrow>
          list_all (\<lambda>c. \<not> is_named d ns_ENC node_ENCRYPTED_KEY c \<and> \<not> is_named d ns_ENC11 node_DERIVED_KEY c \<and>
            \<not> is_named d ns_DSIG node_RETRIEVAL_METHOD c) (doc_children d ki))"

lemma encryption_keys_named:
  assumes "list_all (\<lambda>c. \<not> is_named d ns_ENC node_ENCRYPTED_KEY c \<and> \<not> is_named d ns_ENC11 node_DERIVED_KEY c) cs"
  shows "out_try_fold (encryption_key_step L R ctx d uri) e cs =
    Returns (case named_child_key ctx d cs of Some b \<Rightarrow> Inl (Inr b) | None \<Rightarrow> Inr e)"
  using assms
  by (induction cs) (auto simp: encryption_key_step_def named_child_key_def split: option.splits)

lemma decryption_elements_none:
  assumes "list_all (\<lambda>c. \<not> is_named d ns_ENC node_ENCRYPTED_KEY c \<and> \<not> is_named d ns_ENC11 node_DERIVED_KEY c) cs"
  shows "out_try_fold (key_element_step L ctx d ids uri) e cs = Returns (Inr e)"
  using assms by (induction cs) (auto simp: key_element_step_def split: prod.splits)

lemma decryption_keys_named:
  assumes "list_all (\<lambda>c. \<not> is_named d ns_DSIG node_RETRIEVAL_METHOD c) cs"
  shows "out_try_fold (key_name_step L ctx d ids) () cs =
    Returns (case named_child_key ctx d cs of Some b \<Rightarrow> Inl (Inr b) | None \<Rightarrow> Inr ())"
proof -
  have "key_name_step L ctx d ids u c =
      Returns (case (if is_named d ns_DSIG node_KEY_NAME c then named_symmetric_key ctx d c else None) of
        Some b \<Rightarrow> Inl (Inr b) | None \<Rightarrow> Inr ())" if "\<not> is_named d ns_DSIG node_RETRIEVAL_METHOD c" for u c
    using that by (auto simp: key_name_step_def is_named_def split: option.splits)
  then show ?thesis using assms by (induction cs) (auto simp: named_child_key_def split: option.splits)
qed

definition named_key :: "'v enc_context \<Rightarrow> document \<Rightarrow> node_id \<Rightarrow> bytes option" where
  "named_key ctx d n =
     (case find_child_element d n ns_DSIG node_KEY_INFO of
        None \<Rightarrow> None
      | Some ki \<Rightarrow> named_child_key ctx d (doc_children d ki))"

lemma resolve_keys_named:
  assumes "only_key_names d n"
  shows "resolve_encryption_key L R ctx d n uri =
      Returns (case named_key ctx d n of Some b \<Rightarrow> Inr b | None \<Rightarrow> fallback_encryption_key R ctx uri)"
    "resolve_decryption_key L ctx d n ids uri =
      Returns (case named_key ctx d n of Some b \<Rightarrow> Inr b | None \<Rightarrow> fallback_key ctx)"
proof (atomize (full), cases "find_child_element d n ns_DSIG node_KEY_INFO")
  case None
  then show "resolve_encryption_key L R ctx d n uri =
      Returns (case named_key ctx d n of Some b \<Rightarrow> Inr b | None \<Rightarrow> fallback_encryption_key R ctx uri) \<and>
    resolve_decryption_key L ctx d n ids uri =
      Returns (case named_key ctx d n of Some b \<Rightarrow> Inr b | None \<Rightarrow> fallback_key ctx)"
    by (simp add: resolve_encryption_key_def resolve_decryption_key_def named_key_def)
next
  case (Some ki)
  let ?cs = "doc_children d ki"
  have "list_all (\<lambda>c. \<not> is_named d ns_ENC node_ENCRYPTED_KEY c \<and> \<not> is_named d ns_ENC11 node_DERIVED_KEY c) ?cs"
    "list_all (\<lambda>c. \<not> is_named d ns_DSIG node_RETRIEVAL_METHOD c) ?cs"
    using assms Some by (auto simp: only_key_names_def list_all_iff)
  note loops = encryption_keys_named [OF this(1), of L R ctx uri] decryption_elements_none [OF this(1), of L ctx ids uri]
    decryption_keys_named [OF this(2), of L ctx ids]
  show "resolve_encryption_key L R ctx d n uri =
      Returns (case named_key ctx d n of Some b \<Rightarrow> Inr b | None \<Rightarrow> fallback_encryption_key R ctx uri) \<and>
    resolve_decryption_key L ctx d n ids uri =
      Returns (case named_key ctx d n of Some b \<Rightarrow> Inr b | None \<Rightarrow> fallback_key ctx)"
    by (simp add: resolve_encryption_key_def resolve_decryption_key_def named_key_def Some loops split: option.splits)
qed

text \<open>
  C21: The key of the data, when \<open>KeyInfo\<close> only names keys or is missing: decryption uses the key encryption
  used, with one exception. When no key is named and the first key of the store is not symmetric,
  encryption takes a fresh random key although nothing in the document carries it, and decryption
  fails: the data is lost.
\<close>

theorem data_key_agrees:
  assumes "only_key_names d n" "resolve_encryption_key L R ctx d n uri = Returns (Inr k)"
  shows "resolve_decryption_key L ctx d n ids uri = Returns (Inr k) \<or>
    (\<exists>size. session_key_size uri = Some size \<and> k = rn_session R size \<and>
      resolve_decryption_key L ctx d n ids uri = Returns (Inl (Error_Key ''no suitable decryption key found'')))"
proof (cases "named_key ctx d n")
  case None
  then have "fallback_encryption_key R ctx uri = Inr k"
    using assms(2) by (simp add: resolve_keys_named [OF assms(1)])
  then obtain k0 where k0: "first_key (xc_keys_manager ctx) = Inr k0"
    "(case symmetric_key_bytes k0 of Some b \<Rightarrow> Inr b | None \<Rightarrow> generate_session_key R uri) = Inr k"
    by (auto simp: fallback_encryption_key_def and_then_Inr_iff)
  have "fallback_key ctx = Inr k \<or> (\<exists>size. session_key_size uri = Some size \<and> k = rn_session R size \<and>
      fallback_key ctx = Inl (Error_Key ''no suitable decryption key found''))"
    using k0 by (cases "symmetric_key_bytes k0")
      (auto simp: fallback_key_def generate_session_key_def split: option.splits)
  then show ?thesis using None by (simp add: resolve_keys_named [OF assms(1)])
qed (use assms(2) in \<open>simp add: resolve_keys_named [OF assms(1)]\<close>)

section \<open>The data\<close>

text \<open>The document after the text of one node has been filled in.\<close>

definition fill_text :: "document \<Rightarrow> node_id \<Rightarrow> string \<Rightarrow> document" where
  "fill_text d n t = d\<lparr>doc_text_deep := (doc_text_deep d)(n := t)\<rparr>"

lemma fill_text_simps [simp]:
  "doc_root (fill_text d n t) = doc_root d" "doc_kind (fill_text d n t) = doc_kind d"
  "doc_children (fill_text d n t) = doc_children d" "doc_descendants (fill_text d n t) = doc_descendants d"
  "doc_get_attribute (fill_text d n t) = doc_get_attribute d"
  "doc_text_deep (fill_text d n t) = (doc_text_deep d)(n := t)"
  by (simp_all add: fill_text_def)

lemma fill_text_element [simp]: "doc_element (fill_text d n t) = doc_element d"
  by (simp add: fun_eq_iff doc_element_def)

lemma fill_text_lookups [simp]:
  "is_named (fill_text d n t) = is_named d" "node_attribute (fill_text d n t) = node_attribute d"
  by (auto simp: fun_eq_iff is_named_def node_attribute_def split: option.splits)

lemma fill_text_child [simp]: "find_child_element (fill_text d n t) = find_child_element d"
  by (simp add: fun_eq_iff find_child_element_def)

lemma fill_text_key_names [simp]: "only_key_names (fill_text d n t) = only_key_names d"
  by (auto simp: fun_eq_iff only_key_names_def split: option.splits)



section \<open>Key derivation\<close>

text \<open>
  Without an \<open>EncryptedKey\<close>, and when no \<open>DerivedKey\<close> can be derived, the loops keep the error of the last one;
  that of encryption also stops at the first name of a stored key.
\<close>

lemma failing_elements:
  assumes "list_all (\<lambda>c. \<not> is_named d ns_ENC node_ENCRYPTED_KEY c) cs"
    "\<And>c. c \<in> set cs \<Longrightarrow> is_named d ns_ENC11 node_DERIVED_KEY c \<Longrightarrow> resolve_derived_key L ctx d c uri = Returns (Inl (err c))"
  shows "out_try_fold (key_element_step L ctx d ids uri) (None, e) cs =
      Returns (Inr (None, case rev (filter (is_named d ns_ENC11 node_DERIVED_KEY) cs) of [] \<Rightarrow> e | c # _ \<Rightarrow> Some (err c)))"
    "out_try_fold (encryption_key_step L R ctx d uri) e cs =
      Returns (case named_child_key ctx d cs of Some b \<Rightarrow> Inl (Inr b)
        | None \<Rightarrow> Inr (case rev (filter (is_named d ns_ENC11 node_DERIVED_KEY) cs) of [] \<Rightarrow> e | c # _ \<Rightarrow> Some (err c)))"
proof -
  have last: "(case rev (filter P cs) @ [x] of [] \<Rightarrow> e | c # _ \<Rightarrow> Some (err c)) =
      (case rev (filter P cs) of [] \<Rightarrow> Some (err x) | c # _ \<Rightarrow> Some (err c))" for P :: "node_id \<Rightarrow> bool" and cs x e
    by (cases "rev (filter P cs)") simp_all
  show "out_try_fold (key_element_step L ctx d ids uri) (None, e) cs =
      Returns (Inr (None, case rev (filter (is_named d ns_ENC11 node_DERIVED_KEY) cs) of [] \<Rightarrow> e | c # _ \<Rightarrow> Some (err c)))"
    using assms by (induction cs arbitrary: e) (simp_all add: key_element_step_def last)
  have disjoint: "is_named d ns_DSIG node_KEY_NAME c \<Longrightarrow> \<not> is_named d ns_ENC11 node_DERIVED_KEY c" for c
    by (auto simp: is_named_def uri_defs split: option.splits)
  show "out_try_fold (encryption_key_step L R ctx d uri) e cs =
      Returns (case named_child_key ctx d cs of Some b \<Rightarrow> Inl (Inr b)
        | None \<Rightarrow> Inr (case rev (filter (is_named d ns_ENC11 node_DERIVED_KEY) cs) of [] \<Rightarrow> e | c # _ \<Rightarrow> Some (err c)))"
    using assms
  proof (induction cs arbitrary: e)
    case (Cons c cs)
    then show ?case
      by (cases "named_symmetric_key ctx d c")
        (auto simp: encryption_key_step_def named_child_key_def last disjoint split: option.splits)
  qed (simp add: named_child_key_def)
qed

text \<open>
  C23: What becomes of failed key derivations. Let \<open>KeyInfo\<close> hold no \<open>EncryptedKey\<close> and no \<open>RetrievalMethod\<close>, but
  one or more \<open>DerivedKey\<close> elements, none of which can be derived. Then encryption and decryption
  agree: both use the first stored symmetric key that a \<open>KeyName\<close> names, whether it stands before or
  after the \<open>DerivedKey\<close>, and without such a name both fail with the error of the last \<open>DerivedKey\<close>;
  neither falls back to the first key of the store or to a random key. (The comments in the code also
  rule the \<open>KeyName\<close> out.)
\<close>

theorem derivation_failure_masked:
  assumes "find_child_element d n ns_DSIG node_KEY_INFO = Some ki"
    and "\<And>c. c \<in> set (doc_children d ki) \<Longrightarrow>
      \<not> is_named d ns_ENC node_ENCRYPTED_KEY c \<and> \<not> is_named d ns_DSIG node_RETRIEVAL_METHOD c"
    and "filter (is_named d ns_ENC11 node_DERIVED_KEY) (doc_children d ki) = dks @ [dk]"
    and "\<And>c. c \<in> set (dks @ [dk]) \<Longrightarrow> resolve_derived_key L ctx d c uri = Returns (Inl (err c))"
  shows "resolve_decryption_key L ctx d n ids uri =
      Returns (case named_key ctx d n of Some b \<Rightarrow> Inr b | None \<Rightarrow> Inl (err dk)) \<and>
    resolve_encryption_key L R ctx d n uri =
      Returns (case named_key ctx d n of Some b \<Rightarrow> Inr b | None \<Rightarrow> Inl (err dk))"
proof -
  let ?cs = "doc_children d ki"
  have no: "list_all (\<lambda>c. \<not> is_named d ns_ENC node_ENCRYPTED_KEY c) ?cs"
    "list_all (\<lambda>c. \<not> is_named d ns_DSIG node_RETRIEVAL_METHOD c) ?cs"
    using assms(2) by (simp_all add: list_all_iff)
  have fails: "resolve_derived_key L ctx d c uri = Returns (Inl (err c))"
    if "c \<in> set ?cs" "is_named d ns_ENC11 node_DERIVED_KEY c" for c
    using assms(4) [of c] that by (simp add: assms(3) [symmetric])
  note loops = failing_elements [OF no(1) fails, unfolded assms(3)] decryption_keys_named [OF no(2)]
  have named: "named_key ctx d n = named_child_key ctx d ?cs" by (simp add: named_key_def assms(1))
  show ?thesis
    by (cases "named_child_key ctx d ?cs")
      (simp_all add: resolve_decryption_key_def resolve_encryption_key_def assms(1) loops named)
qed

section \<open>Hexadecimal attributes\<close>

lemma ascii_boundary: "list_all (\<lambda>c. \<not> cont_byte c) s \<Longrightarrow> i \<le> length s \<Longrightarrow> char_boundary s i"
  by (auto simp: char_boundary_def list_all_length)

lemma hex_fold_no_panic:
  assumes "list_all (\<lambda>c. \<not> cont_byte c) h" "\<And>i. i \<in> set is \<Longrightarrow> i + 2 \<le> length h"
  shows "out_try_fold (\<lambda>acc i. out_bind (str_slice i (i + 2) h) (\<lambda>pair.
      Returns (case u8_from_hex pair of Some b \<Rightarrow> Inr (acc @ [b]) | None \<Rightarrow> Inl err))) acc is \<noteq> Panics"
  using assms(2)
proof (induction "is" arbitrary: acc)
  case (Cons i "is")
  then have "i + 2 \<le> length h" by simp
  then have "char_boundary h i" "char_boundary h (i + 2)" using ascii_boundary [OF assms(1)] by simp_all
  then have "str_slice i (i + 2) h = Returns (take 2 (drop i h))" by (simp add: str_slice_def)
  then show ?case using Cons by (auto split: option.splits simp del: add_2_eq_Suc')
qed simp

text \<open>
  Hexadecimal attributes of \<open>ConcatKDFParams\<close>: without multi-byte characters decoding never panics; but
  the text is cut into pairs of octets, so a character that lies across a cut panics, for example in
  a value of three characters whose second takes two octets. The value comes from the document.
\<close>

theorem hex_decode_panics:
  "(list_all (\<lambda>c. \<not> cont_byte c) s \<longrightarrow> hex_decode s \<noteq> Panics) \<and>
   hex_decode [CHR ''a'', CHR 0xC3, CHR 0xA9, CHR ''b''] = Panics"
proof -
  have "hex_decode s \<noteq> Panics" if s: "list_all (\<lambda>c. \<not> cont_byte c) s"
  proof -
    define t where "t = trim s"
    define h where "h = unwrap_or t (strip_prefix ''0x'' t)"
    define x where "x = (if length h mod 2 \<noteq> 0 then CHR ''0'' # h else h)"
    have "set h \<subseteq> set t" by (auto simp: h_def strip_prefix_def split: if_splits dest: in_set_dropD)
    then have "list_all (\<lambda>c. \<not> cont_byte c) x"
      using s set_trim [of s] by (auto simp: x_def t_def list_all_iff cont_byte_def)
    then show "hex_decode s \<noteq> Panics"
      unfolding hex_decode_def Let_def t_def [symmetric] h_def [symmetric] x_def [symmetric]
      by (rule hex_fold_no_panic) auto
  qed
  moreover have "hex_decode [CHR ''a'', CHR 0xC3, CHR 0xA9, CHR ''b''] = Panics" by code_simp
  ultimately show ?thesis by blast
qed

section \<open>Key agreement\<close>

lemma derive_kek_same:
  "derive_kek_encrypt L d a s n = Returns (Inr k) \<Longrightarrow> derive_kek L d a s n = Returns (Inr k)"
  by (auto simp: derive_kek_encrypt_def derive_kek_def Let_def split: option.splits if_splits)

lemma ecdh_shared_ec:
  "ecdh_shared L side p (ec_key_data c (Some sk) pk) = ecdh_curve L c p sk"
  by (cases c) (simp_all add: ecdh_shared_def)

lemma ecdh_curve_eq:
  "el_secret_key L c sk = Inr sk' \<Longrightarrow> ecdh_curve L c p sk = map_err map_kryptering_err (k_ecdh (el_enc L) c p sk')"
  by (cases c) (simp_all add: ecdh_curve_def ecdh_p256_def ecdh_p384_def ecdh_p521_def)

text \<open>
  C22: With ECDH-ES both sides get the same key-encryption key: the sender, with its private key and the named
  recipient's public key, and the recipient, with its private key and the public key that the sender
  wrote into the document, whatever key derivation the sender supports. The hypothesis on the library is
  that the Diffie-Hellman exchange is symmetric for the two key pairs.
\<close>

theorem agreement_same_kek:
  assumes symmetric: "k_ecdh (el_enc L) c (ke_ec_point (el_keys L) c B) a' = k_ecdh (el_enc L) c (ke_ec_point (el_keys L) c A) b'"
    and secrets: "el_secret_key L c a = Inr a'" "el_secret_key L c b = Inr b'"
    and nodes: "find_agreement_method d ek = Some ag" "node_attribute d ag attr_ALGORITHM = Some alg_ECDH_ES"
      "find_child_element d ag ns_ENC node_ORIGINATOR_KEY_INFO = Some oki"
    and sender: "resolve_originator_key ctx d ag = Inr ko" "key_data ko = ec_key_data c (Some a) A"
      "resolve_recipient_public_key ctx d ag = Inr kr" "key_data kr = ec_key_data c br B"
    and receiver: "resolve_recipient_key ctx' d ag = Inr kr'" "key_data kr' = ec_key_data c (Some b) B"
      "extract_ec_public_key_bytes L d oki = Inr (ke_ec_point (el_keys L) c A)"
    and kek: "resolve_agreement_method_encrypt L ctx d ek n = Returns (Inr (Some kek))"
  shows "resolve_agreement_method_kek L ctx' d ek n = Returns (Inr (Some kek))"
proof -
  have "ec_public_key_bytes (el_keys L) kr = Some (ke_ec_point (el_keys L) c B)"
    using sender(4) by (cases c) (simp_all add: ec_public_key_bytes_def)
  then have sent: "agreement_secret_encrypt L ko kr alg_ECDH_ES =
      map_err map_kryptering_err (k_ecdh (el_enc L) c (ke_ec_point (el_keys L) c B) a')"
    using sender(2) secrets(1) by (simp add: agreement_secret_encrypt_def ecdh_shared_ec ecdh_curve_eq)
  have "agreement_secret L ctx' d ag oki alg_ECDH_ES =
      map_err map_kryptering_err (k_ecdh (el_enc L) c (ke_ec_point (el_keys L) c A) b')"
    using receiver secrets(2) by (simp add: agreement_secret_def ecdh_shared_ec ecdh_curve_eq)
  with sent symmetric show ?thesis
    using kek nodes sender
    by (auto simp: resolve_agreement_method_encrypt_def resolve_agreement_method_kek_def res_simps dest!: derive_kek_same)
qed

section \<open>Sample libraries\<close>

text \<open>Octets are encoded in hexadecimal; encryption is the identity.\<close>

definition hex_encode :: "bytes \<Rightarrow> string" where
  "hex_encode b = concat (map hex_byte b)"

definition hex_decode_total :: "string \<Rightarrow> string + bytes" where
  "hex_decode_total s = (case hex_pairs s of Returns b \<Rightarrow> Inr b | Panics \<Rightarrow> Inl [])"

definition sample_key_enc :: "bytes key_enc" where
  "sample_key_enc =
     \<lparr>ke_encode = hex_encode, ke_rsa_n = (\<lambda>v. v), ke_rsa_e = (\<lambda>v. v), ke_ec_point = (\<lambda>_ v. v), ke_dsa_p = (\<lambda>v. v),
      ke_dsa_q = (\<lambda>v. v), ke_dsa_g = (\<lambda>v. v), ke_dsa_y = (\<lambda>v. v), ke_rsa_spki_der = Some, ke_ec_spki_der = (\<lambda>_. Some),
      ke_p521_from_sec1 = Some, ke_ed25519_spki_der = Some, ke_write = (\<lambda>_. [])\<rparr>"

definition sample_xenc :: "bytes xenc_lib" where
  "sample_xenc =
     \<lparr>el_legacy = False, el_parse = (\<lambda>_. Inr (sample_doc Encrypted)), el_base64 = hex_decode_total,
      el_enc = sample_enc_lib\<lparr>k_ecdh := (\<lambda>_ p s. Inr (replicate (length p + length s) CHR ''s''))\<rparr>,
      el_keys = sample_key_enc, el_range = (\<lambda>_ _. None), el_text_content = (\<lambda>_ _. None),
      el_secret_key = (\<lambda>_ v. Inr v), el_utf8_lossy = (\<lambda>b. b)\<rparr>"

definition sample_random :: randomness where
  "sample_random = \<lparr>rn_session = (\<lambda>n. replicate n CHR ''r''), rn_data = [], rn_key = (\<lambda>_. [])\<rparr>"

definition sample_enc_ctx :: "bytes enc_context" where
  "sample_enc_ctx = EncContext_new (add_key KeysManager_new (Key_with_name (Key_new (Key_Aes ''0123456789abcdef'') Usage_Any) ''k1''))"

definition sender_ctx :: "bytes enc_context" where
  "sender_ctx = EncContext_new (add_key (add_key KeysManager_new
     (Key_with_name (Key_new (Key_EcP256 (Some ''A'') ''A'') Usage_Any) ''a''))
     (Key_with_name (Key_new (Key_EcP256 None ''B'') Usage_Any) ''b''))"

definition receiver_ctx :: "bytes enc_context" where
  "receiver_ctx = EncContext_new (add_key KeysManager_new
     (Key_with_name (Key_new (Key_EcP256 (Some ''B'') ''B'') Usage_Any) ''b''))"

section \<open>Witnesses\<close>

theorem hsm_fails_closed_witness:
  "unwrap_key sample_xenc (with_hsm_decryptor sample_enc_ctx \<lparr>hd_decrypt = Inr\<rparr> [alg_RSA_OAEP]) (sample_doc Encrypted) 13 2
     alg_RSA_PKCS1 ''c'' \<noteq> Returns (Inr ''c'')"
proof -
  let ?ctx = "with_hsm_decryptor sample_enc_ctx \<lparr>hd_decrypt = Inr\<rparr> [alg_RSA_OAEP]"
  have "alg_RSA_PKCS1 \<in> set key_transport_uris" "alg_RSA_PKCS1 \<notin> set (xc_hsm_decryptor_algorithms ?ctx)"
    by (simp_all add: key_transport_uris_def with_hsm_decryptor_def uri_defs)
  then show ?thesis
    using hsm_fails_closed [of sample_xenc ?ctx "sample_doc Encrypted" 13 2 alg_RSA_PKCS1 "''c''" "''c''"]
    by (auto simp: with_hsm_decryptor_def)
qed

lemma sample_xenc_invertible: "invertible_ciphers (el_enc sample_xenc)"
  using sample_invertible by (simp add: invertible_ciphers_def sample_xenc_def)


theorem session_key_roundtrip_witness:
  "unwrap_key sample_xenc sample_enc_ctx (sample_doc Encrypted) 8 2 alg_KW_AES128 ''session'' =
     Returns (Inr ''session'')"
proof -
  have "wrap_session_key sample_xenc sample_random sample_enc_ctx (sample_doc Encrypted) 8 2 alg_KW_AES128 ''session'' [] =
      Returns (Inr ([], ''session''))" "find_agreement_method (sample_doc Encrypted) 8 = None" by code_simp+
  moreover have "alg_KW_AES128 \<notin> set key_transport_uris" by (simp add: key_transport_uris_def uri_defs)
  ultimately show ?thesis
    using session_key_roundtrip [OF sample_xenc_invertible, of sample_enc_ctx "sample_doc Encrypted" 8 alg_KW_AES128
        sample_random 2 "''session''" "[]" "[]" "''session''"]
    by (simp add: sample_enc_ctx_def EncContext_new_def)
qed

theorem data_key_agrees_witness:
  "resolve_decryption_key sample_xenc sample_enc_ctx (sample_doc Encrypted) 1 Map.empty alg_AES128_CBC =
     Returns (Inr ''0123456789abcdef'')"
proof -
  have "only_key_names (sample_doc Encrypted) 1"
    "resolve_encryption_key sample_xenc sample_random sample_enc_ctx (sample_doc Encrypted) 1 alg_AES128_CBC =
       Returns (Inr ''0123456789abcdef'')"
    "session_key_size alg_AES128_CBC = Some 16" "rn_session sample_random 16 \<noteq> ''0123456789abcdef''" by code_simp+
  with data_key_agrees [of "sample_doc Encrypted" 1 sample_xenc sample_random sample_enc_ctx alg_AES128_CBC
      "''0123456789abcdef''" Map.empty] show ?thesis
    by force
qed


theorem derivation_failure_masked_witness:
  "resolve_decryption_key sample_xenc sample_enc_ctx (sample_doc Encrypted) 8 Map.empty alg_AES128_CBC =
     Returns (Inr ''0123456789abcdef'')"
proof -
  let ?d = "sample_doc Encrypted"
  have ki: "find_child_element ?d 8 ns_DSIG node_KEY_INFO = Some 9" "doc_children ?d 9 = [10, 11]"
    "filter (is_named ?d ns_ENC11 node_DERIVED_KEY) [10, 11] = [] @ [10]"
    "list_all (\<lambda>c. \<not> is_named ?d ns_ENC node_ENCRYPTED_KEY c \<and> \<not> is_named ?d ns_DSIG node_RETRIEVAL_METHOD c) [10, 11]"
    "named_key sample_enc_ctx ?d 8 = Some ''0123456789abcdef''" by code_simp+
  have "resolve_derived_key sample_xenc sample_enc_ctx ?d 10 alg_AES128_CBC =
      Returns (Inl (Error_MissingElement ''KeyDerivationMethod''))" by code_simp
  then show ?thesis
    using derivation_failure_masked [of ?d 8 9 "[]" 10 sample_xenc sample_enc_ctx alg_AES128_CBC
        "\<lambda>_. Error_MissingElement ''KeyDerivationMethod''" Map.empty sample_random] ki
    by (auto simp: list_all_iff)
qed

theorem hex_decode_panics_witness: "hex_decode ''00ff'' \<noteq> Panics"
  using hex_decode_panics [of "''00ff''"] by (simp add: cont_byte_def)

theorem agreement_same_kek_witness:
  "resolve_agreement_method_kek sample_xenc receiver_ctx (sample_doc Encrypted) 13 16 = Returns (Inr (Some ''ss''))"
proof -
  let ?d = "sample_doc Encrypted"
  let ?a = "Key_with_name (Key_new (Key_EcP256 (Some ''A'') ''A'') Usage_Any) ''a'' :: bytes key"
  let ?b = "Key_with_name (Key_new (Key_EcP256 None ''B'') Usage_Any) ''b'' :: bytes key"
  let ?r = "Key_with_name (Key_new (Key_EcP256 (Some ''B'') ''B'') Usage_Any) ''b'' :: bytes key"
  have lib: "k_ecdh (el_enc sample_xenc) P256 (ke_ec_point (el_keys sample_xenc) P256 ''B'') ''A'' =
      k_ecdh (el_enc sample_xenc) P256 (ke_ec_point (el_keys sample_xenc) P256 ''A'') ''B''"
    "el_secret_key sample_xenc P256 ''A'' = Inr ''A''" "el_secret_key sample_xenc P256 ''B'' = Inr ''B''" by code_simp+
  have nodes: "find_agreement_method ?d 13 = Some 15" "node_attribute ?d 15 attr_ALGORITHM = Some alg_ECDH_ES"
    "find_child_element ?d 15 ns_ENC node_ORIGINATOR_KEY_INFO = Some 16" by code_simp+
  have sender: "resolve_originator_key sender_ctx ?d 15 = Inr ?a" "key_data ?a = ec_key_data P256 (Some ''A'') ''A''"
    "resolve_recipient_public_key sender_ctx ?d 15 = Inr ?b" "key_data ?b = ec_key_data P256 None ''B''" by code_simp+
  have receiver: "resolve_recipient_key receiver_ctx ?d 15 = Inr ?r" "key_data ?r = ec_key_data P256 (Some ''B'') ''B''"
    "extract_ec_public_key_bytes sample_xenc ?d 16 = Inr (ke_ec_point (el_keys sample_xenc) P256 ''A'')" by code_simp+
  have kek: "resolve_agreement_method_encrypt sample_xenc sender_ctx ?d 13 16 = Returns (Inr (Some ''ss''))" by code_simp
  show ?thesis by (rule agreement_same_kek [OF lib nodes sender receiver kek])
qed

end
