(* ===== verification/Pkcs12_Kdf.thy ===== *)
theory Pkcs12_Kdf
  imports Core Bytes Rust_Str "HOL-Library.Word"
begin

text \<open>
  Key derivation and decryption for PKCS#12 (\<open>bergshamra-pkcs12/src/kdf.rs\<close>). The hash functions, HMAC,
  PBKDF2 and the two block ciphers belong to third-party crates and are the functions of \<open>pkcs12_lib\<close>.
\<close>

datatype pkcs12_hash = Pk_Sha1 | Pk_Sha256

datatype cbc_cipher = Cbc_TdesEde3 | Cbc_Aes256

record pkcs12_lib =
  px_hash :: "pkcs12_hash \<Rightarrow> bytes \<Rightarrow> bytes"
  px_hmac :: "pkcs12_hash \<Rightarrow> bytes \<Rightarrow> bytes \<Rightarrow> bytes"
  px_pbkdf2 :: "pkcs12_hash \<Rightarrow> bytes \<Rightarrow> bytes \<Rightarrow> nat \<Rightarrow> nat \<Rightarrow> bytes"
  px_cbc_new :: "cbc_cipher \<Rightarrow> bytes \<Rightarrow> bytes \<Rightarrow> string + unit"
  px_cbc_decrypt :: "cbc_cipher \<Rightarrow> bytes \<Rightarrow> bytes \<Rightarrow> bytes \<Rightarrow> string + bytes"

definition ID_KEY :: char where "ID_KEY = CHR 0x01"
definition ID_IV :: char where "ID_IV = CHR 0x02"
definition ID_MAC :: char where "ID_MAC = CHR 0x03"

section \<open>The derivation\<close>

definition div_ceil :: "nat \<Rightarrow> nat \<Rightarrow> nat" where
  "div_ceil n k = (n + k - 1) div k"

text \<open>The loop of \<open>extend_to_multiple\<close>: copies of the data until the length is reached, the last one cut.\<close>

function extend_to :: "nat \<Rightarrow> bytes \<Rightarrow> bytes" where
  "extend_to remaining data =
     (if remaining = 0 \<or> data = [] then []
      else let n = min remaining (length data) in take n data @ extend_to (remaining - n) data)"
  by pat_completeness auto
termination
  by (relation "measure fst") auto

declare extend_to.simps [simp del]

definition extend_to_multiple :: "bytes \<Rightarrow> nat \<Rightarrow> bytes" where
  "extend_to_multiple data v = (if data = [] then [] else extend_to (div_ceil (length data) v * v) data)"

text \<open>
  \<open>add_one_plus_b\<close> goes from the last octet to the first with a 16-bit carry that starts at one; indexing
  \<open>b\<close> out of range panics. The result is the carry and the new octets.
\<close>

definition octet16 :: "char \<Rightarrow> 16 word" where
  "octet16 c = word_of_nat (byte_val c)"

fun add_octets :: "bytes \<Rightarrow> bytes \<Rightarrow> (16 word \<times> bytes) outcome" where
  "add_octets [] b = Returns (1, [])"
| "add_octets (x # block) [] = Panics"
| "add_octets (x # block) (y # b) =
     out_bind (add_octets block b) (\<lambda>(carry, rest).
       let sum = octet16 x + octet16 y + carry in
       Returns (drop_bit 8 sum, char_of (unat sum) # rest))"

definition add_one_plus_b :: "bytes \<Rightarrow> bytes \<Rightarrow> bytes outcome" where
  "add_one_plus_b block b = out_bind (add_octets block b) (\<lambda>(_, r). Returns r)"

text \<open>The loop over the blocks of \<open>I\<close>, of \<open>v\<close> octets each; octets after the last whole block stay.\<close>

fun bump_blocks :: "nat \<Rightarrow> nat \<Rightarrow> bytes \<Rightarrow> bytes \<Rightarrow> bytes outcome" where
  "bump_blocks 0 v b i_block = Returns i_block"
| "bump_blocks (Suc n) v b i_block =
     out_bind (add_one_plus_b (take v i_block) b) (\<lambda>x.
     out_bind (bump_blocks n v b (drop v i_block)) (\<lambda>rest. Returns (x @ rest)))"

text \<open>The hash applied \<open>iterations\<close> times; both zero and one give a single application.\<close>

definition hash_times :: "(bytes \<Rightarrow> bytes) \<Rightarrow> nat \<Rightarrow> bytes \<Rightarrow> bytes" where
  "hash_times h iterations m = (h ^^ (iterations - 1)) (h m)"

fun kdf_blocks :: "(bytes \<Rightarrow> bytes) \<Rightarrow> bytes \<Rightarrow> nat \<Rightarrow> nat \<Rightarrow> nat \<Rightarrow> bytes \<Rightarrow> bytes outcome" where
  "kdf_blocks h d_block iterations v 0 i_block = Returns []"
| "kdf_blocks h d_block iterations v (Suc n) i_block =
     (let a = hash_times h iterations (d_block @ i_block) in
      if n = 0 then Returns a
      else
        out_bind (bump_blocks (length i_block div v) v (extend_to_multiple a v) i_block) (\<lambda>i_block'.
        out_bind (kdf_blocks h d_block iterations v n i_block') (\<lambda>rest. Returns (a @ rest))))"

definition pkcs12_kdf_generic ::
  "(bytes \<Rightarrow> bytes) \<Rightarrow> char \<Rightarrow> bytes \<Rightarrow> bytes \<Rightarrow> nat \<Rightarrow> nat \<Rightarrow> nat \<Rightarrow> nat \<Rightarrow> bytes outcome" where
  "pkcs12_kdf_generic h kdf_id password salt iterations output_len u v =
     (let d_block = replicate v kdf_id;
          i_block = extend_to_multiple salt v @ extend_to_multiple password v
      in out_bind (kdf_blocks h d_block iterations v (div_ceil output_len u) i_block) (\<lambda>result.
         Returns (take output_len result)))"

definition pkcs12_kdf_sha1 :: "pkcs12_lib \<Rightarrow> char \<Rightarrow> bytes \<Rightarrow> bytes \<Rightarrow> nat \<Rightarrow> nat \<Rightarrow> bytes outcome" where
  "pkcs12_kdf_sha1 L kdf_id password salt iterations output_len =
     pkcs12_kdf_generic (px_hash L Pk_Sha1) kdf_id password salt iterations output_len 20 64"

definition pkcs12_kdf_sha256 :: "pkcs12_lib \<Rightarrow> char \<Rightarrow> bytes \<Rightarrow> bytes \<Rightarrow> nat \<Rightarrow> nat \<Rightarrow> bytes outcome" where
  "pkcs12_kdf_sha256 L kdf_id password salt iterations output_len =
     pkcs12_kdf_generic (px_hash L Pk_Sha256) kdf_id password salt iterations output_len 32 64"

section \<open>Passwords\<close>

text \<open>\<open>encode_utf16\<close>: the code units of a string given by its UTF-8 octets.\<close>

definition tail_bits :: "char \<Rightarrow> nat" where
  "tail_bits c = byte_val c mod 64"

fun encode_utf16 :: "string \<Rightarrow> nat list" where
  "encode_utf16 [] = []"
| "encode_utf16 (a # s) =
     (if byte_val a < 128 then byte_val a # encode_utf16 s
      else case s of
        b # t \<Rightarrow>
          if byte_val a < 224 then (byte_val a mod 32 * 64 + tail_bits b) # encode_utf16 t
          else (case t of
            c # t' \<Rightarrow>
              if byte_val a < 240 then
                (byte_val a mod 16 * 4096 + tail_bits b * 64 + tail_bits c) # encode_utf16 t'
              else (case t' of
                e # t'' \<Rightarrow>
                  (let x = byte_val a mod 8 * 262144 + tail_bits b * 4096 + tail_bits c * 64 + tail_bits e - 65536 in
                   (55296 + x div 1024) # (56320 + x mod 1024) # encode_utf16 t'')
              | [] \<Rightarrow> [])
          | [] \<Rightarrow> [])
      | [] \<Rightarrow> [])"

definition password_to_bmp :: "string \<Rightarrow> bytes" where
  "password_to_bmp password =
     (if password = [] then []
      else concat (map (\<lambda>c. [char_of (c div 256), char_of c]) (encode_utf16 password)) @ zeros 2)"

section \<open>Decryption and HMAC\<close>

definition cbc_open :: "pkcs12_lib \<Rightarrow> cbc_cipher \<Rightarrow> string \<Rightarrow> bytes \<Rightarrow> bytes \<Rightarrow> bytes \<Rightarrow> bytes result" where
  "cbc_open L c name key iv ciphertext =
     and_then (map_err (\<lambda>e. Error_Key (name @ '' init failed: '' @ e)) (px_cbc_new L c key iv)) (\<lambda>_.
     map_err (\<lambda>e. Error_Key (name @ '' decrypt/unpad failed: '' @ e)) (px_cbc_decrypt L c key iv ciphertext))"

definition decrypt_pbe_sha1_3des ::
  "pkcs12_lib \<Rightarrow> bytes \<Rightarrow> bytes \<Rightarrow> bytes \<Rightarrow> nat \<Rightarrow> bytes result outcome" where
  "decrypt_pbe_sha1_3des L ciphertext password salt iterations =
     out_bind (pkcs12_kdf_sha1 L ID_KEY password salt iterations 24) (\<lambda>key.
     out_bind (pkcs12_kdf_sha1 L ID_IV password salt iterations 8) (\<lambda>iv.
     Returns (cbc_open L Cbc_TdesEde3 ''3DES-CBC'' key iv ciphertext)))"

definition decrypt_pbes2_aes256cbc ::
  "pkcs12_lib \<Rightarrow> bytes \<Rightarrow> string \<Rightarrow> bytes \<Rightarrow> nat \<Rightarrow> bytes \<Rightarrow> bytes result" where
  "decrypt_pbes2_aes256cbc L ciphertext password pbkdf2_salt pbkdf2_iterations aes_iv =
     cbc_open L Cbc_Aes256 ''AES-256-CBC'' (px_pbkdf2 L Pk_Sha256 password pbkdf2_salt pbkdf2_iterations 32)
       aes_iv ciphertext"

definition decrypt_pbes2_aes256cbc_sha1 ::
  "pkcs12_lib \<Rightarrow> bytes \<Rightarrow> string \<Rightarrow> bytes \<Rightarrow> nat \<Rightarrow> bytes \<Rightarrow> bytes result" where
  "decrypt_pbes2_aes256cbc_sha1 L ciphertext password pbkdf2_salt pbkdf2_iterations aes_iv =
     cbc_open L Cbc_Aes256 ''AES-256-CBC'' (px_pbkdf2 L Pk_Sha1 password pbkdf2_salt pbkdf2_iterations 32)
       aes_iv ciphertext"

definition compute_hmac_sha1 :: "pkcs12_lib \<Rightarrow> bytes \<Rightarrow> bytes \<Rightarrow> bytes" where
  "compute_hmac_sha1 L key data = px_hmac L Pk_Sha1 key data"

definition compute_hmac_sha256 :: "pkcs12_lib \<Rightarrow> bytes \<Rightarrow> bytes \<Rightarrow> bytes" where
  "compute_hmac_sha256 L key data = px_hmac L Pk_Sha256 key data"

end
