(* ===== verification/Pkcs12.thy ===== *)
theory Pkcs12
  imports Pkcs12_Kdf
begin

text \<open>
  Reading PKCS#12 containers (\<open>bergshamra-pkcs12/src/parse.rs\<close>, \<open>lib.rs\<close>). The BER reader is the crate \<open>yasna\<close>;
  \<open>ber_lib\<close> holds what the parser calls on it, over a type of reader positions. A reader either fails or
  gives a value and the next position; an error says whether it occurred after octets were
  consumed, which decides whether an optional element counts as absent. Entering a sequence, set or
  tagged element gives the positions of its content and of what follows it.
\<close>

datatype ber_error = Ber_Error (ber_consumed: bool) (ber_text: string)

type_synonym ('r, 'a) reader = "'r \<Rightarrow> ber_error + 'a \<times> 'r"

record 'r ber_lib =
  br_open_ber :: "bytes \<Rightarrow> 'r"
  br_open_der :: "bytes \<Rightarrow> 'r"
  br_at_end :: "'r \<Rightarrow> bool"
  br_left :: "'r \<Rightarrow> nat"
  br_invalid :: string
  br_extra :: string
  br_u32 :: "('r, nat) reader"
  br_oid :: "('r, nat list) reader"
  br_bytes :: "('r, bytes) reader"
  br_null :: "('r, unit) reader"
  br_der :: "('r, bytes) reader"
  br_sequence :: "('r, 'r) reader"
  br_set :: "('r, 'r) reader"
  br_tagged0 :: "('r, 'r) reader"
  br_implicit0_bytes :: "('r, bytes) reader"

section \<open>Readers\<close>

definition rd_bind :: "('r, 'a) reader \<Rightarrow> ('a \<Rightarrow> ('r, 'b) reader) \<Rightarrow> ('r, 'b) reader" where
  "rd_bind f g r = (case f r of Inl e \<Rightarrow> Inl e | Inr (x, r') \<Rightarrow> g x r')"

definition rd_return :: "'a \<Rightarrow> ('r, 'a) reader" where
  "rd_return x r = Inr (x, r)"

text \<open>\<open>Err(ASN1Error::new(ASN1ErrorKind::Invalid))\<close>, always raised after something was read.\<close>

definition rd_invalid :: "'r ber_lib \<Rightarrow> ('r, 'a) reader" where
  "rd_invalid B r = Inl (Ber_Error True (br_invalid B))"

text \<open>The content of an element must be read to its end.\<close>

definition within :: "'r ber_lib \<Rightarrow> ('r, 'r) reader \<Rightarrow> ('r, 'a) reader \<Rightarrow> ('r, 'a) reader" where
  "within B enter f r =
     (case enter r of
        Inl e \<Rightarrow> Inl e
      | Inr (inner, rest) \<Rightarrow>
          (case f inner of
             Inl e \<Rightarrow> Inl (Ber_Error True (ber_text e))
           | Inr (x, inner') \<Rightarrow> if br_at_end B inner' then Inr (x, rest) else Inl (Ber_Error True (br_extra B))))"

definition read_optional :: "('r, 'a) reader \<Rightarrow> ('r, 'a option) reader" where
  "read_optional f r =
     (case f r of
        Inl e \<Rightarrow> if ber_consumed e then Inl e else Inr (None, r)
      | Inr (x, r') \<Rightarrow> Inr (Some x, r'))"

text \<open>
  The loop of \<open>collect_sequence_of\<close> and \<open>read_set_of\<close>: elements as long as one can be read. Its first
  argument bounds the number of rounds by the number of octets left, which every element reduces.
\<close>

fun read_many :: "nat \<Rightarrow> ('r, 'a) reader \<Rightarrow> ('r, 'a list) reader" where
  "read_many 0 f r = Inr ([], r)"
| "read_many (Suc n) f r =
     (case read_optional f r of
        Inl e \<Rightarrow> Inl e
      | Inr (None, r') \<Rightarrow> Inr ([], r')
      | Inr (Some x, r') \<Rightarrow>
          (case read_many n f r' of Inl e \<Rightarrow> Inl e | Inr (xs, r'') \<Rightarrow> Inr (x # xs, r'')))"

definition collect_of :: "'r ber_lib \<Rightarrow> ('r, 'r) reader \<Rightarrow> ('r, 'a) reader \<Rightarrow> ('r, 'a list) reader" where
  "collect_of B enter f = within B enter (\<lambda>r. read_many (Suc (br_left B r)) f r)"

definition ber_parse :: "'r ber_lib \<Rightarrow> (bytes \<Rightarrow> 'r) \<Rightarrow> bytes \<Rightarrow> ('r, 'a) reader \<Rightarrow> ber_error + 'a" where
  "ber_parse B start data f =
     (case f (start data) of
        Inl e \<Rightarrow> Inl e
      | Inr (x, r) \<Rightarrow> if br_at_end B r then Inr x else Inl (Ber_Error True (br_extra B)))"

section \<open>Object identifiers and parsed structures\<close>

definition OID_DATA :: "nat list" where
  "OID_DATA = [1, 2, 840, 113549, 1, 7, 1]"
definition OID_ENCRYPTED_DATA :: "nat list" where
  "OID_ENCRYPTED_DATA = [1, 2, 840, 113549, 1, 7, 6]"
definition OID_KEY_BAG :: "nat list" where
  "OID_KEY_BAG = [1, 2, 840, 113549, 1, 12, 10, 1, 1]"
definition OID_PKCS8_SHROUDED_KEY_BAG :: "nat list" where
  "OID_PKCS8_SHROUDED_KEY_BAG = [1, 2, 840, 113549, 1, 12, 10, 1, 2]"
definition OID_CERT_BAG :: "nat list" where
  "OID_CERT_BAG = [1, 2, 840, 113549, 1, 12, 10, 1, 3]"
definition OID_X509_CERTIFICATE :: "nat list" where
  "OID_X509_CERTIFICATE = [1, 2, 840, 113549, 1, 9, 22, 1]"
definition OID_PBE_SHA1_3DES :: "nat list" where
  "OID_PBE_SHA1_3DES = [1, 2, 840, 113549, 1, 12, 1, 3]"
definition OID_PBES2 :: "nat list" where
  "OID_PBES2 = [1, 2, 840, 113549, 1, 5, 13]"
definition OID_PBKDF2 :: "nat list" where
  "OID_PBKDF2 = [1, 2, 840, 113549, 1, 5, 12]"
definition OID_AES_256_CBC :: "nat list" where
  "OID_AES_256_CBC = [2, 16, 840, 1, 101, 3, 4, 1, 42]"
definition OID_SHA1 :: "nat list" where
  "OID_SHA1 = [1, 3, 14, 3, 2, 26]"
definition OID_SHA256 :: "nat list" where
  "OID_SHA256 = [2, 16, 840, 1, 101, 3, 4, 2, 1]"
definition OID_HMAC_SHA1 :: "nat list" where
  "OID_HMAC_SHA1 = [1, 2, 840, 113549, 2, 7]"
definition OID_HMAC_SHA256 :: "nat list" where
  "OID_HMAC_SHA256 = [1, 2, 840, 113549, 2, 9]"

datatype prf_algorithm = HmacSha1 | HmacSha256

datatype mac_hash_algorithm = Mac_Sha1 | Mac_Sha256

datatype encryption_algorithm =
    PbeSha1And3Des bytes nat
  | Pbes2 bytes nat prf_algorithm bytes

record mac_data =
  md_digest_algorithm :: mac_hash_algorithm
  md_digest_value :: bytes
  md_salt :: bytes
  md_iterations :: nat

datatype safe_bag =
    KeyBag bytes
  | ShroudedKeyBag encryption_algorithm bytes
  | CertBag bytes
  | OtherBag

datatype content_info_inner =
    CI_Data bytes
  | CI_EncryptedData encryption_algorithm bytes

record pkcs12_contents =
  p12_private_keys :: "bytes list"
  p12_certificates :: "bytes list"

section \<open>Algorithm identifiers\<close>

definition parse_prf_from_der :: "'r ber_lib \<Rightarrow> bytes \<Rightarrow> ber_error + prf_algorithm" where
  "parse_prf_from_der B der =
     ber_parse B (br_open_der B) der
       (within B (br_sequence B)
         (rd_bind (br_oid B) (\<lambda>prf_oid.
          rd_bind (read_optional (br_null B)) (\<lambda>_.
          if prf_oid = OID_HMAC_SHA256 then rd_return HmacSha256
          else if prf_oid = OID_HMAC_SHA1 then rd_return HmacSha1
          else rd_invalid B))))"

definition rd_prf :: "'r ber_lib \<Rightarrow> bytes \<Rightarrow> ('r, prf_algorithm) reader" where
  "rd_prf B der r =
     (case parse_prf_from_der B der of Inl e \<Rightarrow> Inl (Ber_Error True (ber_text e)) | Inr p \<Rightarrow> Inr (p, r))"

text \<open>The optional key length (an \<open>INTEGER\<close>) and PRF (a \<open>SEQUENCE\<close>, tag \<open>0x30\<close>).\<close>

definition read_prf :: "'r ber_lib \<Rightarrow> ('r, prf_algorithm) reader" where
  "read_prf B =
     rd_bind (read_optional (br_der B)) (\<lambda>remaining.
     case remaining of
       None \<Rightarrow> rd_return HmacSha1
     | Some der_bytes \<Rightarrow>
         if der_bytes \<noteq> [] \<and> hd der_bytes = CHR 0x30 then rd_prf B der_bytes
         else rd_bind (read_optional (br_der B)) (\<lambda>prf_der.
              case prf_der of None \<Rightarrow> rd_return HmacSha1 | Some d \<Rightarrow> rd_prf B d))"

definition read_pbkdf2 :: "'r ber_lib \<Rightarrow> ('r, bytes \<times> nat \<times> prf_algorithm) reader" where
  "read_pbkdf2 B =
     within B (br_sequence B)
       (rd_bind (br_oid B) (\<lambda>kdf_oid.
        if kdf_oid \<noteq> OID_PBKDF2 then rd_invalid B
        else within B (br_sequence B)
          (rd_bind (br_bytes B) (\<lambda>salt.
           rd_bind (br_u32 B) (\<lambda>iterations.
           rd_bind (read_prf B) (\<lambda>prf. rd_return (salt, iterations, prf)))))))"

definition read_aes_iv :: "'r ber_lib \<Rightarrow> ('r, bytes) reader" where
  "read_aes_iv B =
     within B (br_sequence B)
       (rd_bind (br_oid B) (\<lambda>enc_oid.
        if enc_oid \<noteq> OID_AES_256_CBC then rd_invalid B else br_bytes B))"

definition parse_algorithm_identifier :: "'r ber_lib \<Rightarrow> ('r, encryption_algorithm) reader" where
  "parse_algorithm_identifier B =
     within B (br_sequence B)
       (rd_bind (br_oid B) (\<lambda>alg_oid.
        if alg_oid = OID_PBE_SHA1_3DES then
          within B (br_sequence B)
            (rd_bind (br_bytes B) (\<lambda>salt. rd_bind (br_u32 B) (\<lambda>iterations. rd_return (PbeSha1And3Des salt iterations))))
        else if alg_oid = OID_PBES2 then
          within B (br_sequence B)
            (rd_bind (read_pbkdf2 B) (\<lambda>(salt, iterations, prf).
             rd_bind (read_aes_iv B) (\<lambda>aes_iv. rd_return (Pbes2 salt iterations prf aes_iv))))
        else rd_invalid B))"

section \<open>Content infos and bags\<close>

definition parse_content_info_data :: "'r ber_lib \<Rightarrow> ('r, bytes) reader" where
  "parse_content_info_data B =
     within B (br_sequence B)
       (rd_bind (br_oid B) (\<lambda>content_type.
        if content_type \<noteq> OID_DATA then rd_invalid B else within B (br_tagged0 B) (br_bytes B)))"

definition parse_content_info_inner :: "'r ber_lib \<Rightarrow> ('r, content_info_inner) reader" where
  "parse_content_info_inner B =
     within B (br_sequence B)
       (rd_bind (br_oid B) (\<lambda>content_type.
        if content_type = OID_DATA then
          rd_bind (within B (br_tagged0 B) (br_bytes B)) (\<lambda>data. rd_return (CI_Data data))
        else if content_type = OID_ENCRYPTED_DATA then
          within B (br_tagged0 B) (within B (br_sequence B)
            (rd_bind (br_u32 B) (\<lambda>_.
             within B (br_sequence B)
               (rd_bind (br_oid B) (\<lambda>_.
                rd_bind (parse_algorithm_identifier B) (\<lambda>algorithm.
                rd_bind (br_implicit0_bytes B) (\<lambda>ciphertext. rd_return (CI_EncryptedData algorithm ciphertext))))))))
        else rd_invalid B))"

text \<open>Attributes are read and discarded.\<close>

definition skip_attributes :: "'r ber_lib \<Rightarrow> ('r, unit list option) reader" where
  "skip_attributes B =
     read_optional (collect_of B (br_set B)
       (within B (br_sequence B)
         (rd_bind (br_oid B) (\<lambda>_.
          rd_bind (collect_of B (br_set B) (br_der B)) (\<lambda>_. rd_return ())))))"

definition bag_value :: "'r ber_lib \<Rightarrow> nat list \<Rightarrow> ('r, safe_bag) reader" where
  "bag_value B bag_type =
     (if bag_type = OID_KEY_BAG then
        rd_bind (within B (br_tagged0 B) (br_der B)) (\<lambda>pkcs8_der. rd_return (KeyBag pkcs8_der))
      else if bag_type = OID_PKCS8_SHROUDED_KEY_BAG then
        within B (br_tagged0 B) (within B (br_sequence B)
          (rd_bind (parse_algorithm_identifier B) (\<lambda>algorithm.
           rd_bind (br_bytes B) (\<lambda>ciphertext. rd_return (ShroudedKeyBag algorithm ciphertext)))))
      else if bag_type = OID_CERT_BAG then
        within B (br_tagged0 B) (within B (br_sequence B)
          (rd_bind (br_oid B) (\<lambda>cert_type.
           if cert_type \<noteq> OID_X509_CERTIFICATE then rd_invalid B
           else rd_bind (within B (br_tagged0 B) (br_bytes B)) (\<lambda>cert_data. rd_return (CertBag cert_data)))))
      else rd_bind (within B (br_tagged0 B) (br_der B)) (\<lambda>_. rd_return OtherBag))"

definition parse_safe_bag :: "'r ber_lib \<Rightarrow> ('r, safe_bag) reader" where
  "parse_safe_bag B =
     within B (br_sequence B)
       (rd_bind (br_oid B) (\<lambda>bag_type.
        rd_bind (bag_value B bag_type) (\<lambda>bag.
        rd_bind (skip_attributes B) (\<lambda>_. rd_return bag))))"

section \<open>The MAC\<close>

definition parse_mac_data :: "'r ber_lib \<Rightarrow> ('r, mac_data) reader" where
  "parse_mac_data B =
     within B (br_sequence B)
       (rd_bind
         (within B (br_sequence B)
           (rd_bind
             (within B (br_sequence B)
               (rd_bind (br_oid B) (\<lambda>hash_oid.
                rd_bind (read_optional (br_null B)) (\<lambda>_.
                if hash_oid = OID_SHA256 then rd_return Mac_Sha256
                else if hash_oid = OID_SHA1 then rd_return Mac_Sha1
                else rd_invalid B)))) (\<lambda>alg.
            rd_bind (br_bytes B) (\<lambda>digest. rd_return (alg, digest))))) (\<lambda>(digest_algorithm, digest_value).
        rd_bind (br_bytes B) (\<lambda>salt.
        rd_bind (read_optional (br_u32 B)) (\<lambda>iterations.
        rd_return \<lparr>md_digest_algorithm = digest_algorithm, md_digest_value = digest_value, md_salt = salt,
          md_iterations = unwrap_or 1 iterations\<rparr>))))"

definition mac_value :: "pkcs12_lib \<Rightarrow> mac_data \<Rightarrow> bytes \<Rightarrow> string \<Rightarrow> bytes outcome" where
  "mac_value L mac auth_safe_data password =
     (let bmp_password = password_to_bmp password in
      case md_digest_algorithm mac of
        Mac_Sha1 \<Rightarrow>
          out_bind (pkcs12_kdf_sha1 L ID_MAC bmp_password (md_salt mac) (md_iterations mac) 20) (\<lambda>mac_key.
          Returns (compute_hmac_sha1 L mac_key auth_safe_data))
      | Mac_Sha256 \<Rightarrow>
          out_bind (pkcs12_kdf_sha256 L ID_MAC bmp_password (md_salt mac) (md_iterations mac) 32) (\<lambda>mac_key.
          Returns (compute_hmac_sha256 L mac_key auth_safe_data)))"

definition verify_mac :: "pkcs12_lib \<Rightarrow> mac_data \<Rightarrow> bytes \<Rightarrow> string \<Rightarrow> unit result outcome" where
  "verify_mac L mac auth_safe_data password =
     out_bind (mac_value L mac auth_safe_data password) (\<lambda>computed.
     Returns (if computed \<noteq> md_digest_value mac then
         Inl (Error_Key ''PKCS#12 MAC verification failed (wrong password?)'')
       else Inr ()))"

section \<open>Decryption and the container\<close>

fun pkcs12_decrypt_data ::
  "pkcs12_lib \<Rightarrow> encryption_algorithm \<Rightarrow> bytes \<Rightarrow> string \<Rightarrow> bytes \<Rightarrow> bytes result outcome" where
  "pkcs12_decrypt_data L (PbeSha1And3Des salt iterations) ciphertext password bmp_password =
     decrypt_pbe_sha1_3des L ciphertext bmp_password salt iterations"
| "pkcs12_decrypt_data L (Pbes2 salt iterations HmacSha256 aes_iv) ciphertext password bmp_password =
     Returns (decrypt_pbes2_aes256cbc L ciphertext password salt iterations aes_iv)"
| "pkcs12_decrypt_data L (Pbes2 salt iterations HmacSha1 aes_iv) ciphertext password bmp_password =
     Returns (decrypt_pbes2_aes256cbc_sha1 L ciphertext password salt iterations aes_iv)"

definition read_pfx :: "'r ber_lib \<Rightarrow> ('r, bytes \<times> mac_data option) reader" where
  "read_pfx B =
     within B (br_sequence B)
       (rd_bind (br_u32 B) (\<lambda>version.
        if version \<noteq> 3 then rd_invalid B
        else rd_bind (parse_content_info_data B) (\<lambda>auth_safe_data.
             rd_bind (read_optional (parse_mac_data B)) (\<lambda>mac_data. rd_return (auth_safe_data, mac_data)))))"

definition key_error :: "string \<Rightarrow> ber_error + 'a \<Rightarrow> 'a result" where
  "key_error msg r = map_err (\<lambda>e. Error_Key (msg @ ber_text e)) r"

definition bag_step ::
  "pkcs12_lib \<Rightarrow> string \<Rightarrow> bytes \<Rightarrow> pkcs12_contents \<Rightarrow> safe_bag \<Rightarrow> pkcs12_contents result outcome" where
  "bag_step L password bmp_password acc bag =
     (case bag of
        KeyBag pkcs8_der \<Rightarrow> Returns (Inr (acc\<lparr>p12_private_keys := p12_private_keys acc @ [pkcs8_der]\<rparr>))
      | ShroudedKeyBag algorithm ciphertext \<Rightarrow>
          out_then (pkcs12_decrypt_data L algorithm ciphertext password bmp_password) (\<lambda>pkcs8_der.
          Returns (Inr (acc\<lparr>p12_private_keys := p12_private_keys acc @ [pkcs8_der]\<rparr>)))
      | CertBag cert_der \<Rightarrow> Returns (Inr (acc\<lparr>p12_certificates := p12_certificates acc @ [cert_der]\<rparr>))
      | OtherBag \<Rightarrow> Returns (Inr acc))"

definition content_octets ::
  "pkcs12_lib \<Rightarrow> string \<Rightarrow> bytes \<Rightarrow> content_info_inner \<Rightarrow> bytes result outcome" where
  "content_octets L password bmp_password ci =
     (case ci of
        CI_Data data \<Rightarrow> Returns (Inr data)
      | CI_EncryptedData algorithm ciphertext \<Rightarrow> pkcs12_decrypt_data L algorithm ciphertext password bmp_password)"

definition read_bags :: "'r ber_lib \<Rightarrow> bytes \<Rightarrow> safe_bag list result" where
  "read_bags B bags_data =
     key_error ''failed to parse SafeBags: ''
       (ber_parse B (br_open_ber B) bags_data (collect_of B (br_sequence B) (parse_safe_bag B)))"

definition content_step ::
  "'r ber_lib \<Rightarrow> pkcs12_lib \<Rightarrow> string \<Rightarrow> bytes \<Rightarrow> pkcs12_contents \<Rightarrow> content_info_inner \<Rightarrow>
     pkcs12_contents result outcome" where
  "content_step B L password bmp_password acc ci =
     out_then (content_octets L password bmp_password ci) (\<lambda>bags_data.
     out_then (Returns (read_bags B bags_data)) (\<lambda>bags.
     out_try_fold (bag_step L password bmp_password) acc bags))"

definition parse_pfx :: "'r ber_lib \<Rightarrow> pkcs12_lib \<Rightarrow> bytes \<Rightarrow> string \<Rightarrow> pkcs12_contents result outcome" where
  "parse_pfx B L data password =
     out_then (Returns (key_error ''failed to parse PKCS#12 PFX: ''
       (ber_parse B (br_open_ber B) data (read_pfx B)))) (\<lambda>(auth_safe_data, mac_data).
     out_then (case mac_data of Some mac \<Rightarrow> verify_mac L mac auth_safe_data password | None \<Rightarrow> Returns (Inr ())) (\<lambda>_.
     out_then (Returns (key_error ''failed to parse authSafe contents: ''
       (ber_parse B (br_open_ber B) auth_safe_data
         (collect_of B (br_sequence B) (parse_content_info_inner B))))) (\<lambda>content_infos.
     out_try_fold (content_step B L password (password_to_bmp password))
       \<lparr>p12_private_keys = [], p12_certificates = []\<rparr> content_infos)))"

definition parse_pkcs12 :: "'r ber_lib \<Rightarrow> pkcs12_lib \<Rightarrow> bytes \<Rightarrow> string \<Rightarrow> pkcs12_contents result outcome" where
  "parse_pkcs12 B L data password = parse_pfx B L data password"

end
