(* ===== verification/Key_Loader.thy ===== *)
theory Key_Loader
  imports Asn1 KeyInfo Pkcs12
begin

text \<open>
  Loading keys from files (\<open>bergshamra-keys/src/loader.rs\<close>, \<open>keysxml.rs\<close>): the order in which the formats are
  tried, passwords and containers. The decoders of the key crates, the PEM and XML parsers and the
  file system are the functions of \<open>loader_lib\<close>; a decoder whose error is only tested for gives an
  option. The public key of a decoded private key is computed by the crates as well.
\<close>

record ('v, 'r) loader_lib =
  ld_keys :: "'v key_lib"
  ld_ber :: "'r ber_lib"
  ld_p12 :: pkcs12_lib
  ld_utf8_error :: "bytes \<Rightarrow> string"
  ld_pem_decode :: "bytes \<Rightarrow> string + string \<times> bytes"
  ld_rsa_pkcs8_pem :: "string \<Rightarrow> 'v option"
  ld_rsa_pkcs1_pem :: "string \<Rightarrow> string + 'v"
  ld_rsa_spki_pem :: "string \<Rightarrow> 'v option"
  ld_rsa_public_pkcs1_pem :: "string \<Rightarrow> string + 'v"
  ld_ec_pkcs8_pem :: "ec_curve \<Rightarrow> string \<Rightarrow> string + 'v"
  ld_rsa_pkcs8_der :: "bytes \<Rightarrow> 'v option"
  ld_ec_pkcs8_der :: "ec_curve \<Rightarrow> bytes \<Rightarrow> 'v option"
  ld_dsa_pkcs8_der :: "bytes \<Rightarrow> 'v option"
  ld_ed25519_pkcs8_der :: "bytes \<Rightarrow> string + 'v"
  ld_rsa_pkcs1_der :: "bytes \<Rightarrow> 'v option"
  ld_rsa_encrypted_pem :: "string \<Rightarrow> string \<Rightarrow> 'v option"
  ld_ec_encrypted_pem :: "ec_curve \<Rightarrow> string \<Rightarrow> string \<Rightarrow> 'v option"
  ld_decrypt_pkcs8 :: "bytes \<Rightarrow> string \<Rightarrow> bytes option"
  ld_rsa_public :: "'v \<Rightarrow> 'v"
  ld_ec_public :: "ec_curve \<Rightarrow> 'v \<Rightarrow> 'v"
  ld_dsa_public :: "'v \<Rightarrow> 'v"
  ld_ed25519_public :: "'v \<Rightarrow> 'v"
  ld_pq_pkcs8_public :: "pq_algorithm \<Rightarrow> bytes \<Rightarrow> bytes option"
  ld_pq_private_info :: "bytes \<Rightarrow> (pq_algorithm option \<times> bytes) option"
  ld_pq_raw_public :: "pq_algorithm \<Rightarrow> bytes \<Rightarrow> bytes option"
  ld_read :: "string \<Rightarrow> string + bytes"
  ld_read_to_string :: "string \<Rightarrow> string + string"
  ld_parse_xml :: "string \<Rightarrow> string + document"

section \<open>Private keys\<close>

definition rsa_private :: "('v, 'r) loader_lib \<Rightarrow> 'v \<Rightarrow> 'v key" where
  "rsa_private L pk = Key_new (Key_Rsa (Some pk) (ld_rsa_public L pk)) Usage_Any"

definition ec_private :: "('v, 'r) loader_lib \<Rightarrow> ec_curve \<Rightarrow> 'v \<Rightarrow> 'v key" where
  "ec_private L c sk = Key_new (ec_key_data c (Some sk) (ld_ec_public L c sk)) Usage_Any"

definition pem_str :: "('v, 'r) loader_lib \<Rightarrow> bytes \<Rightarrow> string result" where
  "pem_str L pem_data =
     (if valid_utf8 pem_data then Inr pem_data else Inl (Error_Key (''invalid PEM encoding: '' @ ld_utf8_error L pem_data)))"

definition load_rsa_private_pem :: "('v, 'r) loader_lib \<Rightarrow> bytes \<Rightarrow> 'v key result" where
  "load_rsa_private_pem L pem_data =
     and_then (pem_str L pem_data) (\<lambda>s.
     case ld_rsa_pkcs8_pem L s of
       Some pk \<Rightarrow> Inr (rsa_private L pk)
     | None \<Rightarrow>
         and_then (map_err (\<lambda>e. Error_Key (''failed to parse RSA private key PEM: '' @ e)) (ld_rsa_pkcs1_pem L s))
           (\<lambda>pk. Inr (rsa_private L pk)))"

definition load_rsa_public_pem :: "('v, 'r) loader_lib \<Rightarrow> bytes \<Rightarrow> 'v key result" where
  "load_rsa_public_pem L pem_data =
     and_then (pem_str L pem_data) (\<lambda>s.
     case ld_rsa_spki_pem L s of
       Some pk \<Rightarrow> Inr (Key_new (Key_Rsa None pk) Usage_Verify)
     | None \<Rightarrow>
         and_then (map_err (\<lambda>e. Error_Key (''failed to parse RSA public key PEM: '' @ e)) (ld_rsa_public_pkcs1_pem L s))
           (\<lambda>pk. Inr (Key_new (Key_Rsa None pk) Usage_Verify)))"

definition load_ec_private_pem :: "('v, 'r) loader_lib \<Rightarrow> ec_curve \<Rightarrow> bytes \<Rightarrow> 'v key result" where
  "load_ec_private_pem L c pem_data =
     and_then (pem_str L pem_data) (\<lambda>s.
     and_then (map_err (\<lambda>e. Error_Key (''failed to parse EC '' @ curve_label c @ '' private key: '' @ e))
       (ld_ec_pkcs8_pem L c s)) (\<lambda>sk. Inr (ec_private L c sk)))"

definition load_ec_p256_private_pem :: "('v, 'r) loader_lib \<Rightarrow> bytes \<Rightarrow> 'v key result" where
  "load_ec_p256_private_pem L = load_ec_private_pem L P256"

definition load_ec_p384_private_pem :: "('v, 'r) loader_lib \<Rightarrow> bytes \<Rightarrow> 'v key result" where
  "load_ec_p384_private_pem L = load_ec_private_pem L P384"

definition load_ec_p521_private_pem :: "('v, 'r) loader_lib \<Rightarrow> bytes \<Rightarrow> 'v key result" where
  "load_ec_p521_private_pem L = load_ec_private_pem L P521"

definition load_ed25519_private_pkcs8_der :: "('v, 'r) loader_lib \<Rightarrow> bytes \<Rightarrow> 'v key result" where
  "load_ed25519_private_pkcs8_der L der =
     and_then (map_err (\<lambda>e. Error_Key (''failed to parse Ed25519 private key: '' @ e)) (ld_ed25519_pkcs8_der L der))
       (\<lambda>sk. Inr (Key_new (Key_Ed25519 (Some sk) (ld_ed25519_public L sk)) Usage_Any))"

text \<open>
  Post-quantum private keys: the standard encoding first, then OpenSSL's, whose object identifier selects the
  one parameter set to try; an ML-DSA seed has 32 octets. The key octets are stored as found.
\<close>

definition seeded_pq :: "pq_algorithm \<Rightarrow> bool" where
  "seeded_pq a \<longleftrightarrow> a \<in> {MlDsa44, MlDsa65, MlDsa87}"

definition pq_private :: "pq_algorithm \<Rightarrow> bytes \<Rightarrow> bytes \<Rightarrow> 'v key" where
  "pq_private a private_der public_der = Key_new (Key_PostQuantum a (Some private_der) public_der) Usage_Any"

definition pq_from_raw :: "('v, 'r) loader_lib \<Rightarrow> pq_algorithm \<Rightarrow> bytes \<Rightarrow> 'v key option" where
  "pq_from_raw L a inner_bytes =
     (if seeded_pq a \<and> length inner_bytes \<noteq> 32 then None
      else map_option (pq_private a inner_bytes) (ld_pq_raw_public L a inner_bytes))"

definition try_load_pq_private_key :: "('v, 'r) loader_lib \<Rightarrow> bytes \<Rightarrow> 'v key option outcome" where
  "try_load_pq_private_key L der =
     (case find_map (\<lambda>a. map_option (pq_private a der) (ld_pq_pkcs8_public L a der)) pq_public_order of
        Some k \<Rightarrow> Returns (Some k)
      | None \<Rightarrow>
          (case ld_pq_private_info L der of
             None \<Rightarrow> Returns None
           | Some (alg_oid, pk_bytes) \<Rightarrow>
               out_bind (extract_first_octet_string pk_bytes) (\<lambda>inner.
               case inner of
                 None \<Rightarrow> Returns None
               | Some inner_bytes \<Rightarrow>
                   Returns (case alg_oid of None \<Rightarrow> None | Some a \<Rightarrow> pq_from_raw L a inner_bytes))))"

text \<open>The attempts before post-quantum keys, in order.\<close>

definition classical_pkcs8 :: "('v, 'r) loader_lib \<Rightarrow> bytes \<Rightarrow> 'v key option" where
  "classical_pkcs8 L der =
     or_else (map_option (rsa_private L) (ld_rsa_pkcs8_der L der))
    (or_else (map_option (ec_private L P256) (ld_ec_pkcs8_der L P256 der))
    (or_else (map_option (ec_private L P384) (ld_ec_pkcs8_der L P384 der))
    (or_else (map_option (ec_private L P521) (ld_ec_pkcs8_der L P521 der))
    (or_else (map_option (\<lambda>sk. Key_new (Key_Dsa (Some sk) (ld_dsa_public L sk)) Usage_Any) (ld_dsa_pkcs8_der L der))
    (or_else (ok (load_dh_private_pkcs8_der (kl_num (ld_keys L)) der))
      (ok (load_ed25519_private_pkcs8_der L der)))))))"

definition load_private_key_pkcs8_der :: "('v, 'r) loader_lib \<Rightarrow> bytes \<Rightarrow> 'v key result outcome" where
  "load_private_key_pkcs8_der L der =
     (case classical_pkcs8 L der of
        Some k \<Rightarrow> Returns (Inr k)
      | None \<Rightarrow>
          out_bind (try_load_pq_private_key L der) (\<lambda>k.
          Returns (ok_or (Error_Key (''unable to parse PKCS#8 DER private key (tried RSA, P-256, P-384, P-521, '' @
            ''DSA, DH, Ed25519, ML-DSA, SLH-DSA)'')) k)))"

definition load_pkcs12 :: "('v, 'r) loader_lib \<Rightarrow> bytes \<Rightarrow> string \<Rightarrow> 'v key result outcome" where
  "load_pkcs12 L data password =
     out_then (parse_pkcs12 (ld_ber L) (ld_p12 L) data password) (\<lambda>contents.
     case p12_private_keys contents of
       [] \<Rightarrow> Returns (Inl (Error_Key ''PKCS#12 contains no private keys''))
     | k # _ \<Rightarrow>
         out_then (load_private_key_pkcs8_der L k) (\<lambda>key.
         Returns (Inr (key\<lparr>key_x509_chain := p12_certificates contents\<rparr>))))"

section \<open>PEM\<close>

definition encrypted_pem_generic :: "('v, 'r) loader_lib \<Rightarrow> bytes \<Rightarrow> string \<Rightarrow> 'v key option outcome" where
  "encrypted_pem_generic L pem_data password =
     (case ld_pem_decode L pem_data of
        Inl _ \<Rightarrow> Returns None
      | Inr (_, der_bytes) \<Rightarrow>
          (case ld_decrypt_pkcs8 L der_bytes password of
             None \<Rightarrow> Returns None
           | Some der \<Rightarrow> out_bind (load_private_key_pkcs8_der L der) (\<lambda>r. Returns (ok r))))"

definition load_encrypted_pem :: "('v, 'r) loader_lib \<Rightarrow> bytes \<Rightarrow> string \<Rightarrow> 'v key result outcome" where
  "load_encrypted_pem L pem_data password =
     out_then (Returns (pem_str L pem_data)) (\<lambda>s.
     case
       or_else (map_option (rsa_private L) (ld_rsa_encrypted_pem L s password))
      (or_else (map_option (ec_private L P256) (ld_ec_encrypted_pem L P256 s password))
      (or_else (map_option (ec_private L P384) (ld_ec_encrypted_pem L P384 s password))
        (map_option (ec_private L P521) (ld_ec_encrypted_pem L P521 s password)))) of
       Some k \<Rightarrow> Returns (Inr k)
     | None \<Rightarrow>
         out_bind (encrypted_pem_generic L pem_data password) (\<lambda>k.
         Returns (ok_or (Error_Key (''failed to decrypt encrypted PKCS#8 PEM (tried RSA, P-256, P-384, P-521, '' @
           ''DSA, ML-DSA, SLH-DSA)'')) k)))"

definition load_spki_pem :: "('v, 'r) loader_lib \<Rightarrow> bytes \<Rightarrow> 'v key result" where
  "load_spki_pem L pem_data =
     and_then (map_err (\<lambda>e. Error_Key (''failed to decode SPKI PEM: '' @ e)) (ld_pem_decode L pem_data)) (\<lambda>(_, der_bytes).
     load_spki_der (ld_keys L) der_bytes)"

definition load_generic_pkcs8_pem :: "('v, 'r) loader_lib \<Rightarrow> bytes \<Rightarrow> 'v key result outcome" where
  "load_generic_pkcs8_pem L pem_data =
     out_then (Returns (map_err (\<lambda>e. Error_Key (''failed to decode PEM: '' @ e)) (ld_pem_decode L pem_data)))
       (\<lambda>(label, der_bytes).
     if label = ''PRIVATE KEY'' then load_private_key_pkcs8_der L der_bytes
     else if label = ''PUBLIC KEY'' then Returns (load_spki_der (ld_keys L) der_bytes)
     else Returns (Inl (Error_Key (''unsupported PEM label: '' @ label))))"

definition load_x509_cert_pem :: "('v, 'r) loader_lib \<Rightarrow> bytes \<Rightarrow> 'v key result" where
  "load_x509_cert_pem L pem_data =
     and_then (pem_str L pem_data) (\<lambda>s.
     and_then (map_err (\<lambda>e. Error_Key (''failed to decode certificate PEM: '' @ e)) (ld_pem_decode L (trim s)))
       (\<lambda>(label, der_bytes).
     if label \<noteq> ''CERTIFICATE'' then Inl (Error_Key (''expected CERTIFICATE PEM label, got: '' @ label))
     else load_x509_cert_der (ld_keys L) der_bytes))"

text \<open>The formats \<open>load_pem_auto\<close> tries when nothing is encrypted, the last one aside.\<close>

definition plain_pem :: "('v, 'r) loader_lib \<Rightarrow> bytes \<Rightarrow> 'v key option" where
  "plain_pem L pem_data =
     or_else (ok (load_rsa_private_pem L pem_data))
    (or_else (ok (load_rsa_public_pem L pem_data))
    (or_else (ok (load_spki_pem L pem_data))
    (or_else (ok (load_ec_p256_private_pem L pem_data))
    (or_else (ok (load_ec_p384_private_pem L pem_data))
    (or_else (ok (load_ec_p521_private_pem L pem_data))
      (ok (load_x509_cert_pem L pem_data)))))))"

definition load_pem_auto :: "('v, 'r) loader_lib \<Rightarrow> bytes \<Rightarrow> string option \<Rightarrow> 'v key result outcome" where
  "load_pem_auto L pem_data password =
     (case (if contains_str pem_data ''ENCRYPTED PRIVATE KEY'' then password else None) of
        Some pwd \<Rightarrow> load_encrypted_pem L pem_data pwd
      | None \<Rightarrow>
          (case plain_pem L pem_data of
             Some k \<Rightarrow> Returns (Inr k)
           | None \<Rightarrow>
               out_bind (load_generic_pkcs8_pem L pem_data) (\<lambda>r.
               Returns (ok_or (Error_Key ''unable to auto-detect key format from PEM data'') (ok r)))))"

section \<open>Files\<close>

text \<open>
  \<open>Path::extension\<close>: the part of the last component after its last dot, unless nothing precedes the dot.
  Empty components and \<open>.\<close> do not count, \<open>..\<close> is not a file name.
\<close>

definition path_components :: "string \<Rightarrow> string list" where
  "path_components path = filter (\<lambda>c. c \<noteq> [] \<and> c \<noteq> ''.'') (split_char (CHR ''/'') path)"

definition path_extension :: "string \<Rightarrow> string" where
  "path_extension path =
     (case rev (path_components path) of
        [] \<Rightarrow> []
      | name # _ \<Rightarrow>
          if name = ''..'' then []
          else (case rfind_char (CHR ''.'') name of
                  None \<Rightarrow> []
                | Some i \<Rightarrow> if i = 0 then [] else let e = drop (i + 1) name in if valid_utf8 e then e else []))"

definition has_extension :: "string \<Rightarrow> string list \<Rightarrow> bool" where
  "has_extension path exts \<longleftrightarrow> map ascii_lower (path_extension path) \<in> set exts"

definition load_der_file :: "('v, 'r) loader_lib \<Rightarrow> string \<Rightarrow> bytes \<Rightarrow> 'v key result outcome" where
  "load_der_file L path data =
     out_bind (load_private_key_pkcs8_der L data) (\<lambda>r.
     Returns (ok_or (Error_Key (''unable to auto-detect key format from file: '' @ path))
       (or_else (ok r)
       (or_else (map_option (rsa_private L) (ld_rsa_pkcs1_der L data))
       (or_else (ok (load_spki_der (ld_keys L) data))
         (ok (load_x509_cert_der (ld_keys L) data)))))))"

definition load_key_file_with_password ::
  "('v, 'r) loader_lib \<Rightarrow> string \<Rightarrow> string option \<Rightarrow> 'v key result outcome" where
  "load_key_file_with_password L path password =
     out_then (Returns (map_err Error_Io (ld_read L path))) (\<lambda>data.
     if has_extension path [''p12'', ''pfx''] then load_pkcs12 L data (unwrap_or [] password)
     else if has_extension path [''crt'', ''cer''] then
       Returns (if starts_with data ''-----BEGIN'' then load_x509_cert_pem L data
                else load_x509_cert_der (ld_keys L) data)
     else if starts_with data ''-----BEGIN'' then load_pem_auto L data password
     else load_der_file L path data)"

definition load_key_file :: "('v, 'r) loader_lib \<Rightarrow> string \<Rightarrow> 'v key result outcome" where
  "load_key_file L path = load_key_file_with_password L path None"

section \<open>\<open>keys.xml\<close>\<close>

definition ALEKSEY_NS :: string where
  "ALEKSEY_NS = ''http://www.aleksey.com/xmlsec/2002''"

definition DSIG_NS :: string where
  "DSIG_NS = ''http://www.w3.org/2000/09/xmldsig#''"

definition decode_b64 :: "('v, 'r) loader_lib \<Rightarrow> string \<Rightarrow> string \<Rightarrow> bytes result" where
  "decode_b64 L b64 context_name =
     map_err (\<lambda>e. Error_Base64 (context_name @ '': '' @ e)) (kl_base64 (ld_keys L) (remove_ws b64))"

text \<open>The key in a child of \<open>KeyValue\<close>; \<open>None\<close> for a child that is skipped.\<close>

definition key_value_entry ::
  "('v, 'r) loader_lib \<Rightarrow> document \<Rightarrow> node_id \<Rightarrow> node_id \<Rightarrow> 'v key option result outcome" where
  "key_value_entry L d key_value_node child =
     (case doc_element d child of
        None \<Rightarrow> Returns (Inr None)
      | Some e \<Rightarrow>
          let b64 = trim (doc_text_deep d child) in
          if elem_ns e = ALEKSEY_NS \<and> elem_local e = ''HMACKeyValue'' then
            Returns (and_then (decode_b64 L b64 ''HMACKeyValue'') (\<lambda>b. Inr (Some (load_hmac_key b))))
          else if elem_ns e = ALEKSEY_NS \<and> elem_local e = ''AESKeyValue'' then
            Returns (and_then (decode_b64 L b64 ''AESKeyValue'') (\<lambda>b. map_sum id Some (load_aes_key b)))
          else if elem_ns e = ALEKSEY_NS \<and> elem_local e = ''DESKeyValue'' then
            Returns (and_then (decode_b64 L b64 ''DESKeyValue'') (\<lambda>b. map_sum id Some (load_des3_key b)))
          else if elem_ns e = DSIG_NS \<and> elem_local e = ''RSAKeyValue'' then
            out_bind (parse_rsa_key_value (ld_keys L) d key_value_node) (\<lambda>r. Returns (map_sum id Some r))
          else Returns (Inr None))"

fun first_key_value ::
  "('v, 'r) loader_lib \<Rightarrow> document \<Rightarrow> node_id \<Rightarrow> node_id list \<Rightarrow> 'v key option result outcome" where
  "first_key_value L d key_value_node [] = Returns (Inr None)"
| "first_key_value L d key_value_node (c # cs) =
     out_then (key_value_entry L d key_value_node c) (\<lambda>k.
     case k of Some k \<Rightarrow> Returns (Inr (Some k)) | None \<Rightarrow> first_key_value L d key_value_node cs)"

definition parse_key_info_entry ::
  "('v, 'r) loader_lib \<Rightarrow> document \<Rightarrow> node_id \<Rightarrow> 'v key option result outcome" where
  "parse_key_info_entry L d key_info_node =
     (let key_name = map_option (\<lambda>n. trim (doc_text_deep d n))
            (find_child d key_info_node (\<lambda>e. elem_local e = ''KeyName'' \<and> elem_ns e = DSIG_NS)) in
      case find_child d key_info_node (\<lambda>e. elem_local e = ''KeyValue'' \<and> elem_ns e = DSIG_NS) of
        None \<Rightarrow> Returns (Inr None)
      | Some key_value_node \<Rightarrow>
          out_then (first_key_value L d key_value_node (doc_children d key_value_node)) (\<lambda>k.
          Returns (Inr (map_option
            (\<lambda>k. case key_name of Some name \<Rightarrow> k\<lparr>key_name := Some name\<rparr> | None \<Rightarrow> k) k))))"

definition keys_xml_step :: "('v, 'r) loader_lib \<Rightarrow> document \<Rightarrow> 'v key list \<Rightarrow> node_id \<Rightarrow> 'v key list result outcome" where
  "keys_xml_step L d keys node =
     (case doc_element d node of
        None \<Rightarrow> Returns (Inr keys)
      | Some e \<Rightarrow>
          if elem_ns e = DSIG_NS \<and> elem_local e = ''KeyInfo'' then
            out_then (parse_key_info_entry L d node) (\<lambda>k.
            Returns (Inr (case k of Some k \<Rightarrow> keys @ [k] | None \<Rightarrow> keys)))
          else Returns (Inr keys))"

definition parse_keys_xml :: "('v, 'r) loader_lib \<Rightarrow> string \<Rightarrow> 'v key list result outcome" where
  "parse_keys_xml L xml =
     out_then (Returns (map_err (\<lambda>e. Error_XmlParse (''keys.xml: '' @ e)) (ld_parse_xml L xml))) (\<lambda>d.
     out_try_fold (keys_xml_step L d) [] (doc_descendants d (doc_root d)))"

definition load_keys_file :: "('v, 'r) loader_lib \<Rightarrow> string \<Rightarrow> 'v key list result outcome" where
  "load_keys_file L path =
     out_then (Returns (map_err (\<lambda>e. Error_Other (path @ '': '' @ e)) (ld_read_to_string L path))) (\<lambda>xml.
     parse_keys_xml L xml)"

end
