(* ===== verification/Cli.thy ===== *)
theory Cli
  imports Key_Loader Dsig_Verify Dsig_Sign Enc_Decrypt Enc_Encrypt
begin

text \<open>
  The command line program (\<open>bergshamra/src/main.rs\<close>): its commands as records of arguments, the loading of keys
  and certificates, and what each command does with the library. Argument parsing is the crate
  \<open>clap\<close>; messages on standard error and the text of \<open>info\<close> are left out. Reading files is part of
  \<open>loader_lib\<close>; writing them, standard output and random session keys are added in \<open>cli_lib\<close>.
\<close>

record ('v, 'r) cli_lib =
  cl_loader :: "('v, 'r) loader_lib"
  cl_dsig :: "'v dsig_lib"
  cl_sign :: "'v sign_lib"
  cl_enc :: "'v xenc_lib"
  cl_random :: randomness
  cl_session_random :: "nat \<Rightarrow> bytes"
  cl_write :: "string \<Rightarrow> bytes \<Rightarrow> string + unit"
  cl_stdout :: "bytes \<Rightarrow> string + unit"

section \<open>Commands\<close>

record verify_args =
  va_file :: string
  va_key :: "string option"
  va_key_name :: "string list"
  va_cert :: "string list"
  va_trusted :: "string list"
  va_pkcs12 :: "string option"
  va_pwd :: "string option"
  va_hmac_key :: "string option"
  va_keys_file :: "string option"
  va_url_map :: "string list"
  va_id_attr :: "string list"
  va_hmac_min_out_len :: "nat option"
  va_debug :: bool
  va_insecure :: bool
  va_verify_keys :: bool
  va_verification_gmt_time :: "string option"
  va_x509_skip_time_checks :: bool
  va_x509_skip_strict_checks :: bool
  va_enabled_key_data :: "string option"
  va_strict :: bool
  va_trusted_keys_only :: bool
  va_untrusted :: "string list"
  va_crl :: "string list"

record sign_args =
  sa_template :: string
  sa_key :: "string option"
  sa_key_name :: "string list"
  sa_cert :: "string list"
  sa_trusted :: "string list"
  sa_pkcs12 :: "string option"
  sa_pwd :: "string option"
  sa_hmac_key :: "string option"
  sa_keys_file :: "string option"
  sa_url_map :: "string list"
  sa_output :: "string option"
  sa_id_attr :: "string list"
  sa_session_key :: "string option"
  sa_debug :: bool

record decrypt_args =
  da_file :: string
  da_key :: "string option"
  da_key_name :: "string list"
  da_pkcs12 :: "string option"
  da_pwd :: "string option"
  da_hmac_key :: "string option"
  da_aes_key :: "string option"
  da_keys_file :: "string option"
  da_output :: "string option"
  da_id_attr :: "string list"
  da_no_cipher_reference :: bool

record encrypt_args =
  ea_template :: string
  ea_data :: string
  ea_cert :: "string list"
  ea_key_name :: "string list"
  ea_pkcs12 :: "string option"
  ea_pwd :: "string option"
  ea_aes_key :: "string option"
  ea_keys_file :: "string option"
  ea_output :: "string option"
  ea_id_attr :: "string list"
  ea_node_name :: "string option"
  ea_node_id :: "string option"

datatype command =
    Cmd_Verify verify_args
  | Cmd_Sign sign_args
  | Cmd_Decrypt decrypt_args
  | Cmd_Encrypt encrypt_args
  | Cmd_Info

text \<open>How a command ends without an error: \<open>OK\<close> printed, \<open>INVALID\<close> and exit status 1, output written, or information printed.\<close>

datatype cli_result =
    Printed_OK
  | Exit_Invalid string
  | Output "string option" bytes
  | Information

section \<open>Files\<close>

definition read_file :: "('v, 'r) cli_lib \<Rightarrow> string \<Rightarrow> string result" where
  "read_file C path = map_err (\<lambda>e. Error_Other (path @ '': '' @ e)) (ld_read_to_string (cl_loader C) path)"

definition read_octets :: "('v, 'r) cli_lib \<Rightarrow> string \<Rightarrow> bytes result" where
  "read_octets C path = map_err (\<lambda>e. Error_Other (path @ '': '' @ e)) (ld_read (cl_loader C) path)"

text \<open>All PEM blocks of a label; the markers are never empty.\<close>

function pem_blocks :: "('v, 'r) cli_lib \<Rightarrow> string \<Rightarrow> string \<Rightarrow> string \<Rightarrow> bytes list result" where
  "pem_blocks C begin_marker end_marker remaining =
     (if begin_marker = [] then Inr []
      else case find_str begin_marker remaining of
        None \<Rightarrow> Inr []
      | Some start \<Rightarrow>
          let after_begin = drop (start + length begin_marker) remaining in
          (case find_str end_marker after_begin of
             None \<Rightarrow> Inr []
           | Some stop \<Rightarrow>
               and_then (map_err (\<lambda>e. Error_Other (''PEM base64 decode error: '' @ e))
                 (kl_base64 (ld_keys (cl_loader C)) (remove_ws (take stop after_begin)))) (\<lambda>der.
               and_then (pem_blocks C begin_marker end_marker (drop (stop + length end_marker) after_begin)) (\<lambda>rest.
               Inr (der # rest)))))"
  by pat_completeness auto
termination
proof (relation "measure (\<lambda>(_, _, _, r). length r)", goal_cases)
  case (2 C begin_marker end_marker remaining i x j)
  then have "remaining \<noteq> []" by (cases remaining; cases begin_marker) (auto dest!: find_str_Some)
  with 2 show ?case by (cases begin_marker) auto
qed simp

declare pem_blocks.simps [simp del]

definition pem_decode_all :: "('v, 'r) cli_lib \<Rightarrow> string \<Rightarrow> string \<Rightarrow> bytes list result" where
  "pem_decode_all C text_data label =
     pem_blocks C (''-----BEGIN '' @ label @ ''-----'') (''-----END '' @ label @ ''-----'') text_data"

definition load_pem_or_der :: "('v, 'r) cli_lib \<Rightarrow> string \<Rightarrow> string \<Rightarrow> bytes list result" where
  "load_pem_or_der C label path =
     and_then (read_octets C path) (\<lambda>data.
     if starts_with data ''-----'' then
       if \<not> valid_utf8 data then
         Inl (Error_Other (path @ '': invalid UTF-8: '' @ ld_utf8_error (cl_loader C) data))
       else
         and_then (pem_decode_all C data label) (\<lambda>ders.
         if ders = [] then Inl (Error_Other (path @ '': no '' @ label @ '' found in PEM'')) else Inr ders)
     else Inr [data])"

definition load_certs_as_der :: "('v, 'r) cli_lib \<Rightarrow> string \<Rightarrow> bytes list result" where
  "load_certs_as_der C = load_pem_or_der C ''CERTIFICATE''"

definition load_crl_as_der :: "('v, 'r) cli_lib \<Rightarrow> string \<Rightarrow> bytes list result" where
  "load_crl_as_der C = load_pem_or_der C ''X509 CRL''"

definition write_output :: "('v, 'r) cli_lib \<Rightarrow> string option \<Rightarrow> bytes \<Rightarrow> cli_result result" where
  "write_output C path data =
     (case path of
        Some p \<Rightarrow> map_sum (\<lambda>e. Error_Other (p @ '': '' @ e)) (\<lambda>_. Output (Some p) data) (cl_write C p data)
      | None \<Rightarrow> map_sum (\<lambda>e. Error_Other (''stdout: '' @ e)) (\<lambda>_. Output None data) (cl_stdout C data))"

text \<open>
  \<open>Path::parent\<close>, on the reversed path: separators and \<open>.\<close> components at the end do not count, the root has
  no parent and is not trimmed.
\<close>

fun trim_path_end :: "string \<Rightarrow> string" where
  "trim_path_end (a # b # r) =
     (if a = CHR ''/'' then trim_path_end (b # r)
      else if a = CHR ''.'' \<and> b = CHR ''/'' then trim_path_end (b # r)
      else a # b # r)"
| "trim_path_end r = r"

definition path_parent :: "string \<Rightarrow> string option" where
  "path_parent path =
     (let r = trim_path_end (rev path) in
      if r = [] \<or> r = ''/'' then None else Some (rev (trim_path_end (dropWhile (\<lambda>c. c \<noteq> CHR ''/'') r))))"

section \<open>Keys\<close>

text \<open>A random session key like \<open>hmac-192\<close>.\<close>

definition cli_generate_session_key :: "('v, 'r) cli_lib \<Rightarrow> string \<Rightarrow> 'v key result" where
  "cli_generate_session_key C spec =
     (case split_once_char (CHR ''-'') spec of
        None \<Rightarrow> Inl (Error_Other (''invalid session-key spec: '' @ spec @ '' (expected TYPE-BITS, e.g. hmac-192)''))
      | Some (key_type, bits_text) \<Rightarrow>
          and_then (ok_or (Error_Other (''invalid bit size in session-key spec: '' @ spec)) (parse_usize bits_text)) (\<lambda>bits.
          if bits mod 8 \<noteq> 0 \<or> bits = 0 then
            Inl (Error_Other (''session-key bit size must be a positive multiple of 8: '' @ show_nat bits))
          else
            let key_bytes = cl_session_random C (bits div 8) in
            if key_type = ''hmac'' then Inr (Key_new (Key_Hmac key_bytes) Usage_Any)
            else if key_type = ''aes'' then Inr (Key_new (Key_Aes key_bytes) Usage_Any)
            else if key_type \<in> {''des'', ''des3'', ''tripledes''} then Inr (Key_new (Key_Des3 key_bytes) Usage_Any)
            else Inl (Error_Other (''unsupported session-key type: '' @ key_type))))"

text \<open>A key given as \<open>NAME:FILE\<close>; a file that cannot be loaded as a key is taken as a raw symmetric key.\<close>

definition load_named_key :: "('v, 'r) cli_lib \<Rightarrow> string option \<Rightarrow> string \<Rightarrow> 'v key result outcome" where
  "load_named_key C password spec =
     (case split_once_char (CHR '':'') spec of
        None \<Rightarrow> Returns (Inl (Error_Other (''invalid key-name format: '' @ spec @ '' (expected NAME:FILE)'')))
      | Some (name, path) \<Rightarrow>
          out_bind (load_key_file_with_password (cl_loader C) path password) (\<lambda>r.
          Returns (and_then
            (case r of
               Inr k \<Rightarrow> Inr k
             | Inl _ \<Rightarrow> and_then (read_octets C path) (\<lambda>b. Inr (Key_new (Key_Aes b) Usage_Any)))
            (\<lambda>k. Inr (k\<lparr>key_name := Some name\<rparr>)))))"

text \<open>An HMAC key given as \<open>FILE\<close> or \<open>NAME:FILE\<close>, where the name has no path separator.\<close>

definition hmac_key_spec :: "string \<Rightarrow> string option \<times> string" where
  "hmac_key_spec spec =
     (case split_once_char (CHR '':'') spec of
        None \<Rightarrow> (None, spec)
      | Some (n, f) \<Rightarrow>
          if CHR ''/'' \<notin> set n \<and> CHR 0x5C \<notin> set n \<and> f \<noteq> [] then (Some n, f) else (None, spec))"

definition add_loaded :: "('v, 'r) cli_lib \<Rightarrow> string option \<Rightarrow> 'v keys_manager \<Rightarrow> string \<Rightarrow> 'v keys_manager result outcome" where
  "add_loaded C password m path =
     out_then (load_key_file_with_password (cl_loader C) path password) (\<lambda>k. Returns (Inr (add_key m k)))"

definition when_given ::
  "('m \<Rightarrow> 'a \<Rightarrow> 'm result outcome) \<Rightarrow> 'a option \<Rightarrow> 'm \<Rightarrow> 'm result outcome" where
  "when_given f x m = (case x of None \<Rightarrow> Returns (Inr m) | Some v \<Rightarrow> f m v)"

definition add_keys_file :: "('v, 'r) cli_lib \<Rightarrow> 'v keys_manager \<Rightarrow> string \<Rightarrow> 'v keys_manager result outcome" where
  "add_keys_file C m path =
     out_then (load_keys_file (cl_loader C) path) (\<lambda>ks. Returns (Inr (fold (\<lambda>k m. add_key m k) ks m)))"

definition add_named_key ::
  "('v, 'r) cli_lib \<Rightarrow> string option \<Rightarrow> 'v keys_manager \<Rightarrow> string \<Rightarrow> 'v keys_manager result outcome" where
  "add_named_key C password m spec =
     out_then (load_named_key C password spec) (\<lambda>k. Returns (Inr (add_key m k)))"

definition add_pkcs12 ::
  "('v, 'r) cli_lib \<Rightarrow> string option \<Rightarrow> 'v keys_manager \<Rightarrow> string \<Rightarrow> 'v keys_manager result outcome" where
  "add_pkcs12 C password m path =
     out_then (Returns (read_octets C path)) (\<lambda>data.
     out_then (load_pkcs12 (cl_loader C) data (unwrap_or [] password)) (\<lambda>k. Returns (Inr (add_key m k))))"

definition add_hmac_key :: "('v, 'r) cli_lib \<Rightarrow> 'v keys_manager \<Rightarrow> string \<Rightarrow> 'v keys_manager result outcome" where
  "add_hmac_key C m spec =
     (let (name, path) = hmac_key_spec spec in
      out_then (Returns (read_octets C path)) (\<lambda>b.
      Returns (Inr (add_key m ((Key_new (Key_Hmac b) Usage_Any)\<lparr>key_name := name\<rparr>)))))"

definition add_aes_key :: "('v, 'r) cli_lib \<Rightarrow> 'v keys_manager \<Rightarrow> string \<Rightarrow> 'v keys_manager result outcome" where
  "add_aes_key C m path =
     out_then (Returns (read_octets C path)) (\<lambda>b. Returns (Inr (add_key m (Key_new (Key_Aes b) Usage_Any))))"

definition build_keys_manager ::
  "('v, 'r) cli_lib \<Rightarrow> string option \<Rightarrow> string list \<Rightarrow> string list \<Rightarrow> string list \<Rightarrow> string option \<Rightarrow> string option \<Rightarrow>
     string option \<Rightarrow> string option \<Rightarrow> string option \<Rightarrow> 'v keys_manager result outcome" where
  "build_keys_manager C key_path key_names cert_paths trusted_paths pkcs12_path password hmac_spec aes_key_path keys_file_path =
     out_then (when_given (add_keys_file C) keys_file_path KeysManager_new) (\<lambda>m.
     out_then (when_given (add_loaded C password) key_path m) (\<lambda>m.
     out_then (out_try_fold (add_named_key C password) m key_names) (\<lambda>m.
     out_then (when_given (add_pkcs12 C password) pkcs12_path m) (\<lambda>m.
     out_then (out_try_fold (add_loaded C password) m cert_paths) (\<lambda>m.
     out_then (out_try_fold (add_loaded C password) m trusted_paths) (\<lambda>m.
     out_then (when_given (add_hmac_key C) hmac_spec m) (\<lambda>m.
     when_given (add_aes_key C) aes_key_path m)))))))"

section \<open>\<open>verify\<close>\<close>

definition add_ders ::
  "(string \<Rightarrow> bytes list result) \<Rightarrow> ('m \<Rightarrow> bytes \<Rightarrow> 'm) \<Rightarrow> 'm \<Rightarrow> string list \<Rightarrow> 'm result" where
  "add_ders load add m paths =
     try_fold (\<lambda>m path. and_then (load path) (\<lambda>ders. Inr (fold (\<lambda>der m. add m der) ders m))) m paths"

definition add_url_specs :: "string list \<Rightarrow> 'v dsig_context \<Rightarrow> 'v dsig_context" where
  "add_url_specs specs ctx =
     fold (\<lambda>spec ctx. case split_once_char (CHR ''='') spec of
             Some (url, file_path) \<Rightarrow> add_url_map ctx url file_path | None \<Rightarrow> ctx) specs ctx"

definition add_id_attrs :: "string list \<Rightarrow> 'v dsig_context \<Rightarrow> 'v dsig_context" where
  "add_id_attrs names ctx = fold (\<lambda>a c. add_id_attr c a) names ctx"

definition base_dir_of :: "('v, 'r) cli_lib \<Rightarrow> string \<Rightarrow> string option" where
  "base_dir_of C path = map_option (el_utf8_lossy (cl_enc C)) (path_parent path)"

definition names_x509 :: "string option \<Rightarrow> bool" where
  "names_x509 enabled =
     (case enabled of None \<Rightarrow> False | Some s \<Rightarrow> list_ex (\<lambda>part. trim part = ''x509'') (split_char (CHR '','') s))"

definition verify_context :: "('v, 'r) cli_lib \<Rightarrow> verify_args \<Rightarrow> 'v keys_manager \<Rightarrow> 'v dsig_context" where
  "verify_context C a m =
     (let ctx = add_url_specs (va_url_map a) (add_id_attrs (va_id_attr a) (DsigContext_new_permissive m)) in
      ctx\<lparr>cx_hmac_min_out_len := unwrap_or (cx_hmac_min_out_len ctx) (va_hmac_min_out_len a),
          cx_debug := va_debug a,
          cx_base_dir := base_dir_of C (va_file a),
          cx_insecure := va_insecure a,
          cx_verify_keys := va_verify_keys a,
          cx_verification_time := va_verification_gmt_time a,
          cx_skip_time_checks := va_x509_skip_time_checks a,
          cx_enabled_key_data_x509 :=
            (names_x509 (va_enabled_key_data a) \<or> va_trusted a \<noteq> [] \<and> \<not> va_x509_skip_strict_checks a),
          cx_strict_verification := va_strict a,
          cx_trusted_keys_only := va_trusted_keys_only a\<rparr>)"

definition verify_manager :: "('v, 'r) cli_lib \<Rightarrow> verify_args \<Rightarrow> 'v keys_manager result outcome" where
  "verify_manager C a =
     out_then (build_keys_manager C (va_key a) (va_key_name a) (va_cert a @ va_untrusted a) (va_trusted a)
       (va_pkcs12 a) (va_pwd a) (va_hmac_key a) None (va_keys_file a)) (\<lambda>m.
     Returns
       (and_then (add_ders (load_certs_as_der C) add_trusted_cert m (va_trusted a)) (\<lambda>m.
        and_then (add_ders (load_certs_as_der C) add_untrusted_cert m (va_untrusted a)) (\<lambda>m.
        add_ders (load_crl_as_der C) add_crl m (va_crl a)))))"

definition cmd_verify :: "('v, 'r) cli_lib \<Rightarrow> verify_args \<Rightarrow> cli_result result outcome" where
  "cmd_verify C a =
     out_then (Returns (read_file C (va_file a))) (\<lambda>xml.
     out_then (verify_manager C a) (\<lambda>m.
     out_then (verify (cl_dsig C) (verify_context C a m) xml) (\<lambda>r.
     Returns (Inr (case r of Valid _ _ _ \<Rightarrow> Printed_OK | Invalid reason \<Rightarrow> Exit_Invalid reason)))))"

section \<open>\<open>sign\<close>, \<open>decrypt\<close>, \<open>encrypt\<close>\<close>

definition sign_context :: "('v, 'r) cli_lib \<Rightarrow> sign_args \<Rightarrow> 'v keys_manager \<Rightarrow> 'v dsig_context" where
  "sign_context C a m =
     (add_url_specs (sa_url_map a) (add_id_attrs (sa_id_attr a) (DsigContext_new_permissive m)))
       \<lparr>cx_debug := sa_debug a, cx_base_dir := base_dir_of C (sa_template a)\<rparr>"

definition cmd_sign :: "('v, 'r) cli_lib \<Rightarrow> sign_args \<Rightarrow> cli_result result outcome" where
  "cmd_sign C a =
     out_then (Returns (read_file C (sa_template a))) (\<lambda>template_xml.
     out_then (build_keys_manager C (sa_key a) (sa_key_name a) (sa_cert a) (sa_trusted a) (sa_pkcs12 a) (sa_pwd a)
       (sa_hmac_key a) None (sa_keys_file a)) (\<lambda>m.
     out_then (Returns (case sa_session_key a of
         None \<Rightarrow> Inr m
       | Some spec \<Rightarrow> and_then (cli_generate_session_key C spec) (\<lambda>k. Inr (insert_key_first m k)))) (\<lambda>m.
     out_then (sign (cl_dsig C) (cl_sign C) (sign_context C a m) template_xml) (\<lambda>signed.
     Returns (write_output C (sa_output a) signed)))))"

definition enc_context_of :: "string list \<Rightarrow> 'v keys_manager \<Rightarrow> 'v enc_context" where
  "enc_context_of names m = fold (\<lambda>a c. enc_add_id_attr c a) names (EncContext_new m)"

definition cmd_decrypt :: "('v, 'r) cli_lib \<Rightarrow> decrypt_args \<Rightarrow> cli_result result outcome" where
  "cmd_decrypt C a =
     out_then (Returns (read_file C (da_file a))) (\<lambda>xml.
     out_then (build_keys_manager C (da_key a) (da_key_name a) [] [] (da_pkcs12 a) (da_pwd a) (da_hmac_key a)
       (da_aes_key a) (da_keys_file a)) (\<lambda>m.
     out_then (decrypt_to_bytes (cl_enc C)
       ((enc_context_of (da_id_attr a) m)\<lparr>xc_disable_cipher_reference := da_no_cipher_reference a\<rparr>) xml) (\<lambda>decrypted.
     Returns (write_output C (da_output a) decrypted))))"

definition template_has_wrapper :: "('v, 'r) cli_lib \<Rightarrow> string \<Rightarrow> bool" where
  "template_has_wrapper C template_xml =
     (case el_parse (cl_enc C) template_xml of
        Inl _ \<Rightarrow> False
      | Inr d \<Rightarrow>
          (case doc_document_element d of
             None \<Rightarrow> False
           | Some root \<Rightarrow>
               (case doc_element d root of None \<Rightarrow> False | Some e \<Rightarrow> elem_local e \<noteq> ''EncryptedData'')))"

definition node_by_name :: "document \<Rightarrow> string \<Rightarrow> node_id option" where
  "node_by_name d name =
     (let (ns_uri, local_name) =
        (case rfind_char (CHR '':'') name of
           Some colon_pos \<Rightarrow> (take colon_pos name, drop (colon_pos + 1) name)
         | None \<Rightarrow> ([], name)) in
      find (\<lambda>n. case doc_element d n of
              Some e \<Rightarrow> elem_local e = local_name \<and> (ns_uri = [] \<or> elem_ns e = ns_uri)
            | None \<Rightarrow> False) (doc_descendants d (doc_root d)))"

definition node_by_id :: "document \<Rightarrow> string list \<Rightarrow> string \<Rightarrow> node_id option" where
  "node_by_id d id_attrs ident =
     find (\<lambda>n. case doc_element d n of
             Some e \<Rightarrow> list_ex (\<lambda>a. doc_get_attribute d e a = Some ident) ([''Id'', ''ID'', ''id''] @ id_attrs)
           | None \<Rightarrow> False) (doc_descendants d (doc_root d))"

definition extract_node_data ::
  "('v, 'r) cli_lib \<Rightarrow> bytes \<Rightarrow> string option \<Rightarrow> string option \<Rightarrow> string list \<Rightarrow> bytes result outcome" where
  "extract_node_data C data node_name node_ident id_attrs =
     (if node_name = None \<and> node_ident = None then Returns (Inr data)
      else if \<not> valid_utf8 data then
        Returns (Inl (Error_Other (''data is not valid UTF-8: '' @ ld_utf8_error (cl_loader C) data)))
      else
        out_then (Returns (map_err Error_XmlParse (el_parse (cl_enc C) data))) (\<lambda>d.
        out_then (Returns
          (case node_name of
             Some name \<Rightarrow>
               ok_or (Error_MissingElement (''element matching --node-name '' @ name)) (node_by_name d name)
           | None \<Rightarrow>
               (let ident = unwrap_or [] node_ident in
                ok_or (Error_MissingElement (''element with ID='' @ ident)) (node_by_id d id_attrs ident)))) (\<lambda>target.
        out_then (Returns (ok_or (Error_Other ''could not determine source range for node'')
          (el_range (cl_enc C) d target))) (\<lambda>(a, b).
        if a \<le> b \<and> b \<le> length data then Returns (Inr (take (b - a) (drop a data))) else Panics))))"

definition cmd_encrypt :: "('v, 'r) cli_lib \<Rightarrow> encrypt_args \<Rightarrow> cli_result result outcome" where
  "cmd_encrypt C a =
     out_then (Returns (read_file C (ea_template a))) (\<lambda>template_xml.
     out_then (Returns (read_octets C (ea_data a))) (\<lambda>data.
     out_then (if template_has_wrapper C template_xml then
         extract_node_data C data (ea_node_name a) (ea_node_id a) (ea_id_attr a)
       else Returns (Inr data)) (\<lambda>data.
     out_then (build_keys_manager C None (ea_key_name a) (ea_cert a) [] (ea_pkcs12 a) (ea_pwd a) None
       (ea_aes_key a) (ea_keys_file a)) (\<lambda>m.
     out_then (encrypt (cl_enc C) (cl_random C) (enc_context_of (ea_id_attr a) m) template_xml data) (\<lambda>encrypted.
     Returns (write_output C (ea_output a) encrypted))))))"

section \<open>\<open>main\<close>\<close>

fun run_command :: "('v, 'r) cli_lib \<Rightarrow> command \<Rightarrow> cli_result result outcome" where
  "run_command C (Cmd_Verify a) = cmd_verify C a"
| "run_command C (Cmd_Sign a) = cmd_sign C a"
| "run_command C (Cmd_Decrypt a) = cmd_decrypt C a"
| "run_command C (Cmd_Encrypt a) = cmd_encrypt C a"
| "run_command C Cmd_Info = Returns (Inr Information)"

text \<open>The exit status: 1 after an error and for an invalid signature, 101 after a panic.\<close>

fun exit_status :: "cli_result result outcome \<Rightarrow> nat" where
  "exit_status Panics = 101"
| "exit_status (Returns (Inl _)) = 1"
| "exit_status (Returns (Inr (Exit_Invalid _))) = 1"
| "exit_status (Returns (Inr _)) = 0"

end
