(* ===== verification/Pkcs12_Kdf_Laws.thy ===== *)
theory Pkcs12_Kdf_Laws
  imports Pkcs12_Kdf
begin

text \<open>
  The derivation against RFC 7292, appendix B.2, where the blocks of \<open>I\<close> are numbers and the step is
  \<open>I_j = (I_j + B + 1) mod 2^(8v)\<close>.
\<close>

section \<open>The reference\<close>

text \<open>The \<open>w\<close> low octets of a number, and a string repeated to a given length.\<close>

primrec be_bytes :: "nat \<Rightarrow> nat \<Rightarrow> bytes" where
  "be_bytes 0 n = []"
| "be_bytes (Suc w) n = char_of (n div 256 ^ w) # be_bytes w n"

definition repeat_to :: "nat \<Rightarrow> bytes \<Rightarrow> bytes" where
  "repeat_to n s = map (\<lambda>i. s ! (i mod length s)) [0..<n]"

text \<open>The steps 2 to 4 (the numbers of the blocks of \<open>I\<close>), 6A and 6C of the RFC.\<close>

definition rfc_string :: "bytes \<Rightarrow> nat \<Rightarrow> bytes" where
  "rfc_string s v = (if s = [] then [] else repeat_to (v * div_ceil (length s) v) s)"

definition rfc_blocks :: "nat \<Rightarrow> bytes \<Rightarrow> nat list" where
  "rfc_blocks v s = map (\<lambda>j. be_val (take v (drop (j * v) s))) [0..<length s div v]"

definition rfc_A :: "(bytes \<Rightarrow> bytes) \<Rightarrow> bytes \<Rightarrow> nat \<Rightarrow> nat \<Rightarrow> nat list \<Rightarrow> bytes" where
  "rfc_A h d iterations v I = (h ^^ max 1 iterations) (d @ concat (map (be_bytes v) I))"

definition rfc_next :: "(bytes \<Rightarrow> bytes) \<Rightarrow> bytes \<Rightarrow> nat \<Rightarrow> nat \<Rightarrow> nat list \<Rightarrow> nat list" where
  "rfc_next h d iterations v I =
     map (\<lambda>x. (x + be_val (repeat_to v (rfc_A h d iterations v I)) + 1) mod 256 ^ v) I"

definition rfc7292_kdf ::
  "(bytes \<Rightarrow> bytes) \<Rightarrow> char \<Rightarrow> bytes \<Rightarrow> bytes \<Rightarrow> nat \<Rightarrow> nat \<Rightarrow> nat \<Rightarrow> nat \<Rightarrow> bytes" where
  "rfc7292_kdf h kdf_id password salt iterations n u v =
     (let D = replicate v kdf_id; I = rfc_blocks v (rfc_string salt v @ rfc_string password v) in
      take n (concat (map (\<lambda>k. rfc_A h D iterations v ((rfc_next h D iterations v ^^ k) I)) [0..<div_ceil n u])))"

section \<open>Numbers and octets\<close>

lemma length_be_bytes [simp]: "length (be_bytes w n) = w"
  by (induction w) simp_all

lemma be_val_be_bytes [simp]: "be_val (be_bytes w n) = n mod 256 ^ w"
proof (induction w)
  case (Suc w)
  have "n mod 256 ^ Suc w = n mod (256 ^ w * 256)" by (simp add: mult.commute)
  also have "\<dots> = 256 ^ w * (n div 256 ^ w mod 256) + n mod 256 ^ w" by (rule mod_mult2_eq)
  finally show ?case using Suc by (simp add: byte_val_char_of)
qed simp

lemma be_bytes_be_val: "be_bytes (length s) (be_val s) = s"
  by (rule be_val_inject) (simp_all add: be_val_less)

lemma be_bytes_mod: "be_bytes w (n mod 256 ^ w) = be_bytes w n"
  by (rule be_val_inject) simp_all

lemma unat_octet16: "unat (octet16 c) = byte_val c"
  using byte_val_less [of c] by (simp add: octet16_def unat_of_nat)

lemma add_octets_value:
  assumes "length block = length b"
  shows "\<exists>c r. add_octets block b = Returns (c, r) \<and> length r = length block \<and> unat c \<le> 1 \<and>
    unat c * 256 ^ length block + be_val r = be_val block + be_val b + 1"
  using assms
proof (induction block b rule: list_induct2)
  case (Cons x block y b)
  then obtain c r where r: "add_octets block b = Returns (c, r)" "length r = length block" "unat c \<le> 1"
    "unat c * 256 ^ length block + be_val r = be_val block + be_val b + 1" by blast
  let ?sum = "octet16 x + octet16 y + c"
  define s where "s = byte_val x + byte_val y + unat c"
  have small: "s < 512" using r(3) byte_val_less [of x] byte_val_less [of y] by (simp add: s_def)
  have sum: "unat ?sum = s"
    using small by (simp add: unat_word_ariths unat_octet16 s_def)
  have carry: "unat (drop_bit 8 ?sum) = s div 256"
    by (simp add: drop_bit_eq_div unat_div sum)
  have digits: "s div 256 * 256 ^ Suc (length block) + (s mod 256 * 256 ^ length block + be_val r) =
      s * 256 ^ length block + be_val r"
  proof -
    obtain q m where "s = q * 256 + m" "s div 256 = q" "s mod 256 = m" by (metis div_mult_mod_eq)
    then show ?thesis by (simp add: algebra_simps)
  qed
  have total: "s * 256 ^ length block + be_val r =
      byte_val x * 256 ^ length block + byte_val y * 256 ^ length block + (be_val block + be_val b + 1)"
    using r(4) by (simp add: s_def algebra_simps)
  have low: "be_val (char_of (unat ?sum) # r) = s mod 256 * 256 ^ length block + be_val r"
    using r(2) by (simp add: sum byte_val_char_of)
  show ?case
  proof (intro exI conjI)
    show "add_octets (x # block) (y # b) = Returns (drop_bit 8 ?sum, char_of (unat ?sum) # r)"
      using r(1) by (simp add: Let_def)
    show "unat (drop_bit 8 ?sum) \<le> 1" using small by (simp add: carry)
    show "unat (drop_bit 8 ?sum) * 256 ^ length (x # block) + be_val (char_of (unat ?sum) # r) =
        be_val (x # block) + be_val (y # b) + 1"
      unfolding carry low using digits total Cons.hyps by simp
  qed (use r(2) in simp)
qed simp

lemma add_one_plus_b_value:
  assumes "length block = length b"
  shows "add_one_plus_b block b = Returns (be_bytes (length block) (be_val block + be_val b + 1))"
proof -
  obtain c r where r: "add_octets block b = Returns (c, r)" "length r = length block"
    "unat c * 256 ^ length block + be_val r = be_val block + be_val b + 1"
    using add_octets_value [OF assms] by blast
  have "be_val r = (be_val block + be_val b + 1) mod 256 ^ length block"
    unfolding r(3) [symmetric] using be_val_less [of r] r(2) by simp
  then have "r = be_bytes (length block) (be_val block + be_val b + 1)"
    using r(2) by (intro be_val_inject) simp_all
  with r(1) show ?thesis by (simp add: add_one_plus_b_def)
qed

section \<open>Repetition\<close>

lemma length_repeat_to [simp]: "length (repeat_to n s) = n"
  by (simp add: repeat_to_def)

lemma repeat_to_add:
  "repeat_to (length s + n) s = s @ repeat_to n s" if "s \<noteq> []"
proof (rule nth_equalityI)
  fix i assume "i < length (repeat_to (length s + n) s)"
  then show "repeat_to (length s + n) s ! i = (s @ repeat_to n s) ! i"
    using that by (auto simp: repeat_to_def nth_append mod_if)
qed simp

lemma extend_to_eq: "data \<noteq> [] \<Longrightarrow> extend_to n data = repeat_to n data"
proof (induction n data rule: extend_to.induct)
  case (1 n data)
  show ?case
  proof (cases "n \<le> length data")
    case True
    have "extend_to n data = take n data"
      using True 1(2) by (subst extend_to.simps) (simp add: extend_to.simps [of 0])
    moreover have "repeat_to n data = take n data"
      using True by (intro nth_equalityI) (auto simp: repeat_to_def)
    ultimately show ?thesis by simp
  next
    case False
    then have "extend_to n data = data @ extend_to (n - length data) data"
      using 1(2) by (subst extend_to.simps) simp
    then show ?thesis
      using False 1 repeat_to_add [OF 1(2), of "n - length data"] by simp
  qed
qed

lemma extend_to_multiple_eq: "extend_to_multiple data v = rfc_string data v"
  by (simp add: extend_to_multiple_def rfc_string_def extend_to_eq mult.commute)

lemma extend_digest:
  assumes "length a = u" "0 < u" "u \<le> v"
  shows "extend_to_multiple a v = repeat_to v a"
proof -
  have "div_ceil u v = 1"
    using assms by (simp add: div_ceil_def div_nat_eqI)
  then show ?thesis using assms by (auto simp: extend_to_multiple_eq rfc_string_def)
qed

lemma length_rfc_string: "\<exists>k. length (rfc_string s v) = k * v"
  by (simp add: rfc_string_def)

section \<open>Blocks\<close>

lemma blocks_octets:
  assumes "length s = k * v" "0 < v"
  shows "concat (map (be_bytes v) (rfc_blocks v s)) = s"
  using assms(1)
proof (induction k arbitrary: s)
  case (Suc k)
  have v: "length (take v s) = v" using Suc.prems by simp
  have shift: "map (\<lambda>j. be_val (take v (drop (j * v) s))) [Suc 0..<Suc k] =
      map (\<lambda>j. be_val (take v (drop (j * v) (drop v s)))) [0..<k]"
    by (subst map_Suc_upt [symmetric]) (simp add: add.commute)
  have "rfc_blocks v s = be_val (take v s) # rfc_blocks v (drop v s)"
    using Suc.prems assms(2) shift by (simp add: rfc_blocks_def upt_rec [of 0 "Suc k"] del: upt_Suc)
  moreover have "concat (map (be_bytes v) (rfc_blocks v (drop v s))) = drop v s"
    using Suc.prems by (intro Suc.IH) simp
  moreover have "be_bytes v (be_val (take v s)) = take v s"
    using be_bytes_be_val [of "take v s"] v by simp
  ultimately show ?case by simp
qed (simp add: rfc_blocks_def)

lemma bump_blocks_value:
  assumes "length b = v"
  shows "bump_blocks (length I) v b (concat (map (be_bytes v) I)) =
    Returns (concat (map (be_bytes v) (map (\<lambda>x. (x + be_val b + 1) mod 256 ^ v) I)))"
proof (induction I)
  case (Cons x I)
  have "be_bytes v (x mod 256 ^ v + be_val b + 1) = be_bytes v ((x + be_val b + 1) mod 256 ^ v)"
    by (rule be_val_inject) (simp_all only: length_be_bytes be_val_be_bytes add.assoc mod_add_left_eq mod_mod_trivial)
  then show ?case
    using Cons assms by (simp add: add_one_plus_b_value)
qed simp

lemma hash_times_eq: "hash_times h r m = (h ^^ max 1 r) m"
  by (cases r) (simp_all add: hash_times_def funpow_swap1)

lemma length_funpow:
  fixes h :: "bytes \<Rightarrow> bytes"
  assumes "\<And>m. length (h m) = u" "0 < n"
  shows "length ((h ^^ n) m) = u"
  using assms by (cases n) (simp_all add: funpow.simps comp_def)

lemma kdf_blocks_value:
  assumes "\<And>m. length (h m) = u" "0 < u" "u \<le> v"
  shows "kdf_blocks h d r v n (concat (map (be_bytes v) I)) =
    Returns (concat (map (\<lambda>k. rfc_A h d r v ((rfc_next h d r v ^^ k) I)) [0..<n]))"
proof (induction n arbitrary: I)
  case (Suc n)
  let ?a = "rfc_A h d r v I" and ?i = "concat (map (be_bytes v) I)"
  have a: "hash_times h r (d @ ?i) = ?a" by (simp add: hash_times_eq rfc_A_def)
  have "length ?a = u" unfolding rfc_A_def by (rule length_funpow [OF assms(1)]) simp
  then have b: "extend_to_multiple ?a v = repeat_to v ?a" by (rule extend_digest [OF _ assms(2,3)])
  have "length ?i div v = length I"
    using assms(2,3) by (simp add: length_concat sum_list_triv comp_def)
  then have bump: "bump_blocks (length ?i div v) v (extend_to_multiple ?a v) ?i =
      Returns (concat (map (be_bytes v) (rfc_next h d r v I)))"
    by (simp add: b bump_blocks_value rfc_next_def)
  have tail: "map (\<lambda>k. rfc_A h d r v ((rfc_next h d r v ^^ k) I)) [0..<Suc n] =
      ?a # map (\<lambda>k. rfc_A h d r v ((rfc_next h d r v ^^ k) (rfc_next h d r v I))) [0..<n]"
    by (subst upt_conv_Cons) (simp_all add: map_Suc_upt [symmetric] funpow_swap1 del: upt_Suc)
  show ?case
    unfolding tail kdf_blocks.simps Let_def a bump out_bind_simps Suc.IH by simp
qed simp

lemma length_kdf_blocks:
  assumes "\<And>m. length (h m) = u"
  shows "length (concat (map (\<lambda>k. rfc_A h d r v (f k)) [0..<n])) = n * u"
proof -
  have "length (rfc_A h d r v I) = u" for I
    unfolding rfc_A_def by (rule length_funpow [OF assms]) simp
  then show ?thesis by (simp add: length_concat comp_def sum_list_triv)
qed

lemma div_ceil_bound: "0 < u \<Longrightarrow> n \<le> div_ceil n u * u"
  unfolding div_ceil_def using div_mult_mod_eq [of "n + u - 1" u] mod_less_divisor [of u "n + u - 1"] by linarith

text \<open>
  C17: The key derivation of PKCS#12 is the one of RFC 7292, appendix B.2, for every hash function with digests
  of \<open>u\<close> octets that fit into a block of \<open>v\<close> octets: the 16-bit carry arithmetic adds the blocks modulo
  \<open>2^(8v)\<close> as the RFC says, no index is out of range, and exactly the requested number of octets
  comes out. An iteration count of zero counts as one.
\<close>

theorem kdf_rfc7292:
  assumes "\<And>m. length (h m) = u" "0 < u" "u \<le> v"
  shows "pkcs12_kdf_generic h kdf_id password salt iterations n u v =
      Returns (rfc7292_kdf h kdf_id password salt iterations n u v) \<and>
    length (rfc7292_kdf h kdf_id password salt iterations n u v) = n"
proof -
  let ?s = "rfc_string salt v @ rfc_string password v"
  obtain k k' where "length (rfc_string salt v) = k * v" "length (rfc_string password v) = k' * v"
    using length_rfc_string by blast
  then have "length ?s = (k + k') * v" by (simp add: algebra_simps)
  then have octets: "concat (map (be_bytes v) (rfc_blocks v ?s)) = ?s"
    using blocks_octets [of ?s "k + k'" v] assms(2,3) by simp
  have "kdf_blocks h d iterations v m ?s =
      Returns (concat (map (\<lambda>j. rfc_A h d iterations v ((rfc_next h d iterations v ^^ j) (rfc_blocks v ?s))) [0..<m]))" for d m
    using kdf_blocks_value [OF assms, where I = "rfc_blocks v ?s" and d = d and r = iterations and n = m]
    unfolding octets .
  then have "pkcs12_kdf_generic h kdf_id password salt iterations n u v =
      Returns (rfc7292_kdf h kdf_id password salt iterations n u v)"
    unfolding pkcs12_kdf_generic_def rfc7292_kdf_def Let_def extend_to_multiple_eq by simp
  moreover have "length (rfc7292_kdf h kdf_id password salt iterations n u v) = n"
    unfolding rfc7292_kdf_def Let_def length_take length_kdf_blocks [OF assms(1)]
    using div_ceil_bound [OF assms(2), of n] by simp
  ultimately show ?thesis by simp
qed

text \<open>A hash function with two octets whose input influences the result, to evaluate the derivation with.\<close>

definition toy_hash :: "bytes \<Rightarrow> bytes" where
  "toy_hash m = be_bytes 2 (be_val m mod 65521)"

theorem kdf_rfc7292_witness:
  "pkcs12_kdf_generic toy_hash ID_KEY ''pw'' ''salt'' 2 3 2 4 =
     Returns (rfc7292_kdf toy_hash ID_KEY ''pw'' ''salt'' 2 3 2 4) \<and>
   length (rfc7292_kdf toy_hash ID_KEY ''pw'' ''salt'' 2 3 2 4) = 3"
  by (rule kdf_rfc7292) (simp_all add: toy_hash_def)

end
