(* ===== verification/Pkcs12_Laws.thy ===== *)
theory Pkcs12_Laws
  imports Pkcs12 Pkcs12_Kdf_Laws
begin

text \<open>What reading a PKCS#12 container gives: an account of the contents without loops and accumulators.\<close>

section \<open>The contents\<close>

text \<open>The private keys and the certificates a bag contributes.\<close>

definition bag_keys :: "pkcs12_lib \<Rightarrow> string \<Rightarrow> safe_bag \<Rightarrow> bytes list \<Rightarrow> bool" where
  "bag_keys L password bag ks =
     (case bag of
        KeyBag k \<Rightarrow> ks = [k]
      | ShroudedKeyBag algorithm ciphertext \<Rightarrow>
          \<exists>k. pkcs12_decrypt_data L algorithm ciphertext password (password_to_bmp password) = Returns (Inr k) \<and> ks = [k]
      | _ \<Rightarrow> ks = [])"

definition bag_certificates :: "safe_bag \<Rightarrow> bytes list" where
  "bag_certificates bag = (case bag of CertBag c \<Rightarrow> [c] | _ \<Rightarrow> [])"

text \<open>The bags of a content info: its octets, decrypted if need be, read as a sequence of bags.\<close>

definition content_bags :: "'r ber_lib \<Rightarrow> pkcs12_lib \<Rightarrow> string \<Rightarrow> content_info_inner \<Rightarrow> safe_bag list \<Rightarrow> bool" where
  "content_bags B L password ci bags \<longleftrightarrow>
     (\<exists>octets. content_octets L password (password_to_bmp password) ci = Returns (Inr octets) \<and>
        read_bags B octets = Inr bags)"

definition authentic :: "pkcs12_lib \<Rightarrow> mac_data option \<Rightarrow> bytes \<Rightarrow> string \<Rightarrow> bool" where
  "authentic L mac auth_safe password =
     (case mac of None \<Rightarrow> True | Some m \<Rightarrow> mac_value L m auth_safe password = Returns (md_digest_value m))"

definition extend_contents :: "pkcs12_contents \<Rightarrow> bytes list \<Rightarrow> bytes list \<Rightarrow> pkcs12_contents" where
  "extend_contents acc ks cs =
     \<lparr>p12_private_keys = p12_private_keys acc @ ks, p12_certificates = p12_certificates acc @ cs\<rparr>"

lemma extend_contents_simps [simp]:
  "extend_contents (extend_contents acc ks cs) ks' cs' = extend_contents acc (ks @ ks') (cs @ cs')"
  "extend_contents (acc :: pkcs12_contents) [] [] = acc"
  "extend_contents \<lparr>p12_private_keys = [], p12_certificates = []\<rparr> ks cs = \<lparr>p12_private_keys = ks, p12_certificates = cs\<rparr>"
  by (simp_all add: extend_contents_def)

lemma bag_step_ok:
  "bag_step L password (password_to_bmp password) acc bag = Returns (Inr c) \<longleftrightarrow>
   (\<exists>ks. bag_keys L password bag ks \<and> c = extend_contents acc ks (bag_certificates bag))"
  by (auto simp: bag_step_def bag_keys_def bag_certificates_def extend_contents_def res_simps split: safe_bag.splits)

lemma bags_fold:
  "out_try_fold (bag_step L password (password_to_bmp password)) acc bags = Returns (Inr c) \<longleftrightarrow>
   (\<exists>kss. list_all2 (bag_keys L password) bags kss \<and>
      c = extend_contents acc (concat kss) (concat (map bag_certificates bags)))"
proof (induction bags arbitrary: acc)
  case (Cons bag bags)
  show ?case
    unfolding out_try_fold.simps out_then_Inr_iff Cons.IH bag_step_ok list_all2_Cons1 by auto (force, metis extend_contents_simps(1))
qed auto

lemma contents_fold:
  "out_try_fold (content_step B L password (password_to_bmp password)) acc cis = Returns (Inr c) \<longleftrightarrow>
   (\<exists>bagss kss. list_all2 (content_bags B L password) cis bagss \<and>
      list_all2 (bag_keys L password) (concat bagss) kss \<and>
      c = extend_contents acc (concat kss) (concat (map bag_certificates (concat bagss))))"
proof (induction cis arbitrary: acc)
  case (Cons ci cis)
  have step: "content_step B L password (password_to_bmp password) acc ci = Returns (Inr acc') \<longleftrightarrow>
      (\<exists>bags kss. content_bags B L password ci bags \<and> list_all2 (bag_keys L password) bags kss \<and>
        acc' = extend_contents acc (concat kss) (concat (map bag_certificates bags)))" for acc'
    by (auto simp: content_step_def content_bags_def res_simps bags_fold)
  show ?case (is "?l \<longleftrightarrow> ?r")
  proof
    assume ?l
    then obtain bags kss bagss kss' where r: "content_bags B L password ci bags"
      "list_all2 (bag_keys L password) bags kss" "list_all2 (content_bags B L password) cis bagss"
      "list_all2 (bag_keys L password) (concat bagss) kss'"
      "c = extend_contents acc (concat kss @ concat kss')
        (concat (map bag_certificates bags) @ concat (map bag_certificates (concat bagss)))"
      unfolding out_try_fold.simps out_then_Inr_iff Cons.IH step by auto
    then show ?r
      by (intro exI [of _ "bags # bagss"] exI [of _ "kss @ kss'"]) (simp add: list_all2_appendI)
  next
    assume ?r
    then obtain bags bagss kss kss' where "content_bags B L password ci bags"
      "list_all2 (bag_keys L password) bags kss" "list_all2 (content_bags B L password) cis bagss"
      "list_all2 (bag_keys L password) (concat bagss) kss'"
      "c = extend_contents acc (concat kss @ concat kss')
        (concat (map bag_certificates bags) @ concat (map bag_certificates (concat bagss)))"
      by (auto simp: list_all2_Cons1 list_all2_append1)
    then show ?l
      unfolding out_try_fold.simps out_then_Inr_iff Cons.IH step by (metis extend_contents_simps(1))
  qed
qed auto

lemma verify_mac_ok:
  "verify_mac L m auth_safe password = Returns (Inr u) \<longleftrightarrow>
     mac_value L m auth_safe password = Returns (md_digest_value m)"
  by (auto simp: verify_mac_def res_simps split: if_splits)

text \<open>
  C16: Which containers are accepted and what they give. A container is accepted exactly when it is a version 3
  PFX, its MAC, if it has one, is the HMAC of the authenticated safe under the key derived from the
  password, and every content info and every shrouded key bag can be decrypted and read; then the
  result holds the keys of all bags in order, shrouded ones decrypted, and the certificates of
  all certificate bags in order, and nothing of the other bags.
\<close>

theorem pfx_contents:
  "parse_pkcs12 B L data password = Returns (Inr c) \<longleftrightarrow>
   (\<exists>auth_safe mac cis bagss kss.
      ber_parse B (br_open_ber B) data (read_pfx B) = Inr (auth_safe, mac) \<and>
      authentic L mac auth_safe password \<and>
      ber_parse B (br_open_ber B) auth_safe (collect_of B (br_sequence B) (parse_content_info_inner B)) = Inr cis \<and>
      list_all2 (content_bags B L password) cis bagss \<and>
      list_all2 (bag_keys L password) (concat bagss) kss \<and>
      c = \<lparr>p12_private_keys = concat kss, p12_certificates = concat (map bag_certificates (concat bagss))\<rparr>)"
  by (auto simp: parse_pkcs12_def parse_pfx_def key_error_def res_simps contents_fold authentic_def verify_mac_ok
      split: option.splits)

end
