(* ===== verification/Spec2Isabelle.thy ===== *)
theory Spec2Isabelle
  imports Transforms Crypto_Sign_Laws Keys Serial Asn1 Dsig_Complete Enc_Laws Cli_Laws
begin

text \<open>
  A verification development for bergshamra, an XML Security library in Rust: canonicalization
  (C14N), XML signatures, XML encryption and the key material they need.

  \<^bold>\<open>The program.\<close> A signature is verified in these steps (\<open>bergshamra-dsig/src/verify.rs\<close>). The text is parsed
  by the crate \<open>uppsala\<close>; an ID map is built; \<open>SignedInfo\<close> is read; each \<open>Reference\<close> is resolved to a node set or
  to octets, goes through its transforms, is canonicalized if it is still XML, and its digest is
  compared; \<open>SignedInfo\<close> is canonicalized; a key is selected from the document or from the key store, its
  certificates are validated, and the signature value is checked. A signature is created on the text of a
  template, whose empty elements are filled in (\<open>sign.rs\<close>). Encrypted data is decrypted with a key that is
  named, derived, agreed upon or wrapped in the document, and the plaintext replaces the element;
  encryption fills a template in the same way (\<open>bergshamra-enc\<close>). Keys come from files (\<open>bergshamra-keys\<close>,
  \<open>bergshamra-pkcs12\<close>), and the command line (\<open>main.rs\<close>) fills the key store and the contexts from its options.

  \<^bold>\<open>Third-party code\<close> is a parameter: the parser and its documents (\<open>document\<close>, with \<open>wf_doc\<close> saying what is
  relied on), the writer, the cryptographic primitives (\<open>crypto_lib\<close>, \<open>enc_lib\<close>), the certificate
  library (\<open>cert_lib\<close>), the key decoders (\<open>key_lib\<close>), the file system, collected in \<open>dsig_lib\<close>; the BER reader of
  \<open>yasna\<close> (\<open>ber_lib\<close>), the primitives of PKCS#12 (\<open>pkcs12_lib\<close>), the PEM and PKCS#8 decoders (\<open>loader_lib\<close>). Strings are
  UTF-8 octets. Errors are the values of \<open>error\<close>, a panic is the value \<open>Panics\<close>.

  \<^bold>\<open>Theories and sources.\<close>
  \<^item> \<open>Prelude\<close>, \<open>Rust_Str\<close>, \<open>Bytes\<close>: results, panics and early returns; ordered maps and stable sorting
    with their locale; the string functions of Rust's standard library; big-endian numbers.
  \<^item> \<open>Core\<close> (\<open>bergshamra-core\<close>): errors, algorithm URIs, names. \<open>Dom\<close>, \<open>Node_Set\<close> (\<open>bergshamra-xml\<close>): documents,
    the loops over them, node sets.
  \<^item> \<open>C14n_Render\<close>, \<open>C14n_Walk\<close>, \<open>C14n_Inclusive\<close>, \<open>C14n_Exclusive\<close>, \<open>C14n\<close> (\<open>bergshamra-c14n\<close>). The walk is a
    locale \<open>canonicalizer\<close>, interpreted on both canonicalizers. Shown: they terminate, which declarations
    and attributes they write and in which order, that they only depend on the selected subtree.
  \<^item> \<open>Transforms\<close> (\<open>bergshamra-transforms\<close>): pipeline, enveloped signature, base64, URIs.
  \<^item> \<open>Crypto_Sign\<close>, \<open>Crypto_Sign_Laws\<close>, \<open>Crypto_Enc\<close> (\<open>bergshamra-crypto\<close>): dispatch on algorithm URIs, signature
    value formats, key checks, encryption algorithms and key derivation. Shown: a URI gives the algorithm
    it names, no key of another family is accepted, formats round trip, OAEP parameters fail closed.
  \<^item> \<open>Keys\<close>, \<open>Serial\<close>, \<open>Asn1\<close>, \<open>X509\<close>, \<open>KeyInfo\<close> (\<open>bergshamra-keys\<close>): keys and the key store, serial numbers, the
    ASN.1 reader with the Diffie-Hellman loaders, chain validation, key resolution from \<open>KeyInfo\<close>.
  \<^item> \<open>Dsig_Dom\<close>, \<open>Dsig_Context\<close>, \<open>Dsig_Keys\<close>, \<open>Dsig_XPath\<close>, \<open>Dsig_XPath2\<close>, \<open>Dsig_XPath_Laws\<close>, \<open>Dsig_Xslt\<close>,
    \<open>Dsig_Reference\<close>, \<open>Dsig_Verify\<close>, \<open>Dsig_Verify_Laws\<close> (\<open>bergshamra-dsig\<close>): lookups and ID maps, the context, keys
    of encrypted sessions and retrieval methods, the XPath, Filter 2.0, relationship and XSLT
    transforms, references, and \<open>verify\<close> itself. Shown: what the verdict \<open>Valid\<close> means for references,
    signature value, key, certificates, positions and HMAC lengths; which inputs panic. \<open>Dsig_Complete\<close>: a
    document signed with an HMAC is accepted.
  \<^item> \<open>Key_Xml\<close>, \<open>Dsig_Sign\<close>, \<open>Dsig_Sign_Laws\<close> (\<open>key.rs\<close>, \<open>writer.rs\<close>, \<open>sign.rs\<close>): writing keys and certificates, signature creation on the text of a
    template. Shown: signing computes the digests verification expects and MACs it accepts, and
    replacing elements one by one is replacing them all at once.
  \<^item> \<open>Enc_Context\<close>, \<open>Enc_Text\<close>, \<open>Enc_Text_Laws\<close>, \<open>Enc_Keys\<close>, \<open>Enc_Decrypt\<close>, \<open>Enc_Encrypt\<close>, \<open>Enc_Laws\<close> (\<open>bergshamra-enc\<close>): the
    context with its hardware modules; the normalisation of the decrypted text; parameters, derived and
    agreed keys, cipher references; \<open>decrypt\<close> and \<open>encrypt\<close>. Random octets are the record \<open>randomness\<close>. Shown: data,
    session keys and agreed keys round trip, hardware modules are never bypassed, what the
    normalisation changes. \<open>Samples\<close> holds the documents the witnesses use.
  \<^item> \<open>Pkcs12_Kdf\<close>, \<open>Pkcs12_Kdf_Laws\<close>, \<open>Pkcs12\<close>, \<open>Pkcs12_Laws\<close> (\<open>bergshamra-pkcs12\<close>): key derivation and containers, as
    functions over an abstract BER reader. Shown: the derivation is that of RFC 7292, and which containers
    are accepted and what they give.
  \<^item> \<open>Key_Loader\<close>, \<open>Key_Loader_Laws\<close> (\<open>loader.rs\<close>, \<open>keysxml.rs\<close>): the loaders of every file format and their order.
    Shown: what a loaded key may be used for, and which keys \<open>keys.xml\<close> gives.
  \<^item> \<open>Cli\<close>, \<open>Cli_Laws\<close> (\<open>main.rs\<close>): the commands after their arguments are parsed. Shown: which certificates
    were validated when \<open>verify\<close> exits with 0, what becomes of a named key, which keys the store holds, and that every PEM block is found; \<open>trusted_run\<close> below
    takes the command line and the laws of \<open>verify\<close> together.

  \<^bold>\<open>Bounds.\<close> Loops along parent and sibling links run at most \<open>doc_bound\<close> times, recursions into children go
  at most \<open>doc_bound\<close> deep; \<open>parent_chain_unfold\<close>, \<open>full_unfold\<close> and \<open>xslt_terminates\<close> show that on well-formed
  documents the bound is not reached. The XPath parsers recurse on shorter strings, a sequence in a BER
  structure is read at most as often as it has octets.

  \<^bold>\<open>Findings\<close> the theorems establish: the certificate that is validated need not be the one the key comes
  from (\<open>untrusted_certificate_accepted\<close>, for any document of that form); an expression and a predicate that panic (\<open>xpath_panics\<close>,
  \<open>predicate_or_or_panics\<close>); odd hexadecimal values and truncated keys that panic
  (\<open>decode_crypto_binary_hex\<close>, \<open>octet_string_bounds\<close>); the precedence of the XPath operators
  (\<open>xpath_precedence\<close>); a random key nothing carries (\<open>data_key_agrees\<close>), a failed derivation that goes
  unnoticed (\<open>derivation_failure_masked\<close>), elements that lose their end tag (\<open>empty_elements_merged\<close>) and
  hexadecimal attributes that panic (\<open>hex_decode_panics\<close>); a wrong password that turns the key file
  itself into a key (\<open>named_key_raw\<close>); certificates given as untrusted whose keys count as given keys
  (\<open>trusted_run\<close>); and the smaller ones stated with their theorems.

  \<^bold>\<open>Not modelled\<close>: debug output and what the commands print besides the result (all of \<open>info\<close>); the
  parsing of the arguments, which \<open>clap\<close> derives from the declarations; the tail of error messages
  written by libraries; what the XML writer makes of the calls; \<open>trust.rs\<close>, which re-exports a crate.
\<close>

section \<open>From the command line to the signature\<close>

text \<open>
  C14: What an exit status of 0 vouches for. With \<open>--trusted-keys-only\<close> the file was read and parsed, every
  reference of its signature has the digest it declares (\<open>cid:\<close> references excepted), with \<open>--strict\<close>
  at an allowed position, and the signature value over the canonical \<open>SignedInfo\<close> verified under the
  declared algorithm with a key that comes from one of the files given on the command line, never
  from the document. The files of \<open>--untrusted\<close> are among them.
\<close>

theorem trusted_run:
  assumes "exit_status (run_command C (Cmd_Verify a)) = 0" "va_trusted_keys_only a"
  shows "\<exists>m ctx xml d ids sp refs k sk alg bits pq c14n sv.
    verify_manager C a = Returns (Inr m) \<and> ctx = verify_context C a m \<and>
    read_file C (va_file a) = Inr xml \<and> dl_parse (cl_dsig C) xml = Inr d \<and>
    build_id_map d (default_id_attrs @ va_id_attr a) = Inr ids \<and> read_signature d = Inr sp \<and>
    list_all2 (\<lambda>r v. vr_uri v = unwrap_or [] (node_attribute d r attr_URI) \<and>
        (if starts_with (vr_uri v) ''cid:'' then \<not> vr_digest_verified v \<and> vr_resolved_node v = None
         else vr_digest_verified v \<and>
           reference_holds (cl_dsig C) d ids xml (sp_sig_node sp) (cx_url_maps ctx) (cx_base_dir ctx) r v))
      (find_child_elements d (sp_signed_info sp) ns_DSIG node_REFERENCE) refs \<and>
    (va_strict a \<longrightarrow> (\<forall>v \<in> set refs. \<forall>t. vr_resolved_node v = Some t \<longrightarrow>
      validate_reference_position d (sp_sig_node sp) t = Inr ())) \<and>
    k \<in> set (km_keys m) \<and> key_given C a k \<and> to_signing_key k = Some sk \<and>
    canonical_signed_info d sp = Inr c14n \<and> read_signature_value (cl_dsig C) d sp = Inr sv \<and>
    hmac_output_length ctx d sp = Continue bits \<and> pq_context (cl_dsig C) d sp = Inr pq \<and>
    from_uri_with_context (dl_legacy (cl_dsig C)) (sp_sig_method_uri sp) pq = Inr alg \<and>
    check_signature (cl_dsig C) alg sk bits c14n sv = Inr True"
proof -
  obtain xml m ctx node refs ki where r: "read_file C (va_file a) = Inr xml" "verify_manager C a = Returns (Inr m)"
    "ctx = verify_context C a m" "verify (cl_dsig C) ctx xml = Returns (Inr (Valid node refs ki))"
    "cx_keys_manager ctx = m" "cx_id_attrs ctx = va_id_attr a" "cx_trusted_keys_only ctx" "cx_strict_verification ctx = va_strict a"
    "cx_hsm_verifier ctx = None"
    using assms(1) unfolding verify_command_iff using assms(2) by blast
  obtain d ids sp bits pq c14n sv where b: "before_check (cl_dsig C) ctx xml d ids sp bits pq refs c14n sv" and
    v: "verify_with_key (cl_dsig C) ctx d ids sp bits pq refs c14n sv = Continue (Valid node refs ki)"
    using valid_key_run [OF r(4,9)] .
  obtain k origin sk alg where sel: "select_key (cl_dsig C) ctx d ids (sp_sig_node sp) = Returns (Inr (k, origin))" and
    key: "to_signing_key k = Some sk" "from_uri_with_context (dl_legacy (cl_dsig C)) (sp_sig_method_uri sp) pq = Inr alg"
    "check_signature (cl_dsig C) alg sk bits c14n sv = Inr True"
    using verify_with_key_valid [OF v] .
  have k: "k \<in> set (km_keys m)" using select_key_trusted [OF sel r(7)] r(5) by simp
  have positions: "va_strict a \<longrightarrow> (\<forall>v \<in> set refs. \<forall>t. vr_resolved_node v = Some t \<longrightarrow>
      validate_reference_position d (sp_sig_node sp) t = Inr ())"
    using b r(8) check_positions_strict [of ctx d "sp_sig_node sp" refs] by (simp add: before_check_def)
  have parts: "dl_parse (cl_dsig C) xml = Inr d" "build_id_map d (default_id_attrs @ va_id_attr a) = Inr ids"
    "read_signature d = Inr sp" "canonical_signed_info d sp = Inr c14n" "read_signature_value (cl_dsig C) d sp = Inr sv"
    "hmac_output_length ctx d sp = Continue bits" "pq_context (cl_dsig C) d sp = Inr pq"
    using b r(6) by (simp_all add: before_check_def)
  show ?thesis
    by (rule exI [of _ m], rule exI [of _ ctx], rule exI [of _ xml], rule exI [of _ d], rule exI [of _ ids],
        rule exI [of _ sp], rule exI [of _ refs], rule exI [of _ k], rule exI [of _ sk], rule exI [of _ alg],
        rule exI [of _ bits], rule exI [of _ pq], rule exI [of _ c14n], rule exI [of _ sv], intro conjI)
      (rule r parts k key positions key_store_given [OF r(2) k] before_check_references [OF b])+
qed

definition trusted_args :: verify_args where
  "trusted_args =
     \<lparr>va_file = ''/doc.xml'', va_key = None, va_key_name = [], va_cert = [], va_trusted = [], va_pkcs12 = None,
      va_pwd = None, va_hmac_key = Some ''mac:/mac.key'', va_keys_file = None, va_url_map = [], va_id_attr = [],
      va_hmac_min_out_len = None, va_debug = False, va_insecure = False, va_verify_keys = False,
      va_verification_gmt_time = None, va_x509_skip_time_checks = False, va_x509_skip_strict_checks = False,
      va_enabled_key_data = None, va_strict = True, va_trusted_keys_only = True, va_untrusted = [], va_crl = []\<rparr>"

definition trusted_cli :: "(bytes, ber_value list) cli_lib" where
  "trusted_cli = sample_cli\<lparr>cl_loader := sample_loader\<lparr>ld_read := (\<lambda>_. Inr ''secret'')\<rparr>\<rparr>"

lemma trusted_exit: "exit_status (run_command trusted_cli (Cmd_Verify trusted_args)) = 0"
  by code_simp

theorem trusted_run_witness:
  "\<exists>m k. verify_manager trusted_cli trusted_args = Returns (Inr m) \<and> k \<in> set (km_keys m) \<and> key_given trusted_cli trusted_args k"
  using trusted_run [OF trusted_exit] unfolding trusted_args_def by auto
end
